(* ===== verification/SipPrelude.thy ===== *)
theory SipPrelude
  imports Main "HOL-Library.Word"
begin

text \<open>
  Shared vocabulary of the development.  It names the machine types of the Go sources, models the
  parts of the Go standard library the sources call (\<open>strings\<close>, \<open>strconv\<close>, \<open>net.SplitHostPort\<close>) and
  collects the generic lemmas the component theories share.  It also states four interfaces that
  recur across the program as locales: an operation guarded by a one-shot flag (\<open>once_op\<close>), a
  deterministic machine with an invariant (\<open>machine\<close>), a step relation with an invariant
  (\<open>step_system\<close>) and a simulation between two step relations (\<open>simulation\<close>).  The locales are
  interpreted by the components that provide the operations.

  A Go string is a list of bytes, so \<^typ>\<open>string\<close> is faithful.  Case mapping and white space are
  those of the ASCII range, in which SIP tokens, header names and status lines live.
\<close>

section \<open>Machine types\<close>

type_synonym u8 = "8 word"
type_synonym u16 = "16 word"
type_synonym u32 = "32 word"
type_synonym u64 = "64 word"
type_synonym nanos = int
type_synonym smap = "(string \<times> string) list"

abbreviation second :: nanos where
  "second \<equiv> 1000000000"

abbreviation millisecond :: nanos where
  "millisecond \<equiv> 1000000"

named_theorems go_defs

section \<open>Package strings\<close>

definition lower_char :: "char \<Rightarrow> char" where
  "lower_char c = (let n = (of_char c :: nat) in if 65 \<le> n \<and> n \<le> 90 then char_of (n + 32) else c)"

definition upper_char :: "char \<Rightarrow> char" where
  "upper_char c = (let n = (of_char c :: nat) in if 97 \<le> n \<and> n \<le> 122 then char_of (n - 32) else c)"

definition to_lower :: "string \<Rightarrow> string" where
  "to_lower = map lower_char"

definition to_upper :: "string \<Rightarrow> string" where
  "to_upper = map upper_char"

definition equal_fold :: "string \<Rightarrow> string \<Rightarrow> bool" where
  "equal_fold s t = (to_lower s = to_lower t)"

definition is_space :: "char \<Rightarrow> bool" where
  "is_space c = ((of_char c :: nat) \<in> {9, 10, 11, 12, 13, 32})"

definition trim_left :: "string \<Rightarrow> string" where
  "trim_left s = dropWhile is_space s"

definition trim_space :: "string \<Rightarrow> string" where
  "trim_space s = rev (trim_left (rev (trim_left s)))"

fun split_on :: "char \<Rightarrow> string \<Rightarrow> string list" where
  "split_on c [] = [[]]"
| "split_on c (x # xs) =
     (if x = c then [] # split_on c xs
      else (case split_on c xs of [] \<Rightarrow> [[x]] | y # ys \<Rightarrow> (x # y) # ys))"

fun cut_on :: "char \<Rightarrow> string \<Rightarrow> string \<times> string option" where
  "cut_on c [] = ([], None)"
| "cut_on c (x # xs) =
     (if x = c then ([], Some xs) else (let (a, r) = cut_on c xs in (x # a, r)))"

fun split_n :: "nat \<Rightarrow> char \<Rightarrow> string \<Rightarrow> string list" where
  "split_n 0 c s = []"
| "split_n (Suc 0) c s = [s]"
| "split_n (Suc (Suc n)) c s =
     (case cut_on c s of (a, None) \<Rightarrow> [a] | (a, Some r) \<Rightarrow> a # split_n (Suc n) c r)"

fun fields_acc :: "string \<Rightarrow> string \<Rightarrow> string list" where
  "fields_acc acc [] = (if acc = [] then [] else [rev acc])"
| "fields_acc acc (x # xs) =
     (if is_space x then (if acc = [] then fields_acc [] xs else rev acc # fields_acc [] xs)
      else fields_acc (x # acc) xs)"

definition str_fields :: "string \<Rightarrow> string list" where
  "str_fields s = fields_acc [] s"

definition has_prefix :: "string \<Rightarrow> string \<Rightarrow> bool" where
  "has_prefix s p = (take (length p) s = p)"

fun contains :: "string \<Rightarrow> string \<Rightarrow> bool" where
  "contains [] p = (p = [])"
| "contains (x # xs) p = (has_prefix (x # xs) p \<or> contains xs p)"

definition contains_any :: "string \<Rightarrow> string \<Rightarrow> bool" where
  "contains_any s cs = list_ex (\<lambda>c. c \<in> set cs) s"

definition trim_suffix :: "string \<Rightarrow> string \<Rightarrow> string" where
  "trim_suffix s p =
     (if drop (length s - length p) s = p \<and> length p \<le> length s then take (length s - length p) s
      else s)"

section \<open>Package strconv\<close>

datatype num_err = ErrSyntax | ErrRange

definition is_digit :: "char \<Rightarrow> bool" where
  "is_digit c = (48 \<le> (of_char c :: nat) \<and> (of_char c :: nat) \<le> 57)"

definition digit_val :: "char \<Rightarrow> nat" where
  "digit_val c = (of_char c :: nat) - 48"

definition digits_val :: "string \<Rightarrow> nat" where
  "digits_val s = foldl (\<lambda>a c. 10 * a + digit_val c) 0 s"

definition parse_uint :: "nat \<Rightarrow> string \<Rightarrow> nat \<times> num_err option" where
  "parse_uint bits s =
     (if s = [] \<or> \<not> list_all is_digit s then (0, Some ErrSyntax)
      else if digits_val s \<ge> 2 ^ bits then (2 ^ bits - 1, Some ErrRange)
      else (digits_val s, None))"

definition parse_int :: "nat \<Rightarrow> string \<Rightarrow> int \<times> num_err option" where
  "parse_int bits s =
     (let neg = (s \<noteq> [] \<and> hd s = CHR ''-'');
          ds = (if s \<noteq> [] \<and> (hd s = CHR ''-'' \<or> hd s = CHR ''+'') then tl s else s);
          m = int (digits_val ds); lim = 2 ^ (bits - 1)
      in if ds = [] \<or> \<not> list_all is_digit ds then (0, Some ErrSyntax)
         else if neg \<and> m > lim then (- lim, Some ErrRange)
         else if \<not> neg \<and> m \<ge> lim then (lim - 1, Some ErrRange)
         else (if neg then - m else m, None))"

definition atoi :: "string \<Rightarrow> int \<times> num_err option" where
  "atoi s = parse_int 64 s"

fun itoa_nat :: "nat \<Rightarrow> string" where
  "itoa_nat n =
     (if n < 10 then [char_of (48 + n)] else itoa_nat (n div 10) @ [char_of (48 + n mod 10)])"

declare itoa_nat.simps [simp del]

definition itoa :: "int \<Rightarrow> string" where
  "itoa i = (if i < 0 then CHR ''-'' # itoa_nat (nat (- i)) else itoa_nat (nat i))"

section \<open>net.SplitHostPort\<close>

text \<open>
  The port starts after the last colon; a bracketed host has its closing bracket right before that
  colon; brackets are not allowed anywhere else.  \<open>None\<close> is the error return.
\<close>

definition split_host_port :: "string \<Rightarrow> (string \<times> string) option" where
  "split_host_port hp =
     (case cut_on CHR '':'' (rev hp) of
        (_, None) \<Rightarrow> None
      | (rport, Some rhost) \<Rightarrow>
          let port = rev rport; host = rev rhost in
          if host \<noteq> [] \<and> hd host = CHR ''['' then
            (if last host \<noteq> CHR '']'' then None
             else let h = butlast (tl host) in
               if CHR ''['' \<in> set h \<or> CHR '']'' \<in> set h \<or> CHR ''['' \<in> set port \<or> CHR '']'' \<in> set port
               then None else Some (h, port))
          else if CHR '':'' \<in> set host \<or> CHR ''['' \<in> set hp \<or> CHR '']'' \<in> set hp then None
          else Some (host, port))"

section \<open>Go maps as association lists\<close>

text \<open>
  A Go map assignment replaces the entry of the key or adds one; \<^term>\<open>map_of\<close> is the lookup.
\<close>

fun mput :: "'k \<Rightarrow> 'v \<Rightarrow> ('k \<times> 'v) list \<Rightarrow> ('k \<times> 'v) list" where
  "mput k v [] = [(k, v)]"
| "mput k v ((k', v') # m) = (if k' = k then (k, v) # m else (k', v') # mput k v m)"

lemma map_of_mput [simp]: "map_of (mput k v m) = (map_of m)(k \<mapsto> v)"
  by (induction k v m rule: mput.induct) (auto simp: fun_eq_iff)

lemma keys_mput: "set (map fst (mput k v m)) = insert k (set (map fst m))"
  by (induction k v m rule: mput.induct) auto

lemma distinct_mput: "distinct (map fst m) \<Longrightarrow> distinct (map fst (mput k v m))"
  by (induction k v m rule: mput.induct) (auto simp: keys_mput [simplified])

section \<open>Lemmas on strings\<close>

lemma lower_char_idem [simp]: "lower_char (lower_char c) = lower_char c"
  by (simp add: lower_char_def Let_def)

lemma to_lower_idem [simp]: "to_lower (to_lower s) = to_lower s"
  by (simp add: to_lower_def)

lemma split_on_nonempty [simp]: "split_on c s \<noteq> []"
  by (induction s) (auto split: list.splits)

lemma split_on_absent: "c \<notin> set a \<Longrightarrow> split_on c a = [a]"
  by (induction a) auto

lemma split_on_append: "c \<notin> set a \<Longrightarrow> split_on c (a @ c # r) = a # split_on c r"
  by (induction a) auto

lemma cut_on_None: "cut_on c s = (a, None) \<Longrightarrow> a = s \<and> c \<notin> set s"
  by (induction s arbitrary: a) (auto split: if_splits prod.splits)

lemma cut_on_Some: "cut_on c s = (a, Some r) \<Longrightarrow> s = a @ c # r \<and> c \<notin> set a"
  by (induction s arbitrary: a) (auto split: if_splits prod.splits)

lemma cut_on_append: "c \<notin> set a \<Longrightarrow> cut_on c (a @ c # r) = (a, Some r)"
  by (induction a) auto

lemma cut_on_absent: "c \<notin> set a \<Longrightarrow> cut_on c a = (a, None)"
  by (induction a) auto

lemma has_prefix_append [simp]: "has_prefix (p @ s) p"
  by (simp add: has_prefix_def)

section \<open>Lemmas on decimal numbers\<close>

lemma is_digit_char_of [simp]: "n < 10 \<Longrightarrow> is_digit (char_of (48 + n :: nat))"
  by (simp add: is_digit_def)

lemma digit_val_char_of [simp]: "n < 10 \<Longrightarrow> digit_val (char_of (48 + n :: nat)) = n"
  by (simp add: digit_val_def)

lemma digits_val_snoc [simp]: "digits_val (s @ [c]) = 10 * digits_val s + digit_val c"
  by (simp add: digits_val_def)

lemma digits_val_single [simp]: "digits_val [c] = digit_val c"
  by (simp add: digits_val_def)

lemma itoa_nat_nonempty [simp]: "itoa_nat n \<noteq> []"
  by (subst itoa_nat.simps) simp

lemma itoa_nat_digits [simp]: "list_all is_digit (itoa_nat n)"
proof (induction n rule: itoa_nat.induct)
  case (1 n)
  then show ?case by (subst itoa_nat.simps) simp
qed

lemma digits_val_itoa_nat [simp]: "digits_val (itoa_nat n) = n"
proof (induction n rule: itoa_nat.induct)
  case (1 n)
  then show ?case by (subst itoa_nat.simps) simp
qed

lemma is_digit_not: "is_digit c \<Longrightarrow> c \<noteq> CHR ''-'' \<and> c \<noteq> CHR ''+'' \<and> c \<noteq> CHR '' '' \<and> c \<noteq> CHR '':''"
  by (auto simp: is_digit_def)

lemma itoa_nat_set: "c \<in> set (itoa_nat n) \<Longrightarrow> is_digit c"
  using itoa_nat_digits [of n] by (simp add: list_all_iff)

lemma hd_itoa_nat: "is_digit (hd (itoa_nat n))"
  by (rule itoa_nat_set [OF hd_in_set]) simp

lemma parse_int_itoa_nat:
  "int n < 2 ^ (bits - 1) \<Longrightarrow> parse_int bits (itoa_nat n) = (int n, None)"
  using is_digit_not [OF hd_itoa_nat [of n]] by (simp add: parse_int_def Let_def)

lemma parse_uint_itoa_nat: "n < 2 ^ bits \<Longrightarrow> parse_uint bits (itoa_nat n) = (n, None)"
  by (simp add: parse_uint_def)

lemma parse_uint_bound: "fst (parse_uint bits s) < 2 ^ bits"
  by (auto simp: parse_uint_def)

lemma split_host_port_print:
  assumes "CHR '':'' \<notin> set h" "CHR ''['' \<notin> set h" "CHR '']'' \<notin> set h"
  shows "split_host_port (h @ CHR '':'' # itoa_nat p) = Some (h, itoa_nat p)"
proof -
  have nc: "CHR '':'' \<notin> set (rev (itoa_nat p))"
    using is_digit_not itoa_nat_set by auto
  have nb: "CHR ''['' \<notin> set (itoa_nat p)" "CHR '']'' \<notin> set (itoa_nat p)"
    using itoa_nat_set by (auto simp: is_digit_def dest!: itoa_nat_set)
  have "rev (h @ CHR '':'' # itoa_nat p) = rev (itoa_nat p) @ CHR '':'' # rev h" by simp
  then have c: "cut_on CHR '':'' (rev (h @ CHR '':'' # itoa_nat p)) = (rev (itoa_nat p), Some (rev h))"
    using cut_on_append [OF nc] by simp
  have "h \<noteq> [] \<Longrightarrow> hd h \<noteq> CHR ''[''" using assms(2) by (cases h) auto
  then show ?thesis
    unfolding split_host_port_def c using assms nb by (auto simp: Let_def)
qed

section \<open>Shared interfaces\<close>

text \<open>
  A teardown guarded by a one-shot flag (an atomic compare-and-swap or a fuse): the first call runs
  the body and sets the flag, every later call leaves the state alone.
\<close>

locale once_op =
  fixes valid :: "'s \<Rightarrow> bool"
    and closed :: "'s \<Rightarrow> bool"
    and shut :: "'a \<Rightarrow> 's \<Rightarrow> 's"
  assumes shut_closes: "valid s \<Longrightarrow> closed (shut a s)"
    and shut_again: "closed s \<Longrightarrow> shut a s = s"
begin

lemma shut_idem: "valid s \<Longrightarrow> shut b (shut a s) = shut a s"
  by (simp add: shut_closes shut_again)

lemma shut_many: "valid s \<Longrightarrow> fold shut as (shut a s) = shut a s"
  by (induction as) (simp_all add: shut_idem)

end

text \<open>
  A deterministic machine: a step function over a list of events, with an invariant that the events
  admitted by \<open>ok\<close> preserve.
\<close>

locale machine =
  fixes step :: "'e \<Rightarrow> 's \<Rightarrow> 's"
    and ok :: "'e \<Rightarrow> bool"
    and inv :: "'s \<Rightarrow> bool"
  assumes inv_step: "inv s \<Longrightarrow> ok e \<Longrightarrow> inv (step e s)"
begin

lemma inv_run: "inv s \<Longrightarrow> list_all ok es \<Longrightarrow> inv (fold step es s)"
  by (induction es arbitrary: s) (simp_all add: inv_step)

end

text \<open>A nondeterministic system: initial states, a step relation and an invariant.\<close>

inductive reach :: "('s \<Rightarrow> bool) \<Rightarrow> ('s \<Rightarrow> 's \<Rightarrow> bool) \<Rightarrow> 's \<Rightarrow> bool" for init step where
  reach_init: "init s \<Longrightarrow> reach init step s"
| reach_step: "reach init step s \<Longrightarrow> step s t \<Longrightarrow> reach init step t"

locale step_system =
  fixes init :: "'s \<Rightarrow> bool"
    and step :: "'s \<Rightarrow> 's \<Rightarrow> bool"
    and inv :: "'s \<Rightarrow> bool"
  assumes sys_init: "init s \<Longrightarrow> inv s"
    and sys_step: "inv s \<Longrightarrow> step s t \<Longrightarrow> inv t"
begin

lemma reach_inv: "reach init step s \<Longrightarrow> inv s"
  by (induction rule: reach.induct) (auto intro: sys_init sys_step)

end

text \<open>
  A forward simulation: every step of the detailed system is a step of the abstract one or leaves its
  state alone, as long as the invariant of the detailed system holds.
\<close>

locale simulation = step_system init step inv
  for init :: "'s \<Rightarrow> bool" and step :: "'s \<Rightarrow> 's \<Rightarrow> bool" and inv :: "'s \<Rightarrow> bool" +
  fixes abs_init :: "'a \<Rightarrow> bool"
    and abs_step :: "'a \<Rightarrow> 'a \<Rightarrow> bool"
    and abs_fun :: "'s \<Rightarrow> 'a"
  assumes sim_init: "init s \<Longrightarrow> abs_init (abs_fun s)"
    and sim_step: "inv s \<Longrightarrow> step s t \<Longrightarrow> abs_fun t = abs_fun s \<or> abs_step (abs_fun s) (abs_fun t)"
begin

lemma sim_reach: "reach init step s \<Longrightarrow> reach abs_init abs_step (abs_fun s)"
proof (induction rule: reach.induct)
  case (reach_init s)
  then have "abs_init (abs_fun s)" by (rule sim_init)
  then show ?case by (rule reach.reach_init)
next
  case (reach_step s t)
  have "abs_fun t = abs_fun s \<or> abs_step (abs_fun s) (abs_fun t)"
    using reach_step.hyps by (intro sim_step reach_inv)
  with reach_step.IH show ?case by (auto intro: reach.reach_step)
qed

lemma sim_transfer:
  "reach init step s \<Longrightarrow> (\<And>a. reach abs_init abs_step a \<Longrightarrow> P a) \<Longrightarrow> P (abs_fun s)"
  using sim_reach by blast

end

end
