(* ===== verification/GoErrors.thy ===== *)
theory GoErrors
  imports SipPrelude
begin

text \<open>
  Go error values as the bridge builds and inspects them: sentinels compared with \<open>errors.Is\<close>, typed
  errors found with \<open>errors.As\<close>, and the wrappers (\<open>fmt.Errorf\<close> with \<open>%w\<close>, \<open>psrpc.NewError\<close>,
  \<open>net.OpError\<close>) those two functions look through.  The theory also holds
  \<open>sipStatusForErrorCode\<close> and \<open>sipCodeAndMessageFromError\<close> of \<open>pkg/sip/protocol.go\<close> and
  \<open>ApplySIPStatus\<close> of \<open>pkg/errors/errors.go\<close>, which map between error codes and SIP statuses.

  The message text of an error and the gRPC code of a SIP status are computed by code outside the
  repository and are arguments of the definitions that need them.
\<close>

section \<open>Error values\<close>

datatype psrpc_code =
    PcOK | Canceled | Unknown | InvalidArgument | MalformedRequest | MalformedResponse
  | DeadlineExceeded | NotFound | NotAcceptable | AlreadyExists | PermissionDenied
  | ResourceExhausted | FailedPrecondition | Aborted | OutOfRange | Unimplemented | Internal
  | Unavailable | DataLoss | Unauthenticated | UpstreamServerError | UpstreamClientError
  | OtherCode string

datatype sentinel =
    ErrSIPRequestTimeout | ErrAuthMaxRetry | ErrAuthMissingCreds | ErrAuthNoHeader
  | ErrTransferCallEnded | ErrReferSubscriptionTerminated | ErrNoACK | ErrDTLSSDP
  | ErrNoCommonMedia | ErrNoCommonCrypto | CtxDeadlineExceeded | CtxCanceled | ErrRoomClosed

record sip_status =
  st_code :: int
  st_text :: string

datatype go_error =
    Sentinel sentinel
  | Plain string
  | Wrapped string go_error
  | Psrpc psrpc_code go_error
  | SIPStatusErr sip_status
  | SDPError go_error
  | TransactionTimeout int
  | CarrierBlocked sip_status string int
  | NetAddrError string
  | NetDNSError "go_error option"
  | NetOpError go_error

section \<open>errors.Is and errors.As\<close>

text \<open>\<open>chain e\<close> lists \<open>e\<close> and what repeated \<open>Unwrap\<close> calls return, outermost first.\<close>

fun chain :: "go_error \<Rightarrow> go_error list" where
  "chain (Wrapped s e) = Wrapped s e # chain e"
| "chain (Psrpc c e) = Psrpc c e # chain e"
| "chain (SDPError e) = SDPError e # chain e"
| "chain (CarrierBlocked st p n) = [CarrierBlocked st p n, SIPStatusErr st]"
| "chain (NetDNSError (Some e)) = NetDNSError (Some e) # chain e"
| "chain (NetOpError e) = NetOpError e # chain e"
| "chain e = [e]"

definition errors_is :: "go_error \<Rightarrow> sentinel \<Rightarrow> bool" where
  "errors_is e s = (Sentinel s \<in> set (chain e))"

fun as_sip_status :: "go_error list \<Rightarrow> sip_status option" where
  "as_sip_status [] = None"
| "as_sip_status (SIPStatusErr st # es) = Some st"
| "as_sip_status (e # es) = as_sip_status es"

fun as_psrpc :: "go_error list \<Rightarrow> psrpc_code option" where
  "as_psrpc [] = None"
| "as_psrpc (Psrpc c e # es) = Some c"
| "as_psrpc (e # es) = as_psrpc es"

definition is_addr_error :: "go_error \<Rightarrow> bool" where
  "is_addr_error e = list_ex (\<lambda>x. case x of NetAddrError _ \<Rightarrow> True | _ \<Rightarrow> False) (chain e)"

definition is_dns_error :: "go_error \<Rightarrow> bool" where
  "is_dns_error e = list_ex (\<lambda>x. case x of NetDNSError _ \<Rightarrow> True | _ \<Rightarrow> False) (chain e)"

definition is_op_error :: "go_error \<Rightarrow> bool" where
  "is_op_error e = list_ex (\<lambda>x. case x of NetOpError _ \<Rightarrow> True | _ \<Rightarrow> False) (chain e)"

lemma chain_hd: "\<exists>es. chain e = e # es"
  by (cases e rule: chain.cases) auto

lemma chain_nonempty [simp]: "chain e \<noteq> []"
  using chain_hd [of e] by auto

lemma chain_self [simp]: "e \<in> set (chain e)"
  using chain_hd [of e] by auto

lemma chain_sub: "x \<in> set (chain e) \<Longrightarrow> set (chain x) \<subseteq> set (chain e)"
  by (induction e rule: chain.induct) auto

text \<open>A sentinel is always the last element of the chain, so every suffix keeps it.\<close>

lemma sentinel_last: "Sentinel s \<in> set (chain e) \<longleftrightarrow> last (chain e) = Sentinel s"
  by (induction e rule: chain.induct) auto

lemma last_chain: "x \<in> set (chain e) \<Longrightarrow> last (chain x) = last (chain e)"
  by (induction e rule: chain.induct) auto

lemma errors_is_inner: "x \<in> set (chain e) \<Longrightarrow> errors_is x s = errors_is e s"
  by (simp add: errors_is_def sentinel_last last_chain)

lemma errors_is_simps [simp]:
  "errors_is (Psrpc c e) s = errors_is e s"
  "errors_is (Wrapped t e) s = errors_is e s"
  "errors_is (SDPError e) s = errors_is e s"
  "errors_is (NetOpError e) s = errors_is e s"
  "errors_is (Sentinel s') s = (s' = s)"
  "errors_is (Plain t) s = False"
  "errors_is (SIPStatusErr st) s = False"
  "errors_is (TransactionTimeout n) s = False"
  "errors_is (CarrierBlocked st p n) s = False"
  by (auto simp: errors_is_def)

lemma as_sip_status_in: "as_sip_status es = Some st \<Longrightarrow> SIPStatusErr st \<in> set es"
  by (induction es rule: as_sip_status.induct) auto

lemma as_sip_status_none: "as_sip_status es = None \<longleftrightarrow> (\<forall>st. SIPStatusErr st \<notin> set es)"
  by (induction es rule: as_sip_status.induct) auto

lemma sip_status_last: "SIPStatusErr st \<in> set (chain e) \<longleftrightarrow> last (chain e) = SIPStatusErr st"
  by (induction e rule: chain.induct) auto

section \<open>Error codes and SIP statuses\<close>

definition sipStatusForErrorCode :: "psrpc_code \<Rightarrow> int" where
  "sipStatusForErrorCode code =
     (case code of
        PcOK \<Rightarrow> 200
      | Canceled \<Rightarrow> 408 | DeadlineExceeded \<Rightarrow> 408
      | Unknown \<Rightarrow> 500 | MalformedResponse \<Rightarrow> 500 | Internal \<Rightarrow> 500 | DataLoss \<Rightarrow> 500
      | InvalidArgument \<Rightarrow> 400 | MalformedRequest \<Rightarrow> 400
      | NotFound \<Rightarrow> 404
      | NotAcceptable \<Rightarrow> 406
      | AlreadyExists \<Rightarrow> 409 | Aborted \<Rightarrow> 409
      | PermissionDenied \<Rightarrow> 403
      | ResourceExhausted \<Rightarrow> 480
      | FailedPrecondition \<Rightarrow> 481
      | OutOfRange \<Rightarrow> 416
      | Unimplemented \<Rightarrow> 501
      | Unavailable \<Rightarrow> 503
      | Unauthenticated \<Rightarrow> 401
      | UpstreamServerError \<Rightarrow> 502
      | UpstreamClientError \<Rightarrow> 480
      | OtherCode _ \<Rightarrow> 500)"

text \<open>\<open>text\<close> is the error's \<open>Error()\<close> method.\<close>

definition sipCodeAndMessageFromError ::
  "(go_error \<Rightarrow> string) \<Rightarrow> go_error option \<Rightarrow> int \<times> string" where
  "sipCodeAndMessageFromError text err =
     (case err of
        None \<Rightarrow> (200, ''success'')
      | Some e \<Rightarrow>
          (case as_psrpc (chain e) of
             Some c \<Rightarrow> (sipStatusForErrorCode c, text e)
           | None \<Rightarrow> (500, text e)))"

text \<open>\<open>grpc\<close> is the code \<open>SIPStatus.GRPCStatus\<close> gives, converted by \<open>psrpc.ErrorCodeFromGRPC\<close>.\<close>

definition ApplySIPStatus ::
  "(sip_status \<Rightarrow> psrpc_code) \<Rightarrow> go_error option \<Rightarrow> go_error option" where
  "ApplySIPStatus grpc err =
     (case err of
        None \<Rightarrow> None
      | Some e \<Rightarrow>
          (case as_sip_status (chain e) of
             None \<Rightarrow> Some e
           | Some st \<Rightarrow> Some (Psrpc (grpc st) e)))"

lemma sipStatusForErrorCode_final:
  "sipStatusForErrorCode c = 200 \<or> 400 \<le> sipStatusForErrorCode c \<and> sipStatusForErrorCode c < 600"
  by (cases c) (simp_all add: sipStatusForErrorCode_def)

lemma sipStatusForErrorCode_OK: "sipStatusForErrorCode c = 200 \<longleftrightarrow> c = PcOK"
  by (cases c) (simp_all add: sipStatusForErrorCode_def)

end
