(* ===== verification/CallTermination.thy ===== *)
theory CallTermination
  imports GoErrors
begin

text \<open>
  How a call is recorded when it ends: the termination classes of \<open>pkg/stats/termination.go\<close>, and from
  \<open>pkg/sip/participant.go\<close> the call statuses with the participant attribute and the disconnect reason
  of each, and the classification of a room disconnect.  \<open>EndCall\<close> and \<open>Result\<close> of
  \<open>pkg/sip/protocol.go\<close> are here too, since every way to end a call builds one.
\<close>

section \<open>pkg/stats/termination.go\<close>

datatype termination_result =
    ResultSuccess | ResultServerError | ResultClientError | ResultIndeterminate | ResultUpstreamError

record call_term =
  tm_result :: termination_result
  tm_reason :: string

definition Success :: "string \<Rightarrow> call_term" where
  "Success r = \<lparr>tm_result = ResultSuccess, tm_reason = r\<rparr>"

definition ServerError :: "string \<Rightarrow> call_term" where
  "ServerError r = \<lparr>tm_result = ResultServerError, tm_reason = r\<rparr>"

definition ClientError :: "string \<Rightarrow> call_term" where
  "ClientError r = \<lparr>tm_result = ResultClientError, tm_reason = r\<rparr>"

definition Indeterminate :: "string \<Rightarrow> call_term" where
  "Indeterminate r = \<lparr>tm_result = ResultIndeterminate, tm_reason = r\<rparr>"

definition UpstreamError :: "string \<Rightarrow> call_term" where
  "UpstreamError r = \<lparr>tm_result = ResultUpstreamError, tm_reason = r\<rparr>"

lemmas call_term_defs [simp] =
  Success_def ServerError_def ClientError_def Indeterminate_def UpstreamError_def

section \<open>pkg/sip/participant.go\<close>

text \<open>The disconnect reasons the source names; \<open>OtherReason\<close> is any other value of the enum.\<close>

datatype disconnect_reason =
    UNKNOWN_REASON | CLIENT_INITIATED | DUPLICATE_IDENTITY | SERVER_SHUTDOWN | PARTICIPANT_REMOVED
  | ROOM_DELETED | STATE_MISMATCH | JOIN_FAILURE | MIGRATION | SIGNAL_CLOSE | ROOM_CLOSED
  | USER_UNAVAILABLE | USER_REJECTED | SIP_TRUNK_FAILURE | CONNECTION_TIMEOUT | MEDIA_FAILURE
  | AGENT_ERROR | OtherReason int

datatype call_status =
    callDropped | callFlood | CallDialing | CallRinging | CallAutomation | CallActive | CallHangup
  | CallCancelled | callUnavailable | callRejected | callMediaFailed | callAcceptFailed | callNoACK
  | callHangupMedia

definition terminationFromRoomDisconnect :: "disconnect_reason \<Rightarrow> call_term" where
  "terminationFromRoomDisconnect reason =
     (case reason of
        CLIENT_INITIATED \<Rightarrow> Success ''removed''
      | ROOM_CLOSED \<Rightarrow> Success ''removed''
      | ROOM_DELETED \<Rightarrow> Success ''removed''
      | PARTICIPANT_REMOVED \<Rightarrow> Success ''removed''
      | JOIN_FAILURE \<Rightarrow> ServerError ''room-failed''
      | SIGNAL_CLOSE \<Rightarrow> ServerError ''room-failed''
      | STATE_MISMATCH \<Rightarrow> ServerError ''room-failed''
      | SERVER_SHUTDOWN \<Rightarrow> ServerError ''server-shutdown''
      | CONNECTION_TIMEOUT \<Rightarrow> ServerError ''connection-timeout''
      | MIGRATION \<Rightarrow> ServerError ''migration''
      | SIP_TRUNK_FAILURE \<Rightarrow> ServerError ''sip-trunk-failure''
      | MEDIA_FAILURE \<Rightarrow> ServerError ''media-failure''
      | AGENT_ERROR \<Rightarrow> ServerError ''agent-error''
      | DUPLICATE_IDENTITY \<Rightarrow> ClientError ''duplicate-identity''
      | USER_UNAVAILABLE \<Rightarrow> ClientError ''user-unavailable''
      | USER_REJECTED \<Rightarrow> ClientError ''user-rejected''
      | _ \<Rightarrow> ServerError ''room-disconnected'')"

definition disconnectReasonFromRoomClose :: "disconnect_reason \<Rightarrow> disconnect_reason" where
  "disconnectReasonFromRoomClose reason =
     (if reason = UNKNOWN_REASON then CLIENT_INITIATED else reason)"

definition call_attribute :: "call_status \<Rightarrow> string" where
  "call_attribute v =
     (case v of
        CallDialing \<Rightarrow> ''dialing''
      | CallRinging \<Rightarrow> ''ringing''
      | CallAutomation \<Rightarrow> ''automation''
      | CallActive \<Rightarrow> ''active''
      | CallHangup \<Rightarrow> ''hangup''
      | callHangupMedia \<Rightarrow> ''hangup''
      | CallCancelled \<Rightarrow> ''hangup''
      | _ \<Rightarrow> [])"

definition call_disconnect_reason :: "call_status \<Rightarrow> disconnect_reason" where
  "call_disconnect_reason v =
     (case v of
        CallHangup \<Rightarrow> CLIENT_INITIATED
      | callHangupMedia \<Rightarrow> CLIENT_INITIATED
      | CallCancelled \<Rightarrow> CLIENT_INITIATED
      | callUnavailable \<Rightarrow> USER_UNAVAILABLE
      | callRejected \<Rightarrow> USER_REJECTED
      | _ \<Rightarrow> UNKNOWN_REASON)"

definition maxCallDuration :: nanos where
  "maxCallDuration = 24 * 3600 * second"

definition defaultRingingTimeout :: nanos where
  "defaultRingingTimeout = 3 * 60 * second"

text \<open>
  The bounds \<open>handleInvite\<close> and \<open>newCall\<close> put on the durations a dispatch or an API request asks for.
\<close>

definition bound_call_duration :: "nanos \<Rightarrow> nanos" where
  "bound_call_duration d = (if d \<le> 0 \<or> d > maxCallDuration then maxCallDuration else d)"

definition bound_ringing_timeout :: "nanos \<Rightarrow> nanos" where
  "bound_ringing_timeout d = (if d \<le> 0 then defaultRingingTimeout else d)"

lemma bound_call_duration_range:
  "0 < bound_call_duration d \<and> bound_call_duration d \<le> maxCallDuration"
  by (simp add: bound_call_duration_def maxCallDuration_def)

section \<open>EndCall and Result of pkg/sip/protocol.go\<close>

record end_call =
  ec_report :: "go_error option"
  ec_status :: call_status
  ec_term :: call_term
  ec_reason :: disconnect_reason
  ec_headers :: smap

record sip_result =
  rs_code :: int
  rs_status :: string

definition statusNames :: "(int \<times> string) list" where
  "statusNames = [
     (100, ''Trying''), (180, ''Ringing''), (181, ''Call Is Forwarded''), (182, ''Queued''),
     (183, ''Session In Progress''),
     (200, ''OK''), (202, ''Accepted''),
     (301, ''Moved Permanently''), (302, ''Moved Temporarily''), (305, ''Use Proxy''),
     (400, ''Bad Request''), (401, ''Unauthorized''), (402, ''Payment Required''),
     (403, ''Forbidden''), (404, ''Not Found''), (405, ''Method Not Allowed''),
     (406, ''Not Acceptable''), (407, ''Proxy Auth Required''), (408, ''Request Timeout''),
     (409, ''Conflict''), (410, ''Gone''), (413, ''Request Entity Too Large''),
     (414, ''Request URI Too Long''), (415, ''Unsupported Media Type''),
     (416, ''Requested Range Not Satisfiable''), (420, ''Bad Extension''),
     (421, ''Extension Required''), (423, ''Interval Too Brief''),
     (480, ''Temporarily Unavailable''), (481, ''Call Transaction Does Not Exists''),
     (482, ''Loop Detected''), (483, ''Too Many Hops''), (484, ''Address Incomplete''),
     (485, ''Ambiguous''), (486, ''Busy Here''), (487, ''Request Terminated''),
     (488, ''Not Acceptable Here''),
     (500, ''Internal Server Error''), (501, ''Not Implemented''), (502, ''Bad Gateway''),
     (503, ''Service Unavailable''), (504, ''Gateway Timeout''), (505, ''Version Not Supported''),
     (513, ''Message Too Large''),
     (600, ''Global Busy Everywhere''), (603, ''Global Decline''),
     (604, ''Global Does Not Exist Anywhere''), (606, ''Global Not Acceptable'')]"

definition statusNamesMap :: "int \<Rightarrow> string option" where
  "statusNamesMap = map_of statusNames"

definition sipStatus :: "int \<Rightarrow> string" where
  "sipStatus code =
     (case statusNamesMap code of Some name \<Rightarrow> name | None \<Rightarrow> ''Status '' @ itoa code)"

definition statusName :: "int \<Rightarrow> string" where
  "statusName status =
     (case statusNamesMap status of
        Some name \<Rightarrow> itoa status @ ''-'' @ filter (\<lambda>c. c \<noteq> CHR '' '') name
      | None \<Rightarrow> ''status-'' @ itoa status)"

text \<open>The status code and reason phrase of \<open>Result.NewResponse\<close>.\<close>

definition Result_NewResponse :: "sip_result \<Rightarrow> int \<times> string" where
  "Result_NewResponse r =
     (let code = (if rs_code r = 0 then 503 else rs_code r);
          status = (if rs_status r = [] then sipStatus code else rs_status r)
      in (code, status))"

lemma statusNames_nonempty: "list_all (\<lambda>p. snd p \<noteq> []) statusNames"
  by (simp add: statusNames_def)

lemma statusNamesMap_nonempty: "statusNamesMap code = Some name \<Longrightarrow> name \<noteq> []"
  using statusNames_nonempty by (auto simp: statusNamesMap_def list_all_iff dest!: map_of_SomeD)

lemma sipStatus_nonempty: "sipStatus code \<noteq> []"
  by (simp add: sipStatus_def statusNamesMap_nonempty split: option.splits)

lemma Result_NewResponse_phrase: "snd (Result_NewResponse r) \<noteq> []"
  by (simp add: Result_NewResponse_def Let_def sipStatus_nonempty)

end
