(* ===== verification/InviteFailure.thy ===== *)
theory InviteFailure
  imports CallTermination
begin

text \<open>
  The verdict on a failed outbound INVITE, from \<open>pkg/sip/errors.go\<close>: which error classifies itself,
  how the others are bucketed (\<open>classifyInviteError\<close>), how a carrier block is recognised in a response
  and how a failure after the INVITE went out is made non-retryable (\<open>afterInvite\<close>).
\<close>

record invite_failure =
  if_end :: end_call
  if_err :: "go_error option"

definition mk_failure ::
  "call_status \<Rightarrow> call_term \<Rightarrow> disconnect_reason \<Rightarrow> go_error option \<Rightarrow> go_error option \<Rightarrow> invite_failure" where
  "mk_failure status tm reason report ret =
     \<lparr>if_end = \<lparr>ec_report = report, ec_status = status, ec_term = tm, ec_reason = reason,
                ec_headers = []\<rparr>,
      if_err = ret\<rparr>"

lemma mk_failure_sel [simp]:
  "if_end (mk_failure status tm reason report ret) =
     \<lparr>ec_report = report, ec_status = status, ec_term = tm, ec_reason = reason, ec_headers = []\<rparr>"
  "if_err (mk_failure status tm reason report ret) = ret"
  by (simp_all add: mk_failure_def)

definition afterInvite :: "invite_failure \<Rightarrow> invite_failure" where
  "afterInvite f =
     (if tm_result (ec_term (if_end f)) = ResultServerError then
        let cause = (case if_err f of None \<Rightarrow> Plain (tm_reason (ec_term (if_end f))) | Some e \<Rightarrow> e)
        in f\<lparr>if_err := Some (Psrpc FailedPrecondition cause)\<rparr>
      else f)"

section \<open>Errors that classify themselves\<close>

definition SDPError_ClassifyInvite :: "go_error \<Rightarrow> invite_failure" where
  "SDPError_ClassifyInvite e =
     mk_failure callRejected
       (if errors_is e ErrNoCommonMedia then ClientError ''no-common-codec''
        else if errors_is e ErrNoCommonCrypto then ClientError ''encryption-required''
        else ClientError ''sdp-error'')
       MEDIA_FAILURE (Some e) (Some (SDPError e))"

definition transactionTimeout_ClassifyInvite :: "int \<Rightarrow> invite_failure" where
  "transactionTimeout_ClassifyInvite responses =
     mk_failure callUnavailable
       (if responses > 0 then ClientError ''no-final-response'' else Indeterminate ''upstream-no-response'')
       SIP_TRUNK_FAILURE (Some (TransactionTimeout responses))
       (Some (Psrpc Canceled (TransactionTimeout responses)))"

definition carrierBlocked_ClassifyInvite :: "sip_status \<Rightarrow> string \<Rightarrow> int \<Rightarrow> invite_failure" where
  "carrierBlocked_ClassifyInvite st provider code =
     mk_failure callRejected (ClientError ''carrier-blocked'') USER_REJECTED
       (Some (CarrierBlocked st provider code)) (Some (SIPStatusErr st))"

text \<open>\<open>errors.AsType[inviteClassifier]\<close> followed by \<open>ClassifyInvite\<close>: the outermost one decides.\<close>

fun self_classify :: "go_error list \<Rightarrow> invite_failure option" where
  "self_classify [] = None"
| "self_classify (SDPError e # es) = Some (SDPError_ClassifyInvite e)"
| "self_classify (TransactionTimeout n # es) = Some (transactionTimeout_ClassifyInvite n)"
| "self_classify (CarrierBlocked st p n # es) = Some (carrierBlocked_ClassifyInvite st p n)"
| "self_classify (e # es) = self_classify es"

section \<open>Carrier blocks\<close>

definition twilioPermanentBlockCodes :: "int set" where
  "twilioPermanentBlockCodes = {32203}"

definition parseLeadingProviderCode :: "string \<Rightarrow> int" where
  "parseLeadingProviderCode v =
     (case str_fields v of
        [] \<Rightarrow> 0
      | f # _ \<Rightarrow> (case atoi f of (n, None) \<Rightarrow> n | (_, Some _) \<Rightarrow> 0))"

text \<open>\<open>hdr\<close> is the value of the response's \<open>X-Twilio-Error\<close> header, if it has one.\<close>

definition carrierBlockFromResponse :: "string option \<Rightarrow> sip_status \<Rightarrow> go_error option" where
  "carrierBlockFromResponse hdr st =
     (case hdr of
        None \<Rightarrow> None
      | Some v \<Rightarrow>
          let code = parseLeadingProviderCode v in
          if code \<noteq> 0 \<and> code \<in> twilioPermanentBlockCodes
          then Some (CarrierBlocked st ''twilio'' code) else None)"

section \<open>classifyInviteError\<close>

definition classify_sip_status :: "go_error \<Rightarrow> sip_status \<Rightarrow> invite_failure" where
  "classify_sip_status err st =
     (let code = st_code st; ret = Some err; body = to_lower (st_text st) in
      if code = 401 \<or> code = 407 then mk_failure callRejected (ClientError ''auth-required'') USER_REJECTED None ret
      else if code = 403 then mk_failure callRejected (ClientError ''forbidden'') USER_REJECTED None ret
      else if code = 404 then mk_failure callUnavailable (ClientError ''not-found'') USER_UNAVAILABLE None ret
      else if code = 408 then mk_failure callUnavailable (ClientError ''request-timeout'') USER_UNAVAILABLE None ret
      else if code = 480 then mk_failure callUnavailable (ClientError ''unavailable'') USER_UNAVAILABLE None ret
      else if code = 486 then mk_failure callRejected (ClientError ''busy'') USER_REJECTED None ret
      else if code = 488 then mk_failure callRejected (ClientError ''not-acceptable'') USER_REJECTED None ret
      else if 400 \<le> code \<and> code < 500 then
        mk_failure callRejected (ClientError (''client-error-'' @ itoa code)) USER_UNAVAILABLE None ret
      else if 500 \<le> code \<and> code < 600 then
        (if contains body ''cps limit exceeded'' then
           mk_failure callRejected (ClientError ''cps-limit-exceeded'') SIP_TRUNK_FAILURE (Some err) ret
         else if contains body ''concurrent call limit exceeded'' then
           mk_failure callRejected (ClientError ''concurrent-limit-exceeded'') SIP_TRUNK_FAILURE (Some err) ret
         else
           mk_failure callDropped (UpstreamError (''upstream-server-error-'' @ itoa code)) SIP_TRUNK_FAILURE (Some err) ret)
      else if 600 \<le> code \<and> code < 700 then
        mk_failure callRejected (ClientError (''global-decline-'' @ itoa code)) USER_REJECTED None ret
      else mk_failure callDropped (ServerError ''invite-failed'') UNKNOWN_REASON (Some err) ret)"

definition classifyInviteError :: "go_error \<Rightarrow> invite_failure" where
  "classifyInviteError err =
     (case self_classify (chain err) of
        Some f \<Rightarrow> f
      | None \<Rightarrow>
     (case as_sip_status (chain err) of
        Some st \<Rightarrow> classify_sip_status err st
      | None \<Rightarrow>
        if errors_is err ErrSIPRequestTimeout then
          mk_failure callUnavailable (ClientError ''no-answer'') USER_UNAVAILABLE None (Some err)
        else if errors_is err CtxDeadlineExceeded then
          mk_failure callDropped (ServerError ''deadline-exceeded'') UNKNOWN_REASON (Some err)
            (Some (Psrpc DeadlineExceeded err))
        else if errors_is err CtxCanceled then
          mk_failure callRejected (ClientError ''canceled'') USER_UNAVAILABLE None (Some (Psrpc Canceled err))
        else if is_addr_error err then
          mk_failure callDropped (ClientError ''address-error'') SIP_TRUNK_FAILURE (Some err)
            (Some (Psrpc InvalidArgument err))
        else if is_dns_error err then
          mk_failure callDropped (ClientError ''dns-resolution'') SIP_TRUNK_FAILURE (Some err)
            (Some (Psrpc InvalidArgument err))
        else if is_op_error err then
          mk_failure callDropped (ServerError ''network-error'') SIP_TRUNK_FAILURE (Some err)
            (Some (Psrpc Unavailable err))
        else if errors_is err ErrAuthMaxRetry \<or> errors_is err ErrAuthMissingCreds \<or> errors_is err ErrAuthNoHeader then
          mk_failure callRejected (ClientError ''auth-failed'') USER_REJECTED (Some err) (Some err)
        else mk_failure callDropped (ServerError ''invite-failed'') UNKNOWN_REASON (Some err) (Some err)))"

text \<open>The verdict \<open>connectSIP\<close> acts on: \<open>afterInvite\<close> applies once the INVITE was sent.\<close>

definition connect_verdict :: "bool \<Rightarrow> go_error \<Rightarrow> invite_failure" where
  "connect_verdict invited err =
     (let res = classifyInviteError err in if invited then afterInvite res else res)"

section \<open>Lemmas\<close>

lemmas classify_defs =
  SDPError_ClassifyInvite_def transactionTimeout_ClassifyInvite_def carrierBlocked_ClassifyInvite_def

lemma self_classify_err:
  "self_classify es = Some f \<Longrightarrow>
     \<exists>x \<in> set es. \<exists>r. if_err f = Some r \<and> last (chain r) = last (chain x)"
  by (induction es rule: self_classify.induct) (auto simp: classify_defs)

lemma self_classify_not_server:
  "self_classify es = Some f \<Longrightarrow> tm_result (ec_term (if_end f)) \<noteq> ResultServerError"
  by (induction es rule: self_classify.induct) (auto simp: classify_defs split: if_splits)

lemma classify_sip_status_err [simp]: "if_err (classify_sip_status e st) = Some e"
  by (simp add: classify_sip_status_def Let_def)

lemma classify_sip_status_bucket:
  "400 \<le> st_code st \<Longrightarrow> st_code st < 700 \<Longrightarrow>
     tm_result (ec_term (if_end (classify_sip_status e st))) =
       (if st_code st div 100 = 5 \<and> \<not> contains (to_lower (st_text st)) ''cps limit exceeded'' \<and>
           \<not> contains (to_lower (st_text st)) ''concurrent call limit exceeded''
        then ResultUpstreamError else ResultClientError)"
  unfolding classify_sip_status_def Let_def by (cases "st_code st < 500"; cases "st_code st < 600") auto

lemma classify_keeps_cause:
  "\<exists>r. if_err (classifyInviteError e) = Some r \<and> last (chain r) = last (chain e)"
proof (cases "self_classify (chain e)")
  case None
  then show ?thesis
    by (auto simp: classifyInviteError_def split: option.split)
next
  case (Some f)
  then obtain x r where "x \<in> set (chain e)" "if_err f = Some r" "last (chain r) = last (chain x)"
    using self_classify_err by blast
  with Some show ?thesis by (auto simp: classifyInviteError_def last_chain)
qed

lemma afterInvite_end [simp]: "if_end (afterInvite f) = if_end f"
  by (simp add: afterInvite_def Let_def)

lemma afterInvite_err:
  "if_err f = Some e \<Longrightarrow>
     if_err (afterInvite f) =
       Some (if tm_result (ec_term (if_end f)) = ResultServerError then Psrpc FailedPrecondition e else e)"
  by (simp add: afterInvite_def Let_def)

section \<open>Properties\<close>

text \<open>
  An INVITE that the far end answered with a 4xx, 5xx or 6xx status is never counted against the
  bridge: the termination is a client error, except for a 5xx whose reason does not name a
  rate limit of the customer's own trunk, which is an upstream error.
\<close>

theorem sip_status_never_server_error:
  assumes "self_classify (chain e) = None" and "as_sip_status (chain e) = Some st"
    and "400 \<le> st_code st" and "st_code st < 700"
  shows "tm_result (ec_term (if_end (classifyInviteError e))) =
    (if st_code st div 100 = 5 \<and> \<not> contains (to_lower (st_text st)) ''cps limit exceeded'' \<and>
        \<not> contains (to_lower (st_text st)) ''concurrent call limit exceeded''
     then ResultUpstreamError else ResultClientError)"
  using assms by (simp add: classifyInviteError_def classify_sip_status_bucket)

theorem sip_status_never_server_error_witness:
  "tm_result (ec_term (if_end (classifyInviteError
     (Wrapped ''INVITE failed'' (SIPStatusErr \<lparr>st_code = 503, st_text = ''Trunk CPS limit exceeded''\<rparr>))))) =
   ResultClientError"
proof -
  let ?st = "\<lparr>st_code = 503, st_text = ''Trunk CPS limit exceeded''\<rparr>"
  have "contains (to_lower (st_text ?st)) ''cps limit exceeded''" by code_simp
  then show ?thesis
    using sip_status_never_server_error [of "Wrapped ''INVITE failed'' (SIPStatusErr ?st)" ?st] by simp
qed

text \<open>
  C27: Once the INVITE was sent, a failure that is the bridge's own fault is reported with a
  non-retryable code, so that a client does not place a duplicate call.  The verdict recorded for the
  call is not changed by that, and the reported error still matches exactly the sentinels the
  original error matches.
\<close>

theorem connect_verdict_after_invite:
  "\<exists>r. if_err (connect_verdict True e) = Some r \<and>
     if_end (connect_verdict True e) = if_end (classifyInviteError e) \<and>
     (tm_result (ec_term (if_end (classifyInviteError e))) = ResultServerError \<longrightarrow>
        (\<exists>c. r = Psrpc FailedPrecondition c)) \<and>
     (\<forall>s. errors_is r s = errors_is e s)"
proof -
  obtain r where r: "if_err (classifyInviteError e) = Some r" "last (chain r) = last (chain e)"
    using classify_keeps_cause by blast
  then have "\<forall>s. errors_is r s = errors_is e s"
    by (simp add: errors_is_def sentinel_last)
  with r(1) show ?thesis
    by (auto simp: connect_verdict_def Let_def afterInvite_err)
qed

theorem connect_verdict_after_invite_witness:
  "\<exists>r. if_err (connect_verdict True (NetOpError (Plain ''refused''))) = Some r \<and>
     (\<exists>c. r = Psrpc FailedPrecondition c)"
proof -
  have "tm_result (ec_term (if_end (classifyInviteError (NetOpError (Plain ''refused''))))) = ResultServerError"
    by (simp add: classifyInviteError_def is_addr_error_def is_dns_error_def is_op_error_def)
  then show ?thesis
    using connect_verdict_after_invite [of "NetOpError (Plain ''refused'')"] by auto
qed

end
