(* ===== verification/HeaderAttrs.thy ===== *)
theory HeaderAttrs
  imports CallTermination
begin

text \<open>
  SIP headers and participant attributes: the header lookup and the two mappings of
  \<open>pkg/sip/types.go\<close>, the header filter of the participant RPC in \<open>pkg/sip/rpc.go\<close>, and the media
  encryption option.  Header lists keep the order of the message; Go maps are association lists, whose
  order stands for the order a \<open>range\<close> happens to take.

  The canonical header form (\<open>sip.HeaderToLower\<close>) and the attribute prefixes of the protocol package
  are arguments.
\<close>

section \<open>Header lookup\<close>

fun GetHeader :: "(string \<Rightarrow> string) \<Rightarrow> smap \<Rightarrow> string \<Rightarrow> (string \<times> string) option" where
  "GetHeader htl [] name = None"
| "GetHeader htl (kv # h) name = (if htl (fst kv) = htl name then Some kv else GetHeader htl h name)"

section \<open>Headers to attributes\<close>

datatype header_opts = SIP_NO_HEADERS | SIP_X_HEADERS | SIP_ALL_HEADERS

definition headerToAttr :: "string \<Rightarrow> smap" where
  "headerToAttr pre = [
     (''X-Twilio-AccountSid'', pre @ ''twilio.accountSid''),
     (''X-Twilio-CallSid'', pre @ ''twilio.callSid''),
     (''X-call_leg_id'', pre @ ''telnyx.callLegID''),
     (''X-call_session_id'', pre @ ''telnyx.callSessionID''),
     (''X-Amzn-ConnectContactId'', pre @ ''amazon.contactId''),
     (''X-Amzn-ConnectInitialContactId'', pre @ ''amazon.initialContactId''),
     (''X-Amzn-SourceAccount'', pre @ ''amazon.sourceAccount''),
     (''X-Amzn-SourceArn'', pre @ ''amazon.sourceArn''),
     (''X-Amzn-TargetArn'', pre @ ''amazon.targetArn''),
     (''X-Lk-Test-Id'', ''lktest.id'')]"

text \<open>One iteration of the first loop, then one of the two mapping loops.\<close>

definition attr_of_header :: "string \<Rightarrow> header_opts \<Rightarrow> string \<times> string \<Rightarrow> smap \<Rightarrow> smap" where
  "attr_of_header hpre opts h attrs =
     (let name = to_lower (fst h) in
      if name = [] then attrs
      else if opts = SIP_X_HEADERS \<and> \<not> has_prefix name ''x-'' then attrs
      else mput (hpre @ name) (snd h) attrs)"

definition attr_of_mapping :: "(string \<Rightarrow> string) \<Rightarrow> smap \<Rightarrow> string \<times> string \<Rightarrow> smap \<Rightarrow> smap" where
  "attr_of_mapping htl headers m attrs =
     (case GetHeader htl headers (fst m) of None \<Rightarrow> attrs | Some h \<Rightarrow> mput (snd m) (snd h) attrs)"

text \<open>
  The signalling argument is the remote tag, the Call-ID and the remote headers of the dialog; without
  it the headers are passed in.
\<close>

definition HeadersToAttrs ::
  "(string \<Rightarrow> string) \<Rightarrow> string \<Rightarrow> string \<Rightarrow> smap \<Rightarrow> smap \<Rightarrow> header_opts
    \<Rightarrow> (string \<times> string \<times> smap) option \<Rightarrow> smap \<Rightarrow> smap" where
  "HeadersToAttrs htl hpre pre attrs hdrToAttr opts c headers0 =
     (let headers = (case c of None \<Rightarrow> headers0 | Some (_, _, hs) \<Rightarrow> hs);
          a1 = (if opts \<noteq> SIP_NO_HEADERS then fold (attr_of_header hpre opts) headers attrs else attrs);
          a2 = fold (attr_of_mapping htl headers) (headerToAttr pre) a1;
          a3 = fold (attr_of_mapping htl headers) hdrToAttr a2
      in case c of
           None \<Rightarrow> a3
         | Some (tag, cid, _) \<Rightarrow>
             let a4 = (if tag \<noteq> [] then mput (pre @ ''callTag'') tag a3 else a3)
             in if cid \<noteq> [] then mput (pre @ ''callIDFull'') cid a4 else a4)"

section \<open>Attributes to headers\<close>

definition header_of_attr :: "smap \<Rightarrow> string \<times> string \<Rightarrow> smap \<Rightarrow> smap" where
  "header_of_attr attrs m headers =
     (case map_of attrs (fst m) of None \<Rightarrow> headers | Some val \<Rightarrow> mput (snd m) val headers)"

definition AttrsToHeaders :: "smap \<Rightarrow> smap \<Rightarrow> smap \<Rightarrow> smap" where
  "AttrsToHeaders attrs attrToHdr headers =
     (if attrToHdr = [] then headers else fold (header_of_attr attrs) attrToHdr headers)"

section \<open>lk.sip.GetRemoteHeaders\<close>

definition getHeadersIgnore :: "string list" where
  "getHeadersIgnore =
     [''route'', ''record-route'', ''via'', ''supported'', ''accept'', ''allow'', ''allow-events'',
      ''content-type'', ''content-length'', ''content-encoding'', ''content-disposition'', ''cseq'',
      ''event'', ''expires'', ''session-expires'', ''min-se'', ''max-forwards'']"

definition rpc_header :: "string list option \<Rightarrow> string list \<Rightarrow> string \<times> string \<Rightarrow> smap \<Rightarrow> smap" where
  "rpc_header only skip h out =
     (let name = to_lower (fst h) in
      if name \<in> set getHeadersIgnore then out
      else if name \<in> set skip then out
      else if (case only of None \<Rightarrow> False | Some l \<Rightarrow> name \<notin> set l) then out
      else mput (fst h) (snd h) out)"

definition rpcGetHeaders :: "smap \<Rightarrow> string list \<Rightarrow> string list \<Rightarrow> smap" where
  "rpcGetHeaders headers incl excl =
     (let only = (if incl \<noteq> [] then Some (map to_lower incl) else None);
          skip = map to_lower excl
      in fold (rpc_header only skip) headers [])"

section \<open>Media encryption\<close>

datatype media_encryption = ENCRYPT_DISABLE | ENCRYPT_ALLOW | ENCRYPT_REQUIRE | ENCRYPT_OTHER int

datatype sdp_encryption = EncryptionNone | EncryptionAllow | EncryptionRequire

definition sdpEncryption :: "media_encryption \<Rightarrow> sdp_encryption \<times> go_error option" where
  "sdpEncryption e =
     (case e of
        ENCRYPT_DISABLE \<Rightarrow> (EncryptionNone, None)
      | ENCRYPT_ALLOW \<Rightarrow> (EncryptionAllow, None)
      | ENCRYPT_REQUIRE \<Rightarrow> (EncryptionRequire, None)
      | ENCRYPT_OTHER _ \<Rightarrow> (EncryptionAllow, Some (Plain ''invalid SIP media encryption type'')))"

section \<open>SelectValue\<close>

text \<open>\<open>r\<close> is the draw of \<open>rand.Float64\<close> and \<open>p\<close> the argument \<open>probElse\<close>, numbers of an ordered field.\<close>

definition SelectValue :: "'a \<Rightarrow> 'a \<Rightarrow> 'f::linordered_field \<Rightarrow> 'f \<Rightarrow> 'a" where
  "SelectValue thn els p r = (if p \<le> 0 then thn else if r < p then thn else els)"

definition SelectValueBool :: "bool \<Rightarrow> 'f::linordered_field \<Rightarrow> 'f \<Rightarrow> bool" where
  "SelectValueBool thn p r = SelectValue thn (\<not> thn) p r"

text \<open>Despite its name, \<open>probElse\<close> is the probability of the first value.\<close>

lemma SelectValue_prob: "0 < p \<Longrightarrow> SelectValue thn els p r = (if r < p then thn else els)"
  by (simp add: SelectValue_def)

section \<open>Lemmas\<close>

lemma rpc_header_step:
  "map_of (rpc_header only skip h out) k =
     (if fst h = k \<and> \<not> (to_lower k \<in> set getHeadersIgnore \<or> to_lower k \<in> set skip
         \<or> (case only of None \<Rightarrow> False | Some l \<Rightarrow> to_lower k \<notin> set l))
      then Some (snd h) else map_of out k)"
  by (cases only) (auto simp: rpc_header_def Let_def)

lemma map_of_rev_Cons:
  "map_of (rev (h # hs)) k =
     (case map_of (rev hs) k of Some v \<Rightarrow> Some v | None \<Rightarrow> if fst h = k then Some (snd h) else None)"
  by (cases h) (simp add: map_add_def split: option.splits)

lemma rpc_header_fold:
  "map_of (fold (rpc_header only skip) hs out) k =
     (if to_lower k \<in> set getHeadersIgnore \<or> to_lower k \<in> set skip
         \<or> (case only of None \<Rightarrow> False | Some l \<Rightarrow> to_lower k \<notin> set l)
      then map_of out k
      else case map_of (rev hs) k of Some v \<Rightarrow> Some v | None \<Rightarrow> map_of out k)"
proof (induction hs arbitrary: out)
  case (Cons h hs)
  show ?case
    unfolding fold_Cons comp_apply Cons.IH rpc_header_step map_of_rev_Cons
    by (simp split: option.splits)
qed simp

lemma attr_mapping_step:
  "map_of (attr_of_mapping htl hs m attrs) k =
     (case GetHeader htl hs (fst m) of
        Some h \<Rightarrow> if snd m = k then Some (snd h) else map_of attrs k
      | None \<Rightarrow> map_of attrs k)"
  by (simp add: attr_of_mapping_def split: option.splits)

lemma attr_mapping_other:
  "k \<notin> set (map snd ms) \<Longrightarrow> map_of (fold (attr_of_mapping htl hs) ms attrs) k = map_of attrs k"
  by (induction ms arbitrary: attrs) (auto simp: attr_mapping_step split: option.splits)

lemma attr_mapping_hit:
  assumes "(hdr, a) \<in> set ms" and "distinct (map snd ms)" and "GetHeader htl hs hdr = Some h"
  shows "map_of (fold (attr_of_mapping htl hs) ms attrs) a = Some (snd h)"
  using assms
proof (induction ms arbitrary: attrs)
  case (Cons m ms)
  show ?case
  proof (cases "m = (hdr, a)")
    case True
    then have "a \<notin> set (map snd ms)" using Cons.prems by auto
    then show ?thesis
      using True Cons.prems(3) attr_mapping_other [of a ms] by (simp add: attr_mapping_step)
  next
    case False
    then show ?thesis using Cons by auto
  qed
qed simp

section \<open>Properties\<close>

text \<open>
  The participant RPC shows a remote header exactly when it is not on the ignore list, not excluded
  and, if an include list is given, on that list, all compared without case; a shown header has the
  value of its last occurrence in the message.
\<close>

theorem rpcGetHeaders_exact:
  "map_of (rpcGetHeaders hs incl excl) k =
     (if to_lower k \<in> set getHeadersIgnore \<or> to_lower k \<in> to_lower ` set excl
         \<or> incl \<noteq> [] \<and> to_lower k \<notin> to_lower ` set incl
      then None else map_of (rev hs) k)"
  by (auto simp: rpcGetHeaders_def Let_def rpc_header_fold split: option.splits)

text \<open>
  A header the request asks to map always reaches its attribute: whatever other headers, the global
  mapping or the bulk mapping put under that name, the attribute ends with the value of the first
  header of that name.  Only the dialog's own tag and Call-ID attributes take precedence.
\<close>

theorem requested_header_mapped:
  assumes "(hdr, a) \<in> set hdrToAttr" and "distinct (map snd hdrToAttr)"
    and "GetHeader htl hs hdr = Some h" and "a \<noteq> pre @ ''callTag''" and "a \<noteq> pre @ ''callIDFull''"
  shows "map_of (HeadersToAttrs htl hpre pre attrs hdrToAttr opts (Some (tag, cid, hs)) hs0) a = Some (snd h)"
  using attr_mapping_hit [OF assms(1-3)] assms(4,5) by (simp add: HeadersToAttrs_def Let_def)

theorem requested_header_mapped_witness:
  "map_of (HeadersToAttrs to_lower ''sip.h.'' ''sip.'' [] [(''X-Id'', ''id'')] SIP_ALL_HEADERS
     (Some (''t'', ''c'', [(''x-id'', ''7''), (''X-ID'', ''8'')])) []) ''id'' = Some ''7''"
proof -
  have get: "GetHeader to_lower [(''x-id'', ''7''), (''X-ID'', ''8'')] ''X-Id'' = Some (''x-id'', ''7'')"
    by code_simp
  show ?thesis
    using get requested_header_mapped [of "''X-Id''" "''id''" "[(''X-Id'', ''id'')]" to_lower
      "[(''x-id'', ''7''), (''X-ID'', ''8'')]" "(''x-id'', ''7'')" "''sip.''" "''sip.h.''" "[]"
      SIP_ALL_HEADERS "''t''" "''c''" "[]"]
    by simp
qed

end
