(* ===== verification/SipUri.thy ===== *)
theory SipUri
  imports GoErrors
begin

text \<open>
  Addresses: the \<open>URI\<close> type of \<open>pkg/sip/types.go\<close> with its accessors and conversions, the choice of a
  transport and of the contact address (\<open>pkg/sip/protocol.go\<close>), and the request, From and To addresses
  an outbound call is built from (\<open>pkg/sip/client.go\<close>).

  \<open>sip.Uri\<close> belongs to the SIP library; \<open>sip_uri\<close> lists the fields the sources read and write, with the
  URI parameters as a map.  The library's URI parser (\<open>esip.ParseUri\<close>) and the lower-case name of a
  transport (\<open>SIPTransport.Name\<close>) are arguments.  A \<open>netip.AddrPort\<close> is an address, absent when it is
  not valid, and a 16-bit port.
\<close>

section \<open>Transports\<close>

datatype lk_transport = TR_AUTO | TR_UDP | TR_TCP | TR_TLS

type_synonym transport = string

abbreviation TransportUDP :: transport where "TransportUDP \<equiv> ''udp''"
abbreviation TransportTCP :: transport where "TransportTCP \<equiv> ''tcp''"
abbreviation TransportTLS :: transport where "TransportTLS \<equiv> ''tls''"

definition TransportFrom :: "lk_transport \<Rightarrow> transport" where
  "TransportFrom t =
     (case t of TR_UDP \<Rightarrow> TransportUDP | TR_TCP \<Rightarrow> TransportTCP | TR_TLS \<Rightarrow> TransportTLS | TR_AUTO \<Rightarrow> [])"

definition SIPTransportFrom :: "transport \<Rightarrow> lk_transport" where
  "SIPTransportFrom t =
     (if t = TransportUDP then TR_UDP else if t = TransportTCP then TR_TCP
      else if t = TransportTLS then TR_TLS else TR_AUTO)"

section \<open>Addresses\<close>

record addr_port =
  ap_addr :: "string option"
  ap_port :: u16

record uri =
  u_user :: string
  u_host :: string
  u_addr :: addr_port
  u_transport :: transport

record sip_uri =
  su_scheme :: string
  su_user :: string
  su_host :: string
  su_port :: int
  su_params :: smap

record lk_sip_uri =
  lu_user :: string
  lu_host :: string
  lu_ip :: string
  lu_port :: u32
  lu_transport :: lk_transport

definition zero_addr :: addr_port where
  "zero_addr = \<lparr>ap_addr = None, ap_port = 0\<rparr>"

definition addr_string :: "addr_port \<Rightarrow> string" where
  "addr_string a = (case ap_addr a of None \<Rightarrow> ''invalid IP'' | Some s \<Rightarrow> s)"

definition param :: "string \<Rightarrow> smap \<Rightarrow> string" where
  "param k ps = (case map_of ps k of None \<Rightarrow> [] | Some v \<Rightarrow> v)"

definition transportFromURI :: "sip_uri \<Rightarrow> transport" where
  "transportFromURI u =
     (let tr = param ''transport'' (su_params u) in if tr \<noteq> [] then to_lower tr else [])"

definition Normalize :: "uri \<Rightarrow> uri" where
  "Normalize u =
     (case split_host_port (u_host u) of
        None \<Rightarrow> u
      | Some (addr, sport) \<Rightarrow>
          (case atoi sport of
             (port, None) \<Rightarrow>
               u\<lparr>u_host := addr, u_addr := \<lparr>ap_addr = ap_addr (u_addr u), ap_port = of_int port\<rparr>\<rparr>
           | (_, Some _) \<Rightarrow> u))"

definition ConvertURI :: "sip_uri \<Rightarrow> uri" where
  "ConvertURI u =
     (let tr = transportFromURI u in
      Normalize \<lparr>u_user = su_user u, u_host = su_host u,
        u_addr = \<lparr>ap_addr = None, ap_port = of_int (su_port u)\<rparr>,
        u_transport = (if tr \<noteq> [] then tr else TransportUDP)\<rparr>)"

definition CreateURIFromUserAndAddress :: "string \<Rightarrow> string \<Rightarrow> transport \<Rightarrow> uri" where
  "CreateURIFromUserAndAddress user address tr =
     Normalize \<lparr>u_user = user, u_host = address, u_addr = zero_addr, u_transport = tr\<rparr>"

definition GetHost :: "uri \<Rightarrow> string" where
  "GetHost u = (if u_host u = [] then addr_string (u_addr u) else u_host u)"

definition GetPort :: "uri \<Rightarrow> int" where
  "GetPort u =
     (let port = uint (ap_port (u_addr u)) in
      if port = 0 then (if u_transport u = TransportTLS then 5061 else 5060) else port)"

definition GetPortOrNone :: "uri \<Rightarrow> int" where
  "GetPortOrNone u = (if GetPort u = 5060 then 0 else GetPort u)"

definition GetHostPort :: "uri \<Rightarrow> string" where
  "GetHostPort u = GetHost u @ '':'' @ itoa (GetPort u)"

definition GetDest :: "uri \<Rightarrow> string" where
  "GetDest u =
     (case ap_addr (u_addr u) of None \<Rightarrow> u_host u | Some a \<Rightarrow> a) @ '':'' @ itoa (GetPort u)"

definition GetURI :: "uri \<Rightarrow> sip_uri" where
  "GetURI u =
     \<lparr>su_scheme = [], su_user = u_user u, su_host = GetHost u, su_port = uint (ap_port (u_addr u)),
      su_params = (if u_transport u \<noteq> [] then mput ''transport'' (u_transport u) [] else [])\<rparr>"

definition GetContactURI :: "uri \<Rightarrow> sip_uri" where
  "GetContactURI u =
     (let su = GetURI u in
      if u_transport u = TransportUDP \<or> u_transport u = TransportTCP then
        (case ap_addr (u_addr u) of None \<Rightarrow> su | Some a \<Rightarrow> su\<lparr>su_host := a\<rparr>)
      else su)"

definition URI_ToSIPUri :: "uri \<Rightarrow> lk_sip_uri" where
  "URI_ToSIPUri u =
     \<lparr>lu_user = u_user u, lu_host = GetHost u,
      lu_ip = (case ap_addr (u_addr u) of None \<Rightarrow> [] | Some a \<Rightarrow> a),
      lu_port = of_int (GetPort u), lu_transport = SIPTransportFrom (u_transport u)\<rparr>"

definition ToSIPUri :: "string \<Rightarrow> sip_uri \<Rightarrow> lk_sip_uri" where
  "ToSIPUri ip u =
     \<lparr>lu_user = su_user u, lu_host = su_host u, lu_ip = ip, lu_port = of_int (su_port u),
      lu_transport = SIPTransportFrom (param ''transport'' (su_params u))\<rparr>"

section \<open>Transport and contact address of a request\<close>

text \<open>What the two functions read of a request: the top Via's transport, the request URI, the To header.\<close>

record tr_req =
  tq_via :: "string option"
  tq_recipient :: sip_uri
  tq_to :: "(sip_uri \<times> smap) option"

definition to_transport :: "tr_req \<Rightarrow> transport" where
  "to_transport req =
     (case tq_to req of
        None \<Rightarrow> []
      | Some (addr, ps) \<Rightarrow>
          if transportFromURI addr \<noteq> [] then transportFromURI addr
          else if param ''transport'' ps \<noteq> [] then to_lower (param ''transport'' ps) else [])"

definition callTransportFromReq :: "tr_req \<Rightarrow> transport" where
  "callTransportFromReq req =
     (if to_transport req \<noteq> [] then to_transport req
      else case tq_via req of Some v \<Rightarrow> to_lower v | None \<Rightarrow> [])"

definition legTransportFromReq :: "tr_req \<Rightarrow> transport" where
  "legTransportFromReq req =
     (case tq_via req of
        Some v \<Rightarrow> to_lower v
      | None \<Rightarrow> if transportFromURI (tq_recipient req) \<noteq> [] then transportFromURI (tq_recipient req)
                else to_transport req)"

record contact_conf =
  cf_sip_port :: int
  cf_tls_port :: "int option"
  cf_hostname :: string

definition transportPort :: "contact_conf \<Rightarrow> transport \<Rightarrow> int" where
  "transportPort c t =
     (if t = TransportTLS then (case cf_tls_port c of Some p \<Rightarrow> p | None \<Rightarrow> cf_sip_port c)
      else cf_sip_port c)"

definition getContactURI :: "contact_conf \<Rightarrow> string option \<Rightarrow> transport \<Rightarrow> uri" where
  "getContactURI c ip t =
     \<lparr>u_user = [], u_host = (if t = TransportTLS then cf_hostname c else []),
      u_addr = \<lparr>ap_addr = ip, ap_port = of_int (transportPort c t)\<rparr>, u_transport = t\<rparr>"

section \<open>Addresses of an outbound call\<close>

definition setUriTransport :: "(lk_transport \<Rightarrow> string) \<Rightarrow> sip_uri \<Rightarrow> lk_transport \<Rightarrow> sip_uri" where
  "setUriTransport name p tr =
     (if tr \<noteq> TR_AUTO then p\<lparr>su_params := mput ''transport'' (name tr) (su_params p)\<rparr> else p)"

definition sip_scheme :: sip_uri where
  "sip_scheme = \<lparr>su_scheme = ''sip'', su_user = [], su_host = [], su_port = 0, su_params = []\<rparr>"

definition buildLegacyURI ::
  "(lk_transport \<Rightarrow> string) \<Rightarrow> string \<Rightarrow> string \<Rightarrow> lk_transport \<Rightarrow> go_error + sip_uri" where
  "buildLegacyURI name user addr tr =
     (if user = [] then Inl (Plain ''number must be set'')
      else if contains user ''@'' then
        Inl (Plain ''should be a phone number or SIP user, not a full SIP URI'')
      else if addr = [] then Inl (Plain ''address must be set'')
      else if has_prefix addr ''sip:'' \<or> has_prefix addr ''sips:'' then
        Inl (Plain ''address must be a hostname without 'sip:' prefix'')
      else if contains addr ''transport='' then
        Inl (Plain ''legacy address must not contain parameters; use transport field'')
      else if contains_any addr '';='' then Inl (Plain ''legacy address must not contain parameters'')
      else
        let p = (setUriTransport name sip_scheme tr)\<lparr>su_user := user\<rparr> in
        case split_host_port addr of
          Some (host, sport) \<Rightarrow>
            if sport \<noteq> [] then
              (case atoi sport of
                 (_, Some _) \<Rightarrow> Inl (Plain ''invalid port in hostname'')
               | (port, None) \<Rightarrow> Inr (p\<lparr>su_host := host, su_port := port\<rparr>))
            else Inr (p\<lparr>su_host := addr\<rparr>)
        | None \<Rightarrow> Inr (p\<lparr>su_host := addr\<rparr>))"

definition buildRawURI ::
  "(string \<Rightarrow> sip_uri \<Rightarrow> sip_uri option) \<Rightarrow> (lk_transport \<Rightarrow> string) \<Rightarrow> string \<Rightarrow> lk_transport
    \<Rightarrow> go_error + sip_uri" where
  "buildRawURI parse name raw tr =
     (let n = length raw;
          raw' = (if n \<noteq> 0 \<and> raw ! 0 = CHR ''<'' \<and> raw ! (n - 1) = CHR ''>'' then take (n - 2) (drop 1 raw)
                  else raw)
      in case parse raw' sip_scheme of
           None \<Rightarrow> Inl (Plain ''invalid request URI'')
         | Some p \<Rightarrow> Inr (setUriTransport name p tr))"

definition merge_transport :: "lk_transport \<Rightarrow> lk_transport \<Rightarrow> lk_transport option" where
  "merge_transport tr ut =
     (if tr \<noteq> ut then
        (if ut = TR_AUTO then Some tr else if tr = TR_AUTO then Some ut else None)
      else Some tr)"

definition buildValuesURI ::
  "(lk_transport \<Rightarrow> string) \<Rightarrow> lk_sip_uri \<Rightarrow> lk_transport \<Rightarrow> go_error + sip_uri" where
  "buildValuesURI name u tr =
     (case merge_transport tr (lu_transport u) of
        None \<Rightarrow> Inl (Plain ''different transports specified'')
      | Some tr' \<Rightarrow>
          if lu_user u = [] then Inl (Plain ''username or number must be set'')
          else if lu_host u = [] \<and> lu_ip u = [] then Inl (Plain ''host or ip must be set'')
          else
            let host = (if lu_host u = [] then lu_ip u else lu_host u);
                p = (setUriTransport name sip_scheme tr')\<lparr>su_user := lu_user u, su_host := host\<rparr>
            in (case split_host_port host of
                  Some (_, sport) \<Rightarrow>
                    if sport \<noteq> [] then Inl (Plain ''host or ip must not contain port'')
                    else Inr (p\<lparr>su_port := uint (lu_port u)\<rparr>)
                | None \<Rightarrow> Inr (p\<lparr>su_port := uint (lu_port u)\<rparr>)))"

text \<open>\<open>SIPRequestDest\<close> and \<open>SIPNamedDest\<close>: the URI oneof, with a display name in the second.\<close>

datatype dest_uri = DestRaw string | DestValues lk_sip_uri | DestUnset

record named_dest =
  nd_uri :: dest_uri
  nd_display :: string

definition buildRequestURI ::
  "(string \<Rightarrow> sip_uri \<Rightarrow> sip_uri option) \<Rightarrow> (lk_transport \<Rightarrow> string) \<Rightarrow> dest_uri option \<Rightarrow> string \<Rightarrow> string
    \<Rightarrow> lk_transport \<Rightarrow> go_error + sip_uri" where
  "buildRequestURI parse name u legacyUser legacyAddr tr =
     (case u of
        None \<Rightarrow> buildLegacyURI name legacyUser legacyAddr tr
      | Some (DestRaw raw) \<Rightarrow> buildRawURI parse name raw tr
      | Some (DestValues v) \<Rightarrow> buildValuesURI name v tr
      | Some DestUnset \<Rightarrow> Inl (Plain ''invalid request URI type''))"

definition buildFromToURI ::
  "(string \<Rightarrow> sip_uri \<Rightarrow> sip_uri option) \<Rightarrow> (lk_transport \<Rightarrow> string) \<Rightarrow> named_dest option \<Rightarrow> string \<Rightarrow> string
    \<Rightarrow> lk_transport \<Rightarrow> go_error + sip_uri" where
  "buildFromToURI parse name u legacyUser legacyAddr tr =
     (case u of
        None \<Rightarrow> buildLegacyURI name legacyUser legacyAddr tr
      | Some d \<Rightarrow>
          (case nd_uri d of
             DestRaw raw \<Rightarrow> buildRawURI parse name raw tr
           | DestValues v \<Rightarrow> buildValuesURI name v tr
           | DestUnset \<Rightarrow> Inl (Plain ''invalid URI type'')))"

text \<open>A From or To header: display name and address.\<close>

record name_addr =
  na_display :: string
  na_address :: sip_uri

definition buildFromHeader ::
  "(string \<Rightarrow> sip_uri \<Rightarrow> sip_uri option) \<Rightarrow> (lk_transport \<Rightarrow> string) \<Rightarrow> named_dest option \<Rightarrow> string option
    \<Rightarrow> string \<Rightarrow> string \<Rightarrow> lk_transport \<Rightarrow> go_error + name_addr" where
  "buildFromHeader parse name u legacyName legacyUser legacyAddr tr =
     (case buildFromToURI parse name u legacyUser legacyAddr tr of
        Inl e \<Rightarrow> Inl e
      | Inr su \<Rightarrow>
          Inr \<lparr>na_display =
                 (case u of Some d \<Rightarrow> nd_display d
                  | None \<Rightarrow> (case legacyName of Some n \<Rightarrow> n | None \<Rightarrow> su_user su)),
               na_address = su\<rparr>)"

definition isSIPUserToken :: "string \<Rightarrow> bool" where
  "isSIPUserToken s =
     list_all (\<lambda>c. let n = (of_char c :: nat) in
       48 \<le> n \<and> n \<le> 57 \<or> 97 \<le> n \<and> n \<le> 122 \<or> 65 \<le> n \<and> n \<le> 90
       \<or> n \<in> {45, 46, 33, 37, 42, 95, 43, 96, 39, 126}) s"

definition buildToHeader ::
  "(string \<Rightarrow> sip_uri \<Rightarrow> sip_uri option) \<Rightarrow> (lk_transport \<Rightarrow> string) \<Rightarrow> named_dest option \<Rightarrow> string
    \<Rightarrow> string \<Rightarrow> string \<Rightarrow> lk_transport \<Rightarrow> go_error + name_addr" where
  "buildToHeader parse name u userOverride legacyUser legacyAddr tr =
     (if u \<noteq> None \<and> legacyUser \<noteq> [] then Inl (Plain ''cannot use both CallTo and SipToHeader'')
      else case buildFromToURI parse name u legacyUser legacyAddr tr of
        Inl e \<Rightarrow> Inl e
      | Inr su \<Rightarrow>
          if userOverride \<noteq> [] \<and> \<not> isSIPUserToken userOverride then
            Inl (Plain ''to user override should be a phone number or SIP user, not a full SIP URI'')
          else
            Inr \<lparr>na_display = (case u of Some d \<Rightarrow> nd_display d | None \<Rightarrow> []),
                 na_address = (if userOverride \<noteq> [] then su\<lparr>su_user := userOverride\<rparr> else su)\<rparr>)"

text \<open>The fields of \<open>InternalCreateSIPParticipantRequest\<close> that name the callee and the caller.\<close>

record dial_req =
  dr_request_uri :: "dest_uri option"
  dr_call_to :: string
  dr_address :: string
  dr_transport :: lk_transport
  dr_to_header :: "named_dest option"
  dr_to_override :: string
  dr_hostname :: string
  dr_from_header :: "named_dest option"
  dr_display :: "string option"
  dr_number :: string

definition buildOutboundHeaders ::
  "(string \<Rightarrow> sip_uri \<Rightarrow> sip_uri option) \<Rightarrow> (lk_transport \<Rightarrow> string) \<Rightarrow> dial_req \<Rightarrow> string
    \<Rightarrow> go_error + (sip_uri \<times> name_addr \<times> name_addr)" where
  "buildOutboundHeaders parse name req defaultHost =
     (case buildRequestURI parse name (dr_request_uri req) (dr_call_to req) (dr_address req) (dr_transport req) of
        Inl e \<Rightarrow> Inl (Psrpc InvalidArgument (Wrapped ''invalid request URI'' e))
      | Inr uri \<Rightarrow>
     (case buildToHeader parse name (dr_to_header req) (dr_to_override req) (dr_call_to req) (dr_address req)
             (dr_transport req) of
        Inl e \<Rightarrow> Inl (Psrpc InvalidArgument (Wrapped ''invalid To header'' e))
      | Inr to \<Rightarrow>
     (case buildFromHeader parse name (dr_from_header req) (dr_display req) (dr_number req)
             (if dr_hostname req = [] then defaultHost else dr_hostname req) (dr_transport req) of
        Inl e \<Rightarrow> Inl (Psrpc InvalidArgument (Wrapped ''invalid From header'' e))
      | Inr from \<Rightarrow> Inr (uri, from, to))))"

section \<open>Lemmas\<close>

lemma transport_round_trip: "SIPTransportFrom (TransportFrom t) = t"
  by (cases t) (simp_all add: TransportFrom_def SIPTransportFrom_def)

lemma GetPort_range: "0 < GetPort u \<and> GetPort u < 65536"
proof -
  have "0 \<le> uint (ap_port (u_addr u))" "uint (ap_port (u_addr u)) < 2 ^ 16"
    using uint_bounded [of "ap_port (u_addr u)"] by auto
  then show ?thesis by (simp add: GetPort_def Let_def order.strict_iff_order)
qed

lemma su_params_setUriTransport:
  "su_params (setUriTransport name sip_scheme tr) = (if tr = TR_AUTO then [] else [(''transport'', name tr)])"
  by (simp add: setUriTransport_def sip_scheme_def)

lemma buildLegacyURI_ok:
  assumes "buildLegacyURI name user addr tr = Inr p"
  shows "user \<noteq> [] \<and> su_user p = user \<and> \<not> contains user ''@''
    \<and> su_params p = (if tr = TR_AUTO then [] else [(''transport'', name tr)])
    \<and> (su_host p = addr \<or> (\<exists>sport. split_host_port addr = Some (su_host p, sport) \<and> atoi sport = (su_port p, None)))"
  using assms
  by (auto simp: buildLegacyURI_def Let_def su_params_setUriTransport
      split: if_splits option.splits prod.splits)

lemma split_host_port_colon: "split_host_port h = None" if "CHR '':'' \<notin> set h"
  using cut_on_absent [of "CHR '':''" "rev h"] that by (simp add: split_host_port_def)

lemma atoi_itoa_nat: "n < 2 ^ 63 \<Longrightarrow> atoi (itoa_nat n) = (int n, None)"
  unfolding atoi_def by (rule parse_int_itoa_nat) simp

lemma contains_subset: "contains s p \<Longrightarrow> set p \<subseteq> set s"
proof (induction s p rule: contains.induct)
  case (2 x xs p)
  have "has_prefix (x # xs) p \<Longrightarrow> set p \<subseteq> set (x # xs)"
    unfolding has_prefix_def by (metis set_take_subset)
  then show ?case using 2 by auto
qed simp

text \<open>A host name as it appears in an address: no separators, not itself a scheme.\<close>

definition plain_host :: "string \<Rightarrow> bool" where
  "plain_host h = (h \<noteq> [] \<and> h \<noteq> ''sip'' \<and> h \<noteq> ''sips'' \<and> set h \<inter> set '':[];='' = {})"

lemma plain_host_chars:
  assumes "plain_host h" and "c \<in> set '':[];=''"
  shows "c \<notin> set h"
  using assms by (auto simp: plain_host_def)

lemma prefix_colon:
  assumes "CHR '':'' \<notin> set h" and "CHR '':'' \<notin> set q" and "has_prefix (h @ CHR '':'' # r) (q @ '':'')"
  shows "h = q"
proof -
  have "cut_on CHR '':'' (h @ CHR '':'' # r) = (h, Some r)"
    using assms(1) by (rule cut_on_append)
  moreover obtain t where "h @ CHR '':'' # r = q @ CHR '':'' # t"
    using assms(3) unfolding has_prefix_def
    by (metis append_take_drop_id append.assoc append_Cons append_Nil)
  ultimately show ?thesis using cut_on_append [OF assms(2)] by simp
qed

lemma legacy_host_port:
  assumes "user \<noteq> []" and "\<not> contains user ''@''" and "plain_host h" and "p < 2 ^ 63"
  shows "buildLegacyURI name user (h @ CHR '':'' # itoa_nat p) tr =
    Inr ((setUriTransport name sip_scheme tr)\<lparr>su_user := user, su_host := h, su_port := int p\<rparr>)"
proof -
  let ?a = "h @ CHR '':'' # itoa_nat p"
  note h = plain_host_chars [OF assms(3)]
  have np: "\<not> has_prefix ?a (''sip'' @ '':'')" "\<not> has_prefix ?a (''sips'' @ '':'')"
    using assms(3) prefix_colon [of h "''sip''" "itoa_nat p"] prefix_colon [of h "''sips''" "itoa_nat p"]
    by (auto simp: plain_host_def)
  have nd: "CHR ''='' \<notin> set (itoa_nat p)" "CHR '';'' \<notin> set (itoa_nat p)"
    using itoa_nat_set [of "CHR ''=''" p] itoa_nat_set [of "CHR '';''" p] by (auto simp: is_digit_def)
  have ne: "CHR ''='' \<notin> set ?a" "CHR '';'' \<notin> set ?a"
    using h [of "CHR ''=''"] h [of "CHR '';''"] nd by simp_all
  have "CHR ''='' \<in> set ''transport=''" by simp
  then have nt: "\<not> contains ?a ''transport=''"
    using ne(1) contains_subset [of ?a "''transport=''"] by blast
  have na: "\<not> contains_any ?a '';=''"
    using ne unfolding contains_any_def list_ex_iff by auto
  have sp: "split_host_port ?a = Some (h, itoa_nat p)"
    using h by (intro split_host_port_print) simp_all
  show ?thesis
    using assms(1,2) np nt na by (simp add: buildLegacyURI_def sp atoi_itoa_nat [OF assms(4)] Let_def)
qed

section \<open>Properties\<close>



end
