(* ===== verification/SipMessage.thy ===== *)
theory SipMessage
  imports HeaderAttrs SipUri
begin

text \<open>
  SIP messages as the dialogs of the bridge see them, and the requests both kinds of dialog build
  (\<open>setCSeq\<close> and \<open>NewReferRequest\<close> of \<open>pkg/sip/protocol.go\<close>).

  Responses and requests are described by what the code puts into them.  What the SIP library copies
  into a response from its request, and the BYE it builds from both, is read through \<open>sip_lib\<close>.  The
  random branch of a Via header is left out.  Headers the sources treat by kind (Via, Route,
  Record-Route, From, To, CSeq, Contact) have a field each, in message order; \<open>PrependHeader\<close> adds at
  the front of the field, \<open>AppendHeader\<close> at its end.
\<close>

section \<open>Messages\<close>

record via =
  via_transport :: string
  via_host :: string
  via_port :: int

record invite =
  iv_call_id :: "string option"
  iv_from :: "(sip_uri \<times> smap option) option"
  iv_to :: "(sip_uri \<times> smap option) option"
  iv_vias :: "via list"
  iv_recipient :: sip_uri
  iv_cseq :: "u32 option"
  iv_contact :: "sip_uri option"
  iv_record_route :: "sip_uri list"
  iv_route :: "sip_uri list"
  iv_transport :: string
  iv_source :: string
  iv_destination :: string
  iv_headers :: smap
  iv_ctype :: "string option"
  iv_body :: string

record sip_response =
  rp_status :: int
  rp_reason :: string
  rp_body :: string
  rp_ctype :: string
  rp_allow :: bool
  rp_contact :: "sip_uri option"
  rp_record_route :: "sip_uri option"
  rp_headers :: smap

record sip_request =
  rq_method :: string
  rq_recipient :: sip_uri
  rq_source :: string
  rq_destination :: string
  rq_transport :: string
  rq_from :: "(sip_uri \<times> smap) option"
  rq_to :: "(sip_uri \<times> smap) option"
  rq_vias :: "via list"
  rq_routes :: "sip_uri list"
  rq_record_routes :: "sip_uri list"
  rq_cseq :: "u32 option"
  rq_contact :: "sip_uri option"
  rq_headers :: smap

text \<open>The library's view of a response built by \<open>NewResponseFromRequest\<close>, and \<open>NewByeRequest\<close>.\<close>

record resp_view =
  rv_source :: string
  rv_destination :: string
  rv_record_route :: "sip_uri list"
  rv_to :: "(sip_uri \<times> smap) option"

record sip_lib =
  lib_view :: "invite \<Rightarrow> sip_response \<Rightarrow> resp_view"
  lib_bye :: "invite \<Rightarrow> sip_response \<Rightarrow> sip_request"

definition with_params :: "sip_uri \<times> smap option \<Rightarrow> sip_uri \<times> smap" where
  "with_params h = (fst h, case snd h of None \<Rightarrow> [] | Some p \<Rightarrow> p)"

definition tr_of :: "invite \<Rightarrow> tr_req" where
  "tr_of iv = \<lparr>tq_via = (case iv_vias iv of [] \<Rightarrow> None | v # _ \<Rightarrow> Some (via_transport v)), tq_recipient = iv_recipient iv,
     tq_to = map_option with_params (iv_to iv)\<rparr>"

section \<open>Requests within a dialog\<close>

definition setCSeq :: "sip_request \<Rightarrow> u32 \<Rightarrow> sip_request" where
  "setCSeq req cseq = req\<lparr>rq_cseq := Some cseq\<rparr>"

text \<open>
  \<open>NewReferRequest\<close>.  \<open>None\<close> is the panic on an INVITE without a Via or a CSeq header, whose pointers the
  function uses unchecked.
\<close>

definition NewReferRequest ::
  "invite \<Rightarrow> resp_view \<Rightarrow> sip_uri \<Rightarrow> string \<Rightarrow> smap \<Rightarrow> sip_request option" where
  "NewReferRequest iv rv contact referTo headers =
     (case (iv_vias iv, iv_cseq iv) of
        (_ # _, Some n) \<Rightarrow>
          Some \<lparr>rq_method = ''REFER'', rq_recipient = iv_recipient iv, rq_source = iv_source iv,
            rq_destination = iv_destination iv, rq_transport = iv_transport iv,
            rq_from = map_option with_params (iv_from iv), rq_to = rv_to rv,
            rq_vias = iv_vias iv, rq_routes = iv_route iv,
            rq_record_routes = (if iv_route iv \<noteq> [] then [] else rev (rv_record_route rv)),
            rq_cseq = Some (n + 1), rq_contact = Some contact,
            rq_headers = [(''Max-Forwards'', ''70''), (''Refer-To'', referTo),
              (''Allow'', ''INVITE, ACK, CANCEL, BYE, NOTIFY, REFER, MESSAGE, OPTIONS, INFO, SUBSCRIBE'')] @ headers\<rparr>
      | _ \<Rightarrow> None)"

text \<open>
  \<open>fillHeaders\<close>: the argument is the room participant's attributes and the attribute mapping, absent
  while the dialog has no call or the call no room.
\<close>

definition fillHeaders :: "(smap \<times> smap) option \<Rightarrow> smap \<Rightarrow> smap" where
  "fillHeaders fh headers =
     (case fh of
        None \<Rightarrow> headers
      | Some (attrs, attrsToHdr) \<Rightarrow>
          if attrsToHdr = [] then headers else AttrsToHeaders attrs attrsToHdr headers)"

end
