(* ===== verification/InboundDialog.thy ===== *)
theory InboundDialog
  imports SipMessage
begin

text \<open>
  The SIP side of an inbound call, \<open>sipInbound\<close> of \<open>pkg/sip/inbound.go\<close>: creating the dialog from an
  INVITE, provisional and final responses, ringing, the 200 with its retransmissions, BYE and REFER
  requests and the ways to close the dialog.  The state is the record \<open>sip_inbound\<close>; everything the
  code sends is appended to its trace.

  The outcome of \<open>inviteTx.Respond\<close> and of each wait for an ACK is an input of \<open>Accept\<close>.
\<close>

section \<open>State\<close>

record inbound_conf =
  ic_contact :: contact_conf
  ic_signaling_ip :: string
  ic_add_record_route :: bool
  ic_wait_ack :: bool
  ic_hide_port :: bool
  ic_rejected_cache :: bool

datatype effect =
    TxRespond sip_response
  | TxTerminate
  | CancelOK
  | ByeOK
  | SendBye sip_request
  | SendRefer sip_request
  | CacheRejection "string \<times> string" int string

record sip_inbound =
  si_id :: string
  si_tag :: string
  si_call_id :: string
  si_invite :: "invite option"
  si_invite_cseq :: u32
  si_tx :: bool
  si_contact :: sip_uri
  si_from :: "sip_uri \<times> smap"
  si_to :: "sip_uri \<times> smap"
  si_leg_tr :: transport
  si_last_sdp :: string
  si_invite_ok :: "sip_response option"
  si_next_cseq :: u32
  si_refer_cseq :: u32
  si_ringing :: bool
  si_ringer :: bool
  si_acked :: bool
  si_cancelled :: bool
  si_trace :: "effect list"

definition emit :: "effect \<Rightarrow> sip_inbound \<Rightarrow> sip_inbound" where
  "emit e s = s\<lparr>si_trace := si_trace s @ [e]\<rparr>"

text \<open>
  \<open>newInbound\<close>.  \<open>cached\<close> is the entry of \<open>provisionalInvites\<close> for the Call-ID and the From tag, \<open>fresh\<close>
  the identifier \<open>lksip.NewCallID\<close> returns.
\<close>

definition newInbound ::
  "inbound_conf \<Rightarrow> string option \<Rightarrow> string \<Rightarrow> (string \<times> string \<Rightarrow> string option) \<Rightarrow> invite \<Rightarrow> go_error + sip_inbound" where
  "newInbound conf ip fresh cached iv =
     (case iv_call_id iv of
        None \<Rightarrow> Inl (Plain ''no Call-ID header in INVITE'')
      | Some sipCallID \<Rightarrow>
      if sipCallID = [] then Inl (Plain ''no Call-ID header in INVITE'')
      else case iv_from iv of
        None \<Rightarrow> Inl (Plain ''no From header in INVITE'')
      | Some (_, None) \<Rightarrow> Inl (Plain ''no tag in From in INVITE'')
      | Some (fromAddr, Some fps) \<Rightarrow>
      if param ''tag'' fps = [] then Inl (Plain ''no tag in From in INVITE'')
      else case iv_to iv of
        None \<Rightarrow> Inl (Plain ''no To header in INVITE'')
      | Some (toAddr, tps0) \<Rightarrow>
          let fromTag = param ''tag'' fps;
              tps = (case tps0 of None \<Rightarrow> [] | Some p \<Rightarrow> p);
              given = param ''tag'' tps;
              toTag = (if given \<noteq> [] then given
                       else case cached (sipCallID, fromTag) of
                         Some t \<Rightarrow> if t \<noteq> [] then t else fresh
                       | None \<Rightarrow> fresh);
              tps' = (if given \<noteq> [] then tps else mput ''tag'' toTag tps);
              legTr = legTransportFromReq (tr_of iv)
          in Inr \<lparr>si_id = toTag, si_tag = fromTag, si_call_id = sipCallID, si_invite = Some iv,
                  si_invite_cseq = (case iv_cseq iv of None \<Rightarrow> 0 | Some n \<Rightarrow> n), si_tx = True,
                  si_contact = GetContactURI (getContactURI (ic_contact conf) ip legTr),
                  si_from = (fromAddr, fps), si_to = (toAddr, tps'), si_leg_tr = legTr,
                  si_last_sdp = [], si_invite_ok = None,
                  si_next_cseq = (case iv_cseq iv of None \<Rightarrow> 0 | Some n \<Rightarrow> n + 1),
                  si_refer_cseq = 0, si_ringing = False, si_ringer = False, si_acked = False,
                  si_cancelled = False, si_trace = []\<rparr>)"

section \<open>Responses\<close>

definition stopRinging :: "sip_inbound \<Rightarrow> sip_inbound" where
  "stopRinging s = (if si_ringing s then s\<lparr>si_ringing := False\<rparr> else s)"

definition drop_dialog :: "sip_inbound \<Rightarrow> sip_inbound" where
  "drop_dialog s =
     (let s1 = stopRinging s;
          s2 = (if si_tx s1 then emit TxTerminate s1 else s1)
      in s2\<lparr>si_tx := False, si_invite := None, si_invite_ok := None, si_next_cseq := 0\<rparr>)"

definition addExtraHeaders :: "inbound_conf \<Rightarrow> sip_inbound \<Rightarrow> sip_response \<Rightarrow> sip_response" where
  "addExtraHeaders conf s r =
     (if ic_add_record_route conf
      then r\<lparr>rp_record_route := Some ((si_contact s)\<lparr>su_params := mput ''lr'' [] (su_params (si_contact s))\<rparr>)\<rparr>
      else r)"

definition plain_response :: "int \<Rightarrow> string \<Rightarrow> string \<Rightarrow> sip_response" where
  "plain_response status reason body =
     \<lparr>rp_status = status, rp_reason = reason, rp_body = body, rp_ctype = [], rp_allow = False,
      rp_contact = None, rp_record_route = None, rp_headers = []\<rparr>"

definition respondWithData ::
  "inbound_conf \<Rightarrow> int \<Rightarrow> string \<Rightarrow> string \<Rightarrow> string \<Rightarrow> sip_inbound \<Rightarrow> sip_inbound" where
  "respondWithData conf status reason ctype body s =
     (if \<not> si_tx s then s
      else
        let r = (plain_response status reason body)\<lparr>rp_ctype := ctype, rp_allow := True,
                  rp_contact := (if status \<ge> 200 then Some (si_contact s) else None)\<rparr>
        in emit (TxRespond (addExtraHeaders conf s r)) s)"

definition respond :: "inbound_conf \<Rightarrow> int \<Rightarrow> string \<Rightarrow> sip_inbound \<Rightarrow> sip_inbound" where
  "respond conf status reason s = respondWithData conf status reason [] [] s"

definition RespondAndDrop :: "inbound_conf \<Rightarrow> int \<Rightarrow> string \<Rightarrow> sip_inbound \<Rightarrow> sip_inbound" where
  "RespondAndDrop conf status reason s =
     (let s1 = drop_dialog (respond conf status reason (stopRinging s)) in
      if ic_rejected_cache conf \<and> status \<ge> 300 \<and> si_call_id s1 \<noteq> []
      then emit (CacheRejection (si_call_id s1, si_tag s1) status reason) s1 else s1)"

definition Processing :: "inbound_conf \<Rightarrow> sip_inbound \<Rightarrow> sip_inbound" where
  "Processing conf s = respond conf 100 ''Processing'' s"

definition sendRinging :: "inbound_conf \<Rightarrow> sip_inbound \<Rightarrow> sip_inbound" where
  "sendRinging conf s = respond conf 180 ''Ringing'' s"

definition attachTag :: "sip_inbound \<Rightarrow> sip_inbound" where
  "attachTag s = s\<lparr>si_to := (fst (si_to s), mput ''tag'' (si_id s) (snd (si_to s)))\<rparr>"

text \<open>
  \<open>StartRinging\<close>: \<open>None\<close> is the panic of \<open>tx.Cancels()\<close> on a nil transaction.  The goroutine it starts
  is \<open>si_ringer\<close>; \<open>ring_tick\<close>, \<open>ring_cancel\<close> and \<open>ring_stop\<close> are the three cases of its select.
\<close>

definition StartRinging :: "inbound_conf \<Rightarrow> sip_inbound \<Rightarrow> sip_inbound option" where
  "StartRinging conf s =
     (let s1 = sendRinging conf (attachTag s) in
      if si_tx s1 then Some (s1\<lparr>si_ringing := True, si_ringer := True\<rparr>) else None)"

definition ring_tick :: "inbound_conf \<Rightarrow> sip_inbound \<Rightarrow> sip_inbound" where
  "ring_tick conf s = (if si_ringer s then sendRinging conf s else s)"

definition ring_cancel :: "sip_inbound \<Rightarrow> sip_inbound" where
  "ring_cancel s = (if si_ringer s then emit CancelOK (s\<lparr>si_cancelled := True, si_ringer := False\<rparr>) else s)"

definition ring_stop :: "sip_inbound \<Rightarrow> sip_inbound" where
  "ring_stop s = (if si_ringer s \<and> \<not> si_ringing s then s\<lparr>si_ringer := False\<rparr> else s)"

definition AcceptAsKeepAlive :: "inbound_conf \<Rightarrow> string \<Rightarrow> sip_inbound \<Rightarrow> sip_inbound" where
  "AcceptAsKeepAlive conf sdp s = respondWithData conf 200 ''OK'' ''application/sdp'' sdp s"

section \<open>Accept\<close>

definition inviteOkRetryInterval :: nanos where "inviteOkRetryInterval = 250 * millisecond"
definition inviteOkRetryIntervalMax :: nanos where "inviteOkRetryIntervalMax = 3 * second"
definition inviteOKRetryAttempts :: nat where "inviteOKRetryAttempts = 5"
definition inviteOKRetryAttemptsNoACK :: nat where "inviteOKRetryAttemptsNoACK = 2"

text \<open>What happens on one pass of the loop: \<open>Respond\<close> fails, an ACK arrives, or the timer fires.\<close>

datatype try_outcome = RespondFails go_error | AckArrives | TimerFires

definition maxRetries :: "bool \<Rightarrow> bool \<Rightarrow> nat" where
  "maxRetries udp waitAck =
     (if \<not> udp then 1 else if \<not> waitAck then inviteOKRetryAttemptsNoACK else inviteOKRetryAttempts)"

definition firstRetryAfter :: "bool \<Rightarrow> nanos" where
  "firstRetryAfter udp = (if udp then inviteOkRetryInterval else inviteOkRetryIntervalMax)"

text \<open>
  The retransmission loop.  The result is the early return of a \<open>Respond\<close> error (\<open>Inl\<close>) or the value of
  \<open>acceptErr\<close> after the loop (\<open>Inr\<close>), with the number of responses sent and the time waited.
\<close>

function accept_loop ::
  "bool \<Rightarrow> bool \<Rightarrow> (nat \<Rightarrow> try_outcome) \<Rightarrow> nat \<Rightarrow> nanos \<Rightarrow> nat \<Rightarrow> nanos
    \<Rightarrow> (go_error + go_error option) \<times> nat \<times> nanos" where
  "accept_loop udp waitAck outcome try retryAfter sent waited =
     (case outcome try of
        RespondFails e \<Rightarrow> (Inl e, sent, waited)
      | o' \<Rightarrow>
          if \<not> udp \<and> \<not> waitAck then (Inr None, Suc sent, waited)
          else if o' = AckArrives then (Inr None, Suc sent, waited)
          else if try > maxRetries udp waitAck then
            (Inr (if waitAck then Some (Sentinel ErrNoACK) else None), Suc sent, waited + retryAfter)
          else accept_loop udp waitAck outcome (Suc try) (min (2 * retryAfter) inviteOkRetryIntervalMax)
                 (Suc sent) (waited + retryAfter))"
  by pat_completeness auto
termination
  by (relation "measure (\<lambda>(udp, w, _, try, _). Suc (maxRetries udp w) - try)") auto

declare accept_loop.simps [simp del]

definition ok_response :: "inbound_conf \<Rightarrow> sip_inbound \<Rightarrow> string \<Rightarrow> smap \<Rightarrow> sip_response" where
  "ok_response conf s sdp headers =
     (addExtraHeaders conf s ((plain_response 200 ''OK'' sdp)\<lparr>rp_contact := Some (si_contact s)\<rparr>))
       \<lparr>rp_ctype := ''application/sdp'', rp_headers := headers\<rparr>"

definition accepted :: "sip_response \<Rightarrow> sip_inbound \<Rightarrow> sip_inbound" where
  "accepted r s = s\<lparr>si_invite_ok := Some r, si_tx := False\<rparr>"

definition Accept ::
  "inbound_conf \<Rightarrow> (nat \<Rightarrow> try_outcome) \<Rightarrow> string \<Rightarrow> smap \<Rightarrow> sip_inbound \<Rightarrow> go_error option \<times> sip_inbound" where
  "Accept conf outcome sdp headers s =
     (if \<not> si_tx s then (Some (Plain ''call already rejected''), s)
      else
        let s1 = s\<lparr>si_last_sdp := sdp\<rparr>;
            r = ok_response conf s1 sdp headers;
            s2 = stopRinging s1;
            udp = (si_leg_tr s = TransportUDP);
            (res, sent, _) = accept_loop udp (ic_wait_ack conf)
               (\<lambda>i. if si_acked s \<and> outcome i = TimerFires then AckArrives else outcome i)
               1 (firstRetryAfter udp) 0 0;
            s3 = s2\<lparr>si_trace := si_trace s2 @ replicate sent (TxRespond r)\<rparr>
        in case res of
             Inl e \<Rightarrow> (Some e, s3)
           | Inr acceptErr \<Rightarrow> (acceptErr, accepted r s3))"

definition AcceptAck :: "sip_inbound \<Rightarrow> sip_inbound" where
  "AcceptAck s = s\<lparr>si_acked := True\<rparr>"

definition AcceptBye :: "sip_inbound \<Rightarrow> sip_inbound" where
  "AcceptBye s = drop_dialog (emit ByeOK s)"

section \<open>Requests to the peer\<close>

definition generateViaHeader :: "inbound_conf \<Rightarrow> sip_request \<Rightarrow> via" where
  "generateViaHeader conf req =
     \<lparr>via_transport = rq_transport req, via_host = ic_signaling_ip conf,
      via_port = cf_sip_port (ic_contact conf)\<rparr>"

definition swapSrcDst ::
  "sip_lib \<Rightarrow> inbound_conf \<Rightarrow> invite \<Rightarrow> sip_response \<Rightarrow> sip_inbound \<Rightarrow> sip_request \<Rightarrow> sip_request" where
  "swapSrcDst L conf iv ok s req =
     (let rv = lib_view L iv ok;
          (recipient, dest0) =
            (case iv_contact iv of
               Some c \<Rightarrow> (c, GetDest (ConvertURI c))
             | None \<Rightarrow> (fst (si_from s), rv_destination rv));
          dest = (case iv_record_route iv of [] \<Rightarrow> dest0 | r # _ \<Rightarrow> GetDest (ConvertURI r))
      in req\<lparr>rq_recipient := recipient, rq_source := rv_source rv, rq_destination := dest,
             rq_from := Some (si_to s), rq_to := Some (si_from s),
             rq_vias := [generateViaHeader conf req],
             rq_routes := fold (\<lambda>h rs. h # rs) (rq_record_routes req) (rq_routes req),
             rq_record_routes := []\<rparr>)"

definition dialog_setCSeq :: "sip_inbound \<Rightarrow> sip_request \<Rightarrow> sip_request \<times> sip_inbound" where
  "dialog_setCSeq s req = (setCSeq req (si_next_cseq s), s\<lparr>si_next_cseq := si_next_cseq s + 1\<rparr>)"

definition sendBye ::
  "sip_lib \<Rightarrow> inbound_conf \<Rightarrow> (smap \<times> smap) option \<Rightarrow> smap \<Rightarrow> sip_inbound \<Rightarrow> sip_inbound" where
  "sendBye L conf fh headers s =
     (case (si_invite_ok s, si_invite s) of
        (Some ok, Some iv) \<Rightarrow>
          let r0 = lib_bye L iv ok;
              r1 = r0\<lparr>rq_headers := rq_headers r0 @ fillHeaders fh [] @ headers\<rparr>;
              (r2, s1) = dialog_setCSeq s r1;
              r3 = swapSrcDst L conf iv ok s1 r2
          in emit (SendBye r3) (drop_dialog s1)
      | _ \<Rightarrow> s)"

definition sendStatus :: "(smap \<times> smap) option \<Rightarrow> sip_result \<Rightarrow> smap \<Rightarrow> sip_inbound \<Rightarrow> sip_inbound" where
  "sendStatus fh result headers s =
     (if si_invite_ok s \<noteq> None then s
      else if \<not> si_tx s then s
      else
        let (code, status) = Result_NewResponse result;
            r = (plain_response code status [])\<lparr>rp_headers := fillHeaders fh [] @ headers\<rparr>
        in drop_dialog (emit (TxRespond r) s))"

definition CloseWithStatus ::
  "sip_lib \<Rightarrow> inbound_conf \<Rightarrow> (smap \<times> smap) option \<Rightarrow> sip_result \<Rightarrow> smap \<Rightarrow> sip_inbound \<Rightarrow> sip_inbound" where
  "CloseWithStatus L conf fh result headers s =
     (if si_invite_ok s \<noteq> None then sendBye L conf fh headers s
      else if si_tx s then sendStatus fh result headers s
      else drop_dialog s)"

definition Close :: "sip_lib \<Rightarrow> inbound_conf \<Rightarrow> (smap \<times> smap) option \<Rightarrow> sip_inbound \<Rightarrow> sip_inbound" where
  "Close L conf fh s = CloseWithStatus L conf fh \<lparr>rs_code = 486, rs_status = ''Rejected''\<rparr> [] s"

text \<open>
  \<open>newReferReq\<close>: the outer option is \<open>None\<close> if building the request panics.
\<close>

definition newReferReq ::
  "sip_lib \<Rightarrow> inbound_conf \<Rightarrow> (smap \<times> smap) option \<Rightarrow> string \<Rightarrow> smap \<Rightarrow> sip_inbound
    \<Rightarrow> ((go_error + sip_request) \<times> sip_inbound) option" where
  "newReferReq L conf fh transferTo headers s =
     (case (si_invite s, si_invite_ok s) of
        (Some iv, Some ok) \<Rightarrow>
          if iv_from iv = None then
            Some (Inl (Psrpc InvalidArgument (Plain ''no From URI in invite'')), s)
          else
            (case NewReferRequest iv (lib_view L iv ok) (si_contact s) transferTo (fillHeaders fh headers) of
               None \<Rightarrow> None
             | Some req0 \<Rightarrow>
                 let (req1, s1) = dialog_setCSeq s req0;
                     req = swapSrcDst L conf iv ok s1 req1
                 in case rq_cseq req of
                      None \<Rightarrow> Some (Inl (Psrpc Internal (Plain ''missing CSeq header in REFER request'')), s1)
                    | Some n \<Rightarrow> Some (Inr req, s1\<lparr>si_refer_cseq := n\<rparr>))
      | _ \<Rightarrow> Some (Inl (Psrpc FailedPrecondition (Plain ''can't transfer non established call'')), s))"

section \<open>The dialog as a machine\<close>

text \<open>
  Everything that can happen to the dialog of a call, each event under the dialog's lock.  \<open>None\<close> is a
  panic.  \<open>AcceptAsKeepAlive\<close> is not among the events: it answers a re-INVITE on a dialog value of its own.
\<close>

datatype dialog_event =
    EvProcessing
  | EvStartRinging
  | EvRingTick
  | EvRingCancel
  | EvRingStop
  | EvAccept "nat \<Rightarrow> try_outcome" string smap
  | EvAck
  | EvBye
  | EvDrop
  | EvRespondAndDrop int string
  | EvClose "(smap \<times> smap) option" sip_result smap
  | EvRefer "(smap \<times> smap) option" string smap

fun dialog_step :: "sip_lib \<Rightarrow> inbound_conf \<Rightarrow> dialog_event \<Rightarrow> sip_inbound \<Rightarrow> sip_inbound option" where
  "dialog_step L conf EvProcessing s = Some (Processing conf s)"
| "dialog_step L conf EvStartRinging s = StartRinging conf s"
| "dialog_step L conf EvRingTick s = Some (ring_tick conf s)"
| "dialog_step L conf EvRingCancel s = Some (ring_cancel s)"
| "dialog_step L conf EvRingStop s = Some (ring_stop s)"
| "dialog_step L conf (EvAccept outcome sdp headers) s = Some (snd (Accept conf outcome sdp headers s))"
| "dialog_step L conf EvAck s = Some (AcceptAck s)"
| "dialog_step L conf EvBye s = Some (AcceptBye s)"
| "dialog_step L conf EvDrop s = Some (drop_dialog s)"
| "dialog_step L conf (EvRespondAndDrop status reason) s = Some (RespondAndDrop conf status reason s)"
| "dialog_step L conf (EvClose fh result headers) s = Some (CloseWithStatus L conf fh result headers s)"
| "dialog_step L conf (EvRefer fh to headers) s =
     (case newReferReq L conf fh to headers s of
        None \<Rightarrow> None
      | Some (Inl e, s') \<Rightarrow> Some s'
      | Some (Inr req, s') \<Rightarrow> Some (emit (SendRefer req) s'))"

definition dialog_run ::
  "sip_lib \<Rightarrow> inbound_conf \<Rightarrow> dialog_event list \<Rightarrow> sip_inbound \<Rightarrow> sip_inbound option" where
  "dialog_run L conf es s = fold (\<lambda>e so. Option.bind so (dialog_step L conf e)) es (Some s)"

end
