(* ===== verification/CallMonitor.thy ===== *)
theory CallMonitor
  imports CallTermination
begin

text \<open>
  \<open>pkg/stats/monitor.go\<close>: the counters and gauges of a node and the per-call monitor that writes to them.
  A metric with its labels is a key of \<open>metrics\<close>; a Prometheus counter or gauge is the integer under its
  key.  The atomics \<open>started\<close> and \<open>terminated\<close> of a call monitor are fields of its record; a
  compare-and-swap is one step.  Duration histograms are left out: they only observe.
\<close>

section \<open>Metrics\<close>

datatype metric =
    InviteReqRaw | InviteReqM | InviteAcceptM | InviteErr | CallsActive | CallsTerminated
  | CallsTerminationFailures | PacketsRTP | SdpParsed | CodecOffered
  | TransfersTotal | TransfersSucceeded | TransfersFailed | TransfersActive

type_synonym metrics = "metric \<times> smap \<Rightarrow> int"

definition inc :: "metric \<Rightarrow> smap \<Rightarrow> metrics \<Rightarrow> metrics" where
  "inc m l ms = ms((m, l) := ms (m, l) + 1)"

definition dec :: "metric \<Rightarrow> smap \<Rightarrow> metrics \<Rightarrow> metrics" where
  "dec m l ms = ms((m, l) := ms (m, l) - 1)"

datatype call_dir = Inbound | Outbound

definition dir_string :: "call_dir \<Rightarrow> string" where
  "dir_string d = (case d of Inbound \<Rightarrow> ''in'' | Outbound \<Rightarrow> ''out'')"

definition result_string :: "termination_result \<Rightarrow> string" where
  "result_string r =
     (case r of ResultSuccess \<Rightarrow> ''success'' | ResultServerError \<Rightarrow> ''server_error''
      | ResultClientError \<Rightarrow> ''client_error'' | ResultIndeterminate \<Rightarrow> ''indeterminate''
      | ResultUpstreamError \<Rightarrow> ''upstream_error'')"

section \<open>Health\<close>

datatype health_status = HealthOK | HealthNotStarted | HealthStopped | HealthUnderLoad | HealthDisabled

text \<open>The CPU figures are numbers of an ordered field: idle cores, number of cores, permitted share.\<close>

definition Health :: "bool \<Rightarrow> bool \<Rightarrow> 'a::linordered_field \<Rightarrow> 'a \<Rightarrow> 'a \<Rightarrow> health_status" where
  "Health started shutdown idle cpus max_util =
     (if \<not> started then HealthNotStarted
      else if shutdown then HealthStopped
      else if idle < cpus * (1 - max_util) then HealthUnderLoad
      else HealthOK)"

definition HealthStatus_String :: "health_status \<Rightarrow> string" where
  "HealthStatus_String h =
     (case h of HealthOK \<Rightarrow> ''OK'' | HealthNotStarted \<Rightarrow> ''NotStarted'' | HealthStopped \<Rightarrow> ''Stopped''
      | HealthUnderLoad \<Rightarrow> ''UnderLoad'' | HealthDisabled \<Rightarrow> ''Disabled'')"

section \<open>Per-call monitor\<close>

record call_monitor =
  cm_dir :: call_dir
  cm_from :: string
  cm_to :: string
  cm_provider :: "string option"
  cm_started :: bool
  cm_terminated :: bool

definition NewCall :: "call_dir \<Rightarrow> string \<Rightarrow> string \<Rightarrow> call_monitor" where
  "NewCall d from to = \<lparr>cm_dir = d, cm_from = from, cm_to = to, cm_provider = None, cm_started = False, cm_terminated = False\<rparr>"

definition SetProvider :: "string \<Rightarrow> call_monitor \<Rightarrow> call_monitor" where
  "SetProvider p c = (if p = [] then c else c\<lparr>cm_provider := Some p\<rparr>)"

definition monitor_providerLabel :: "call_monitor \<Rightarrow> string" where
  "monitor_providerLabel c = (case cm_provider c of Some p \<Rightarrow> p | None \<Rightarrow> ''unknown'')"

definition labelsShort :: "call_monitor \<Rightarrow> smap \<Rightarrow> smap" where
  "labelsShort c l = fold (\<lambda>kv out. mput (fst kv) (snd kv) out) l [(''dir'', dir_string (cm_dir c))]"

definition labels :: "call_monitor \<Rightarrow> smap \<Rightarrow> smap" where
  "labels c l = fold (\<lambda>kv out. mput (fst kv) (snd kv) out) l [(''dir'', dir_string (cm_dir c)), (''to'', cm_to c)]"

definition InviteReq :: "call_monitor \<Rightarrow> metrics \<Rightarrow> metrics" where
  "InviteReq c = inc InviteReqM (labelsShort c [])"

definition InviteAccept :: "call_monitor \<Rightarrow> metrics \<Rightarrow> metrics" where
  "InviteAccept c = inc InviteAcceptM (labels c [])"

definition InviteErrorShort :: "call_monitor \<Rightarrow> call_term \<Rightarrow> metrics \<Rightarrow> metrics" where
  "InviteErrorShort c t ms =
     inc CallsTerminated
       (labelsShort c [(''to'', ''unknown''), (''result'', result_string (tm_result t)), (''reason'', tm_reason t)])
       (inc InviteErr (labelsShort c [(''reason'', tm_reason t), (''to'', ''unknown'')]) ms)"

definition InviteError :: "call_monitor \<Rightarrow> string \<Rightarrow> metrics \<Rightarrow> metrics" where
  "InviteError c reason = inc InviteErr (labels c [(''reason'', reason)])"

definition CallStart :: "call_monitor \<times> metrics \<Rightarrow> call_monitor \<times> metrics" where
  "CallStart cm =
     (case cm of (c, ms) \<Rightarrow>
        if cm_started c then (c, ms) else (c\<lparr>cm_started := True\<rparr>, inc CallsActive (labels c []) ms))"

definition CallEnd :: "call_monitor \<times> metrics \<Rightarrow> call_monitor \<times> metrics" where
  "CallEnd cm =
     (case cm of (c, ms) \<Rightarrow>
        if \<not> cm_started c then (c, ms) else (c\<lparr>cm_started := False\<rparr>, dec CallsActive (labels c []) ms))"

definition CallTerminate :: "call_term \<Rightarrow> call_monitor \<times> metrics \<Rightarrow> call_monitor \<times> metrics" where
  "CallTerminate t cm =
     (case cm of (c, ms) \<Rightarrow>
        if cm_terminated c then (c, ms)
        else (c\<lparr>cm_terminated := True\<rparr>,
              inc CallsTerminated (labels c [(''result'', result_string (tm_result t)), (''reason'', tm_reason t)]) ms))"

definition CallTerminationFailure :: "call_monitor \<Rightarrow> metrics \<Rightarrow> metrics" where
  "CallTerminationFailure c = inc CallsTerminationFailures (labelsShort c [])"

definition RTPPacketSend :: "call_monitor \<Rightarrow> string \<Rightarrow> metrics \<Rightarrow> metrics" where
  "RTPPacketSend c pt = inc PacketsRTP (labels c [(''op'', ''send''), (''payload'', pt)])"

definition RTPPacketRecv :: "call_monitor \<Rightarrow> string \<Rightarrow> metrics \<Rightarrow> metrics" where
  "RTPPacketRecv c pt = inc PacketsRTP (labels c [(''op'', ''recv''), (''payload'', pt)])"

definition PeerSDP :: "call_monitor \<Rightarrow> string list \<Rightarrow> metrics \<Rightarrow> metrics" where
  "PeerSDP c names ms =
     (let p = monitor_providerLabel c; d = dir_string (cm_dir c) in
      fold (\<lambda>name. inc CodecOffered [(''dir'', d), (''provider'', p), (''codec'', name)]) names
        (inc SdpParsed [(''dir'', d), (''provider'', p)] ms))"

section \<open>Transfers\<close>

definition TransferStarted :: "call_dir \<Rightarrow> metrics \<Rightarrow> metrics" where
  "TransferStarted d ms =
     inc TransfersActive [(''dir'', dir_string d)] (inc TransfersTotal [(''dir'', dir_string d)] ms)"

definition TransferSucceeded :: "call_dir \<Rightarrow> metrics \<Rightarrow> metrics" where
  "TransferSucceeded d ms =
     dec TransfersActive [(''dir'', dir_string d)] (inc TransfersSucceeded [(''dir'', dir_string d)] ms)"

definition TransferFailed :: "call_dir \<Rightarrow> string \<Rightarrow> bool \<Rightarrow> metrics \<Rightarrow> metrics" where
  "TransferFailed d reason changeActive ms =
     (let ms1 = inc TransfersFailed [(''dir'', dir_string d), (''reason'', reason)] ms in
      if changeActive then dec TransfersActive [(''dir'', dir_string d)] ms1 else ms1)"

section \<open>Many calls at once\<close>

text \<open>
  A node's calls share the metrics.  Each event is one operation of one call, in any order and number:
  the teardown paths of a call race each other.
\<close>

datatype monitor_event =
    MonStart nat | MonEnd nat | MonTerminate nat call_term | MonInviteReq nat | MonInviteAccept nat
  | MonInviteError nat string | MonTerminationFailure nat | MonPeerSDP nat "string list"

type_synonym node = "call_monitor list \<times> metrics"

definition on_call :: "nat \<Rightarrow> (call_monitor \<times> metrics \<Rightarrow> call_monitor \<times> metrics) \<Rightarrow> node \<Rightarrow> node" where
  "on_call i f n =
     (case n of (cs, ms) \<Rightarrow>
        if i < length cs then (let (c, ms') = f (cs ! i, ms) in (cs[i := c], ms')) else n)"

fun monitor_step :: "monitor_event \<Rightarrow> node \<Rightarrow> node" where
  "monitor_step (MonStart i) n = on_call i CallStart n"
| "monitor_step (MonEnd i) n = on_call i CallEnd n"
| "monitor_step (MonTerminate i t) n = on_call i (CallTerminate t) n"
| "monitor_step (MonInviteReq i) n = on_call i (\<lambda>(c, ms). (c, InviteReq c ms)) n"
| "monitor_step (MonInviteAccept i) n = on_call i (\<lambda>(c, ms). (c, InviteAccept c ms)) n"
| "monitor_step (MonInviteError i r) n = on_call i (\<lambda>(c, ms). (c, InviteError c r ms)) n"
| "monitor_step (MonTerminationFailure i) n = on_call i (\<lambda>(c, ms). (c, CallTerminationFailure c ms)) n"
| "monitor_step (MonPeerSDP i names) n = on_call i (\<lambda>(c, ms). (c, PeerSDP c names ms)) n"

text \<open>The number of calls of a label set that are started, and how many terminations were counted.\<close>

definition started_calls :: "smap \<Rightarrow> call_monitor list \<Rightarrow> int" where
  "started_calls l cs = sum_list (map (\<lambda>c. if cm_started c \<and> labels c [] = l then 1 else 0) cs)"

definition monitor_inv :: "node \<Rightarrow> bool" where
  "monitor_inv n = (\<forall>l. snd n (CallsActive, l) = started_calls l (fst n))"

lemma inc_other [simp]: "(m, l) \<noteq> k \<Longrightarrow> inc m l ms k = ms k" "(m, l) \<noteq> k \<Longrightarrow> dec m l ms k = ms k"
  by (auto simp: inc_def dec_def)

lemma inc_same [simp]: "inc m l ms (m, l) = ms (m, l) + 1" "dec m l ms (m, l) = ms (m, l) - 1"
  by (simp_all add: inc_def dec_def)

lemma labels_update [simp]:
  "labels (c\<lparr>cm_started := b\<rparr>) l = labels c l" "labels (c\<lparr>cm_terminated := b\<rparr>) l = labels c l"
  by (simp_all add: labels_def)

lemma started_calls_update:
  "i < length cs \<Longrightarrow>
     started_calls l (cs[i := c]) = started_calls l cs
       - (if cm_started (cs ! i) \<and> labels (cs ! i) [] = l then 1 else 0)
       + (if cm_started c \<and> labels c [] = l then 1 else 0)"
  by (induction cs arbitrary: i) (auto simp: started_calls_def nth_Cons split: nat.splits)

lemma PeerSDP_active [simp]: "PeerSDP c names ms (CallsActive, l) = ms (CallsActive, l)"
proof -
  have "fold (\<lambda>name. inc CodecOffered (f name)) names ms (CallsActive, l) = ms (CallsActive, l)" for f ms
    by (induction names arbitrary: ms) simp_all
  then show ?thesis by (simp add: PeerSDP_def Let_def)
qed

lemma on_call_inv:
  assumes "monitor_inv n"
    and "\<And>c ms l. snd (f (c, ms)) (CallsActive, l) - (if cm_started (fst (f (c, ms))) \<and> labels (fst (f (c, ms))) [] = l then 1 else 0)
       = ms (CallsActive, l) - (if cm_started c \<and> labels c [] = l then 1 else 0)"
  shows "monitor_inv (on_call i f n)"
proof (cases n)
  case (Pair cs ms)
  show ?thesis
  proof (cases "i < length cs")
    case True
    obtain c' ms' where f: "f (cs ! i, ms) = (c', ms')" by fastforce
    have "ms' (CallsActive, l) = started_calls l (cs[i := c'])" for l
      using assms(2) [of "cs ! i" ms l] assms(1) Pair f True by (simp add: monitor_inv_def started_calls_update)
    then show ?thesis using Pair True f by (simp add: on_call_def monitor_inv_def)
  qed (use assms(1) Pair in \<open>simp add: on_call_def\<close>)
qed

lemma monitor_inv_step: "monitor_inv n \<Longrightarrow> monitor_inv (monitor_step e n)"
  by (cases e)
     (auto intro!: on_call_inv simp: CallStart_def CallEnd_def CallTerminate_def InviteReq_def InviteAccept_def
        InviteError_def CallTerminationFailure_def inc_def dec_def)

interpretation call_metrics: machine monitor_step "\<lambda>_. True" monitor_inv
  by unfold_locales (rule monitor_inv_step)

interpretation call_terminate: once_op "\<lambda>_. True" "\<lambda>cm. cm_terminated (fst cm)" CallTerminate
  by unfold_locales (auto simp: CallTerminate_def split: prod.splits)

lemma started_calls_nonneg: "0 \<le> started_calls l cs"
  unfolding started_calls_def by (rule sum_list_nonneg) auto

lemma CallTerminate_sel:
  "cm_terminated (fst (CallTerminate t (m, ms)))" "cm_started (fst (CallTerminate t (m, ms))) = cm_started m"
  "labels (fst (CallTerminate t (m, ms))) l = labels m l" "snd (CallTerminate t (m, ms)) (CallsActive, k) = ms (CallsActive, k)"
  by (simp_all add: CallTerminate_def)

lemma other_counters [simp]:
  "InviteReq m ms (CallsActive, l) = ms (CallsActive, l)" "InviteAccept m ms (CallsActive, l) = ms (CallsActive, l)"
  "InviteError m r ms (CallsActive, l) = ms (CallsActive, l)"
  by (simp_all add: InviteReq_def InviteAccept_def InviteError_def inc_def)

section \<open>Properties\<close>

text \<open>
  Whatever the order and number of start, end and termination reports of a node's calls, the active
  calls gauge of each label set is exactly the number of its calls that are started: never negative,
  and zero once every call has ended.
\<close>

theorem active_calls_gauge:
  assumes "list_all (\<lambda>c. \<not> cm_started c) cs"
  shows "snd (fold monitor_step es (cs, \<lambda>_. 0)) (CallsActive, l) =
      started_calls l (fst (fold monitor_step es (cs, \<lambda>_. 0)))
    \<and> 0 \<le> snd (fold monitor_step es (cs, \<lambda>_. 0)) (CallsActive, l)"
proof -
  have "started_calls l cs = 0" for l
    using assms by (induction cs) (simp_all add: started_calls_def)
  then have "monitor_inv (cs, \<lambda>_. 0)" by (simp add: monitor_inv_def)
  then have "monitor_inv (fold monitor_step es (cs, \<lambda>_. 0))"
    by (rule call_metrics.inv_run) (simp add: list_all_iff)
  then show ?thesis by (simp add: monitor_inv_def started_calls_nonneg)
qed

theorem active_calls_gauge_witness:
  "0 \<le> snd (fold monitor_step [MonStart 0, MonEnd 0, MonEnd 0, MonStart 1]
     ([NewCall Inbound ''a'' ''b'', NewCall Outbound ''a'' ''c''], \<lambda>_. 0)) (CallsActive, [(''dir'', ''in''), (''to'', ''b'')])"
  using active_calls_gauge [of "[NewCall Inbound ''a'' ''b'', NewCall Outbound ''a'' ''c'']"
      "[MonStart 0, MonEnd 0, MonEnd 0, MonStart 1]" "[(''dir'', ''in''), (''to'', ''b'')]"]
  by (simp add: NewCall_def)

text \<open>
  A call is counted as terminated once: after the first report, with whatever classification, every
  later one leaves the monitor and all metrics alone.
\<close>

theorem terminate_counts_once:
  "fold CallTerminate ts (CallTerminate t cm) = CallTerminate t cm
   \<and> (\<not> cm_terminated (fst cm) \<longrightarrow>
       snd (CallTerminate t cm) (CallsTerminated, labels (fst cm) [(''result'', result_string (tm_result t)), (''reason'', tm_reason t)])
       = snd cm (CallsTerminated, labels (fst cm) [(''result'', result_string (tm_result t)), (''reason'', tm_reason t)]) + 1)"
  using call_terminate.shut_many [of ts t cm] by (simp add: CallTerminate_def split: prod.splits)

theorem terminate_counts_once_witness:
  "fold CallTerminate [ClientError ''b''] (CallTerminate (Success ''a'') (NewCall Inbound [] [], \<lambda>_. 0))
     = CallTerminate (Success ''a'') (NewCall Inbound [] [], \<lambda>_. 0)"
  using terminate_counts_once [of "[ClientError ''b'']" "Success ''a''" "(NewCall Inbound [] [], \<lambda>_. 0)"] by blast

end
