(* ===== verification/CallState.thy ===== *)
theory CallState
  imports SipUri CallTermination
begin

text \<open>
  \<open>pkg/sip/analytics.go\<close>: the call record that is reported upstream, its pending transfers and the dirty
  bit.  What the handler is given is appended to \<open>cs_sent\<close>.  Every operation holds the record's mutex, so
  each is one step.
\<close>

datatype sip_call_status = SCS_CALL_INCOMING | SCS_PARTICIPANT_JOINED | SCS_ACTIVE | SCS_DISCONNECTED | SCS_ERROR

record call_info =
  ci_call_id :: string
  ci_status :: sip_call_status
  ci_error :: string
  ci_reason :: disconnect_reason
  ci_status_code :: "sip_status option"
  ci_created_at :: int
  ci_started_at :: int
  ci_ended_at :: int
  ci_trunk :: string
  ci_rule :: string
  ci_room :: string
  ci_room_id :: string
  ci_identity :: string
  ci_attributes :: smap
  ci_sip_call_id :: string
  ci_region :: string
  ci_inbound :: bool
  ci_from :: lk_sip_uri
  ci_to :: lk_sip_uri

datatype transfer_status = TRANSFER_ONGOING | TRANSFER_FAILED | TRANSFER_SUCCESSFUL

record transfer_info =
  ti_id :: string
  ti_call :: string
  ti_to :: string
  ti_initiated_at :: int
  ti_completed_at :: int
  ti_status :: transfer_status
  ti_error :: string
  ti_status_code :: "sip_status option"

datatype upstream = HandleUpdate call_info | HandleTransfer transfer_info | HandleCallContextRecorded call_info

record call_state =
  cs_info :: call_info
  cs_transfers :: "(string \<times> transfer_info) list"
  cs_dirty :: bool
  cs_sent :: "upstream list"

definition NewCallState :: "call_info \<Rightarrow> call_state" where
  "NewCallState initial = \<lparr>cs_info = initial, cs_transfers = [], cs_dirty = True, cs_sent = []\<rparr>"

definition flushLocked :: "call_state \<Rightarrow> call_state" where
  "flushLocked s = s\<lparr>cs_sent := cs_sent s @ [HandleUpdate (cs_info s)], cs_dirty := False\<rparr>"

definition DeferUpdate :: "(call_info \<Rightarrow> call_info) \<Rightarrow> call_state \<Rightarrow> call_state" where
  "DeferUpdate f s = s\<lparr>cs_dirty := True, cs_info := f (cs_info s)\<rparr>"

definition Update :: "(call_info \<Rightarrow> call_info) \<Rightarrow> call_state \<Rightarrow> call_state" where
  "Update f s = flushLocked (s\<lparr>cs_dirty := True, cs_info := f (cs_info s)\<rparr>)"

definition Flush :: "call_state \<Rightarrow> call_state" where
  "Flush s = (if \<not> cs_dirty s then s else flushLocked s)"

definition ForceFlush :: "call_state \<Rightarrow> call_state" where
  "ForceFlush s = flushLocked s"

text \<open>\<open>tid\<close> is the fresh transfer identifier, \<open>now\<close> the clock.\<close>

definition StartTransfer :: "string \<Rightarrow> int \<Rightarrow> string \<Rightarrow> call_state \<Rightarrow> call_state" where
  "StartTransfer tid now transferTo s =
     (let ti = \<lparr>ti_id = tid, ti_call = ci_call_id (cs_info s), ti_to = transferTo, ti_initiated_at = now,
                ti_completed_at = 0, ti_status = TRANSFER_ONGOING, ti_error = [], ti_status_code = None\<rparr>
      in s\<lparr>cs_sent := cs_sent s @ [HandleTransfer ti], cs_transfers := mput tid ti (cs_transfers s)\<rparr>)"

text \<open>\<open>msg\<close> is the error's message.\<close>

definition finish_transfer :: "(go_error \<Rightarrow> string) \<Rightarrow> int \<Rightarrow> go_error option \<Rightarrow> transfer_info \<Rightarrow> transfer_info" where
  "finish_transfer msg now err ti =
     (let ti1 = ti\<lparr>ti_completed_at := now\<rparr>;
          ti2 = (case err of
                   Some e \<Rightarrow> ti1\<lparr>ti_error := msg e, ti_status := TRANSFER_FAILED\<rparr>
                 | None \<Rightarrow> ti1\<lparr>ti_status := TRANSFER_SUCCESSFUL\<rparr>)
      in case Option.bind err (\<lambda>e. as_sip_status (chain e)) of
           Some st \<Rightarrow> ti2\<lparr>ti_status_code := Some st\<rparr> | None \<Rightarrow> ti2)"

definition EndTransfer :: "(go_error \<Rightarrow> string) \<Rightarrow> string \<Rightarrow> int \<Rightarrow> go_error option \<Rightarrow> call_state \<Rightarrow> call_state" where
  "EndTransfer msg tid now err s =
     (let s1 = s\<lparr>cs_transfers := filter (\<lambda>kv. fst kv \<noteq> tid) (cs_transfers s)\<rparr> in
      case map_of (cs_transfers s) tid of
        None \<Rightarrow> s1
      | Some ti \<Rightarrow> s1\<lparr>cs_sent := cs_sent s1 @ [HandleTransfer (finish_transfer msg now err ti)]\<rparr>)"

definition RecordCallContext :: "(call_info \<Rightarrow> call_info) option \<Rightarrow> call_state \<Rightarrow> call_state" where
  "RecordCallContext f s =
     (let s1 = (case f of None \<Rightarrow> s | Some g \<Rightarrow> s\<lparr>cs_info := g (cs_info s)\<rparr>)
      in s1\<lparr>cs_sent := cs_sent s1 @ [HandleCallContextRecorded (cs_info s1)]\<rparr>)"

section \<open>Events\<close>

datatype state_event =
    StUpdate "call_info \<Rightarrow> call_info" | StDefer "call_info \<Rightarrow> call_info" | StFlush | StForceFlush
  | StStartTransfer string int string | StEndTransfer string int "go_error option"
  | StContext "(call_info \<Rightarrow> call_info) option"

fun state_step :: "(go_error \<Rightarrow> string) \<Rightarrow> state_event \<Rightarrow> call_state \<Rightarrow> call_state" where
  "state_step msg (StUpdate f) s = Update f s"
| "state_step msg (StDefer f) s = DeferUpdate f s"
| "state_step msg StFlush s = Flush s"
| "state_step msg StForceFlush s = ForceFlush s"
| "state_step msg (StStartTransfer tid now to) s = StartTransfer tid now to s"
| "state_step msg (StEndTransfer tid now err) s = EndTransfer msg tid now err s"
| "state_step msg (StContext f) s = RecordCallContext f s"

text \<open>The call record the handler saw last, and how often a transfer was reported in a given state.\<close>

fun last_info :: "upstream list \<Rightarrow> call_info option" where
  "last_info [] = None"
| "last_info (u # us) =
     (case last_info us of
        Some i \<Rightarrow> Some i
      | None \<Rightarrow> (case u of HandleUpdate i \<Rightarrow> Some i | HandleCallContextRecorded i \<Rightarrow> Some i | HandleTransfer _ \<Rightarrow> None))"

definition transfer_reports :: "bool \<Rightarrow> string \<Rightarrow> upstream list \<Rightarrow> nat" where
  "transfer_reports ongoing tid us =
     length (filter (\<lambda>u. case u of HandleTransfer ti \<Rightarrow> ti_id ti = tid \<and> (ti_status ti = TRANSFER_ONGOING) = ongoing
                       | _ \<Rightarrow> False) us)"

lemma last_info_snoc:
  "last_info (us @ [u]) =
     (case u of HandleUpdate i \<Rightarrow> Some i | HandleCallContextRecorded i \<Rightarrow> Some i | HandleTransfer _ \<Rightarrow> last_info us)"
  by (induction us) (auto split: upstream.splits option.splits)

lemma transfer_reports_snoc:
  "transfer_reports b tid (us @ [u]) = transfer_reports b tid us +
     (case u of HandleTransfer ti \<Rightarrow> if ti_id ti = tid \<and> (ti_status ti = TRANSFER_ONGOING) = b then 1 else 0 | _ \<Rightarrow> 0)"
  by (simp add: transfer_reports_def split: upstream.splits)

section \<open>No update is lost\<close>

definition state_inv :: "call_state \<Rightarrow> bool" where
  "state_inv s = (cs_dirty s \<or> last_info (cs_sent s) = Some (cs_info s))"

lemma state_inv_step: "state_inv s \<Longrightarrow> state_inv (state_step msg e s)"
  by (cases e)
     (auto simp: state_inv_def Update_def DeferUpdate_def Flush_def ForceFlush_def flushLocked_def StartTransfer_def
        EndTransfer_def RecordCallContext_def Let_def last_info_snoc split: option.splits)

interpretation call_record: machine "state_step msg" "\<lambda>_. True" state_inv for msg
  by unfold_locales (rule state_inv_step)

section \<open>Transfers are reported once\<close>

text \<open>
  After \<open>n\<close> starts under an identifier: a pending entry carries that identifier, every start was reported,
  and a final report was made for each start that is no longer pending.
\<close>

definition transfer_inv :: "string \<Rightarrow> nat \<Rightarrow> call_state \<Rightarrow> bool" where
  "transfer_inv tid n s =
     ((\<forall>k ti. map_of (cs_transfers s) k = Some ti \<longrightarrow> ti_id ti = k)
      \<and> transfer_reports True tid (cs_sent s) = n
      \<and> n = transfer_reports False tid (cs_sent s) + (if map_of (cs_transfers s) tid = None then 0 else 1))"

definition starts :: "string \<Rightarrow> state_event \<Rightarrow> bool" where
  "starts tid e = (case e of StStartTransfer t _ _ \<Rightarrow> t = tid | _ \<Rightarrow> False)"

lemma map_of_filter_key: "map_of (filter (\<lambda>kv. fst kv \<noteq> k) xs) j = (if j = k then None else map_of xs j)"
  by (induction xs) auto

lemma transfer_inv_same:
  assumes "transfer_inv tid n s" and "cs_transfers t = cs_transfers s"
    and "cs_sent t = cs_sent s \<or> (\<exists>i. cs_sent t = cs_sent s @ [HandleUpdate i]) \<or> (\<exists>i. cs_sent t = cs_sent s @ [HandleCallContextRecorded i])"
  shows "transfer_inv tid n t"
  using assms by (auto simp: transfer_inv_def transfer_reports_snoc)

lemma finish_transfer_sel [simp]:
  "ti_id (finish_transfer msg now err ti) = ti_id ti"
  "ti_status (finish_transfer msg now err ti) = (if err = None then TRANSFER_SUCCESSFUL else TRANSFER_FAILED)"
  by (simp_all add: finish_transfer_def Let_def split: option.splits)

lemma EndTransfer_sent:
  "cs_sent (EndTransfer msg t now err s) = cs_sent s @
     (case map_of (cs_transfers s) t of None \<Rightarrow> [] | Some ti \<Rightarrow> [HandleTransfer (finish_transfer msg now err ti)])"
  by (simp add: EndTransfer_def Let_def split: option.splits)

lemma EndTransfer_transfers [simp]:
  "cs_transfers (EndTransfer msg t now err s) = filter (\<lambda>kv. fst kv \<noteq> t) (cs_transfers s)"
  by (simp add: EndTransfer_def Let_def split: option.splits)

lemma transfer_inv_End:
  "transfer_inv tid n s \<Longrightarrow> transfer_inv tid n (EndTransfer msg t now err s)"
  by (auto simp: transfer_inv_def map_of_filter_key transfer_reports_snoc EndTransfer_sent split: option.splits if_splits)

lemma transfer_inv_Start:
  assumes "transfer_inv tid n s" and "t = tid \<longrightarrow> map_of (cs_transfers s) tid = None"
  shows "transfer_inv tid (if t = tid then Suc n else n) (StartTransfer t now to s)"
  using assms by (auto simp: transfer_inv_def StartTransfer_def Let_def transfer_reports_snoc)

lemma transfer_inv_step:
  assumes "transfer_inv tid n s" and "\<not> starts tid e"
  shows "transfer_inv tid n (state_step msg e s)"
proof (cases e)
  case (StStartTransfer t now to)
  then show ?thesis using transfer_inv_Start [of tid n s t now to] assms by (simp add: starts_def)
next
  case (StEndTransfer t now err)
  then show ?thesis using assms by (simp add: transfer_inv_End)
qed (use assms(1) in \<open>auto intro!: transfer_inv_same [OF assms(1)]
       simp: Update_def DeferUpdate_def Flush_def ForceFlush_def flushLocked_def RecordCallContext_def Let_def
       split: option.splits\<close>)

lemma not_pending_step:
  assumes "map_of (cs_transfers s) tid = None" and "\<not> starts tid e"
  shows "map_of (cs_transfers (state_step msg e s)) tid = None"
  using assms
  by (cases e) (auto simp: starts_def StartTransfer_def Update_def DeferUpdate_def Flush_def ForceFlush_def
      flushLocked_def RecordCallContext_def Let_def map_of_filter_key split: option.splits)

interpretation transfer_log: machine "state_step msg" "\<lambda>e. \<not> starts tid e" "transfer_inv tid n" for msg tid n
  by unfold_locales (rule transfer_inv_step)

interpretation transfer_done: machine "state_step msg" "\<lambda>e. \<not> starts tid e"
  "\<lambda>s. transfer_inv tid n s \<and> map_of (cs_transfers s) tid = None" for msg tid n
  by unfold_locales (auto intro: transfer_inv_step not_pending_step)

definition sample_info :: call_info where
  "sample_info = \<lparr>ci_call_id = ''SCL'', ci_status = SCS_CALL_INCOMING, ci_error = [], ci_reason = UNKNOWN_REASON,
     ci_status_code = None, ci_created_at = 0, ci_started_at = 0, ci_ended_at = 0, ci_trunk = [], ci_rule = [],
     ci_room = [], ci_room_id = [], ci_identity = [], ci_attributes = [], ci_sip_call_id = [],
     ci_region = [], ci_inbound = True, ci_from = URI_ToSIPUri (CreateURIFromUserAndAddress [] [] []),
     ci_to = URI_ToSIPUri (CreateURIFromUserAndAddress [] [] [])\<rparr>"

section \<open>Properties\<close>

text \<open>
  No change of the call record is lost on its way upstream: after any sequence of operations, a
  flush leaves the handler with exactly the present record as the last one it saw.
\<close>

theorem flush_reports_latest:
  "last_info (cs_sent (Flush (fold (state_step msg) es (NewCallState i)))) =
     Some (cs_info (fold (state_step msg) es (NewCallState i)))"
proof -
  have "state_inv (fold (state_step msg) es (NewCallState i))"
    by (rule call_record.inv_run) (simp_all add: state_inv_def NewCallState_def list_all_iff)
  then show ?thesis by (auto simp: state_inv_def Flush_def flushLocked_def last_info_snoc)
qed

text \<open>
  Every transfer is reported exactly twice: once as ongoing when it starts and once as finished,
  however often \<open>EndTransfer\<close> is called for it and whatever else happens to the call, since its
  identifier is fresh.
\<close>

theorem transfer_reported_once:
  assumes "list_all (\<lambda>e. \<not> starts tid e) es0" and "list_all (\<lambda>e. \<not> starts tid e) es1" and "list_all (\<lambda>e. \<not> starts tid e) es2"
  shows "let s = fold (state_step msg) es2 (EndTransfer msg tid now err (fold (state_step msg) es1
                   (StartTransfer tid start to (fold (state_step msg) es0 (NewCallState i)))))
    in transfer_reports True tid (cs_sent s) = 1 \<and> transfer_reports False tid (cs_sent s) = 1"
proof -
  define a where "a = fold (state_step msg) es0 (NewCallState i)"
  define b where "b = fold (state_step msg) es1 (StartTransfer tid start to a)"
  define d where "d = fold (state_step msg) es2 (EndTransfer msg tid now err b)"
  have "transfer_inv tid 0 a \<and> map_of (cs_transfers a) tid = None"
    unfolding a_def using assms(1)
    by (intro transfer_done.inv_run) (simp_all add: transfer_inv_def NewCallState_def transfer_reports_def)
  then have "transfer_inv tid 1 (StartTransfer tid start to a)"
    using transfer_inv_Start [of tid 0 a tid start to] by simp
  then have "transfer_inv tid 1 b" unfolding b_def using assms(2) by (rule transfer_log.inv_run)
  then have "transfer_inv tid 1 (EndTransfer msg tid now err b)" by (rule transfer_inv_End)
  moreover have "map_of (cs_transfers (EndTransfer msg tid now err b)) tid = None" by (simp add: map_of_filter_key)
  ultimately have "transfer_inv tid 1 d \<and> map_of (cs_transfers d) tid = None"
    unfolding d_def using assms(3) by (intro transfer_done.inv_run) simp_all
  then show ?thesis by (simp add: transfer_inv_def d_def b_def a_def Let_def)
qed

theorem transfer_reported_once_witness:
  "let s = fold (state_step (\<lambda>_. ''e'')) [StEndTransfer ''t1'' 3 None] (EndTransfer (\<lambda>_. ''e'') ''t1'' 2 (Some (Plain []))
       (fold (state_step (\<lambda>_. ''e'')) [StFlush] (StartTransfer ''t1'' 1 ''tel:1''
         (fold (state_step (\<lambda>_. ''e'')) [] (NewCallState sample_info)))))
   in transfer_reports True ''t1'' (cs_sent s) = 1 \<and> transfer_reports False ''t1'' (cs_sent s) = 1"
  by (rule transfer_reported_once) (simp_all add: starts_def)

end
