(* ===== verification/InboundServer.thy ===== *)
theory InboundServer
  imports InboundDialog CallMonitor CallState
begin

text \<open>
  Admission of inbound calls, the first half of \<open>pkg/sip/inbound.go\<close>: the table of invites with a digest
  challenge in progress, digest authentication, the challenge timeout, the replay of cached rejections
  and \<open>processInvite\<close> with every way it can reject, replay, keep alive or let a call proceed.

  The digest library (\<open>ParseCredentials\<close>, \<open>Digest\<close>) and the handler that looks up a trunk are arguments.
  \<open>inProgressInvite\<close> values are shared by pointer between the table, the handler of an INVITE and the
  timers, so they live in a store indexed by reference.  The expirable LRU caches are association lists;
  an entry may be forgotten at any time (\<open>forget\<close>), which covers both eviction and expiry.
\<close>

section \<open>State\<close>

record challenge =
  ch_realm :: string
  ch_nonce :: string
  ch_algorithm :: string

record in_progress_invite =
  ip_call_id :: string
  ip_challenge :: challenge
  ip_resolved :: bool

record inbound_call_info =
  ii_cseq :: u32
  ii_cseq_auth :: u32
  ii_invites :: u32
  ii_invites_auth :: u32

text \<open>A challenge timer holds the invite it watches, the call record it finalizes, and when it started.\<close>

record auth_timer =
  at_ref :: nat
  at_state :: nat
  at_challenged :: int

record server =
  sv_queue :: "nat list"
  sv_store :: "in_progress_invite list"
  sv_infos :: "(string \<times> inbound_call_info) list"
  sv_provisional :: "((string \<times> string) \<times> string) list"
  sv_rejected :: "((string \<times> string) \<times> (int \<times> string)) list"
  sv_timers :: "auth_timer list"
  sv_states :: "call_state list"

definition new_server :: server where
  "new_server = \<lparr>sv_queue = [], sv_store = [], sv_infos = [], sv_provisional = [], sv_rejected = [],
     sv_timers = [], sv_states = []\<rparr>"

definition digestLimit :: nat where "digestLimit = 500"

abbreviation UserAgent :: string where "UserAgent \<equiv> ''LiveKit''"

definition no_challenge :: challenge where
  "no_challenge = \<lparr>ch_realm = [], ch_nonce = [], ch_algorithm = []\<rparr>"

section \<open>Counting INVITEs\<close>

definition no_call_info :: inbound_call_info where
  "no_call_info = \<lparr>ii_cseq = 0, ii_cseq_auth = 0, ii_invites = 0, ii_invites_auth = 0\<rparr>"

definition getCallInfo :: "string \<Rightarrow> server \<Rightarrow> inbound_call_info \<times> server" where
  "getCallInfo tag sv =
     (case map_of (sv_infos sv) tag of
        Some c \<Rightarrow> (c, sv)
      | None \<Rightarrow> (no_call_info, sv\<lparr>sv_infos := mput tag no_call_info (sv_infos sv)\<rparr>))"

definition hdr_value :: "string \<Rightarrow> invite \<Rightarrow> string option" where
  "hdr_value name iv = map_option snd (GetHeader to_lower (iv_headers iv) name)"

definition inviteHasAuth :: "invite \<Rightarrow> bool" where
  "inviteHasAuth iv = (hdr_value ''Proxy-Authorization'' iv \<noteq> None \<or> hdr_value ''Authorization'' iv \<noteq> None)"

definition countInvite :: "invite \<Rightarrow> inbound_call_info \<Rightarrow> inbound_call_info" where
  "countInvite iv c =
     (case iv_cseq iv of
        None \<Rightarrow> c
      | Some n \<Rightarrow>
          if inviteHasAuth iv then
            (let c1 = (if ii_cseq_auth c = 0 then c\<lparr>ii_cseq_auth := n\<rparr> else c) in
             if n > ii_cseq_auth c1 then c1 else c1\<lparr>ii_invites_auth := ii_invites_auth c1 + 1\<rparr>)
          else
            (let c1 = (if ii_cseq c = 0 then c\<lparr>ii_cseq := n\<rparr> else c) in
             if n > ii_cseq c1 then c1 else c1\<lparr>ii_invites := ii_invites c1 + 1\<rparr>))"

definition count_invite :: "string \<Rightarrow> invite \<Rightarrow> server \<Rightarrow> server" where
  "count_invite tag iv sv =
     (let (c, sv1) = getCallInfo tag sv in sv1\<lparr>sv_infos := mput tag (countInvite iv c) (sv_infos sv1)\<rparr>)"

section \<open>Invites in progress\<close>

definition find_invite :: "string \<Rightarrow> server \<Rightarrow> nat option" where
  "find_invite cid sv = find (\<lambda>r. ip_call_id (sv_store sv ! r) = cid) (sv_queue sv)"

definition getInvite :: "string \<Rightarrow> server \<Rightarrow> nat \<times> server" where
  "getInvite cid sv =
     (case find_invite cid sv of
        Some r \<Rightarrow> (r, sv)
      | None \<Rightarrow>
          let q = (if length (sv_queue sv) \<ge> digestLimit then tl (sv_queue sv) else sv_queue sv);
              r = length (sv_store sv)
          in (r, sv\<lparr>sv_queue := q @ [r],
                    sv_store := sv_store sv @ [\<lparr>ip_call_id = cid, ip_challenge = no_challenge, ip_resolved = False\<rparr>]\<rparr>))"

definition set_resolved :: "nat \<Rightarrow> bool \<Rightarrow> server \<Rightarrow> server" where
  "set_resolved r b sv = sv\<lparr>sv_store := (sv_store sv)[r := (sv_store sv ! r)\<lparr>ip_resolved := b\<rparr>]\<rparr>"

definition set_challenge :: "nat \<Rightarrow> challenge \<Rightarrow> server \<Rightarrow> server" where
  "set_challenge r c sv = sv\<lparr>sv_store := (sv_store sv)[r := (sv_store sv ! r)\<lparr>ip_challenge := c\<rparr>]\<rparr>"

text \<open>
  \<open>scheduleAuthChallengeTimeout\<close> arms a timer for the call record of the challenged INVITE; \<open>fire_timer\<close> is
  what the timer runs after 30 seconds.
\<close>

definition scheduleAuthChallengeTimeout :: "nat \<Rightarrow> nat \<Rightarrow> int \<Rightarrow> server \<Rightarrow> server" where
  "scheduleAuthChallengeTimeout r st now sv =
     (let sv1 = set_resolved r False sv
      in sv1\<lparr>sv_timers := sv_timers sv1 @ [\<lparr>at_ref = r, at_state = st, at_challenged = now\<rparr>]\<rparr>)"

definition fire_timer :: "nat \<Rightarrow> server \<Rightarrow> server" where
  "fire_timer i sv =
     (if i < length (sv_timers sv) then
        (let t = sv_timers sv ! i;
             sv1 = sv\<lparr>sv_timers := take i (sv_timers sv) @ drop (Suc i) (sv_timers sv)\<rparr>
         in if ip_resolved (sv_store sv1 ! at_ref t) then sv1
            else
              (set_resolved (at_ref t) True sv1)
                \<lparr>sv_states := (sv_states sv1)[at_state t :=
                   Update (\<lambda>info. info\<lparr>ci_status := SCS_ERROR,
                       ci_error := ''auth challenge issued, no authenticated retry received'',
                       ci_ended_at := at_challenged t\<rparr>) (sv_states sv1 ! at_state t)]\<rparr>)
      else sv)"

section \<open>Digest authentication\<close>

record credentials =
  cr_username :: string
  cr_uri :: string
  cr_response :: string

record inbound_auth =
  ia_username :: string
  ia_password :: string
  ia_realm :: string

record digest_lib =
  dl_parse :: "string \<Rightarrow> credentials option"
  dl_digest :: "challenge \<Rightarrow> string \<Rightarrow> string \<Rightarrow> string \<Rightarrow> string \<Rightarrow> string option"
  dl_print :: "challenge \<Rightarrow> string"

definition tx_reply :: "int \<Rightarrow> string \<Rightarrow> smap \<Rightarrow> sip_inbound \<Rightarrow> sip_inbound" where
  "tx_reply status reason hs cc = emit (TxRespond ((plain_response status reason [])\<lparr>rp_headers := hs\<rparr>)) cc"

text \<open>
  \<open>handleInviteAuth\<close>.  The responses go straight to the transaction, which is the dialog's, so they are
  appended to the dialog's trace.  The result is \<open>(ok, challenge)\<close>.
\<close>

definition handleInviteAuth ::
  "inbound_conf \<Rightarrow> digest_lib \<Rightarrow> string \<Rightarrow> invite \<Rightarrow> inbound_auth \<Rightarrow> sip_inbound \<times> server
    \<Rightarrow> (bool \<times> bool) \<times> sip_inbound \<times> server" where
  "handleInviteAuth conf D nonce iv auth0 cs =
     (let auth = (if ia_realm auth0 = [] then auth0\<lparr>ia_realm := UserAgent\<rparr> else auth0);
          (cc, sv) = cs
      in
      if ia_username auth = [] \<or> ia_password auth = [] then ((True, False), cc, sv)
      else
        let cc1 = (if ic_hide_port conf then tx_reply 100 ''Processing'' [] cc else cc);
            cid = (case iv_call_id iv of Some c \<Rightarrow> c | None \<Rightarrow> []);
            (r, sv1) = getInvite cid sv
        in case hdr_value ''Proxy-Authorization'' iv of
             None \<Rightarrow>
               let ch = \<lparr>ch_realm = ia_realm auth, ch_nonce = nonce, ch_algorithm = ''MD5''\<rparr>
               in ((False, True), tx_reply 407 ''Unauthorized'' [(''Proxy-Authenticate'', dl_print D ch)] cc1, set_challenge r ch sv1)
           | Some h \<Rightarrow>
               (case dl_parse D h of
                  None \<Rightarrow> ((False, False), tx_reply 401 ''Bad credentials'' [] cc1, sv1)
                | Some cred \<Rightarrow>
                    if cr_username cred \<noteq> ia_username auth then
                      ((False, False), tx_reply 401 ''Unauthorized'' [] cc1, sv1)
                    else if ch_realm (ip_challenge (sv_store sv1 ! r)) = [] then
                      ((False, False), tx_reply 401 ''Bad credentials'' [] cc1, sv1)
                    else
                      (case dl_digest D (ip_challenge (sv_store sv1 ! r)) ''INVITE'' (cr_uri cred) (cr_username cred)
                              (ia_password auth) of
                         None \<Rightarrow> ((False, False), tx_reply 401 ''Bad credentials'' [] cc1, sv1)
                       | Some resp \<Rightarrow>
                           if cr_response cred \<noteq> resp then ((False, False), tx_reply 401 ''Unauthorized'' [] cc1, sv1)
                           else ((True, False), cc1, sv1))))"

section \<open>processInvite\<close>

datatype auth_result = AuthNotFound | AuthDrop | AuthPassword | AuthAccept | AuthQuotaExceeded | AuthNoTrunkFound

datatype provider_type = PROVIDER_INTERNAL | PROVIDER_EXTERNAL | PROVIDER_UNKNOWN

record auth_info =
  ai_result :: auth_result
  ai_project :: string
  ai_trunk :: string
  ai_auth :: inbound_auth
  ai_provider :: "provider_type \<times> string"

definition providerLabel :: "provider_type \<times> string \<Rightarrow> string" where
  "providerLabel p =
     (case fst p of
        PROVIDER_INTERNAL \<Rightarrow> ''internal/'' @ (if snd p \<noteq> [] then to_lower (snd p) else ''unknown'')
      | PROVIDER_EXTERNAL \<Rightarrow> ''external''
      | PROVIDER_UNKNOWN \<Rightarrow> ''unknown'')"

record rpc_sip_call =
  rc_lk_call_id :: string
  rc_sip_call_id :: string
  rc_source_ip :: string
  rc_address :: lk_sip_uri
  rc_from :: lk_sip_uri
  rc_to :: lk_sip_uri
  rc_via :: "lk_sip_uri list"

definition via_uri :: "via \<Rightarrow> lk_sip_uri" where
  "via_uri v = \<lparr>lu_user = [], lu_host = via_host v, lu_ip = [], lu_port = of_int (via_port v),
     lu_transport = SIPTransportFrom (via_transport v)\<rparr>"

definition call_info_of :: "string \<Rightarrow> invite \<Rightarrow> sip_inbound \<Rightarrow> rpc_sip_call" where
  "call_info_of srcIP iv cc =
     \<lparr>rc_lk_call_id = si_id cc, rc_sip_call_id = si_call_id cc, rc_source_ip = srcIP,
      rc_address = ToSIPUri [] (iv_recipient iv), rc_from = ToSIPUri [] (fst (si_from cc)),
      rc_to = ToSIPUri [] (fst (si_to cc)), rc_via = map via_uri (iv_vias iv)\<rparr>"

definition sdpBodyFromRequest :: "invite \<Rightarrow> string" where
  "sdpBodyFromRequest iv = (case iv_ctype iv of Some ct \<Rightarrow> if ct \<noteq> ''application/sdp'' then [] else iv_body iv | None \<Rightarrow> iv_body iv)"

text \<open>
  What an INVITE finds and how it ends: \<open>FinDone\<close> with the error \<open>processInvite\<close> returns, \<open>FinReinvite\<close> for
  a re-INVITE of an inbound (\<open>True\<close>) or outbound call with the SDP body its media is updated from,
  \<open>FinProceed\<close> when a call object is created and \<open>handleInvite\<close> takes over.
\<close>

datatype finish = FinDone "go_error option" | FinReinvite bool string | FinProceed auth_info

record invite_result =
  ir_finish :: finish
  ir_cc :: "sip_inbound option"
  ir_tx :: "effect list"
  ir_server :: server
  ir_metrics :: metrics
  ir_cmon :: "call_monitor option"
  ir_state :: "nat option"

text \<open>The environment: source address (absent if it cannot be parsed), clock, identifiers, other calls.\<close>

record invite_env =
  ev_src :: "(string \<times> string) option"
  ev_ip :: "string option"
  ev_now :: int
  ev_fresh :: string
  ev_nonce :: string
  ev_region :: string
  ev_inbound :: "string \<Rightarrow> (u32 \<times> string) option"
  ev_outbound :: "string \<Rightarrow> (u32 \<times> string) option"
  ev_auth :: "rpc_sip_call \<Rightarrow> go_error + auth_info"

definition apply_cache :: "sip_inbound \<Rightarrow> server \<Rightarrow> server" where
  "apply_cache cc sv =
     fold (\<lambda>e sv. case e of CacheRejection k st r \<Rightarrow> sv\<lparr>sv_rejected := mput k (st, r) (sv_rejected sv)\<rparr> | _ \<Rightarrow> sv)
       (si_trace cc) sv"

definition initial_info :: "invite_env \<Rightarrow> transport \<Rightarrow> auth_info \<Rightarrow> sip_inbound \<Rightarrow> call_info" where
  "initial_info env tr r cc =
     \<lparr>ci_call_id = si_id cc, ci_status = SCS_CALL_INCOMING, ci_error = [], ci_reason = UNKNOWN_REASON,
      ci_status_code = None, ci_created_at = ev_now env, ci_started_at = 0, ci_ended_at = 0, ci_trunk = ai_trunk r,
      ci_rule = [], ci_room = [], ci_room_id = [], ci_identity = [], ci_attributes = [], ci_sip_call_id = si_call_id cc,
      ci_region = ev_region env, ci_inbound = True,
      ci_from = URI_ToSIPUri (CreateURIFromUserAndAddress (su_user (fst (si_from cc)))
                  (case ev_src env of Some (_, s) \<Rightarrow> s | None \<Rightarrow> []) tr),
      ci_to = URI_ToSIPUri (CreateURIFromUserAndAddress (su_user (fst (si_to cc))) (su_host (fst (si_to cc))) tr)\<rparr>"

text \<open>The deferred update of the call record when \<open>processInvite\<close> returns \<open>err\<close>.\<close>

definition finish_state :: "(go_error \<Rightarrow> string) \<Rightarrow> int \<Rightarrow> go_error option \<Rightarrow> call_state \<Rightarrow> call_state" where
  "finish_state msg now err st =
     Update (\<lambda>info.
       (case err of
          Some e \<Rightarrow> if ci_error info = [] then info\<lparr>ci_status := SCS_ERROR, ci_error := msg e\<rparr>
                    else info\<lparr>ci_status := SCS_DISCONNECTED\<rparr>
        | None \<Rightarrow> info\<lparr>ci_status := SCS_DISCONNECTED\<rparr>)\<lparr>ci_ended_at := now\<rparr>) st"

text \<open>The rejections that follow the answer of the trunk lookup: status, phrase, metric reason, error.\<close>

definition auth_rejection :: "auth_result \<Rightarrow> (int \<times> string \<times> string \<times> go_error) option" where
  "auth_rejection a =
     (case a of
        AuthNotFound \<Rightarrow> Some (404, ''Does not match any SIP Trunks'', ''no-rule'',
          Psrpc NotFound (Plain ''no trunk configuration for call''))
      | AuthQuotaExceeded \<Rightarrow> Some (503, ''Service temporarily unavailable'', ''quota-exceeded'',
          Psrpc ResourceExhausted (Plain ''quota limit exceeded''))
      | AuthNoTrunkFound \<Rightarrow> Some (404, ''No trunk found'', ''no-trunk'',
          Psrpc NotFound (Plain ''no trunk found for call''))
      | _ \<Rightarrow> None)"

definition finish_indexed :: "(go_error \<Rightarrow> string) \<Rightarrow> int \<Rightarrow> go_error option \<Rightarrow> nat \<Rightarrow> server \<Rightarrow> server" where
  "finish_indexed msg now err i sv = sv\<lparr>sv_states := (sv_states sv)[i := finish_state msg now err (sv_states sv ! i)]\<rparr>"

text \<open>
  \<open>processInvite\<close> from the trunk lookup on, in three parts: the digest branch, the switch on the lookup's
  answer, and the lookup itself.  \<open>i\<close> is the index of the call record created for the INVITE.
\<close>

definition done_result ::
  "go_error option \<Rightarrow> sip_inbound \<Rightarrow> server \<Rightarrow> metrics \<Rightarrow> call_monitor \<Rightarrow> invite_result" where
  "done_result err cc sv ms cm =
     \<lparr>ir_finish = FinDone err, ir_cc = Some cc, ir_tx = [], ir_server = apply_cache cc sv, ir_metrics = ms,
      ir_cmon = Some cm, ir_state = None\<rparr>"

definition proceed_result ::
  "auth_info \<Rightarrow> sip_inbound \<Rightarrow> server \<Rightarrow> metrics \<Rightarrow> call_monitor \<Rightarrow> nat \<Rightarrow> invite_result" where
  "proceed_result r cc sv ms cm i =
     \<lparr>ir_finish = FinProceed r, ir_cc = Some cc, ir_tx = [], ir_server = sv, ir_metrics = ms, ir_cmon = Some cm,
      ir_state = Some i\<rparr>"

definition password_branch ::
  "inbound_conf \<Rightarrow> digest_lib \<Rightarrow> invite_env \<Rightarrow> (go_error \<Rightarrow> string) \<Rightarrow> invite \<Rightarrow> auth_info \<Rightarrow> nat \<Rightarrow> sip_inbound \<Rightarrow> server
    \<Rightarrow> metrics \<Rightarrow> call_monitor \<Rightarrow> invite_result" where
  "password_branch conf D env msg iv r i cc sv ms cm =
     (let cc1 = (if ic_hide_port conf then Processing conf cc else cc);
          cid = (case iv_call_id iv of Some c \<Rightarrow> c | None \<Rightarrow> []);
          (ref, sv1) = getInvite cid sv;
          sv2 = count_invite (si_id cc1) iv (set_resolved ref True sv1);
          ((ok, chal), cc2, sv3) = handleInviteAuth conf D (ev_nonce env) iv (ai_auth r) (cc1, sv2);
          err = Some (Psrpc PermissionDenied (Plain ''invalid credentials were provided''))
      in if ok then proceed_result r cc2 sv3 ms cm i
         else
           let sv4 = sv3\<lparr>sv_provisional := mput (si_call_id cc2, si_tag cc2) (si_id cc2) (sv_provisional sv3)\<rparr>;
               ms1 = InviteErrorShort cm (ClientError ''unauthorized'') ms;
               sv5 = (if chal then scheduleAuthChallengeTimeout ref i (ev_now env) sv4
                      else finish_indexed msg (ev_now env) err i sv4)
           in done_result err cc2 sv5 ms1 cm)"

definition auth_switch ::
  "inbound_conf \<Rightarrow> digest_lib \<Rightarrow> invite_env \<Rightarrow> (go_error \<Rightarrow> string) \<Rightarrow> invite \<Rightarrow> auth_info \<Rightarrow> nat \<Rightarrow> sip_inbound \<Rightarrow> server
    \<Rightarrow> metrics \<Rightarrow> call_monitor \<Rightarrow> invite_result" where
  "auth_switch conf D env msg iv r i cc sv ms cm =
     (case ai_result r of
        AuthDrop \<Rightarrow>
          let err = Some (Psrpc PermissionDenied (Plain ''call was not authorized by trunk configuration''))
          in done_result err (drop_dialog cc) (finish_indexed msg (ev_now env) err i sv)
               (InviteErrorShort cm (ClientError ''flood'') ms) cm
      | AuthPassword \<Rightarrow> password_branch conf D env msg iv r i cc sv ms cm
      | AuthAccept \<Rightarrow> proceed_result r cc (count_invite (si_id cc) iv sv) ms cm i
      | a \<Rightarrow>
          (case auth_rejection a of
             Some (status, phrase, reason, e) \<Rightarrow>
               done_result (Some e) (RespondAndDrop conf status phrase cc) (finish_indexed msg (ev_now env) (Some e) i sv)
                 (InviteErrorShort cm (ClientError reason) ms) cm
           | None \<Rightarrow> proceed_result r cc sv ms cm i))"

definition admit ::
  "inbound_conf \<Rightarrow> digest_lib \<Rightarrow> invite_env \<Rightarrow> (go_error \<Rightarrow> string) \<Rightarrow> invite \<Rightarrow> sip_inbound \<Rightarrow> server \<Rightarrow> metrics \<Rightarrow> invite_result" where
  "admit conf D env msg iv cc sv ms =
     (let cm = NewCall Inbound (su_host (fst (si_from cc))) (su_host (fst (si_to cc)));
          ms1 = InviteReq cm ms;
          cc1 = (if \<not> ic_hide_port conf then Processing conf cc else cc);
          srcIP = (case ev_src env of Some (ip, _) \<Rightarrow> ip | None \<Rightarrow> [])
      in case ev_auth env (call_info_of srcIP iv cc1) of
           Inl e \<Rightarrow>
             done_result (Some (Psrpc PermissionDenied (Wrapped ''rejecting inbound, auth check failed'' e)))
               (RespondAndDrop conf 503 ''Try again later'' cc1) sv (InviteErrorShort cm (ServerError ''auth-error'') ms1) cm
         | Inr r \<Rightarrow>
             let cm1 = SetProvider (providerLabel (ai_provider r)) cm;
                 st = Flush (NewCallState (initial_info env (callTransportFromReq (tr_of iv)) r cc1));
                 i = length (sv_states sv);
                 sv1 = sv\<lparr>sv_states := sv_states sv @ [st]\<rparr>
             in auth_switch conf D env msg iv r i cc1 sv1 ms1 cm1)"

definition early_result :: "finish \<Rightarrow> sip_inbound option \<Rightarrow> effect list \<Rightarrow> server \<Rightarrow> metrics \<Rightarrow> invite_result" where
  "early_result fin cc tx sv ms =
     \<lparr>ir_finish = fin, ir_cc = cc, ir_tx = tx, ir_server = sv, ir_metrics = ms, ir_cmon = None, ir_state = None\<rparr>"

definition reinvite_of :: "invite_env \<Rightarrow> sip_inbound \<Rightarrow> (bool \<times> string) option" where
  "reinvite_of env cc =
     (case ev_inbound env (si_id cc) of
        Some (n, sdp) \<Rightarrow>
          if n < si_invite_cseq cc then Some (True, sdp)
          else (case ev_outbound env (si_id cc) of
                  Some (m, lsdp) \<Rightarrow> if m < si_invite_cseq cc \<and> lsdp \<noteq> [] then Some (False, lsdp) else None
                | None \<Rightarrow> None)
      | None \<Rightarrow>
          (case ev_outbound env (si_id cc) of
             Some (m, lsdp) \<Rightarrow> if m < si_invite_cseq cc \<and> lsdp \<noteq> [] then Some (False, lsdp) else None
           | None \<Rightarrow> None))"

definition processInvite ::
  "inbound_conf \<Rightarrow> digest_lib \<Rightarrow> invite_env \<Rightarrow> (go_error \<Rightarrow> string) \<Rightarrow> invite \<Rightarrow> server \<Rightarrow> metrics \<Rightarrow> invite_result" where
  "processInvite conf D env msg iv sv ms0 =
     (let ms = inc InviteReqRaw [] ms0 in
      case ev_src env of
        None \<Rightarrow>
          early_result (FinDone (Some (Psrpc MalformedRequest (Plain ''cannot parse source IP'')))) None [TxTerminate] sv ms
      | Some _ \<Rightarrow>
     (case newInbound conf (ev_ip env) (ev_fresh env) (map_of (sv_provisional sv)) iv of
        Inl e \<Rightarrow>
          early_result (FinDone (Some (Psrpc InvalidArgument (Wrapped ''invite validation failed'' e)))) None
            ((if \<not> ic_hide_port conf then [TxRespond ((plain_response 400 ''Bad request'' [])\<lparr>rp_allow := True\<rparr>)] else [])
              @ [TxTerminate]) sv ms
      | Inr cc \<Rightarrow>
     (case (if ic_rejected_cache conf then map_of (sv_rejected sv) (si_call_id cc, si_tag cc) else None) of
        Some (status, reason) \<Rightarrow>
          let cc1 = RespondAndDrop conf status reason cc
          in early_result (FinDone None) (Some cc1) [] (apply_cache cc1 sv) ms
      | None \<Rightarrow>
     (case reinvite_of env cc of
        Some (inb, sdp) \<Rightarrow>
          early_result (FinReinvite inb (sdpBodyFromRequest iv)) (Some (AcceptAsKeepAlive conf sdp cc)) [] sv ms
      | None \<Rightarrow> admit conf D env msg iv cc sv ms))))"

end
