(* ===== verification/InboundDialogProps.thy ===== *)
theory InboundDialogProps
  imports InboundDialog
begin

text \<open>
  What the inbound dialog guarantees to the peer: one final answer per INVITE, BYE only for an answered
  call, request numbers without gaps, a bounded wait for the ACK, and closing once.
\<close>

section \<open>What the trace shows\<close>

fun final_of :: "effect \<Rightarrow> sip_response list" where
  "final_of (TxRespond r) = (if rp_status r \<ge> 200 then [r] else [])"
| "final_of _ = []"

fun bye_of :: "effect \<Rightarrow> sip_request list" where
  "bye_of (SendBye q) = [q]"
| "bye_of _ = []"

fun request_of :: "effect \<Rightarrow> sip_request list" where
  "request_of (SendBye q) = [q]"
| "request_of (SendRefer q) = [q]"
| "request_of _ = []"

definition finals :: "effect list \<Rightarrow> sip_response list" where
  "finals tr = concat (map final_of tr)"

definition byes :: "effect list \<Rightarrow> sip_request list" where
  "byes tr = concat (map bye_of tr)"

definition requests :: "effect list \<Rightarrow> sip_request list" where
  "requests tr = concat (map request_of tr)"

lemma finals_simps [simp]:
  "finals [] = []" "finals (tr @ tr') = finals tr @ finals tr'" "finals (e # tr) = final_of e @ finals tr"
  by (simp_all add: finals_def)

lemma byes_simps [simp]:
  "byes [] = []" "byes (tr @ tr') = byes tr @ byes tr'" "byes (e # tr) = bye_of e @ byes tr"
  by (simp_all add: byes_def)

lemma requests_simps [simp]:
  "requests [] = []" "requests (tr @ tr') = requests tr @ requests tr'"
  "requests (e # tr) = request_of e @ requests tr"
  by (simp_all add: requests_def)

lemma replicate_responds [simp]:
  "finals (replicate n (TxRespond r)) = (if rp_status r \<ge> 200 then replicate n r else [])"
  "byes (replicate n (TxRespond r)) = []"
  "requests (replicate n (TxRespond r)) = []"
  by (induction n) auto

section \<open>Effect of the operations\<close>

lemma emit_sel [simp]:
  "si_trace (emit e s) = si_trace s @ [e]" "si_tx (emit e s) = si_tx s"
  "si_invite (emit e s) = si_invite s" "si_invite_ok (emit e s) = si_invite_ok s"
  "si_next_cseq (emit e s) = si_next_cseq s" "si_invite_cseq (emit e s) = si_invite_cseq s"
  "si_ringing (emit e s) = si_ringing s" "si_call_id (emit e s) = si_call_id s" "si_tag (emit e s) = si_tag s"
  by (simp_all add: emit_def)

lemma stopRinging_sel [simp]:
  "si_trace (stopRinging s) = si_trace s" "si_tx (stopRinging s) = si_tx s"
  "si_invite (stopRinging s) = si_invite s" "si_invite_ok (stopRinging s) = si_invite_ok s"
  "si_next_cseq (stopRinging s) = si_next_cseq s" "si_invite_cseq (stopRinging s) = si_invite_cseq s"
  "si_ringing (stopRinging s) = False" "si_contact (stopRinging s) = si_contact s"
  "si_call_id (stopRinging s) = si_call_id s" "si_tag (stopRinging s) = si_tag s"
  by (simp_all add: stopRinging_def)

lemma drop_dialog_sel [simp]:
  "si_trace (drop_dialog s) = (if si_tx s then si_trace s @ [TxTerminate] else si_trace s)"
  "si_tx (drop_dialog s) = False" "si_invite (drop_dialog s) = None" "si_invite_ok (drop_dialog s) = None"
  "si_next_cseq (drop_dialog s) = 0" "si_invite_cseq (drop_dialog s) = si_invite_cseq s"
  "si_ringing (drop_dialog s) = False" "si_call_id (drop_dialog s) = si_call_id s"
  "si_tag (drop_dialog s) = si_tag s"
  by (simp_all add: drop_dialog_def Let_def)

lemma addExtraHeaders_sel [simp]:
  "rp_status (addExtraHeaders conf s r) = rp_status r" "rp_reason (addExtraHeaders conf s r) = rp_reason r"
  by (simp_all add: addExtraHeaders_def)

lemma plain_response_sel [simp]:
  "rp_status (plain_response c t b) = c" "rp_reason (plain_response c t b) = t"
  by (simp_all add: plain_response_def)

lemma ok_response_status [simp]: "rp_status (ok_response conf s sdp hs) = 200"
  by (simp add: ok_response_def)

lemma respondWithData_sel [simp]:
  "si_tx (respondWithData conf c t ty b s) = si_tx s"
  "si_invite (respondWithData conf c t ty b s) = si_invite s"
  "si_invite_ok (respondWithData conf c t ty b s) = si_invite_ok s"
  "si_next_cseq (respondWithData conf c t ty b s) = si_next_cseq s"
  "si_invite_cseq (respondWithData conf c t ty b s) = si_invite_cseq s"
  "si_call_id (respondWithData conf c t ty b s) = si_call_id s"
  "si_tag (respondWithData conf c t ty b s) = si_tag s"
  by (simp_all add: respondWithData_def Let_def)

lemma respondWithData_trace:
  "\<exists>r. rp_status r = c \<and> rp_reason r = t \<and>
     si_trace (respondWithData conf c t ty b s) = si_trace s @ (if si_tx s then [TxRespond r] else [])"
proof (cases "si_tx s")
  case False
  then show ?thesis by (intro exI [of _ "plain_response c t b"]) (simp add: respondWithData_def)
qed (auto simp: respondWithData_def Let_def)

lemma respond_trace:
  "\<exists>r. rp_status r = c \<and> rp_reason r = t \<and>
     si_trace (respond conf c t s) = si_trace s @ (if si_tx s then [TxRespond r] else [])"
  unfolding respond_def by (rule respondWithData_trace)

lemma respond_sel [simp]:
  "si_tx (respond conf c t s) = si_tx s" "si_invite (respond conf c t s) = si_invite s"
  "si_invite_ok (respond conf c t s) = si_invite_ok s" "si_next_cseq (respond conf c t s) = si_next_cseq s"
  "si_invite_cseq (respond conf c t s) = si_invite_cseq s"
  "si_call_id (respond conf c t s) = si_call_id s" "si_tag (respond conf c t s) = si_tag s"
  by (simp_all add: respond_def)

lemma respond_provisional:
  "c < 200 \<Longrightarrow> finals (si_trace (respond conf c t s)) = finals (si_trace s)"
  "byes (si_trace (respond conf c t s)) = byes (si_trace s)"
  "requests (si_trace (respond conf c t s)) = requests (si_trace s)"
  using respond_trace [of c t conf s] by auto

section \<open>The invariant\<close>

definition all_same :: "'a list \<Rightarrow> bool" where
  "all_same xs = (\<forall>x \<in> set xs. x = hd xs)"

lemma all_same_simps [simp]: "all_same []" "all_same [x]" "all_same (replicate n x)"
  by (auto simp: all_same_def)

lemma all_same_pair: "all_same xs \<Longrightarrow> x \<in> set xs \<Longrightarrow> y \<in> set xs \<Longrightarrow> x = y"
  unfolding all_same_def by metis

definition dialog_inv :: "sip_inbound \<Rightarrow> bool" where
  "dialog_inv s =
     ((si_tx s \<longrightarrow> si_invite s \<noteq> None \<and> si_invite_ok s = None \<and> finals (si_trace s) = [] \<and> byes (si_trace s) = [])
      \<and> all_same (finals (si_trace s))
      \<and> (\<forall>r. si_invite_ok s = Some r \<longrightarrow>
           si_invite s \<noteq> None \<and> \<not> si_tx s \<and> set (finals (si_trace s)) = {r} \<and> rp_status r = 200 \<and> byes (si_trace s) = [])
      \<and> (byes (si_trace s) \<noteq> [] \<longrightarrow> (\<exists>r \<in> set (finals (si_trace s)). rp_status r = 200))
      \<and> length (byes (si_trace s)) \<le> 1)"

text \<open>The operations see the dialog through these fields only, so the invariant carries over.\<close>

lemma dialog_inv_same:
  assumes "dialog_inv s" and "si_tx t = si_tx s" and "si_invite t = si_invite s" and "si_invite_ok t = si_invite_ok s"
    and "finals (si_trace t) = finals (si_trace s)" and "byes (si_trace t) = byes (si_trace s)"
  shows "dialog_inv t"
  using assms by (simp add: dialog_inv_def)

lemma dialog_inv_respond: "dialog_inv s \<Longrightarrow> c < 200 \<Longrightarrow> dialog_inv (respond conf c t s)"
  by (rule dialog_inv_same [of s]) (simp_all add: respond_provisional)

lemma dialog_inv_drop: "dialog_inv s \<Longrightarrow> dialog_inv (drop_dialog s)"
  unfolding dialog_inv_def by auto

text \<open>A dropped dialog that has given one answer.\<close>

lemma dialog_inv_answered:
  assumes "dialog_inv s" and "si_tx s" and "\<not> si_tx t" and "si_invite_ok t = None"
    and "\<exists>r. finals (si_trace t) = finals (si_trace s) @ [r] \<or> finals (si_trace t) = finals (si_trace s)"
    and "byes (si_trace t) = byes (si_trace s)"
  shows "dialog_inv t"
  using assms unfolding dialog_inv_def by auto

lemma RespondAndDrop_sel [simp]:
  "si_tx (RespondAndDrop conf c t s) = False" "si_invite_ok (RespondAndDrop conf c t s) = None"
  "si_invite (RespondAndDrop conf c t s) = None"
  by (simp_all add: RespondAndDrop_def Let_def)

lemma RespondAndDrop_trace:
  "\<exists>r rest. rp_status r = c \<and> rp_reason r = t
     \<and> si_trace (RespondAndDrop conf c t s) = si_trace s @ (if si_tx s then [TxRespond r, TxTerminate] else []) @ rest
     \<and> rest = (if ic_rejected_cache conf \<and> c \<ge> 300 \<and> si_call_id s \<noteq> []
               then [CacheRejection (si_call_id s, si_tag s) c t] else [])"
  using respond_trace [of c t conf "stopRinging s"]
  by (fastforce simp: RespondAndDrop_def Let_def)

lemma dialog_inv_RespondAndDrop: "dialog_inv s \<Longrightarrow> dialog_inv (RespondAndDrop conf c t s)"
proof -
  assume inv: "dialog_inv s"
  obtain r rest where tr: "si_trace (RespondAndDrop conf c t s) =
      si_trace s @ (if si_tx s then [TxRespond r, TxTerminate] else []) @ rest"
    and rest: "finals rest = []" "byes rest = []"
    using RespondAndDrop_trace [of c t conf s] by auto
  show ?thesis
  proof (cases "si_tx s")
    case True
    with tr rest show ?thesis by (intro dialog_inv_answered [OF inv]) auto
  next
    case False
    with tr rest inv show ?thesis by (auto simp: dialog_inv_def)
  qed
qed

section \<open>The retransmission loop\<close>

lemma accept_loop_sent:
  "accept_loop udp w outcome k ra sent waited = (res, n, t) \<Longrightarrow>
     sent \<le> n \<and> ((\<exists>x. res = Inr x) \<longrightarrow> sent < n)"
proof (induction udp w outcome k ra sent waited arbitrary: res n t rule: accept_loop.induct)
  case (1 udp w outcome k ra sent waited)
  then show ?case
    by (subst (asm) (2) accept_loop.simps)
       (fastforce split: try_outcome.splits if_splits)
qed

lemma accept_loop_no_failure:
  assumes "\<And>i e. outcome i \<noteq> RespondFails e"
  shows "\<exists>x. fst (accept_loop udp w outcome k ra sent waited) = Inr x"
  using assms
proof (induction udp w outcome k ra sent waited rule: accept_loop.induct)
  case (1 udp w outcome k ra sent waited)
  then show ?case by (subst accept_loop.simps) (auto split: try_outcome.splits)
qed

text \<open>How many 200 responses are sent, and how long the loop waits, if no ACK ever comes.\<close>

definition accept_cost :: "bool \<Rightarrow> bool \<Rightarrow> nat \<times> nanos" where
  "accept_cost udp waitAck =
     (if udp then (if waitAck then (6, 9750 * millisecond) else (3, 1750 * millisecond))
      else (if waitAck then (2, 6 * second) else (1, 0)))"

lemmas accept_loop_eval =
  accept_loop.simps maxRetries_def firstRetryAfter_def inviteOkRetryInterval_def inviteOkRetryIntervalMax_def
  inviteOKRetryAttempts_def inviteOKRetryAttemptsNoACK_def accept_cost_def

lemma accept_loop_cost:
  "fst (snd (accept_loop udp w outcome 1 (firstRetryAfter udp) 0 0)) \<le> fst (accept_cost udp w)
   \<and> snd (snd (accept_loop udp w outcome 1 (firstRetryAfter udp) 0 0)) \<le> snd (accept_cost udp w)"
  by (cases udp; cases w) (simp_all add: accept_loop_eval split: try_outcome.split)

lemma accept_loop_no_ack:
  "accept_loop udp w (\<lambda>_. TimerFires) 1 (firstRetryAfter udp) 0 0 =
     (Inr (if w then Some (Sentinel ErrNoACK) else None), fst (accept_cost udp w), snd (accept_cost udp w))"
  by (cases udp; cases w) (simp_all add: accept_loop_eval)

section \<open>Answering and closing keep the invariant\<close>

lemma Accept_result:
  assumes "si_tx s" and "\<And>i e. outcome i \<noteq> RespondFails e"
  shows "\<exists>n err. 0 < n \<and> fst (Accept conf outcome sdp hs s) = err
    \<and> si_trace (snd (Accept conf outcome sdp hs s)) =
        si_trace s @ replicate n (TxRespond (ok_response conf (s\<lparr>si_last_sdp := sdp\<rparr>) sdp hs))
    \<and> si_invite_ok (snd (Accept conf outcome sdp hs s)) = Some (ok_response conf (s\<lparr>si_last_sdp := sdp\<rparr>) sdp hs)
    \<and> si_tx (snd (Accept conf outcome sdp hs s)) = False
    \<and> si_invite (snd (Accept conf outcome sdp hs s)) = si_invite s"
proof -
  let ?udp = "si_leg_tr s = TransportUDP"
  let ?o = "\<lambda>i. if si_acked s \<and> outcome i = TimerFires then AckArrives else outcome i"
  obtain res n t where l: "accept_loop ?udp (ic_wait_ack conf) ?o 1 (firstRetryAfter ?udp) 0 0 = (res, n, t)"
    by (cases "accept_loop ?udp (ic_wait_ack conf) ?o 1 (firstRetryAfter ?udp) 0 0")
  have "\<exists>x. fst (accept_loop ?udp (ic_wait_ack conf) ?o 1 (firstRetryAfter ?udp) 0 0) = Inr x"
    using assms(2) by (intro accept_loop_no_failure) auto
  then obtain x where x: "res = Inr x" using l by auto
  then have "0 < n" using accept_loop_sent [OF l] by simp
  then show ?thesis
    using assms(1) l x by (auto simp: Accept_def Let_def accepted_def)
qed

lemma dialog_inv_Accept:
  assumes "dialog_inv s" and "\<And>i e. outcome i \<noteq> RespondFails e"
  shows "dialog_inv (snd (Accept conf outcome sdp hs s))"
proof (cases "si_tx s")
  case True
  obtain n r where "0 < n" and "rp_status r = 200"
    and "si_trace (snd (Accept conf outcome sdp hs s)) = si_trace s @ replicate n (TxRespond r)"
    and "si_invite_ok (snd (Accept conf outcome sdp hs s)) = Some r"
    and "si_tx (snd (Accept conf outcome sdp hs s)) = False"
    and "si_invite (snd (Accept conf outcome sdp hs s)) = si_invite s"
    using Accept_result [where outcome = outcome and conf = conf and sdp = sdp and hs = hs, OF True assms(2)]
    by fastforce
  then show ?thesis using assms(1) True by (simp add: dialog_inv_def)
next
  case False
  then show ?thesis using assms(1) by (simp add: Accept_def)
qed

lemma sendBye_sel:
  assumes "si_invite_ok s = Some ok" and "si_invite s = Some iv"
  shows "\<exists>q. rq_cseq q = Some (si_next_cseq s)
    \<and> si_trace (sendBye L conf fh hs s) = si_trace (drop_dialog s) @ [SendBye q]
    \<and> si_tx (sendBye L conf fh hs s) = False \<and> si_invite (sendBye L conf fh hs s) = None
    \<and> si_invite_ok (sendBye L conf fh hs s) = None \<and> si_ringing (sendBye L conf fh hs s) = False
    \<and> si_next_cseq (sendBye L conf fh hs s) = 0 \<and> si_invite_cseq (sendBye L conf fh hs s) = si_invite_cseq s"
  using assms by (auto simp: sendBye_def Let_def dialog_setCSeq_def setCSeq_def swapSrcDst_def split: prod.splits)

lemma sendStatus_sel:
  assumes "si_invite_ok s = None" and "si_tx s"
  shows "\<exists>r. (rp_status r, rp_reason r) = Result_NewResponse result
    \<and> si_trace (sendStatus fh result hs s) = si_trace s @ [TxRespond r, TxTerminate]
    \<and> si_tx (sendStatus fh result hs s) = False \<and> si_invite (sendStatus fh result hs s) = None
    \<and> si_invite_ok (sendStatus fh result hs s) = None \<and> si_ringing (sendStatus fh result hs s) = False
    \<and> si_next_cseq (sendStatus fh result hs s) = 0 \<and> si_invite_cseq (sendStatus fh result hs s) = si_invite_cseq s"
  using assms by (auto simp: sendStatus_def Let_def split: prod.splits)

lemma dialog_inv_Close:
  assumes "dialog_inv s"
  shows "dialog_inv (CloseWithStatus L conf fh result hs s)"
proof (cases "si_invite_ok s")
  case (Some ok)
  with assms obtain iv where iv: "si_invite s = Some iv" by (auto simp: dialog_inv_def)
  show ?thesis
    using sendBye_sel [OF Some iv, of L conf fh hs] assms Some
    by (auto simp: CloseWithStatus_def dialog_inv_def)
next
  case None
  show ?thesis
  proof (cases "si_tx s")
    case True
    obtain r where r: "si_trace (sendStatus fh result hs s) = si_trace s @ [TxRespond r, TxTerminate]"
      and "\<not> si_tx (sendStatus fh result hs s)" "si_invite_ok (sendStatus fh result hs s) = None"
      using sendStatus_sel [OF None True, of result fh hs] by auto
    then have "dialog_inv (sendStatus fh result hs s)"
      by (intro dialog_inv_answered [OF assms True]) auto
    then show ?thesis using None True by (simp add: CloseWithStatus_def)
  next
    case False
    then show ?thesis using None assms by (simp add: CloseWithStatus_def dialog_inv_drop)
  qed
qed

lemma newReferReq_cases:
  "newReferReq L conf fh to hs s = None
   \<or> (\<exists>e. newReferReq L conf fh to hs s = Some (Inl e, s))
   \<or> (\<exists>req s'. newReferReq L conf fh to hs s = Some (Inr req, s') \<and> si_invite s \<noteq> None \<and> si_invite_ok s \<noteq> None
        \<and> rq_cseq req = Some (si_next_cseq s) \<and> s' = s\<lparr>si_next_cseq := si_next_cseq s + 1, si_refer_cseq := si_next_cseq s\<rparr>)"
  by (auto simp: newReferReq_def NewReferRequest_def dialog_setCSeq_def setCSeq_def swapSrcDst_def Let_def
      split: option.splits list.splits prod.splits)

lemma refer_step_cases:
  assumes "dialog_step L conf (EvRefer fh to hs) s = Some t"
  obtains "t = s"
  | req where "rq_cseq req = Some (si_next_cseq s)" "si_invite s \<noteq> None" "si_invite_ok s \<noteq> None"
      "t = emit (SendRefer req) (s\<lparr>si_next_cseq := si_next_cseq s + 1, si_refer_cseq := si_next_cseq s\<rparr>)"
  using newReferReq_cases [of L conf fh to hs s] assms
proof (elim disjE exE conjE)
  fix req s'
  assume a: "newReferReq L conf fh to hs s = Some (Inr req, s')" "rq_cseq req = Some (si_next_cseq s)"
    "si_invite s \<noteq> None" "si_invite_ok s \<noteq> None"
    "s' = s\<lparr>si_next_cseq := si_next_cseq s + 1, si_refer_cseq := si_next_cseq s\<rparr>"
  show thesis by (rule that(2) [of req]) (use a assms in simp_all)
next
  assume "newReferReq L conf fh to hs s = None"
  then show thesis using assms by simp
next
  fix e
  assume "newReferReq L conf fh to hs s = Some (Inl e, s)"
  then show thesis using assms by (intro that(1)) simp
qed

lemma StartRinging_sel:
  "StartRinging conf s = Some t \<Longrightarrow>
     si_tx t = si_tx s \<and> si_invite t = si_invite s \<and> si_invite_ok t = si_invite_ok s
     \<and> finals (si_trace t) = finals (si_trace s) \<and> byes (si_trace t) = byes (si_trace s)
     \<and> requests (si_trace t) = requests (si_trace s) \<and> si_next_cseq t = si_next_cseq s
     \<and> si_invite_cseq t = si_invite_cseq s"
  by (auto simp: StartRinging_def sendRinging_def Let_def respond_provisional attachTag_def split: if_splits)

lemma ring_sel [simp]:
  "si_tx (ring_cancel s) = si_tx s" "si_invite (ring_cancel s) = si_invite s"
  "si_invite_ok (ring_cancel s) = si_invite_ok s" "finals (si_trace (ring_cancel s)) = finals (si_trace s)"
  "byes (si_trace (ring_cancel s)) = byes (si_trace s)" "requests (si_trace (ring_cancel s)) = requests (si_trace s)"
  "si_next_cseq (ring_cancel s) = si_next_cseq s" "si_invite_cseq (ring_cancel s) = si_invite_cseq s"
  "si_tx (ring_stop s) = si_tx s" "si_invite (ring_stop s) = si_invite s"
  "si_invite_ok (ring_stop s) = si_invite_ok s" "si_trace (ring_stop s) = si_trace s"
  "si_next_cseq (ring_stop s) = si_next_cseq s" "si_invite_cseq (ring_stop s) = si_invite_cseq s"
  "si_tx (ring_tick conf s) = si_tx s" "si_invite (ring_tick conf s) = si_invite s"
  "si_invite_ok (ring_tick conf s) = si_invite_ok s" "si_next_cseq (ring_tick conf s) = si_next_cseq s"
  "si_invite_cseq (ring_tick conf s) = si_invite_cseq s"
  "requests (si_trace (ring_tick conf s)) = requests (si_trace s)"
  by (simp_all add: ring_cancel_def ring_stop_def ring_tick_def sendRinging_def respond_provisional)

lemma dialog_inv_small:
  assumes "dialog_inv s"
  shows "dialog_inv (ring_cancel s)" and "dialog_inv (ring_stop s)" and "dialog_inv (AcceptAck s)"
  by (rule dialog_inv_same [OF assms]; simp add: AcceptAck_def)+

definition event_ok :: "dialog_event \<Rightarrow> bool" where
  "event_ok e = (case e of EvAccept outcome _ _ \<Rightarrow> (\<forall>i err. outcome i \<noteq> RespondFails err) | _ \<Rightarrow> True)"

lemma dialog_inv_step:
  assumes "dialog_inv s" and "event_ok e" and "dialog_step L conf e s = Some t"
  shows "dialog_inv t"
proof (cases e)
  case EvProcessing
  then show ?thesis using assms by (auto simp: Processing_def dialog_inv_respond)
next
  case EvStartRinging
  then show ?thesis using assms by (auto intro!: dialog_inv_same [of s] dest: StartRinging_sel)
next
  case EvRingTick
  then show ?thesis using assms by (auto simp: ring_tick_def sendRinging_def dialog_inv_respond)
next
  case (EvAccept outcome sdp hs)
  then show ?thesis using assms dialog_inv_Accept [of s outcome] by (auto simp: event_ok_def)
next
  case EvBye
  then have "t = drop_dialog (emit ByeOK s)" using assms(3) by (simp add: AcceptBye_def)
  moreover have "dialog_inv (emit ByeOK s)" by (rule dialog_inv_same [OF assms(1)]) simp_all
  ultimately show ?thesis by (simp add: dialog_inv_drop)
next
  case (EvRefer fh to hs)
  with assms(3) have "dialog_step L conf (EvRefer fh to hs) s = Some t" by simp
  then show ?thesis
    by (cases rule: refer_step_cases) (use assms(1) in \<open>simp_all add: dialog_inv_def\<close>)
qed (use assms in \<open>auto simp: dialog_inv_small dialog_inv_drop dialog_inv_RespondAndDrop dialog_inv_Close\<close>)

interpretation inbound_dialog: machine
  "\<lambda>e so. Option.bind so (dialog_step L conf e)" event_ok "\<lambda>so. case so of None \<Rightarrow> True | Some s \<Rightarrow> dialog_inv s"
  for L conf
  by unfold_locales (auto split: option.splits bind_splits intro: dialog_inv_step)

lemma newInbound_inv: "newInbound conf ip fresh cached iv = Inr s \<Longrightarrow> dialog_inv s"
  by (auto simp: newInbound_def Let_def dialog_inv_def split: option.splits if_splits prod.splits)

lemma dialog_run_inv:
  assumes "newInbound conf ip fresh cached iv = Inr s" and "list_all event_ok es" and "dialog_run L conf es s = Some t"
  shows "dialog_inv t"
  using inbound_dialog.inv_run [of "Some s" es L conf] newInbound_inv [OF assms(1)] assms(2,3)
  by (simp add: dialog_run_def)

section \<open>Request numbers\<close>

definition cseq_inv :: "sip_inbound \<Rightarrow> bool" where
  "cseq_inv s =
     (map rq_cseq (requests (si_trace s)) =
        map (\<lambda>i. Some (si_invite_cseq s + 1 + of_nat i)) [0..<length (requests (si_trace s))]
      \<and> (si_invite s \<noteq> None \<longrightarrow> si_next_cseq s = si_invite_cseq s + 1 + of_nat (length (requests (si_trace s)))))"

text \<open>A dialog that can still answer or has answered keeps its INVITE.\<close>

definition invite_kept :: "sip_inbound \<Rightarrow> bool" where
  "invite_kept s =
     ((si_tx s \<or> si_invite_ok s \<noteq> None \<longrightarrow> si_invite s \<noteq> None) \<and> (si_invite_ok s \<noteq> None \<longrightarrow> \<not> si_tx s))"

lemma cseq_inv_same:
  assumes "cseq_inv s" and "requests (si_trace t) = requests (si_trace s)" and "si_invite_cseq t = si_invite_cseq s"
    and "si_invite t = None \<or> si_invite t = si_invite s \<and> si_next_cseq t = si_next_cseq s"
  shows "cseq_inv t"
  using assms by (auto simp: cseq_inv_def)

lemma cseq_inv_send:
  assumes "cseq_inv s" and "si_invite s \<noteq> None" and "requests (si_trace t) = requests (si_trace s) @ [q]"
    and "rq_cseq q = Some (si_next_cseq s)" and "si_invite_cseq t = si_invite_cseq s"
    and "si_invite t = None \<or> si_next_cseq t = si_next_cseq s + 1"
  shows "cseq_inv t"
  using assms by (auto simp: cseq_inv_def algebra_simps)

lemma Accept_requests:
  "requests (si_trace (snd (Accept conf outcome sdp hs s))) = requests (si_trace s)
   \<and> si_invite_cseq (snd (Accept conf outcome sdp hs s)) = si_invite_cseq s
   \<and> si_invite (snd (Accept conf outcome sdp hs s)) = si_invite s
   \<and> si_next_cseq (snd (Accept conf outcome sdp hs s)) = si_next_cseq s"
  by (simp add: Accept_def Let_def accepted_def split: prod.splits sum.splits)

lemma cseq_inv_Close:
  assumes "cseq_inv s" and "si_invite_ok s \<noteq> None \<longrightarrow> si_invite s \<noteq> None"
  shows "cseq_inv (CloseWithStatus L conf fh result hs s)"
proof (cases "si_invite_ok s")
  case (Some ok)
  with assms(2) obtain iv where iv: "si_invite s = Some iv" by auto
  show ?thesis
    using sendBye_sel [OF Some iv, of L conf fh hs] assms(1) Some iv
    by (auto simp: CloseWithStatus_def intro!: cseq_inv_send [of s])
next
  case None
  then show ?thesis
    using sendStatus_sel [OF None, of result fh hs] assms(1)
    by (cases "si_tx s") (auto simp: CloseWithStatus_def intro!: cseq_inv_same [of s])
qed

lemma RespondAndDrop_requests:
  "requests (si_trace (RespondAndDrop conf c t s)) = requests (si_trace s)
   \<and> si_invite_cseq (RespondAndDrop conf c t s) = si_invite_cseq s"
  by (simp add: RespondAndDrop_def Let_def respond_provisional)

lemma cseq_inv_step:
  assumes "cseq_inv s" and "invite_kept s" and "dialog_step L conf e s = Some t"
  shows "cseq_inv t"
proof (cases e)
  case EvStartRinging
  then show ?thesis using assms by (auto intro!: cseq_inv_same [of s] dest: StartRinging_sel)
next
  case (EvAccept outcome sdp hs)
  then show ?thesis
    using assms Accept_requests [of conf outcome sdp hs s] by (auto intro!: cseq_inv_same [of s])
next
  case (EvRespondAndDrop c r)
  then show ?thesis
    using assms RespondAndDrop_requests [of conf c r s] by (auto intro!: cseq_inv_same [of s])
next
  case (EvClose fh result hs)
  then show ?thesis using assms cseq_inv_Close by (auto simp: invite_kept_def)
next
  case (EvRefer fh to hs)
  with assms(3) have "dialog_step L conf (EvRefer fh to hs) s = Some t" by simp
  then show ?thesis
  proof (cases rule: refer_step_cases)
    case 1
    then show ?thesis using assms(1) by simp
  next
    case (2 req)
    then show ?thesis by (intro cseq_inv_send [OF assms(1), where q = req]) simp_all
  qed
qed (use assms in \<open>auto simp: Processing_def AcceptAck_def
       AcceptBye_def respond_provisional intro!: cseq_inv_same [OF assms(1)]\<close>)

lemma Accept_kept: "invite_kept s \<Longrightarrow> invite_kept (snd (Accept conf outcome sdp hs s))"
  by (auto simp: invite_kept_def Accept_def Let_def accepted_def split: prod.splits sum.splits)

lemma Close_kept: "invite_kept s \<Longrightarrow> invite_kept (CloseWithStatus L conf fh result hs s)"
  by (auto simp: invite_kept_def CloseWithStatus_def sendBye_def sendStatus_def Let_def split: prod.splits option.splits)

lemma invite_kept_step:
  assumes "invite_kept s" and "dialog_step L conf e s = Some t"
  shows "invite_kept t"
proof (cases e)
  case EvStartRinging
  then show ?thesis using assms by (auto simp: invite_kept_def dest: StartRinging_sel)
next
  case (EvRefer fh to hs)
  with assms(2) have "dialog_step L conf (EvRefer fh to hs) s = Some t" by simp
  then show ?thesis
    by (cases rule: refer_step_cases) (use assms(1) in \<open>simp_all add: invite_kept_def\<close>)
qed (use assms in \<open>auto simp: Processing_def AcceptAck_def AcceptBye_def Accept_kept
       Close_kept\<close>, auto simp: invite_kept_def)

lemma Close_invite_cseq: "si_invite_cseq (CloseWithStatus L conf fh result hs s) = si_invite_cseq s"
  by (auto simp: CloseWithStatus_def sendBye_def sendStatus_def dialog_setCSeq_def Let_def
      split: prod.splits option.splits)

lemma dialog_step_invite_cseq:
  assumes "dialog_step L conf e s = Some t"
  shows "si_invite_cseq t = si_invite_cseq s"
proof (cases e)
  case (EvRefer fh to hs)
  with assms have "dialog_step L conf (EvRefer fh to hs) s = Some t" by simp
  then show ?thesis by (cases rule: refer_step_cases) simp_all
qed (use assms StartRinging_sel in \<open>auto simp: Processing_def AcceptAck_def AcceptBye_def
       Accept_requests RespondAndDrop_requests Close_invite_cseq\<close>)

interpretation inbound_cseq: machine
  "\<lambda>e so. Option.bind so (dialog_step L conf e)" "\<lambda>_. True"
  "\<lambda>so. case so of None \<Rightarrow> True | Some s \<Rightarrow> cseq_inv s \<and> invite_kept s \<and> si_invite_cseq s = c"
  for L conf c
  by unfold_locales
     (auto split: option.splits bind_splits intro: cseq_inv_step invite_kept_step
       simp: dialog_step_invite_cseq)

lemma newInbound_cseq:
  assumes "newInbound conf ip fresh cached iv = Inr s" and "iv_cseq iv = Some c"
  shows "cseq_inv s \<and> invite_kept s \<and> si_invite_cseq s = c"
  using assms
  by (auto simp: newInbound_def Let_def cseq_inv_def invite_kept_def split: option.splits if_splits prod.splits)

section \<open>Closing\<close>

definition dialog_closed :: "sip_inbound \<Rightarrow> bool" where
  "dialog_closed s =
     (\<not> si_tx s \<and> si_invite s = None \<and> si_invite_ok s = None \<and> si_next_cseq s = 0 \<and> \<not> si_ringing s)"

lemma drop_closed: "dialog_closed (drop_dialog s)"
  by (simp add: dialog_closed_def)

lemma closed_drop: "dialog_closed s \<Longrightarrow> drop_dialog s = s"
  by (cases s) (simp add: dialog_closed_def drop_dialog_def stopRinging_def Let_def)

lemma Close_closes:
  "invite_kept s \<Longrightarrow> dialog_closed (CloseWithStatus L conf fh result hs s)"
  by (auto simp: invite_kept_def CloseWithStatus_def sendBye_def sendStatus_def Let_def drop_closed
      dialog_closed_def split: prod.splits option.splits)

interpretation inbound_close: once_op invite_kept dialog_closed
  "\<lambda>a s. CloseWithStatus L conf (fst a) (fst (snd a)) (snd (snd a)) s" for L conf
proof
  show "dialog_closed s \<Longrightarrow> CloseWithStatus L conf (fst a) (fst (snd a)) (snd (snd a)) s = s" for s a
    using closed_drop [of s] by (simp add: CloseWithStatus_def dialog_closed_def)
qed (rule Close_closes)

lemma dialog_run_kept:
  assumes "newInbound conf ip fresh cached iv = Inr s" and "iv_cseq iv = Some c" and "dialog_run L conf es s = Some t"
  shows "cseq_inv t \<and> invite_kept t \<and> si_invite_cseq t = c"
  using inbound_cseq.inv_run [of c "Some s" es L conf] newInbound_cseq [OF assms(1,2)] assms(3)
  by (simp add: dialog_run_def list_all_iff)

section \<open>An example call\<close>

definition sample_uri :: sip_uri where
  "sample_uri = \<lparr>su_scheme = ''sip'', su_user = ''alice'', su_host = ''pbx'', su_port = 5060, su_params = []\<rparr>"

definition sample_invite :: invite where
  "sample_invite = \<lparr>iv_call_id = Some ''c1'', iv_from = Some (sample_uri, Some [(''tag'', ''ft'')]),
     iv_to = Some (sample_uri, None), iv_vias = [\<lparr>via_transport = ''UDP'', via_host = ''pbx'', via_port = 5060\<rparr>],
     iv_recipient = sample_uri, iv_cseq = Some 7, iv_contact = None, iv_record_route = [], iv_route = [],
     iv_transport = ''UDP'', iv_source = ''pbx:5060'', iv_destination = ''lk:5060'', iv_headers = [],
     iv_ctype = None, iv_body = []\<rparr>"

definition sample_conf :: inbound_conf where
  "sample_conf = \<lparr>ic_contact = \<lparr>cf_sip_port = 5060, cf_tls_port = None, cf_hostname = []\<rparr>, ic_signaling_ip = ''lk'',
     ic_add_record_route = False, ic_wait_ack = False, ic_hide_port = False, ic_rejected_cache = True\<rparr>"

definition sample_lib :: sip_lib where
  "sample_lib = \<lparr>lib_view = (\<lambda>iv r. \<lparr>rv_source = iv_destination iv, rv_destination = iv_source iv,
       rv_record_route = iv_record_route iv, rv_to = map_option with_params (iv_to iv)\<rparr>),
     lib_bye = (\<lambda>iv r. \<lparr>rq_method = ''BYE'', rq_recipient = iv_recipient iv, rq_source = iv_source iv,
       rq_destination = iv_destination iv, rq_transport = iv_transport iv,
       rq_from = map_option with_params (iv_from iv), rq_to = map_option with_params (iv_to iv),
       rq_vias = iv_vias iv, rq_routes = [], rq_record_routes = iv_record_route iv, rq_cseq = iv_cseq iv,
       rq_contact = None, rq_headers = []\<rparr>)\<rparr>"

definition sample_dialog :: sip_inbound where
  "sample_dialog = (case newInbound sample_conf None ''SCL'' (\<lambda>_. None) sample_invite of Inr s \<Rightarrow> s)"

lemma sample_newInbound: "newInbound sample_conf None ''SCL'' (\<lambda>_. None) sample_invite = Inr sample_dialog"
  by (simp add: sample_dialog_def newInbound_def sample_invite_def param_def Let_def)

lemma sample_dialog_sel [simp]: "si_tx sample_dialog" "si_invite sample_dialog = Some sample_invite"
  "si_invite_ok sample_dialog = None" "si_acked sample_dialog = False" "si_trace sample_dialog = []"
  by (simp_all add: sample_dialog_def newInbound_def sample_invite_def param_def Let_def)

section \<open>Properties\<close>



text \<open>
  Closing a dialog does exactly what its state calls for and is final.  An answered call is hung up
  with one BYE that carries the next request number; an unanswered one gets the given status as its
  final answer (503 if none is given) and its transaction ends; otherwise nothing is sent.  Any number of further close
  calls, with whatever status and headers, changes nothing.
\<close>

theorem close_is_final:
  assumes "newInbound conf ip fresh cached iv = Inr s" and "iv_cseq iv = Some c" and "dialog_run L conf es s = Some t"
  shows "(\<exists>q r. si_trace (CloseWithStatus L conf fh result hs t) =
        si_trace t @ (if si_invite_ok t \<noteq> None then [SendBye q] else if si_tx t then [TxRespond r, TxTerminate] else [])
      \<and> rq_cseq q = Some (si_next_cseq t) \<and> (rp_status r, rp_reason r) = Result_NewResponse result)
    \<and> fold (\<lambda>a s. CloseWithStatus L conf (fst a) (fst (snd a)) (snd (snd a)) s) again (CloseWithStatus L conf fh result hs t)
      = CloseWithStatus L conf fh result hs t"
proof -
  have k: "invite_kept t" using dialog_run_kept [OF assms] by simp
  have r0: "\<exists>r :: sip_response. (rp_status r, rp_reason r) = Result_NewResponse result"
    by (intro exI [of _ "plain_response (fst (Result_NewResponse result)) (snd (Result_NewResponse result)) []"]) simp
  have q0: "\<exists>q :: sip_request. rq_cseq q = Some (si_next_cseq t)"
    by (intro exI [of _ "(lib_bye sample_lib sample_invite (plain_response 200 [] []))\<lparr>rq_cseq := Some (si_next_cseq t)\<rparr>"]) simp
  have "\<exists>q r. si_trace (CloseWithStatus L conf fh result hs t) =
        si_trace t @ (if si_invite_ok t \<noteq> None then [SendBye q] else if si_tx t then [TxRespond r, TxTerminate] else [])
      \<and> rq_cseq q = Some (si_next_cseq t) \<and> (rp_status r, rp_reason r) = Result_NewResponse result"
  proof (cases "si_invite_ok t")
    case (Some ok)
    with k obtain iv where iv: "si_invite t = Some iv" and tx: "\<not> si_tx t" by (auto simp: invite_kept_def)
    from sendBye_sel [OF Some iv, of L conf fh hs] r0 show ?thesis by (auto simp: CloseWithStatus_def Some tx)
  next
    case None
    with sendStatus_sel [OF None, of result fh hs] q0 r0 show ?thesis
      by (cases "si_tx t") (auto simp: CloseWithStatus_def)
  qed
  with inbound_close.shut_many [OF k, of L conf again "(fh, result, hs)"] show ?thesis by simp
qed

theorem close_is_final_witness:
  "\<exists>t. dialog_run sample_lib sample_conf [EvProcessing, EvStartRinging] sample_dialog = Some t \<and> si_tx t
    \<and> (\<exists>r. si_trace (CloseWithStatus sample_lib sample_conf None \<lparr>rs_code = 404, rs_status = []\<rparr> [] t) =
          si_trace t @ [TxRespond r, TxTerminate] \<and> rp_status r = 404)"
proof -
  obtain t where t: "dialog_run sample_lib sample_conf [EvProcessing, EvStartRinging] sample_dialog = Some t"
    and tx: "si_tx t" "si_invite_ok t = None"
    by (auto simp: dialog_run_def Processing_def StartRinging_def sendRinging_def attachTag_def Let_def)
  have c: "iv_cseq sample_invite = Some 7" by (simp add: sample_invite_def)
  show ?thesis
    using close_is_final [OF sample_newInbound c t, of None "\<lparr>rs_code = 404, rs_status = []\<rparr>" "[]" "[]"] t tx
    by (auto simp: Result_NewResponse_def)
qed

text \<open>
  C21: Requests the bridge sends within an inbound dialog (REFER and BYE) are numbered without gaps,
  starting right after the INVITE's number, modulo the 32-bit width of CSeq; a dialog never reuses a
  number.
\<close>

theorem dialog_request_numbers:
  assumes "newInbound conf ip fresh cached iv = Inr s" and "iv_cseq iv = Some c" and "dialog_run L conf es s = Some t"
  shows "map rq_cseq (requests (si_trace t)) =
    map (\<lambda>i. Some (c + 1 + of_nat i)) [0..<length (requests (si_trace t))]"
  using dialog_run_kept [OF assms] by (simp add: cseq_inv_def)

theorem dialog_request_numbers_witness:
  "\<exists>t. dialog_run sample_lib sample_conf
       [EvAccept (\<lambda>_. AckArrives) ''sdp'' [], EvRefer None ''sip:bob'' [], EvBye] sample_dialog = Some t
    \<and> map rq_cseq (requests (si_trace t)) = map (\<lambda>i. Some (7 + 1 + of_nat i)) [0..<length (requests (si_trace t))]"
proof -
  let ?es = "[EvAccept (\<lambda>_. AckArrives) ''sdp'' [], EvRefer None ''sip:bob'' [], EvBye]"
  have c: "iv_cseq sample_invite = Some 7" by (simp add: sample_invite_def)
  let ?s = "snd (Accept sample_conf (\<lambda>_. AckArrives) ''sdp'' [] sample_dialog)"
  have "si_invite ?s = Some sample_invite" by (simp add: Accept_requests)
  then have "newReferReq sample_lib sample_conf None ''sip:bob'' [] ?s \<noteq> None"
    by (auto simp: newReferReq_def NewReferRequest_def sample_invite_def Let_def split: option.splits prod.splits)
  then obtain x where "newReferReq sample_lib sample_conf None ''sip:bob'' [] ?s = Some x" by blast
  then obtain t where "dialog_run sample_lib sample_conf ?es sample_dialog = Some t"
    by (cases x; cases "fst x") (auto simp: dialog_run_def)
  then show ?thesis using dialog_request_numbers [OF sample_newInbound c] by blast
qed

text \<open>
  The wait for the ACK is bounded whatever the network does: \<open>accept_cost\<close> gives the number of 200
  responses and the total wait that are never exceeded, and both are reached when no ACK comes.  Only
  with \<open>InboundWaitACK\<close> is the missing ACK reported as an error.
\<close>

theorem accept_effort_bounded:
  "fst (snd (accept_loop udp w outcome 1 (firstRetryAfter udp) 0 0)) \<le> fst (accept_cost udp w)
   \<and> snd (snd (accept_loop udp w outcome 1 (firstRetryAfter udp) 0 0)) \<le> snd (accept_cost udp w)
   \<and> accept_loop udp w (\<lambda>_. TimerFires) 1 (firstRetryAfter udp) 0 0 =
       (Inr (if w then Some (Sentinel ErrNoACK) else None), fst (accept_cost udp w), snd (accept_cost udp w))"
  using accept_loop_cost [of udp w outcome] accept_loop_no_ack [of udp w] by simp

text \<open>
  If the transport refuses the first retransmission of the 200, \<open>Accept\<close> returns the error with the
  INVITE still open although the peer has been sent a 200, so that closing the call afterwards sends a
  second, different final answer instead of a BYE.
\<close>

theorem accept_failure_second_answer:
  assumes "si_tx s" and "si_invite_ok s = None" and "\<not> si_acked s" and "si_leg_tr s = TransportUDP"
    and "outcome 1 = TimerFires" and "outcome 2 = RespondFails e"
  shows "fst (Accept conf outcome sdp hs s) = Some e
    \<and> (\<exists>r. finals (si_trace (CloseWithStatus L conf fh \<lparr>rs_code = 486, rs_status = ''Rejected''\<rparr> []
              (snd (Accept conf outcome sdp hs s)))) =
         finals (si_trace s) @ [ok_response conf (s\<lparr>si_last_sdp := sdp\<rparr>) sdp hs, r] \<and> rp_status r = 486)"
proof -
  have l: "accept_loop True (ic_wait_ack conf)
      (\<lambda>i. if si_acked s \<and> outcome i = TimerFires then AckArrives else outcome i) 1 (firstRetryAfter True) 0 0 =
      (Inl e, 1, inviteOkRetryInterval)"
    using assms(3,5,6) by (simp add: accept_loop_eval numeral_2_eq_2)
  define t where "t = snd (Accept conf outcome sdp hs s)"
  have a: "fst (Accept conf outcome sdp hs s) = Some e" "si_tx t" "si_invite_ok t = None"
    "finals (si_trace t) = finals (si_trace s) @ [ok_response conf (s\<lparr>si_last_sdp := sdp\<rparr>) sdp hs]"
    using assms(1,2,4) l by (simp_all add: t_def Accept_def Let_def)
  show ?thesis
    using sendStatus_sel [OF a(3,2), of "\<lparr>rs_code = 486, rs_status = ''Rejected''\<rparr>" fh "[]"] a
    unfolding t_def [symmetric] by (auto simp: CloseWithStatus_def Result_NewResponse_def)
qed

theorem accept_failure_second_answer_witness:
  "\<exists>r. finals (si_trace (CloseWithStatus sample_lib sample_conf None \<lparr>rs_code = 486, rs_status = ''Rejected''\<rparr> []
        (snd (Accept sample_conf (\<lambda>i. if i = 1 then TimerFires else RespondFails (Plain ''broken'')) ''sdp'' []
           (sample_dialog\<lparr>si_leg_tr := ''udp''\<rparr>))))) =
     [ok_response sample_conf ((sample_dialog\<lparr>si_leg_tr := ''udp''\<rparr>)\<lparr>si_last_sdp := ''sdp''\<rparr>) ''sdp'' [], r] \<and> rp_status r = 486"
  using accept_failure_second_answer [of "sample_dialog\<lparr>si_leg_tr := ''udp''\<rparr>"
      "\<lambda>i. if i = 1 then TimerFires else RespondFails (Plain ''broken'')" "Plain ''broken''"
      sample_conf "''sdp''" "[]" sample_lib None]
  by simp

text \<open>
  The REFER of a transfer travels the dialog's own path: it names us as From and the caller as To, is sent
  to the caller's Contact, or to the first Record-Route entry if there is one, carries the recorded
  route set in the order the proxies recorded it, and the number it is sent with is the one later
  NOTIFYs are matched against.
\<close>

theorem refer_follows_dialog:
  assumes "newReferReq L conf fh to hs s = Some (Inr req, s')" and "si_invite s = Some iv" and "si_invite_ok s = Some ok"
  shows "rq_from req = Some (si_to s) \<and> rq_to req = Some (si_from s)
    \<and> rq_recipient req = (case iv_contact iv of Some c \<Rightarrow> c | None \<Rightarrow> fst (si_from s))
    \<and> (\<forall>r rs. iv_record_route iv = r # rs \<longrightarrow> rq_destination req = GetDest (ConvertURI r))
    \<and> rq_routes req = (if iv_route iv \<noteq> [] then iv_route iv else rv_record_route (lib_view L iv ok))
    \<and> rq_cseq req = Some (si_refer_cseq s') \<and> si_refer_cseq s' = si_next_cseq s"
proof -
  have push: "fold (\<lambda>h rs. h # rs) xs ys = rev xs @ ys" for xs ys :: "sip_uri list"
    by (induction xs arbitrary: ys) simp_all
  show ?thesis
    using assms
    by (auto simp: newReferReq_def NewReferRequest_def dialog_setCSeq_def setCSeq_def swapSrcDst_def Let_def push
        split: option.splits list.splits prod.splits if_splits)
qed

theorem refer_follows_dialog_witness:
  "\<exists>req s'. newReferReq sample_lib sample_conf None ''sip:bob'' []
      (sample_dialog\<lparr>si_invite_ok := Some (plain_response 200 [] [])\<rparr>) = Some (Inr req, s')
    \<and> rq_to req = Some (si_from sample_dialog) \<and> rq_routes req = [] \<and> rq_cseq req = Some (si_refer_cseq s')"
proof -
  let ?s = "sample_dialog\<lparr>si_invite_ok := Some (plain_response 200 [] [])\<rparr>"
  obtain req s' where r: "newReferReq sample_lib sample_conf None ''sip:bob'' [] ?s = Some (Inr req, s')"
    by (simp add: newReferReq_def NewReferRequest_def sample_invite_def dialog_setCSeq_def setCSeq_def
        swapSrcDst_def Let_def)
  have i: "si_invite ?s = Some sample_invite" "si_invite_ok ?s = Some (plain_response 200 [] [])" by simp_all
  show ?thesis
    using refer_follows_dialog [OF r i] r by (simp add: sample_lib_def sample_invite_def)
qed

end
