(* ===== verification/InboundServerProps.thy ===== *)
theory InboundServerProps
  imports InboundServer InboundDialogProps
begin

text \<open>
  Admission control: who gets through, how each refusal is answered, what a retry of a refused INVITE
  gets, and the table of invites in progress with its challenge timers.
\<close>

section \<open>The table of invites in progress\<close>

definition table_ok :: "server \<Rightarrow> bool" where
  "table_ok sv =
     (length (sv_queue sv) \<le> digestLimit
      \<and> list_all (\<lambda>r. r < length (sv_store sv)) (sv_queue sv)
      \<and> distinct (map (\<lambda>r. ip_call_id (sv_store sv ! r)) (sv_queue sv)))"

definition same_table :: "server \<Rightarrow> server \<Rightarrow> bool" where
  "same_table a b = (sv_queue a = sv_queue b \<and> map ip_call_id (sv_store a) = map ip_call_id (sv_store b))"

lemma same_table_ok:
  assumes "same_table a b" and "table_ok b"
  shows "table_ok a"
proof -
  have l: "length (sv_store a) = length (sv_store b)"
    using assms(1) unfolding same_table_def by (metis length_map)
  have id: "ip_call_id (sv_store a ! r) = ip_call_id (sv_store b ! r)" if "r < length (sv_store b)" for r
    using that assms(1) l unfolding same_table_def by (metis nth_map)
  have ids: "map (\<lambda>r. ip_call_id (sv_store a ! r)) (sv_queue b) = map (\<lambda>r. ip_call_id (sv_store b ! r)) (sv_queue b)"
    using assms(2) id by (auto simp: table_ok_def list_all_iff)
  have q: "sv_queue a = sv_queue b" using assms(1) by (simp add: same_table_def)
  show ?thesis unfolding table_ok_def q l ids using assms(2) by (simp add: table_ok_def)
qed

lemma same_table_refl [simp]: "same_table a a"
  by (simp add: same_table_def)

lemma same_table_trans: "same_table a b \<Longrightarrow> same_table b d \<Longrightarrow> same_table a d"
  by (simp add: same_table_def)

lemma map_update_same: "f x = f (xs ! r) \<Longrightarrow> map f (xs[r := x]) = map f xs"
  by (cases "r < length xs") (simp_all add: map_update list_update_same_conv list_update_beyond)

lemma same_table_set [simp]:
  "same_table (set_resolved r b sv) sv" "same_table (set_challenge r c sv) sv"
  by (simp_all add: same_table_def set_resolved_def set_challenge_def map_update_same)

lemma same_table_other [simp]:
  "same_table (count_invite tag iv sv) sv" "same_table (finish_indexed msg now err i sv) sv"
  "same_table (scheduleAuthChallengeTimeout r i now sv) sv"
  by (simp_all add: count_invite_def getCallInfo_def finish_indexed_def scheduleAuthChallengeTimeout_def Let_def
      same_table_def set_resolved_def map_update_same split: option.splits)

lemma apply_cache_other:
  "sv_queue (apply_cache cc sv) = sv_queue sv" "sv_store (apply_cache cc sv) = sv_store sv"
  "sv_provisional (apply_cache cc sv) = sv_provisional sv" "sv_states (apply_cache cc sv) = sv_states sv"
proof -
  have "sv_queue (fold (\<lambda>e sv. case e of CacheRejection k st r \<Rightarrow> sv\<lparr>sv_rejected := mput k (st, r) (sv_rejected sv)\<rparr> | _ \<Rightarrow> sv) es sv) = sv_queue sv
    \<and> sv_store (fold (\<lambda>e sv. case e of CacheRejection k st r \<Rightarrow> sv\<lparr>sv_rejected := mput k (st, r) (sv_rejected sv)\<rparr> | _ \<Rightarrow> sv) es sv) = sv_store sv
    \<and> sv_provisional (fold (\<lambda>e sv. case e of CacheRejection k st r \<Rightarrow> sv\<lparr>sv_rejected := mput k (st, r) (sv_rejected sv)\<rparr> | _ \<Rightarrow> sv) es sv) = sv_provisional sv
    \<and> sv_states (fold (\<lambda>e sv. case e of CacheRejection k st r \<Rightarrow> sv\<lparr>sv_rejected := mput k (st, r) (sv_rejected sv)\<rparr> | _ \<Rightarrow> sv) es sv) = sv_states sv"
    for es by (induction es arbitrary: sv) (auto split: effect.splits)
  then show "sv_queue (apply_cache cc sv) = sv_queue sv" "sv_store (apply_cache cc sv) = sv_store sv"
    "sv_provisional (apply_cache cc sv) = sv_provisional sv" "sv_states (apply_cache cc sv) = sv_states sv"
    by (simp_all add: apply_cache_def)
qed

lemma same_table_cache [simp]: "same_table (apply_cache cc sv) sv"
  by (simp add: same_table_def apply_cache_other)

lemma find_invite_None: "find_invite cid sv = None \<longleftrightarrow> cid \<notin> set (map (\<lambda>r. ip_call_id (sv_store sv ! r)) (sv_queue sv))"
  by (auto simp: find_invite_def find_None_iff)

lemma table_ok_snoc:
  assumes "length q < digestLimit" and "list_all (\<lambda>r. r < length st) q"
    and "distinct (map (\<lambda>r. ip_call_id (st ! r)) q)" and "ip_call_id new \<notin> set (map (\<lambda>r. ip_call_id (st ! r)) q)"
  shows "table_ok (sv\<lparr>sv_queue := q @ [length st], sv_store := st @ [new]\<rparr>)"
proof -
  have ids: "map (\<lambda>r. ip_call_id ((st @ [new]) ! r)) (q @ [length st]) = map (\<lambda>r. ip_call_id (st ! r)) q @ [ip_call_id new]"
    using assms(2) by (auto simp: list_all_iff nth_append)
  have "distinct (map (\<lambda>r. ip_call_id ((st @ [new]) ! r)) (q @ [length st]))"
    unfolding ids using assms(3,4) by simp
  moreover have "list_all (\<lambda>r. r < length (st @ [new])) (q @ [length st])"
    using assms(2) by (auto simp: list_all_iff)
  ultimately show ?thesis using assms(1) unfolding table_ok_def by simp
qed

lemma getInvite_ok:
  assumes "table_ok sv"
  shows "table_ok (snd (getInvite cid sv))"
proof (cases "find_invite cid sv")
  case None
  define q where "q = (if length (sv_queue sv) \<ge> digestLimit then tl (sv_queue sv) else sv_queue sv)"
  have "cid \<notin> set (map (\<lambda>r. ip_call_id (sv_store sv ! r)) (sv_queue sv))" using None by (simp add: find_invite_None)
  then have "length q < digestLimit \<and> list_all (\<lambda>r. r < length (sv_store sv)) q
      \<and> distinct (map (\<lambda>r. ip_call_id (sv_store sv ! r)) q) \<and> cid \<notin> set (map (\<lambda>r. ip_call_id (sv_store sv ! r)) q)"
    using assms by (cases "sv_queue sv") (auto simp: table_ok_def q_def digestLimit_def)
  then show ?thesis
    using None by (simp add: getInvite_def Let_def q_def [symmetric] table_ok_snoc)
next
  case (Some r)
  then show ?thesis using assms by (simp add: getInvite_def)
qed

lemma handleInviteAuth_table:
  "table_ok sv \<Longrightarrow> table_ok (snd (snd (handleInviteAuth conf D nonce iv auth (cc, sv))))"
  using getInvite_ok [of sv] same_table_ok [OF same_table_set(2)]
  by (auto simp: handleInviteAuth_def Let_def split: prod.splits option.splits) (metis snd_conv)+

lemma password_branch_table:
  assumes "table_ok sv"
  shows "table_ok (ir_server (password_branch conf D env msg iv r i cc sv ms cm))"
proof -
  define cid where "cid = (case iv_call_id iv of Some c \<Rightarrow> c | None \<Rightarrow> [])"
  obtain ref sv1 where g: "getInvite cid sv = (ref, sv1)" by fastforce
  define cc1 where "cc1 = (if ic_hide_port conf then Processing conf cc else cc)"
  define sv2 where "sv2 = count_invite (si_id cc1) iv (set_resolved ref True sv1)"
  obtain ok chal cc2 sv3 where h: "handleInviteAuth conf D (ev_nonce env) iv (ai_auth r) (cc1, sv2) = ((ok, chal), cc2, sv3)"
    by (metis prod.exhaust)
  have "table_ok sv1" using getInvite_ok [OF assms, of cid] g by simp
  then have "table_ok sv2"
    unfolding sv2_def by (rule same_table_ok [OF same_table_trans [OF same_table_other(1) same_table_set(1)]])
  then have ok3: "table_ok sv3" using handleInviteAuth_table [of sv2 conf D "ev_nonce env" iv "ai_auth r" cc1] h by simp
  let ?sv4 = "sv3\<lparr>sv_provisional := mput (si_call_id cc2, si_tag cc2) (si_id cc2) (sv_provisional sv3)\<rparr>"
  have ok4: "table_ok ?sv4" using ok3 by (rule same_table_ok [rotated]) (simp add: same_table_def)
  show ?thesis
    using ok3 same_table_ok [OF same_table_trans [OF same_table_cache same_table_other(3)] ok4]
      same_table_ok [OF same_table_trans [OF same_table_cache same_table_other(2)] ok4]
    by (simp add: password_branch_def cid_def [symmetric] g cc1_def [symmetric] sv2_def [symmetric] h Let_def
        proceed_result_def done_result_def)
qed

lemma admit_table:
  assumes "table_ok sv"
  shows "table_ok (ir_server (admit conf D env msg iv cc sv ms))"
proof -
  have st: "table_ok (sv\<lparr>sv_states := xs\<rparr>)" for xs
    using assms by (rule same_table_ok [rotated]) (simp add: same_table_def)
  show ?thesis
    using assms password_branch_table [OF st] same_table_ok [OF same_table_cache assms]
      same_table_ok [OF same_table_trans [OF same_table_cache same_table_other(2)] st]
      same_table_ok [OF same_table_other(1) st]
    by (auto simp: admit_def auth_switch_def done_result_def proceed_result_def auth_rejection_def Let_def
        split: sum.splits auth_result.splits)
qed

lemma processInvite_table: "table_ok sv \<Longrightarrow> table_ok (ir_server (processInvite conf D env msg iv sv ms))"
  by (auto simp: processInvite_def early_result_def Let_def admit_table same_table_ok [OF same_table_cache]
      split: option.splits sum.splits prod.splits)

section \<open>Timers\<close>

lemma fire_timer_table: "table_ok sv \<Longrightarrow> table_ok (fire_timer i sv)"
  by (rule same_table_ok) (auto simp: fire_timer_def Let_def same_table_def set_resolved_def map_update_same)

text \<open>What happens to a server: INVITEs, challenge timers, and cache entries that are forgotten.\<close>

datatype server_event =
    SvInvite invite_env invite metrics
  | SvTimer nat
  | SvForget "(string \<times> string) \<Rightarrow> bool"

fun server_step :: "inbound_conf \<Rightarrow> digest_lib \<Rightarrow> (go_error \<Rightarrow> string) \<Rightarrow> server_event \<Rightarrow> server \<Rightarrow> server" where
  "server_step conf D msg (SvInvite env iv ms) sv = ir_server (processInvite conf D env msg iv sv ms)"
| "server_step conf D msg (SvTimer i) sv = fire_timer i sv"
| "server_step conf D msg (SvForget p) sv =
     sv\<lparr>sv_rejected := filter (\<lambda>e. \<not> p (fst e)) (sv_rejected sv), sv_provisional := filter (\<lambda>e. \<not> p (fst e)) (sv_provisional sv)\<rparr>"

lemma server_step_table: "table_ok sv \<Longrightarrow> table_ok (server_step conf D msg e sv)"
  by (cases e) (auto simp: processInvite_table fire_timer_table intro: same_table_ok simp: same_table_def)

interpretation invite_table: machine "server_step conf D msg" "\<lambda>_. True" table_ok for conf D msg
  by unfold_locales (rule server_step_table)

section \<open>Who gets through\<close>

text \<open>The digest check of a trunk with both credentials set, against the challenge stored for the Call-ID.\<close>

definition digest_matches :: "digest_lib \<Rightarrow> inbound_auth \<Rightarrow> challenge \<Rightarrow> invite \<Rightarrow> bool" where
  "digest_matches D auth ch iv =
     (case hdr_value ''Proxy-Authorization'' iv of
        None \<Rightarrow> False
      | Some h \<Rightarrow>
          (case dl_parse D h of
             None \<Rightarrow> False
           | Some cred \<Rightarrow>
               cr_username cred = ia_username auth \<and> ch_realm ch \<noteq> []
               \<and> dl_digest D ch ''INVITE'' (cr_uri cred) (cr_username cred) (ia_password auth) = Some (cr_response cred)))"

definition stored_challenge :: "server \<Rightarrow> string \<Rightarrow> challenge" where
  "stored_challenge sv cid =
     (case find_invite cid sv of Some r \<Rightarrow> ip_challenge (sv_store sv ! r) | None \<Rightarrow> no_challenge)"

lemma handleInviteAuth_ok:
  assumes "fst (fst (handleInviteAuth conf D nonce iv auth (cc, sv)))"
    and "ia_username auth \<noteq> []" and "ia_password auth \<noteq> []" and "iv_call_id iv = Some cid"
  shows "digest_matches D auth (stored_challenge sv cid) iv"
proof -
  obtain r sv1 where g: "getInvite cid sv = (r, sv1)" by fastforce
  have st: "ip_challenge (sv_store sv1 ! r) = stored_challenge sv cid"
    using g by (auto simp: getInvite_def stored_challenge_def Let_def split: option.splits)
  show ?thesis
    using assms g st by (auto simp: handleInviteAuth_def digest_matches_def Let_def split: option.splits if_splits)
qed

lemma find_snoc: "\<forall>x \<in> set q. \<not> P x \<Longrightarrow> P y \<Longrightarrow> find P (q @ [y]) = Some y"
  by (induction q) auto

lemma stored_challenge_prep:
  assumes "table_ok sv" and "getInvite cid sv = (ref, sv1)"
  shows "stored_challenge (count_invite tag iv (set_resolved ref True sv1)) cid = stored_challenge sv cid"
proof -
  define sv2 where "sv2 = count_invite tag iv (set_resolved ref True sv1)"
  have q: "sv_queue sv2 = sv_queue sv1" and st: "sv_store sv2 = (sv_store sv1)[ref := (sv_store sv1 ! ref)\<lparr>ip_resolved := True\<rparr>]"
    by (simp_all add: sv2_def count_invite_def getCallInfo_def set_resolved_def Let_def split: option.splits)
  have same: "ip_call_id (sv_store sv2 ! x) = ip_call_id (sv_store sv1 ! x)
      \<and> ip_challenge (sv_store sv2 ! x) = ip_challenge (sv_store sv1 ! x)" for x
    unfolding st by (cases "x = ref"; cases "ref < length (sv_store sv1)") (auto simp: list_update_beyond)
  then have f: "find_invite cid sv2 = find_invite cid sv1" by (simp add: find_invite_def q)
  have "stored_challenge sv2 cid = stored_challenge sv1 cid"
    by (simp add: stored_challenge_def f same split: option.splits)
  also have "\<dots> = stored_challenge sv cid"
  proof (cases "find_invite cid sv")
    case None
    have lt: "\<forall>r \<in> set (sv_queue sv). r < length (sv_store sv)" using assms(1) by (simp add: table_ok_def list_all_iff)
    have "stored_challenge sv1 cid = no_challenge"
    proof -
      let ?q = "if length (sv_queue sv) \<ge> digestLimit then tl (sv_queue sv) else sv_queue sv"
      let ?new = "\<lparr>ip_call_id = cid, ip_challenge = no_challenge, ip_resolved = False\<rparr>"
      have sv1: "sv1 = sv\<lparr>sv_queue := ?q @ [length (sv_store sv)], sv_store := sv_store sv @ [?new]\<rparr>"
        and "ref = length (sv_store sv)"
        using assms(2) None by (auto simp: getInvite_def Let_def)
      have sub: "set ?q \<subseteq> set (sv_queue sv)" by (cases "sv_queue sv") auto
      have "\<forall>r \<in> set ?q. ip_call_id ((sv_store sv @ [?new]) ! r) \<noteq> cid"
        using None sub lt by (auto simp: find_invite_None nth_append)
      then have "find (\<lambda>r. ip_call_id ((sv_store sv @ [?new]) ! r) = cid) (?q @ [length (sv_store sv)]) = Some (length (sv_store sv))"
        by (intro find_snoc) simp_all
      then show ?thesis by (simp add: stored_challenge_def find_invite_def sv1)
    qed
    then show ?thesis using None by (simp add: stored_challenge_def)
  next
    case (Some r)
    then show ?thesis using assms(2) by (simp add: getInvite_def)
  qed
  finally show ?thesis unfolding sv2_def .
qed

lemma stored_challenge_states [simp]:
  "stored_challenge (sv\<lparr>sv_states := xs\<rparr>) cid = stored_challenge sv cid"
  by (simp add: stored_challenge_def find_invite_def split: option.splits)

lemma table_ok_states [simp]: "table_ok (sv\<lparr>sv_states := xs\<rparr>) = table_ok sv"
  by (simp add: table_ok_def)

lemma password_branch_proceeds:
  assumes "ir_finish (password_branch conf D env msg iv r i cc sv ms cm) = FinProceed r'" and "table_ok sv"
    and "iv_call_id iv = Some cid"
  shows "r' = r \<and> (ia_username (ai_auth r) = [] \<or> ia_password (ai_auth r) = []
    \<or> digest_matches D (ai_auth r) (stored_challenge sv cid) iv)"
proof -
  obtain ref sv1 where g: "getInvite cid sv = (ref, sv1)" by fastforce
  define cc1 where "cc1 = (if ic_hide_port conf then Processing conf cc else cc)"
  define sv2 where "sv2 = count_invite (si_id cc1) iv (set_resolved ref True sv1)"
  obtain ok chal cc2 sv3 where h: "handleInviteAuth conf D (ev_nonce env) iv (ai_auth r) (cc1, sv2) = ((ok, chal), cc2, sv3)"
    by (metis prod.exhaust)
  have b: "ir_finish (password_branch conf D env msg iv r i cc sv ms cm) =
      (if ok then FinProceed r else FinDone (Some (Psrpc PermissionDenied (Plain ''invalid credentials were provided''))))"
    by (simp add: password_branch_def assms(3) g cc1_def [symmetric] sv2_def [symmetric] h Let_def
        proceed_result_def done_result_def)
  have "ok" "r' = r" using assms(1) b by (auto split: if_splits)
  moreover have "stored_challenge sv2 cid = stored_challenge sv cid"
    unfolding sv2_def using assms(2) g by (rule stored_challenge_prep)
  ultimately show ?thesis
    using handleInviteAuth_ok [of conf D "ev_nonce env" iv "ai_auth r" cc1 sv2 cid] h assms(3) by auto
qed

lemma newInbound_sel:
  assumes "newInbound conf ip fresh cached iv = Inr cc"
  shows "iv_call_id iv = Some (si_call_id cc) \<and> si_call_id cc \<noteq> [] \<and> si_tag cc \<noteq> [] \<and> si_tx cc \<and> si_trace cc = []
    \<and> si_ringing cc = False"
  using assms by (auto simp: newInbound_def Let_def split: option.splits if_splits prod.splits)

lemma call_info_of_Processing [simp]: "call_info_of ip iv (Processing conf cc) = call_info_of ip iv cc"
  by (simp add: call_info_of_def Processing_def respond_def respondWithData_def emit_def Let_def)

lemma admit_proceeds:
  assumes "ir_finish (admit conf D env msg iv cc sv ms) = FinProceed r"
  shows "\<exists>cc1 r' xs ms1 cm1 i. ev_auth env (call_info_of (case ev_src env of Some (ip, _) \<Rightarrow> ip | None \<Rightarrow> []) iv cc) = Inr r' \<and>
     ir_finish (auth_switch conf D env msg iv r' i cc1 (sv\<lparr>sv_states := xs\<rparr>) ms1 cm1) = FinProceed r"
proof (cases "ev_auth env (call_info_of (case ev_src env of Some (ip, _) \<Rightarrow> ip | None \<Rightarrow> []) iv
    (if \<not> ic_hide_port conf then Processing conf cc else cc))")
  case (Inl e)
  then show ?thesis using assms by (simp add: admit_def Let_def done_result_def)
next
  case (Inr r')
  then have "ev_auth env (call_info_of (case ev_src env of Some (ip, _) \<Rightarrow> ip | None \<Rightarrow> []) iv cc) = Inr r'"
    by (simp split: if_splits)
  with Inr show ?thesis using assms unfolding admit_def Let_def by (simp only: sum.case) blast
qed

text \<open>What an INVITE that becomes a call was authorized by.\<close>

lemma invite_authorized:
  assumes "table_ok sv" and "ir_finish (processInvite conf D env msg iv sv ms) = FinProceed r"
  shows "(\<exists>ip addr cc. ev_src env = Some (ip, addr)
      \<and> newInbound conf (ev_ip env) (ev_fresh env) (map_of (sv_provisional sv)) iv = Inr cc
      \<and> ev_auth env (call_info_of ip iv cc) = Inr r) \<and>
    (ai_result r = AuthAccept \<or>
     ai_result r = AuthPassword \<and>
       (ia_username (ai_auth r) = [] \<or> ia_password (ai_auth r) = []
        \<or> (\<exists>cid. iv_call_id iv = Some cid \<and> digest_matches D (ai_auth r) (stored_challenge sv cid) iv)))"
proof -
  obtain ip addr cc where src: "ev_src env = Some (ip, addr)"
    and cc: "newInbound conf (ev_ip env) (ev_fresh env) (map_of (sv_provisional sv)) iv = Inr cc"
    and adm: "ir_finish (admit conf D env msg iv cc sv (inc InviteReqRaw [] ms)) = FinProceed r"
    using assms(2) by (auto simp: processInvite_def early_result_def Let_def split: option.splits sum.splits prod.splits)
  obtain cc1 r' sv1 ms1 cm1 i where sw: "ir_finish (auth_switch conf D env msg iv r' i cc1 sv1 ms1 cm1) = FinProceed r"
    and sv1: "\<exists>xs. sv1 = sv\<lparr>sv_states := xs\<rparr>" and au: "ev_auth env (call_info_of ip iv cc) = Inr r'"
    using admit_proceeds [OF adm] unfolding src by auto blast
  have cid: "iv_call_id iv = Some (si_call_id cc)" using newInbound_sel [OF cc] by simp
  have ok1: "table_ok sv1" and st1: "stored_challenge sv1 (si_call_id cc) = stored_challenge sv (si_call_id cc)"
    using sv1 assms(1) by auto
  show ?thesis
  proof (cases "ai_result r'")
    case AuthPassword
    then show ?thesis
      using sw password_branch_proceeds [of conf D env msg iv r' i cc1 sv1 ms1 cm1 r, OF _ ok1 cid] st1 cid au src cc
      by (auto simp: auth_switch_def)
  qed (use sw au src cc in \<open>auto simp: auth_switch_def done_result_def proceed_result_def auth_rejection_def Let_def\<close>)
qed

section \<open>Refusals\<close>

lemma apply_cache_last:
  "si_trace cc = tr @ [CacheRejection k st r] \<Longrightarrow> map_of (sv_rejected (apply_cache cc sv)) k = Some (st, r)"
  by (simp add: apply_cache_def)

lemma auth_rejection_status: "auth_rejection a = Some (status, phrase, reason, e) \<Longrightarrow> 300 \<le> status"
  by (cases a) (auto simp: auth_rejection_def)

lemma refused_cc:
  assumes "si_tx cc" and "finals (si_trace cc) = []" and "ic_rejected_cache conf" and "300 \<le> status" and "si_call_id cc \<noteq> []"
  shows "map (\<lambda>x. (rp_status x, rp_reason x)) (finals (si_trace (RespondAndDrop conf status phrase cc))) = [(status, phrase)]
    \<and> map_of (sv_rejected (apply_cache (RespondAndDrop conf status phrase cc) sv)) (si_call_id cc, si_tag cc) = Some (status, phrase)"
proof -
  obtain r where r: "rp_status r = status" "rp_reason r = phrase"
    "si_trace (RespondAndDrop conf status phrase cc) =
       (si_trace cc @ [TxRespond r, TxTerminate]) @ [CacheRejection (si_call_id cc, si_tag cc) status phrase]"
    using RespondAndDrop_trace [of status phrase conf cc] assms by auto
  show ?thesis using apply_cache_last [OF r(3)] r assms(2,4) by simp
qed

lemma Processing_sel [simp]:
  "si_tx (Processing conf cc) = si_tx cc" "si_call_id (Processing conf cc) = si_call_id cc"
  "si_tag (Processing conf cc) = si_tag cc" "finals (si_trace (Processing conf cc)) = finals (si_trace cc)"
  by (simp_all add: Processing_def respond_provisional)

lemma admit_refusal:
  assumes "ev_auth env (call_info_of (case ev_src env of Some (ip, _) \<Rightarrow> ip | None \<Rightarrow> []) iv
      (if \<not> ic_hide_port conf then Processing conf cc else cc)) = Inr r"
    and "auth_rejection (ai_result r) = Some (status, phrase, reason, e)"
  shows "\<exists>xs i cm ms1. admit conf D env msg iv cc sv ms =
    done_result (Some e) (RespondAndDrop conf status phrase (if \<not> ic_hide_port conf then Processing conf cc else cc))
      (finish_indexed msg (ev_now env) (Some e) i (sv\<lparr>sv_states := xs\<rparr>)) ms1 cm"
  using assms by (cases "ai_result r") (simp_all add: admit_def auth_switch_def auth_rejection_def Let_def, blast+)

section \<open>Identity of a retry\<close>

definition to_tag :: "invite \<Rightarrow> string" where
  "to_tag iv = (case iv_to iv of Some (_, Some ps) \<Rightarrow> param ''tag'' ps | _ \<Rightarrow> [])"

lemma newInbound_id:
  assumes "newInbound conf ip fresh cached iv = Inr cc" and "to_tag iv = []"
  shows "si_id cc = (case cached (si_call_id cc, si_tag cc) of Some t \<Rightarrow> if t \<noteq> [] then t else fresh | None \<Rightarrow> fresh)"
proof -
  obtain cid fa fps ta tps where p: "iv_call_id iv = Some cid" "iv_from iv = Some (fa, Some fps)" "iv_to iv = Some (ta, tps)"
    "cid \<noteq> []" "param ''tag'' fps \<noteq> []"
    using assms(1) by (auto simp: newInbound_def split: option.splits if_splits prod.splits)
  have t: "param ''tag'' (case tps of None \<Rightarrow> [] | Some q \<Rightarrow> q) = []"
    using assms(2) p(3) by (auto simp: to_tag_def param_def split: option.splits)
  show ?thesis using assms(1) p t by (auto simp: newInbound_def Let_def)
qed

lemma tx_reply_ids [simp]:
  "si_id (tx_reply c t hs cc) = si_id cc" "si_call_id (tx_reply c t hs cc) = si_call_id cc" "si_tag (tx_reply c t hs cc) = si_tag cc"
  by (simp_all add: tx_reply_def emit_def)

lemma handleInviteAuth_ids:
  assumes "handleInviteAuth conf D nonce iv auth (cc, sv) = (res, cc', sv')"
  shows "si_id cc' = si_id cc \<and> si_call_id cc' = si_call_id cc \<and> si_tag cc' = si_tag cc"
  using assms by (auto simp: handleInviteAuth_def Let_def split: option.splits if_splits prod.splits)

lemma Processing_id [simp]: "si_id (Processing conf cc) = si_id cc"
  by (simp add: Processing_def respond_def respondWithData_def Let_def emit_def)

lemma provisional_kept [simp]:
  "sv_provisional (scheduleAuthChallengeTimeout r i now sv) = sv_provisional sv"
  "sv_provisional (finish_indexed msg now err i sv) = sv_provisional sv"
  by (simp_all add: scheduleAuthChallengeTimeout_def set_resolved_def finish_indexed_def Let_def)

lemma password_branch_provisional:
  assumes "ir_finish (password_branch conf D env msg iv r i cc sv ms cm) = FinDone err"
  shows "map_of (sv_provisional (ir_server (password_branch conf D env msg iv r i cc sv ms cm))) (si_call_id cc, si_tag cc) = Some (si_id cc)"
proof -
  define cid where "cid = (case iv_call_id iv of Some c \<Rightarrow> c | None \<Rightarrow> [])"
  obtain ref sv1 where g: "getInvite cid sv = (ref, sv1)" by fastforce
  define cc1 where "cc1 = (if ic_hide_port conf then Processing conf cc else cc)"
  define sv2 where "sv2 = count_invite (si_id cc1) iv (set_resolved ref True sv1)"
  obtain ok chal cc2 sv3 where h: "handleInviteAuth conf D (ev_nonce env) iv (ai_auth r) (cc1, sv2) = ((ok, chal), cc2, sv3)"
    by (metis prod.exhaust)
  note b = password_branch_def cid_def [symmetric] g cc1_def [symmetric] sv2_def [symmetric] h Let_def
  have "\<not> ok" using assms by (auto simp: b proceed_result_def)
  moreover have "si_id cc2 = si_id cc \<and> si_call_id cc2 = si_call_id cc \<and> si_tag cc2 = si_tag cc"
    using handleInviteAuth_ids [OF h] by (simp add: cc1_def)
  ultimately show ?thesis
    by (simp add: b done_result_def apply_cache_other)
qed

section \<open>An example\<close>

definition sample_auth :: auth_info where
  "sample_auth = \<lparr>ai_result = AuthPassword, ai_project = [], ai_trunk = ''ST1'',
     ai_auth = \<lparr>ia_username = ''alice'', ia_password = ''pw'', ia_realm = []\<rparr>, ai_provider = (PROVIDER_UNKNOWN, [])\<rparr>"

definition sample_env :: "auth_info \<Rightarrow> invite_env" where
  "sample_env r = \<lparr>ev_src = Some (''1.2.3.4'', ''1.2.3.4:5060''), ev_ip = None, ev_now = 1, ev_fresh = ''SCL'', ev_nonce = ''n1'',
     ev_region = [], ev_inbound = (\<lambda>_. None), ev_outbound = (\<lambda>_. None), ev_auth = (\<lambda>_. Inr r)\<rparr>"

definition sample_digest :: digest_lib where
  "sample_digest = \<lparr>dl_parse = (\<lambda>h. Some \<lparr>cr_username = ''alice'', cr_uri = [], cr_response = h\<rparr>),
     dl_digest = (\<lambda>ch m u n p. Some (ch_nonce ch @ p)), dl_print = ch_nonce\<rparr>"

definition challenged_server :: server where
  "challenged_server = ir_server (processInvite sample_conf sample_digest (sample_env sample_auth) (\<lambda>_. []) sample_invite new_server (\<lambda>_. 0))"

definition answered_invite :: invite where
  "answered_invite = sample_invite\<lparr>iv_headers := [(''Proxy-Authorization'', ''n1pw'')], iv_cseq := Some 8\<rparr>"

lemma new_server_table: "table_ok new_server"
  by (simp add: table_ok_def new_server_def)

lemma answered_proceeds:
  "ir_finish (processInvite sample_conf sample_digest (sample_env sample_auth) (\<lambda>_. []) answered_invite challenged_server (\<lambda>_. 0)) =
     FinProceed sample_auth"
  by code_simp

section \<open>Properties\<close>

text \<open>
  C1: A call object is created for an INVITE only if the trunk lookup accepted it, or asked for a password
  and either has none configured or the INVITE's digest response is the one computed from our stored
  challenge for its Call-ID, the trunk's user name and the trunk's password.  Every other path ends
  before a call exists.
\<close>

theorem call_needs_authorization:
  assumes "table_ok sv" and "ir_finish (processInvite conf D env msg iv sv ms) = FinProceed r"
  shows "ai_result r = AuthAccept \<or>
    ai_result r = AuthPassword \<and>
      (ia_username (ai_auth r) = [] \<or> ia_password (ai_auth r) = []
       \<or> (\<exists>cid. iv_call_id iv = Some cid \<and> digest_matches D (ai_auth r) (stored_challenge sv cid) iv))"
  using invite_authorized [OF assms] by blast

theorem call_needs_authorization_witness:
  "ai_result sample_auth = AuthAccept \<or>
    ai_result sample_auth = AuthPassword \<and>
      (ia_username (ai_auth sample_auth) = [] \<or> ia_password (ai_auth sample_auth) = []
       \<or> (\<exists>cid. iv_call_id answered_invite = Some cid
            \<and> digest_matches sample_digest (ai_auth sample_auth) (stored_challenge challenged_server cid) answered_invite))"
  by (rule call_needs_authorization [OF _ answered_proceeds])
     (simp add: challenged_server_def processInvite_table new_server_table)

text \<open>
  The table of invites with a challenge in progress stays within 500 entries and holds at most one
  entry per Call-ID, for any sequence of INVITEs, challenge timeouts and cache evictions.
\<close>

theorem invite_table_bounded:
  "length (sv_queue (fold (server_step conf D msg) es new_server)) \<le> 500
   \<and> distinct (map (\<lambda>r. ip_call_id (sv_store (fold (server_step conf D msg) es new_server) ! r))
        (sv_queue (fold (server_step conf D msg) es new_server)))"
proof -
  have "table_ok (fold (server_step conf D msg) es new_server)"
    by (rule invite_table.inv_run) (simp_all add: new_server_table list_all_iff)
  then show ?thesis by (simp add: table_ok_def digestLimit_def)
qed

text \<open>
  C22: An INVITE the trunk lookup refuses gets the refusal's status and phrase as its only final answer, and a retry
  with the same Call-ID and From tag, while the refusal is cached, gets the same answer again without
  reaching the lookup: the call record and the per-call metrics are those left by the first attempt.
\<close>

theorem refusal_replayed:
  assumes "ic_rejected_cache conf" and "ev_src env1 = Some src1" and "ev_src env2 = Some src2"
    and "newInbound conf (ev_ip env1) (ev_fresh env1) (map_of (sv_provisional sv)) iv1 = Inr cc1"
    and "map_of (sv_rejected sv) (si_call_id cc1, si_tag cc1) = None" and "reinvite_of env1 cc1 = None"
    and "\<And>c. ev_auth env1 c = Inr r" and "auth_rejection (ai_result r) = Some (status, phrase, reason, e)"
    and "newInbound conf (ev_ip env2) (ev_fresh env2) (map_of (sv_provisional sv)) iv2 = Inr cc2"
    and "si_call_id cc2 = si_call_id cc1" and "si_tag cc2 = si_tag cc1"
  shows "let res1 = processInvite conf D env1 msg iv1 sv ms;
             res2 = processInvite conf D env2 msg iv2 (ir_server res1) (ir_metrics res1)
    in ir_finish res1 = FinDone (Some e) \<and> ir_finish res2 = FinDone None
       \<and> map (\<lambda>x. (rp_status x, rp_reason x)) (finals (si_trace (the (ir_cc res1)))) = [(status, phrase)]
       \<and> map (\<lambda>x. (rp_status x, rp_reason x)) (finals (si_trace (the (ir_cc res2)))) = [(status, phrase)]
       \<and> sv_states (ir_server res2) = sv_states (ir_server res1)
       \<and> ir_metrics res2 = inc InviteReqRaw [] (ir_metrics res1)"
proof -
  define cc where "cc = (if \<not> ic_hide_port conf then Processing conf cc1 else cc1)"
  define rd where "rd = RespondAndDrop conf status phrase cc"
  have n1: "si_tx cc1" "si_trace cc1 = []" "si_call_id cc1 \<noteq> []" using newInbound_sel [OF assms(4)] by auto
  have n2: "si_tx cc2" "si_trace cc2 = []" "si_call_id cc2 \<noteq> []" using newInbound_sel [OF assms(9)] by auto
  have cc: "si_tx cc" "finals (si_trace cc) = []" "si_call_id cc = si_call_id cc1" "si_tag cc = si_tag cc1"
    using n1 by (simp_all add: cc_def)
  have st: "300 \<le> status" using assms(8) by (rule auth_rejection_status)
  obtain xs i cm ms1 where "admit conf D env1 msg iv1 cc1 sv (inc InviteReqRaw [] ms) =
      done_result (Some e) rd (finish_indexed msg (ev_now env1) (Some e) i (sv\<lparr>sv_states := xs\<rparr>)) ms1 cm"
    using admit_refusal [of env1 iv1 conf cc1 r, OF assms(7,8)] unfolding rd_def cc_def by blast
  then have r1: "processInvite conf D env1 msg iv1 sv ms =
      done_result (Some e) rd (finish_indexed msg (ev_now env1) (Some e) i (sv\<lparr>sv_states := xs\<rparr>)) ms1 cm"
    using assms(2,4,5,6) by (simp add: processInvite_def Let_def)
  define sv1 where "sv1 = apply_cache rd (finish_indexed msg (ev_now env1) (Some e) i (sv\<lparr>sv_states := xs\<rparr>))"
  have p1: "sv_provisional sv1 = sv_provisional sv" by (simp add: sv1_def apply_cache_other finish_indexed_def)
  have f1: "map (\<lambda>x. (rp_status x, rp_reason x)) (finals (si_trace rd)) = [(status, phrase)]"
    and c1: "map_of (sv_rejected sv1) (si_call_id cc1, si_tag cc1) = Some (status, phrase)"
    using refused_cc [OF cc(1,2) assms(1) st] n1(3) cc unfolding rd_def sv1_def by auto
  have f2: "map (\<lambda>x. (rp_status x, rp_reason x)) (finals (si_trace (RespondAndDrop conf status phrase cc2))) = [(status, phrase)]"
    using refused_cc [OF n2(1) _ assms(1) st n2(3)] n2(2) by simp
  have "processInvite conf D env2 msg iv2 sv1 ms1 =
      early_result (FinDone None) (Some (RespondAndDrop conf status phrase cc2)) []
        (apply_cache (RespondAndDrop conf status phrase cc2) sv1) (inc InviteReqRaw [] ms1)"
    using assms(1,3,9,10,11) c1 by (simp add: processInvite_def Let_def p1)
  then show ?thesis
    unfolding Let_def r1 by (simp add: done_result_def early_result_def sv1_def [symmetric] f1 f2 apply_cache_other)
qed

definition refusing_env :: invite_env where
  "refusing_env = sample_env (sample_auth\<lparr>ai_result := AuthNotFound\<rparr>)"

theorem refusal_replayed_witness:
  "let res1 = processInvite sample_conf sample_digest refusing_env (\<lambda>_. []) sample_invite new_server (\<lambda>_. 0);
       res2 = processInvite sample_conf sample_digest refusing_env (\<lambda>_. []) sample_invite (ir_server res1) (ir_metrics res1)
   in map (\<lambda>x. (rp_status x, rp_reason x)) (finals (si_trace (the (ir_cc res2)))) = [(404, ''Does not match any SIP Trunks'')]"
proof -
  let ?r = "sample_auth\<lparr>ai_result := AuthNotFound\<rparr>"
  have cc: "newInbound sample_conf (ev_ip refusing_env) (ev_fresh refusing_env) (map_of (sv_provisional new_server)) sample_invite
      = Inr sample_dialog"
    using sample_newInbound by (simp add: refusing_env_def sample_env_def new_server_def)
  have rej: "auth_rejection (ai_result ?r) = Some (404, ''Does not match any SIP Trunks'', ''no-rule'',
      Psrpc NotFound (Plain ''no trunk configuration for call''))"
    by (simp add: auth_rejection_def)
  show ?thesis
    using refusal_replayed [of sample_conf refusing_env _ refusing_env _ new_server sample_invite sample_dialog ?r,
        OF _ _ _ cc _ _ _ rej cc]
    by (simp add: sample_conf_def refusing_env_def sample_env_def new_server_def reinvite_of_def Let_def)
qed

text \<open>
  An INVITE that comes back with credentials keeps the identity of the call it continues: after the
  digest check challenged or refused an INVITE, the next one with the same Call-ID and From tag and no
  To tag gets the local tag of the first, not a fresh one.
\<close>

theorem retry_keeps_local_tag:
  assumes "ir_finish (password_branch conf D env msg iv r i cc sv ms cm) = FinDone err" and "si_id cc \<noteq> []"
    and "newInbound conf ip fresh (map_of (sv_provisional (ir_server (password_branch conf D env msg iv r i cc sv ms cm)))) iv'
           = Inr cc'"
    and "si_call_id cc' = si_call_id cc" and "si_tag cc' = si_tag cc" and "to_tag iv' = []"
  shows "si_id cc' = si_id cc"
  using newInbound_id [OF assms(3,6)] password_branch_provisional [OF assms(1)] assms(2,4,5) by simp

theorem retry_keeps_local_tag_witness:
  "case newInbound sample_conf None ''SCL2'' (map_of (sv_provisional (ir_server (password_branch sample_conf sample_digest
        (sample_env sample_auth) (\<lambda>_. []) sample_invite sample_auth 0 sample_dialog new_server (\<lambda>_. 0) (NewCall Inbound [] []))))) sample_invite of
     Inr cc' \<Rightarrow> si_id cc' = ''SCL'' | Inl _ \<Rightarrow> False"
proof -
  let ?pb = "password_branch sample_conf sample_digest (sample_env sample_auth) (\<lambda>_. []) sample_invite sample_auth 0
     sample_dialog new_server (\<lambda>_. 0) (NewCall Inbound [] [])"
  let ?err = "Some (Psrpc PermissionDenied (Plain ''invalid credentials were provided''))"
  have f: "ir_finish ?pb = FinDone ?err" by code_simp
  have ids: "si_id sample_dialog = ''SCL''" "si_call_id sample_dialog = ''c1''" "si_tag sample_dialog = ''ft''" by code_simp+
  have t: "to_tag sample_invite = []" by code_simp
  obtain cc' where cc': "newInbound sample_conf None ''SCL2'' (map_of (sv_provisional (ir_server ?pb))) sample_invite = Inr cc'"
    and sel: "si_call_id cc' = ''c1''" "si_tag cc' = ''ft''"
    by (simp add: newInbound_def sample_invite_def param_def Let_def)
  show ?thesis
    using retry_keeps_local_tag [OF f _ cc' _ _ t] by (simp add: cc' ids sel)
qed

text \<open>
  The challenge timer is shared by all INVITEs of a Call-ID.  If a second INVITE is challenged before
  the first timer fires, the first timer finalizes the first, superseded call record, and the record of
  the second is never finalized: when its own timer fires, it finds the invite resolved.
\<close>

theorem second_challenge_never_finalized:
  assumes "ref < length (sv_store sv)" and "i < length (sv_states sv)" and "j < length (sv_states sv)" and "i \<noteq> j"
    and "sv_timers sv = []"
  shows "let sv1 = scheduleAuthChallengeTimeout ref i t1 sv;
             sv2 = scheduleAuthChallengeTimeout ref j t2 (set_resolved ref True sv1);
             sv3 = fire_timer 0 (fire_timer 0 sv2)
    in sv_timers sv3 = [] \<and> sv_states sv3 ! j = sv_states sv ! j
       \<and> ci_status (cs_info (sv_states sv3 ! i)) = SCS_ERROR"
  using assms
  by (simp add: scheduleAuthChallengeTimeout_def set_resolved_def fire_timer_def Let_def Update_def flushLocked_def)

theorem second_challenge_never_finalized_witness:
  "let sv = new_server\<lparr>sv_store := [\<lparr>ip_call_id = ''c1'', ip_challenge = no_challenge, ip_resolved = False\<rparr>],
               sv_states := [NewCallState sample_info, NewCallState sample_info]\<rparr>;
       sv1 = scheduleAuthChallengeTimeout 0 0 10 sv;
       sv2 = scheduleAuthChallengeTimeout 0 1 20 (set_resolved 0 True sv1);
       sv3 = fire_timer 0 (fire_timer 0 sv2)
   in sv_states sv3 ! 1 = NewCallState sample_info"
  using second_challenge_never_finalized [of 0 "new_server\<lparr>sv_store := [\<lparr>ip_call_id = ''c1'', ip_challenge = no_challenge, ip_resolved = False\<rparr>],
      sv_states := [NewCallState sample_info, NewCallState sample_info]\<rparr>" 0 1 10 20]
  by (simp add: new_server_def Let_def)

end
