(* ===== verification/ReasonHeader.thy ===== *)
theory ReasonHeader
  imports GoErrors
begin

text \<open>
  The Reason header of a BYE (\<open>ReasonHeader\<close> of \<open>pkg/sip/protocol.go\<close>) with the two standard library
  functions its parser needs: \<open>strconv.Unquote\<close> and \<open>strconv.ParseUint\<close> with base 0, which accepts the
  prefixes and underscores of Go literals.  \<open>Unquote\<close> is modelled on bytes: bytes from 128 on stand for
  themselves, and a Unicode escape appends the UTF-8 bytes of its code point.
\<close>

section \<open>strconv.Unquote\<close>

definition hex_val :: "char \<Rightarrow> nat option" where
  "hex_val c =
     (let n = (of_char c :: nat) in
      if 48 \<le> n \<and> n \<le> 57 then Some (n - 48)
      else if 97 \<le> n \<and> n \<le> 102 then Some (n - 87)
      else if 65 \<le> n \<and> n \<le> 70 then Some (n - 55) else None)"

fun hex_digits :: "nat \<Rightarrow> nat \<Rightarrow> string \<Rightarrow> (nat \<times> string) option" where
  "hex_digits 0 acc s = Some (acc, s)"
| "hex_digits (Suc n) acc [] = None"
| "hex_digits (Suc n) acc (c # s) =
     (case hex_val c of None \<Rightarrow> None | Some v \<Rightarrow> hex_digits n (16 * acc + v) s)"

definition octal_val :: "char \<Rightarrow> nat option" where
  "octal_val c = (let n = (of_char c :: nat) in if 48 \<le> n \<and> n \<le> 55 then Some (n - 48) else None)"

definition utf8 :: "nat \<Rightarrow> string" where
  "utf8 r =
     (if r < 128 then [char_of r]
      else if r < 2048 then [char_of (192 + r div 64), char_of (128 + r mod 64)]
      else if r < 65536 then [char_of (224 + r div 4096), char_of (128 + (r div 64) mod 64), char_of (128 + r mod 64)]
      else [char_of (240 + r div 262144), char_of (128 + (r div 4096) mod 64), char_of (128 + (r div 64) mod 64),
            char_of (128 + r mod 64)])"

definition valid_rune :: "nat \<Rightarrow> bool" where
  "valid_rune r = (r < 55296 \<or> 57343 < r \<and> r \<le> 1114111)"

text \<open>\<open>UnquoteChar\<close>: the bytes of the next character and the rest; \<open>q\<close> is the quote.\<close>

definition unquote_char :: "char \<Rightarrow> string \<Rightarrow> (string \<times> string) option" where
  "unquote_char q s =
     (case s of
        [] \<Rightarrow> None
      | c # r \<Rightarrow>
          if c = q then None
          else if c \<noteq> CHR 0x5C then Some ([c], r)
          else
            (case r of
               [] \<Rightarrow> None
             | e # t \<Rightarrow>
                 let n = (of_char e :: nat) in
                 if n = 97 then Some ([CHR 0x07], t) else if n = 98 then Some ([CHR 0x08], t)
                 else if n = 102 then Some ([CHR 0x0C], t) else if n = 110 then Some ([CHR 0x0A], t)
                 else if n = 114 then Some ([CHR 0x0D], t) else if n = 116 then Some ([CHR 0x09], t)
                 else if n = 118 then Some ([CHR 0x0B], t)
                 else if n = 120 then map_option (\<lambda>(v, u). ([char_of v], u)) (hex_digits 2 0 t)
                 else if n = 117 then
                   (case hex_digits 4 0 t of Some (v, u) \<Rightarrow> if valid_rune v then Some (utf8 v, u) else None | None \<Rightarrow> None)
                 else if n = 85 then
                   (case hex_digits 8 0 t of Some (v, u) \<Rightarrow> if valid_rune v then Some (utf8 v, u) else None | None \<Rightarrow> None)
                 else if e = CHR 0x5C then Some ([CHR 0x5C], t)
                 else if e = CHR 0x27 \<or> e = CHR 0x22 then (if e = q then Some ([e], t) else None)
                 else
                   (case (octal_val e, t) of
                      (Some a, x # y # u) \<Rightarrow>
                        (case (octal_val x, octal_val y) of
                           (Some b, Some d) \<Rightarrow> let v = 64 * a + 8 * b + d in if v > 255 then None else Some ([char_of v], u)
                         | _ \<Rightarrow> None)
                    | _ \<Rightarrow> None)))"

lemma hex_digits_len: "hex_digits n acc s = Some (v, u) \<Longrightarrow> length u \<le> length s"
  by (induction n acc s rule: hex_digits.induct) (auto split: option.splits)

lemma unquote_char_less: "unquote_char q s = Some (b, r) \<Longrightarrow> length r < length s"
  by (auto simp: unquote_char_def Let_def split: list.splits if_splits option.splits prod.splits dest!: hex_digits_len)

function unquote_chars :: "char \<Rightarrow> string \<Rightarrow> string option" where
  "unquote_chars q s =
     (if s = [] then Some []
      else case unquote_char q s of
             None \<Rightarrow> None
           | Some (b, r) \<Rightarrow> (case unquote_chars q r of None \<Rightarrow> None | Some rest \<Rightarrow> Some (b @ rest)))"
  by pat_completeness auto
termination
  by (relation "measure (\<lambda>(q, s). length s)") (auto dest: unquote_char_less)

declare unquote_chars.simps [simp del]

definition unquote :: "string \<Rightarrow> string option" where
  "unquote s =
     (if length s < 2 \<or> hd s \<noteq> last s then None
      else
        let q = hd s; body = butlast (tl s) in
        if q = CHR 0x60 then (if CHR 0x60 \<in> set body then None else Some (filter (\<lambda>c. c \<noteq> CHR 0x0D) body))
        else if q = CHR 0x22 then (if CHR 0x0A \<in> set body then None else unquote_chars q body)
        else if q = CHR 0x27 then
          (if CHR 0x0A \<in> set body then None
           else case unquote_char q body of Some (b, []) \<Rightarrow> Some b | _ \<Rightarrow> None)
        else None)"

section \<open>strconv.ParseUint with base 0\<close>

definition base_prefix :: "string \<Rightarrow> int \<times> string" where
  "base_prefix s =
     (if hd s \<noteq> CHR ''0'' then (10, s)
      else if length s \<ge> 3 \<and> lower_char (s ! 1) = CHR ''b'' then (2, drop 2 s)
      else if length s \<ge> 3 \<and> lower_char (s ! 1) = CHR ''o'' then (8, drop 2 s)
      else if length s \<ge> 3 \<and> lower_char (s ! 1) = CHR ''x'' then (16, drop 2 s)
      else (8, tl s))"

definition literal_digit :: "char \<Rightarrow> int option" where
  "literal_digit c =
     (let n = (of_char (lower_char c) :: int) in
      if 48 \<le> n \<and> n \<le> 57 then Some (n - 48) else if 97 \<le> n \<and> n \<le> 122 then Some (n - 87) else None)"

text \<open>The digit loop: value, whether an underscore was seen, and the error that stopped it.\<close>

fun literal_digits :: "int \<Rightarrow> int \<Rightarrow> bool \<Rightarrow> string \<Rightarrow> int \<times> bool \<times> num_err option" where
  "literal_digits base n us [] = (n, us, None)"
| "literal_digits base n us (c # s) =
     (if c = CHR ''_'' then literal_digits base n True s
      else case literal_digit c of
             None \<Rightarrow> (0, us, Some ErrSyntax)
           | Some d \<Rightarrow>
               if d \<ge> base then (0, us, Some ErrSyntax)
               else if n * base + d \<ge> 2 ^ 64 then (2 ^ 64 - 1, us, Some ErrRange)
               else literal_digits base (n * base + d) us s)"

datatype underscore_state = UStart | UDigit | UUnder | UOther

fun underscore_scan :: "bool \<Rightarrow> underscore_state \<Rightarrow> string \<Rightarrow> bool" where
  "underscore_scan hex saw [] = (saw \<noteq> UUnder)"
| "underscore_scan hex saw (c # s) =
     (if is_digit c \<or> hex \<and> hex_val c \<noteq> None then underscore_scan hex UDigit s
      else if c = CHR ''_'' then (if saw \<noteq> UDigit then False else underscore_scan hex UUnder s)
      else if saw = UUnder then False
      else underscore_scan hex UOther s)"

definition underscoreOK :: "string \<Rightarrow> bool" where
  "underscoreOK s0 =
     (let s = (if s0 \<noteq> [] \<and> (hd s0 = CHR ''-'' \<or> hd s0 = CHR ''+'') then tl s0 else s0) in
      if length s \<ge> 2 \<and> hd s = CHR ''0'' \<and> lower_char (s ! 1) \<in> {CHR ''b'', CHR ''o'', CHR ''x''}
      then underscore_scan (lower_char (s ! 1) = CHR ''x'') UDigit (drop 2 s)
      else underscore_scan False UStart s)"

definition parse_uint0 :: "string \<Rightarrow> int \<times> num_err option" where
  "parse_uint0 s =
     (if s = [] then (0, Some ErrSyntax)
      else
        let (base, ds) = base_prefix s;
            (n, us, err) = literal_digits base 0 False ds
        in case err of
             Some e \<Rightarrow> (n, Some e)
           | None \<Rightarrow> if us \<and> \<not> underscoreOK s then (0, Some ErrSyntax) else (n, None))"

text \<open>The conversion of a 64-bit unsigned value to \<open>int\<close>.\<close>

definition int_of_u64 :: "int \<Rightarrow> int" where
  "int_of_u64 n = sint (word_of_int n :: u64)"

section \<open>ReasonHeader\<close>

record reason_header =
  rh_type :: string
  rh_cause :: int
  rh_text :: string

definition no_reason :: reason_header where
  "no_reason = \<lparr>rh_type = [], rh_cause = 0, rh_text = []\<rparr>"

definition IsZero :: "reason_header \<Rightarrow> bool" where
  "IsZero r = (r = no_reason)"

definition IsNormal :: "reason_header \<Rightarrow> bool" where
  "IsNormal r =
     (if IsZero r then True
      else if rh_type r = ''q.850'' then rh_cause r = 16
      else if rh_type r = ''x.int'' then rh_cause r = 0
      else if rh_type r = ''release_cause'' then rh_cause r = 1
      else if rh_type r = ''sip'' then rh_cause r = 0 \<or> rh_cause r = 200
      else False)"

definition ReasonHeader_String :: "reason_header \<Rightarrow> string" where
  "ReasonHeader_String r =
     (if IsZero r then ''<none>'' else rh_type r @ ''-'' @ itoa (rh_cause r) @ '': '' @ rh_text r)"

text \<open>One field of the header; the second component is \<open>reasonCode\<close>.\<close>

definition unquoted :: "string \<Rightarrow> string" where
  "unquoted v = (case unquote v of Some t \<Rightarrow> t | None \<Rightarrow> [])"

definition reason_field :: "string \<Rightarrow> reason_header \<times> string \<Rightarrow> reason_header \<times> string" where
  "reason_field field rc =
     (case cut_on CHR ''='' (trim_space field) of
        (_, None) \<Rightarrow> rc
      | (k, Some v) \<Rightarrow>
          let key = trim_space k; val = trim_space v; (r, code) = rc in
          if key = ''cause'' then (r\<lparr>rh_cause := fst (atoi val)\<rparr>, code)
          else if key = ''text'' then (r\<lparr>rh_text := unquoted val\<rparr>, code)
          else if key = ''description'' then (if rh_text r = [] then (r\<lparr>rh_text := unquoted val\<rparr>, code) else rc)
          else if key = ''reasoncode'' then (r, val)
          else rc)"

definition xint_cause :: "string \<Rightarrow> reason_header \<Rightarrow> reason_header" where
  "xint_cause code r =
     (if rh_cause r \<noteq> 0 then r
      else if code \<noteq> [] then r\<lparr>rh_cause := int_of_u64 (fst (parse_uint0 code))\<rparr>
      else if rh_text r \<noteq> [] then
        (case parse_uint0 (rh_text r) of
           (v, None) \<Rightarrow> r\<lparr>rh_cause := int_of_u64 v, rh_text := []\<rparr>
         | (v, Some _) \<Rightarrow> r\<lparr>rh_cause := int_of_u64 v\<rparr>)
      else r)"

definition ParseReasonHeader :: "string \<Rightarrow> go_error + reason_header" where
  "ParseReasonHeader header =
     (let list = split_on CHR '';'' header in
      if length list < 2 then Inl (Plain ''no fields in the reason'')
      else
        let typ = to_lower (trim_space (hd list));
            (r, code) = fold reason_field (tl list) (no_reason\<lparr>rh_type := typ\<rparr>, [])
        in Inr (if typ = ''x.int'' then xint_cause code r else r))"

section \<open>Lemmas\<close>

lemma trim_left_id: "s = [] \<or> \<not> is_space (hd s) \<Longrightarrow> trim_left s = s"
  by (cases s) (auto simp: trim_left_def)

lemma trim_space_id: "s \<noteq> [] \<Longrightarrow> \<not> is_space (hd s) \<Longrightarrow> \<not> is_space (last s) \<Longrightarrow> trim_space s = s"
  by (simp add: trim_space_def trim_left_id hd_rev)

definition plain_text :: "string \<Rightarrow> bool" where
  "plain_text t = (CHR 0x22 \<notin> set t \<and> CHR 0x5C \<notin> set t \<and> CHR 0x0A \<notin> set t)"

definition quote :: "string \<Rightarrow> string" where
  "quote t = CHR 0x22 # t @ [CHR 0x22]"

lemma unquote_char_plain: "c \<noteq> q \<Longrightarrow> c \<noteq> CHR 0x5C \<Longrightarrow> unquote_char q (c # r) = Some ([c], r)"
  by (simp add: unquote_char_def)

lemma unquote_chars_plain: "plain_text t \<Longrightarrow> unquote_chars CHR 0x22 t = Some t"
proof (induction t)
  case Nil
  show ?case by (subst unquote_chars.simps) simp
next
  case (Cons c t)
  then have "c \<noteq> CHR 0x22" "c \<noteq> CHR 0x5C" "plain_text t" by (auto simp: plain_text_def)
  then show ?case using Cons.IH by (subst unquote_chars.simps) (simp add: unquote_char_plain)
qed

lemma unquote_quote: "plain_text t \<Longrightarrow> unquote (quote t) = Some t"
  by (simp add: unquote_def quote_def Let_def butlast_append unquote_chars_plain plain_text_def)

lemma last_itoa_nat: "is_digit (last (itoa_nat n))"
  by (rule itoa_nat_set [OF last_in_set]) simp

lemma digit_not_space: "is_digit c \<Longrightarrow> \<not> is_space c"
  by (auto simp: is_digit_def is_space_def)

lemma reason_field_eq:
  assumes "CHR ''='' \<notin> set k" and "k \<noteq> []" and "\<not> is_space (hd k)" and "\<not> is_space (last k)"
    and "v \<noteq> []" and "\<not> is_space (hd v)" and "\<not> is_space (last v)"
  shows "cut_on CHR ''='' (trim_space (k @ CHR ''='' # v)) = (k, Some v) \<and> trim_space k = k \<and> trim_space v = v"
proof -
  have "trim_space (k @ CHR ''='' # v) = k @ CHR ''='' # v"
    using assms by (intro trim_space_id) auto
  then show ?thesis using assms cut_on_append [OF assms(1)] by (simp add: trim_space_id)
qed

lemma cause_field:
  assumes "n < 2 ^ 63"
  shows "reason_field (''cause='' @ itoa_nat n) (r, code) = (r\<lparr>rh_cause := int n\<rparr>, code)"
proof -
  have sp: "\<not> is_space CHR ''c''" "\<not> is_space CHR ''e''" by code_simp+
  have "cut_on CHR ''='' (trim_space (''cause'' @ CHR ''='' # itoa_nat n)) = (''cause'', Some (itoa_nat n))
      \<and> trim_space ''cause'' = ''cause'' \<and> trim_space (itoa_nat n) = itoa_nat n"
    using digit_not_space [OF hd_itoa_nat] digit_not_space [OF last_itoa_nat] sp
    by (intro reason_field_eq) simp_all
  moreover have "atoi (itoa_nat n) = (int n, None)"
    unfolding atoi_def using assms by (intro parse_int_itoa_nat) simp
  ultimately show ?thesis by (simp add: reason_field_def Let_def)
qed

lemma text_field:
  assumes "plain_text t"
  shows "reason_field (''text='' @ quote t) (r, code) = (r\<lparr>rh_text := t\<rparr>, code)"
proof -
  have sp: "\<not> is_space CHR ''t''" "\<not> is_space CHR 0x22" by code_simp+
  have "cut_on CHR ''='' (trim_space (''text'' @ CHR ''='' # quote t)) = (''text'', Some (quote t))
      \<and> trim_space ''text'' = ''text'' \<and> trim_space (quote t) = quote t"
    using sp by (intro reason_field_eq) (simp_all add: quote_def)
  then show ?thesis by (simp add: reason_field_def Let_def unquoted_def unquote_quote [OF assms])
qed

section \<open>Properties\<close>

text \<open>
  Reading a Reason header gives back the protocol (without case and surrounding space), cause and
  text it was printed from, for every non-negative 63-bit cause and every quoted text without escapes
  and semicolons.
\<close>

theorem reason_header_round_trip:
  assumes "CHR '';'' \<notin> set typ" and "n < 2 ^ 63" and "plain_text t" and "CHR '';'' \<notin> set t"
    and "to_lower (trim_space typ) = ''x.int'' \<longrightarrow> 0 < n"
  shows "ParseReasonHeader (typ @ '';cause='' @ itoa (int n) @ '';text='' @ quote t) =
    Inr \<lparr>rh_type = to_lower (trim_space typ), rh_cause = int n, rh_text = t\<rparr>"
proof -
  have nd: "CHR '';'' \<notin> set (''cause='' @ itoa_nat n)" "CHR '';'' \<notin> set (''text='' @ quote t)"
    using itoa_nat_set [of "CHR '';''" n] assms(4) by (auto simp: is_digit_def quote_def)
  have h: "typ @ '';cause='' @ itoa (int n) @ '';text='' @ quote t =
      typ @ CHR '';'' # (''cause='' @ itoa_nat n) @ CHR '';'' # (''text='' @ quote t)"
    by (simp add: itoa_def)
  have sp: "split_on CHR '';'' (typ @ CHR '';'' # (''cause='' @ itoa_nat n) @ CHR '';'' # (''text='' @ quote t)) =
      [typ, ''cause='' @ itoa_nat n, ''text='' @ quote t]"
    by (simp only: split_on_append [OF assms(1)] split_on_append [OF nd(1)] split_on_absent [OF nd(2)])
  show ?thesis
    using assms(5) unfolding ParseReasonHeader_def h sp
    by (simp add: cause_field [OF assms(2), simplified] text_field [OF assms(3), simplified] Let_def no_reason_def xint_cause_def)
qed

theorem reason_header_round_trip_witness:
  "ParseReasonHeader (''Q.850 '' @ '';cause='' @ itoa (int 31) @ '';text='' @ quote ''Normal, unspecified'') =
     Inr \<lparr>rh_type = ''q.850'', rh_cause = 31, rh_text = ''Normal, unspecified''\<rparr>"
proof -
  have "to_lower (trim_space ''Q.850 '') = ''q.850''" by code_simp
  then show ?thesis
    using reason_header_round_trip [of "''Q.850 ''" 31 "''Normal, unspecified''"] by (simp add: plain_text_def)
qed

end
