(* ===== verification/InboundCall.thy ===== *)
theory InboundCall
  imports InboundServerProps ReasonHeader
begin

text \<open>
  The life of an inbound call, \<open>inboundCall\<close> of \<open>pkg/sip/inbound.go\<close>: \<open>handleInvite\<close> from the first ring to the
  end of the call, its waits, the PIN prompt, and the ways to close.

  What other components return (dispatch, media set-up, room, the channel each \<open>select\<close> takes) is the input
  \<open>call_env\<close>.  Between the steps of \<open>handleInvite\<close> other goroutines act on the call: BYE, ACK, CANCEL,
  ringing ticks, shutdown; \<open>ce_ext\<close> says which do before each step.  A result \<open>None\<close> means that the call
  has not returned (it panicked in \<open>StartRinging\<close>, or still waits for its end).
\<close>

section \<open>State\<close>

record inbound_call =
  ib_cc :: sip_inbound
  ib_mon :: call_monitor
  ib_metrics :: metrics
  ib_state :: call_state
  ib_extra :: smap
  ib_done :: bool
  ib_ctx_done :: bool
  ib_close_reason :: "reason_header option"
  ib_registered :: bool
  ib_transfer_topic :: bool
  ib_joined :: bool
  ib_room_closed :: bool
  ib_media :: bool
  ib_media_closed :: bool
  ib_forward_dtmf :: bool
  ib_dtmf :: "char list"
  ib_data :: "char list"
  ib_started :: bool
  ib_attribute :: string
  ib_session_ends :: "string list"
  ib_part_attrs :: smap
  ib_max_duration :: nanos
  ib_ringing_timeout :: nanos

text \<open>What the signaling side offers to \<open>HeadersToAttrs\<close>: remote tag, Call-ID and the headers of the INVITE.\<close>

definition remote_view :: "sip_inbound \<Rightarrow> string \<times> string \<times> smap" where
  "remote_view cc = (si_tag cc, si_call_id cc, case si_invite cc of Some iv \<Rightarrow> iv_headers iv | None \<Rightarrow> [])"

definition newInboundCall ::
  "(string \<Rightarrow> string) \<Rightarrow> string \<Rightarrow> string \<Rightarrow> sip_inbound \<Rightarrow> call_monitor \<Rightarrow> metrics \<Rightarrow> call_state \<Rightarrow> inbound_call" where
  "newInboundCall htl hpre pre cc cm ms st =
     \<lparr>ib_cc = cc, ib_mon = cm, ib_metrics = ms, ib_state = st,
      ib_extra = HeadersToAttrs htl hpre pre [] [] SIP_NO_HEADERS (Some (remote_view cc)) [],
      ib_done = False, ib_ctx_done = False, ib_close_reason = None, ib_registered = True, ib_transfer_topic = False,
      ib_joined = False, ib_room_closed = False, ib_media = False, ib_media_closed = False, ib_forward_dtmf = False,
      ib_dtmf = [], ib_data = [], ib_started = False, ib_attribute = [], ib_session_ends = [],
      ib_part_attrs = [], ib_max_duration = 0, ib_ringing_timeout = 0\<rparr>"

definition on_state :: "(call_state \<Rightarrow> call_state) \<Rightarrow> inbound_call \<Rightarrow> inbound_call" where
  "on_state f c = c\<lparr>ib_state := f (ib_state c)\<rparr>"

definition on_cc :: "(sip_inbound \<Rightarrow> sip_inbound) \<Rightarrow> inbound_call \<Rightarrow> inbound_call" where
  "on_cc f c = c\<lparr>ib_cc := f (ib_cc c)\<rparr>"

definition on_mon :: "(call_monitor \<times> metrics \<Rightarrow> call_monitor \<times> metrics) \<Rightarrow> inbound_call \<Rightarrow> inbound_call" where
  "on_mon f c = (let (m, ms) = f (ib_mon c, ib_metrics c) in c\<lparr>ib_mon := m, ib_metrics := ms\<rparr>)"

definition setStatus :: "call_status \<Rightarrow> inbound_call \<Rightarrow> inbound_call" where
  "setStatus v c =
     (let attr = call_attribute v in
      if attr = [] then c else if \<not> ib_joined c then c else c\<lparr>ib_attribute := attr\<rparr>)"

definition closeMedia :: "inbound_call \<Rightarrow> inbound_call" where
  "closeMedia c =
     (let c1 = c\<lparr>ib_room_closed := True\<rparr> in if ib_media c1 then c1\<lparr>ib_media_closed := True\<rparr> else c1)"

section \<open>Closing\<close>

text \<open>
  The library, the configuration and the attributes \<open>fillHeaders\<close> reads (participant attributes with the
  mapping, absent while there is no room).
\<close>

record close_env =
  cl_lib :: sip_lib
  cl_conf :: inbound_conf
  cl_fill :: "(smap \<times> smap) option"

definition close_result :: "call_status \<Rightarrow> sip_result" where
  "close_result st =
     (case st of
        callMediaFailed \<Rightarrow> \<lparr>rs_code = 488, rs_status = ''Media Failed''\<rparr>
      | CallCancelled \<Rightarrow> \<lparr>rs_code = 487, rs_status = ''Request Terminated''\<rparr>
      | _ \<Rightarrow> \<lparr>rs_code = 486, rs_status = ''Rejected''\<rparr>)"

definition call_close :: "close_env \<Rightarrow> end_call \<Rightarrow> inbound_call \<Rightarrow> inbound_call" where
  "call_close E ec c =
     (if ib_done c then c
      else
        let c1 = setStatus (ec_status ec) (c\<lparr>ib_done := True\<rparr>);
            c2 = on_mon (CallTerminate (ec_term ec)) c1;
            c3 = on_cc (CloseWithStatus (cl_lib E) (cl_conf E) (cl_fill E) (close_result (ec_status ec)) (ec_headers ec)) c2;
            c4 = closeMedia c3;
            c5 = c4\<lparr>ib_registered := False, ib_transfer_topic := False\<rparr>;
            c6 = c5\<lparr>ib_session_ends := ib_session_ends c5 @ [tm_reason (ec_term ec)]\<rparr>
        in c6\<lparr>ib_ctx_done := True\<rparr>)"

definition end_of :: "call_status \<Rightarrow> call_term \<Rightarrow> end_call" where
  "end_of st t = \<lparr>ec_report = None, ec_status = st, ec_term = t, ec_reason = UNKNOWN_REASON, ec_headers = []\<rparr>"

definition closeWithTerm :: "close_env \<Rightarrow> call_term \<Rightarrow> inbound_call \<Rightarrow> inbound_call" where
  "closeWithTerm E t = call_close E (end_of callDropped t)"

text \<open>\<open>psrpc.NewErrorf(psrpc.DeadlineExceeded, "media-timeout").Error()\<close> is \<open>mt\<close>.\<close>

definition closeWithTimeout :: "close_env \<Rightarrow> string \<Rightarrow> bool \<Rightarrow> inbound_call \<Rightarrow> inbound_call" where
  "closeWithTimeout E mt isError c =
     (if isError then call_close E (end_of callDropped (Indeterminate ''media-timeout'')) c
      else call_close E (end_of callHangupMedia (Indeterminate ''media-timeout''))
        (on_state (DeferUpdate (\<lambda>info. if ci_error info = [] then info\<lparr>ci_error := mt\<rparr> else info)) c))"

definition closeWithNoACK :: "close_env \<Rightarrow> inbound_call \<Rightarrow> inbound_call" where
  "closeWithNoACK E = call_close E (end_of callNoACK (Indeterminate ''no-ack''))"

definition closeWith :: "close_env \<Rightarrow> call_status \<Rightarrow> call_term \<Rightarrow> reason_header \<Rightarrow> inbound_call \<Rightarrow> inbound_call" where
  "closeWith E st t reason c =
     (let c1 = on_state (DeferUpdate (\<lambda>info0.
            let info = info0\<lparr>ci_reason := CLIENT_INITIATED\<rparr> in
            if ci_error info = [] \<and> \<not> IsNormal reason then info\<lparr>ci_error := ReasonHeader_String reason\<rparr> else info)) c;
          t1 = (if rh_type reason \<noteq> [] \<and> \<not> IsNormal reason
                then t\<lparr>tm_reason := ''bye-'' @ to_lower (rh_type reason) @ ''-'' @ itoa (rh_cause reason)\<rparr> else t)
      in call_close E (end_of st t1) c1)"

definition stored_reason :: "inbound_call \<Rightarrow> reason_header" where
  "stored_reason c = (case ib_close_reason c of Some r \<Rightarrow> r | None \<Rightarrow> no_reason)"

definition closeWithCancelled :: "close_env \<Rightarrow> inbound_call \<Rightarrow> inbound_call" where
  "closeWithCancelled E c = closeWith E CallCancelled (Success ''cancelled'') (stored_reason c) c"

definition closeWithHangup :: "close_env \<Rightarrow> inbound_call \<Rightarrow> inbound_call" where
  "closeWithHangup E c = closeWith E CallHangup (Success ''hangup'') (stored_reason c) c"

definition Bye :: "reason_header \<Rightarrow> inbound_call \<Rightarrow> inbound_call" where
  "Bye r c = c\<lparr>ib_close_reason := Some r, ib_ctx_done := True\<rparr>"

definition Shutdown :: "close_env \<Rightarrow> inbound_call \<Rightarrow> inbound_call" where
  "Shutdown E c = closeWithTerm E (ServerError ''shutdown'') c"

definition mediaTimeout :: "close_env \<Rightarrow> string \<Rightarrow> inbound_call \<Rightarrow> go_error option \<times> inbound_call" where
  "mediaTimeout E mt c =
     (if \<not> si_acked (ib_cc c) then (Some (Psrpc DeadlineExceeded (Sentinel ErrNoACK)), closeWithNoACK E c)
      else (None, closeWithTimeout E mt False c))"

definition handleDTMF :: "char \<Rightarrow> inbound_call \<Rightarrow> inbound_call" where
  "handleDTMF d c =
     (if ib_forward_dtmf c then c\<lparr>ib_data := ib_data c @ [d]\<rparr>
      else if length (ib_dtmf c) < 10 then c\<lparr>ib_dtmf := ib_dtmf c @ [d]\<rparr> else c)"

section \<open>Waits\<close>

datatype wait_event =
    WCancelled | WCtxDone | WRoomClosed | WMediaTimeout | WEndCall end_call | WTimer | WReady

text \<open>\<open>waitMedia\<close>: \<open>WReady\<close> is the first RTP packet, \<open>WTimer\<close> the fixed delay.\<close>

definition waitMedia :: "close_env \<Rightarrow> string \<Rightarrow> wait_event \<Rightarrow> inbound_call \<Rightarrow> bool \<times> go_error option \<times> inbound_call" where
  "waitMedia E mt w c =
     (case w of
        WCancelled \<Rightarrow> (False, None, closeWithCancelled E c)
      | WCtxDone \<Rightarrow> (False, None, closeWithHangup E c)
      | WRoomClosed \<Rightarrow> (False, Some (Psrpc Canceled (Plain ''room closed'')), closeWithHangup E c)
      | WMediaTimeout \<Rightarrow> (let (e, c') = mediaTimeout E mt c in (False, e, c'))
      | WEndCall ec \<Rightarrow> (False, None, call_close E ec c)
      | WTimer \<Rightarrow> (True, None, c)
      | WReady \<Rightarrow> (True, None, c))"

definition waitSubscribe :: "close_env \<Rightarrow> string \<Rightarrow> wait_event \<Rightarrow> inbound_call \<Rightarrow> bool \<times> go_error option \<times> inbound_call" where
  "waitSubscribe E mt w c =
     (case w of
        WCancelled \<Rightarrow> (False, None, closeWithCancelled E c)
      | WCtxDone \<Rightarrow> (False, None, closeWithHangup E c)
      | WRoomClosed \<Rightarrow> (False, Some (Psrpc Canceled (Plain ''room closed'')), closeWithHangup E c)
      | WMediaTimeout \<Rightarrow> (let (e, c') = mediaTimeout E mt c in (False, e, c'))
      | WEndCall ec \<Rightarrow> (False, Some (Psrpc Canceled (Plain ''rpc terminated the call'')), call_close E ec c)
      | WTimer \<Rightarrow> (False, Some (Psrpc DeadlineExceeded (Plain ''room subscription timed out'')),
                   closeWithTerm E (ServerError ''cannot-subscribe'') c)
      | WReady \<Rightarrow> (True, None, c))"

datatype end_event =
    EStats | ETick | ECtxDone | EEndCall end_call | ERoomClosed disconnect_reason | EMediaTimeout | EAckReceived | EAckTimeout

text \<open>\<open>waitForCallEnd\<close> over the cases its select takes; \<open>None\<close> while the call goes on.\<close>

fun waitForCallEnd :: "close_env \<Rightarrow> string \<Rightarrow> end_event list \<Rightarrow> inbound_call \<Rightarrow> (go_error option \<times> inbound_call) option" where
  "waitForCallEnd E mt [] c = None"
| "waitForCallEnd E mt (EStats # es) c = waitForCallEnd E mt es c"
| "waitForCallEnd E mt (ETick # es) c = waitForCallEnd E mt es (on_state ForceFlush c)"
| "waitForCallEnd E mt (ECtxDone # es) c = Some (None, closeWithHangup E c)"
| "waitForCallEnd E mt (EEndCall ec # es) c = Some (None, call_close E ec c)"
| "waitForCallEnd E mt (ERoomClosed r # es) c =
     Some (None, closeWithTerm E (terminationFromRoomDisconnect r)
       (on_state (DeferUpdate (\<lambda>info. info\<lparr>ci_reason := disconnectReasonFromRoomClose r\<rparr>)) c))"
| "waitForCallEnd E mt (EMediaTimeout # es) c = Some (mediaTimeout E mt c)"
| "waitForCallEnd E mt (EAckReceived # es) c = waitForCallEnd E mt es c"
| "waitForCallEnd E mt (EAckTimeout # es) c = waitForCallEnd E mt es c"

section \<open>Dispatch and the PIN prompt\<close>

datatype dispatch_result =
    DispatchAccept | DispatchRequestPin | DispatchNoRuleReject | DispatchNoRuleDrop | DispatchServiceUnavailable
  | DispatchOther int

record call_dispatch =
  dp_result :: dispatch_result
  dp_room :: string
  dp_identity :: string
  dp_attributes :: smap
  dp_project :: string
  dp_trunk :: string
  dp_rule :: string
  dp_headers :: smap
  dp_hdr_to_attr :: smap
  dp_include :: header_opts
  dp_attrs_to_headers :: smap
  dp_ringing :: nanos
  dp_max_duration :: nanos

definition no_dispatch :: call_dispatch where
  "no_dispatch = \<lparr>dp_result = DispatchAccept, dp_room = [], dp_identity = [], dp_attributes = [], dp_project = [],
     dp_trunk = [], dp_rule = [], dp_headers = [], dp_hdr_to_attr = [], dp_include = SIP_NO_HEADERS,
     dp_attrs_to_headers = [], dp_ringing = 0, dp_max_duration = 0\<rparr>"

datatype pin_event = PinCancelled | PinCtxDone | PinMediaTimeout | PinChannelClosed | PinDigit char

definition pinLimit :: nat where "pinLimit = 16"

text \<open>
  The loop of \<open>pinPrompt\<close> with the digits gathered so far; \<open>check\<close> is \<open>DispatchCall\<close> as a function of the
  PIN and the no-PIN flag.  \<open>None\<close>: still waiting for input.  Zero is an unrecognized digit.
\<close>

fun pinPrompt ::
  "close_env \<Rightarrow> string \<Rightarrow> (string \<Rightarrow> bool \<Rightarrow> call_dispatch) \<Rightarrow> string \<Rightarrow> pin_event list \<Rightarrow> inbound_call
    \<Rightarrow> (call_dispatch \<times> bool \<times> go_error option \<times> inbound_call) option" where
  "pinPrompt E mt check pin [] c = None"
| "pinPrompt E mt check pin (PinCancelled # es) c = Some (no_dispatch, False, None, closeWithCancelled E c)"
| "pinPrompt E mt check pin (PinCtxDone # es) c = Some (no_dispatch, False, None, closeWithHangup E c)"
| "pinPrompt E mt check pin (PinMediaTimeout # es) c =
     (let (e, c') = mediaTimeout E mt c in Some (no_dispatch, False, e, c'))"
| "pinPrompt E mt check pin (PinChannelClosed # es) c =
     Some (no_dispatch, False, Some (Psrpc Canceled (Plain ''failed reading DTMF event'')), c\<lparr>ib_ctx_done := True\<rparr>)"
| "pinPrompt E mt check pin (PinDigit d # es) c =
     (if d = CHR 0x00 then pinPrompt E mt check pin es c
      else if d = CHR 0x23 then
        (let disp = check pin (pin = []) in
         if dp_result disp = DispatchServiceUnavailable then
           Some (disp, False, Some (Psrpc Unavailable (Plain ''dispatch rule evaluation unavailable'')),
             closeWithTerm E (ServerError ''dispatch-error'') c)
         else if dp_result disp \<noteq> DispatchAccept \<or> dp_room disp = [] then
           Some (disp, False, Some (Psrpc PermissionDenied (Plain ''wrong pin'')), closeWithTerm E (ClientError ''wrong-pin'') c)
         else Some (disp, True, None, c))
      else
        (let pin' = pin @ [d] in
         if length pin' > pinLimit then
           Some (no_dispatch, False, Some (Psrpc PermissionDenied (Plain ''wrong pin'')),
             call_close E (end_of callDropped (ClientError ''wrong-pin'')) c)
         else pinPrompt E mt check pin' es c))"

section \<open>handleInvite\<close>

datatype ext_event = ExtBye reason_header | ExtAck | ExtRingTick | ExtRingCancel | ExtRingStop | ExtDTMF char | ExtShutdown

record call_env =
  ce_close :: close_env
  ce_htl :: "string \<Rightarrow> string"
  ce_hpre :: string
  ce_pre :: string
  ce_media_timeout :: string
  ce_ext :: "nat \<Rightarrow> ext_event list"
  ce_dispatch :: call_dispatch
  ce_mconf :: "go_error option"
  ce_media :: "go_error + string"
  ce_room_attrs :: "smap option"
  ce_accept :: "nat \<Rightarrow> try_outcome"
  ce_wait_media :: wait_event
  ce_check_pin :: "string \<Rightarrow> bool \<Rightarrow> call_dispatch"
  ce_pin :: "pin_event list"
  ce_register :: "go_error option"
  ce_join :: "go_error option"
  ce_publish :: "go_error option"
  ce_wait_subscribe :: wait_event
  ce_end :: "end_event list"
  ce_now :: int
  ce_room :: "(string \<times> string \<times> smap) option"

definition ext_step :: "call_env \<Rightarrow> ext_event \<Rightarrow> inbound_call \<Rightarrow> inbound_call" where
  "ext_step V e c =
     (case e of
        ExtBye r \<Rightarrow> Bye r (on_cc AcceptBye c)
      | ExtAck \<Rightarrow> on_cc AcceptAck c
      | ExtRingTick \<Rightarrow> on_cc (ring_tick (cl_conf (ce_close V))) c
      | ExtRingCancel \<Rightarrow> on_cc ring_cancel c
      | ExtRingStop \<Rightarrow> on_cc ring_stop c
      | ExtDTMF d \<Rightarrow> handleDTMF d c
      | ExtShutdown \<Rightarrow> Shutdown (ce_close V) c)"

definition ext :: "call_env \<Rightarrow> nat \<Rightarrow> inbound_call \<Rightarrow> inbound_call" where
  "ext V k c = fold (ext_step V) (ce_ext V k) c"

text \<open>The answer to a failed media set-up: SIP status, call status, termination.\<close>

definition media_failure :: "go_error \<Rightarrow> int \<times> call_status \<times> call_term" where
  "media_failure err =
     (if errors_is err ErrNoCommonMedia then (400, callMediaFailed, ClientError ''no-common-codec'')
      else if errors_is err ErrNoCommonCrypto then (400, callMediaFailed, ClientError ''no-common-crypto'')
      else if errors_is err ErrDTLSSDP then (488, callMediaFailed, ClientError ''dtls-sdp-error'')
      else if list_ex (\<lambda>x. case x of SDPError _ \<Rightarrow> True | _ \<Rightarrow> False) (chain err) then
        (400, callMediaFailed, ClientError ''sdp-error'')
      else (500, callDropped, ServerError ''media-failed''))"

definition runMedia :: "call_env \<Rightarrow> inbound_call \<Rightarrow> (go_error + string) \<times> inbound_call" where
  "runMedia V c0 =
     (let c = c0\<lparr>ib_media := True\<rparr> in
      case ce_media V of
        Inr answer \<Rightarrow> (Inr answer, c)
      | Inl err \<Rightarrow>
          let (code, st, term) = media_failure err
          in (Inl err, call_close (ce_close V) (end_of st term)
               (on_cc (RespondAndDrop (cl_conf (ce_close V)) code []) c)))"

definition acceptCall :: "call_env \<Rightarrow> call_dispatch \<Rightarrow> string \<Rightarrow> inbound_call \<Rightarrow> bool \<times> go_error option \<times> inbound_call" where
  "acceptCall V disp answer c =
     (let headers = (case ce_room_attrs V of
                       Some attrs \<Rightarrow> AttrsToHeaders attrs (dp_attrs_to_headers disp) (dp_headers disp)
                     | None \<Rightarrow> dp_headers disp);
          (err, cc') = Accept (cl_conf (ce_close V)) (ce_accept V) answer headers (ib_cc c);
          c1 = c\<lparr>ib_cc := cc'\<rparr>
      in case err of
           Some e \<Rightarrow>
             if errors_is e ErrNoACK then (False, Some e, closeWithNoACK (ce_close V) c1)
             else (False, Some e, call_close (ce_close V) (end_of callAcceptFailed (ServerError ''accept-failed'')) c1)
         | None \<Rightarrow>
             let (ok, e, c2) = waitMedia (ce_close V) (ce_media_timeout V) (ce_wait_media V) (ext V 3 c1)
             in if \<not> ok then (False, e, c2) else (True, None, setStatus CallActive c2))"

text \<open>
  The attributes of the room participant: those of the dispatch with the mapped headers, over them the
  ones known since the INVITE, then the call status.
\<close>

definition participant_attrs ::
  "(string \<Rightarrow> string) \<Rightarrow> string \<Rightarrow> string \<Rightarrow> string \<times> string \<times> smap \<Rightarrow> smap \<Rightarrow> call_dispatch \<Rightarrow> call_status \<Rightarrow> smap" where
  "participant_attrs htl hpre pre remote extra disp st =
     mput (pre @ ''callStatus'') (call_attribute st)
       (fold (\<lambda>(k, v). mput k v) extra
         (HeadersToAttrs htl hpre pre (dp_attributes disp) (dp_hdr_to_attr disp) (dp_include disp) (Some remote) []))"

definition joinRoom ::
  "call_env \<Rightarrow> call_dispatch \<Rightarrow> call_status \<Rightarrow> inbound_call \<Rightarrow> go_error option \<times> inbound_call" where
  "joinRoom V disp st c0 =
     (let c = c0\<lparr>ib_part_attrs := participant_attrs (ce_htl V) (ce_hpre V) (ce_pre V) (remote_view (ib_cc c0)) (ib_extra c0) disp st,
                   ib_forward_dtmf := True\<rparr>;
          fail = (\<lambda>e c. (Some (Wrapped ''cannot create LiveKit participant'' e),
                         closeWithTerm (ce_close V) (ServerError ''participant-failed'') c))
      in if ib_ctx_done c then fail (Sentinel CtxCanceled) c
         else case ce_register V of
           Some e \<Rightarrow> fail e c
         | None \<Rightarrow>
             (case ce_join V of
                Some e \<Rightarrow> fail e (c\<lparr>ib_transfer_topic := True\<rparr>)
              | None \<Rightarrow> (None, c\<lparr>ib_transfer_topic := True, ib_joined := True, ib_attribute := call_attribute st\<rparr>)))"

text \<open>The call record after the dispatch.\<close>

definition record_dispatch :: "string \<Rightarrow> string \<Rightarrow> call_dispatch \<Rightarrow> call_info \<Rightarrow> call_info" where
  "record_dispatch pre cid disp info =
     info\<lparr>ci_trunk := dp_trunk disp, ci_rule := dp_rule disp, ci_room := dp_room disp, ci_identity := dp_identity disp,
          ci_attributes := (if cid \<noteq> [] then mput (pre @ ''callIDFull'') cid (dp_attributes disp) else dp_attributes disp)\<rparr>"

text \<open>The dispatch results that end the call before media: SIP status and phrase (none for a drop), end, error.\<close>

definition dispatch_rejection :: "dispatch_result \<Rightarrow> ((int \<times> string) option \<times> end_call \<times> go_error) option" where
  "dispatch_rejection r =
     (case r of
        DispatchAccept \<Rightarrow> None
      | DispatchRequestPin \<Rightarrow> None
      | DispatchNoRuleDrop \<Rightarrow> Some (None, end_of callFlood (ClientError ''flood''),
          Psrpc PermissionDenied (Plain ''call was not authorized by trunk configuration''))
      | DispatchNoRuleReject \<Rightarrow> Some (Some (404, ''Does not match Trunks or Dispatch Rules''),
          end_of callDropped (ClientError ''no-dispatch''), Psrpc NotFound (Plain ''no trunk configuration for call''))
      | DispatchServiceUnavailable \<Rightarrow> Some (Some (503, ''Try again later''), end_of callDropped (ServerError ''dispatch-error''),
          Psrpc Unavailable (Plain ''dispatch rule evaluation unavailable''))
      | DispatchOther _ \<Rightarrow> Some (Some (501, []), end_of callDropped (ServerError ''unexpected-result''),
          Psrpc Unimplemented (Plain ''unexpected dispatch result'')))"

text \<open>
  From the room on: join, publish, subscribe, and for calls without a PIN wait for a subscription and
  answer; then wait for the end.
\<close>

definition active_phase :: "call_env \<Rightarrow> inbound_call \<Rightarrow> (go_error option \<times> inbound_call) option" where
  "active_phase V c =
     (let c1 = on_state (Update (\<lambda>info0.
            let info = info0\<lparr>ci_started_at := ce_now V, ci_status := SCS_ACTIVE\<rparr> in
            case ce_room V of
              Some (sid, name, attrs) \<Rightarrow> info\<lparr>ci_room_id := sid, ci_room := name, ci_attributes := attrs\<rparr>
            | None \<Rightarrow> info)) c
      in waitForCallEnd (ce_close V) (ce_media_timeout V) (ce_end V) (ext V 6 (c1\<lparr>ib_started := True\<rparr>)))"

definition room_phase ::
  "call_env \<Rightarrow> call_dispatch \<Rightarrow> bool \<Rightarrow> string \<Rightarrow> inbound_call \<Rightarrow> (go_error option \<times> inbound_call) option" where
  "room_phase V disp pinned answer c =
     (let (je, c1) = joinRoom V disp (if pinned then CallActive else CallRinging)
            ((ext V 4 c)\<lparr>ib_max_duration := bound_call_duration (dp_max_duration disp),
                         ib_ringing_timeout := bound_ringing_timeout (dp_ringing disp)\<rparr>)
      in case je of
           Some e \<Rightarrow> Some (Some (Wrapped ''failed joining room'' e), c1)
         | None \<Rightarrow>
        (case ce_publish V of
           Some e \<Rightarrow> Some (Some (Wrapped ''publishing track to room failed'' e),
                       closeWithTerm (ce_close V) (ServerError ''publish-failed'') (c1\<lparr>ib_room_closed := True\<rparr>))
         | None \<Rightarrow>
             if pinned then active_phase V c1
             else
               (let (ok, e, c2) = waitSubscribe (ce_close V) (ce_media_timeout V) (ce_wait_subscribe V) (ext V 5 c1)
                in if \<not> ok then Some (e, c2)
                   else
                     let (ok2, e2, c3) = acceptCall V disp answer c2
                     in if \<not> ok2 then Some (e2, c3) else active_phase V c3)))"

definition media_phase :: "call_env \<Rightarrow> inbound_call \<Rightarrow> (go_error option \<times> inbound_call) option" where
  "media_phase V c =
     (let disp = ce_dispatch V;
          (m, c1) = runMedia V (ext V 7 c)
      in case m of
           Inl e \<Rightarrow> Some (Some e, c1)
         | Inr answer \<Rightarrow>
             if dp_result disp = DispatchRequestPin then
               (let (ok, e, c2) = acceptCall V disp answer c1
                in if \<not> ok then Some (e, c2)
                   else case pinPrompt (ce_close V) (ce_media_timeout V) (ce_check_pin V) [] (ce_pin V) (ext V 2 c2) of
                          None \<Rightarrow> None
                        | Some (disp2, ok2, e2, c3) \<Rightarrow>
                            if \<not> ok2 then Some (e2, c3) else room_phase V disp2 True answer c3)
             else room_phase V disp False answer c1)"

definition dispatch_phase :: "call_env \<Rightarrow> inbound_call \<Rightarrow> (go_error option \<times> inbound_call) option" where
  "dispatch_phase V c =
     (case ce_mconf V of
        Some e \<Rightarrow>
          Some (Some (Psrpc Internal e), closeWithTerm (ce_close V) (ServerError ''media-config-error'')
            (on_cc (RespondAndDrop (cl_conf (ce_close V)) 500 []) c))
      | None \<Rightarrow>
          let c1 = on_state (Update (record_dispatch (ce_pre V) (si_call_id (ib_cc c)) (ce_dispatch V))) c
          in case dispatch_rejection (dp_result (ce_dispatch V)) of
               Some (reply, ec, e) \<Rightarrow>
                 Some (Some e, call_close (ce_close V) ec
                   (on_cc (case reply of
                             Some (code, phrase) \<Rightarrow> RespondAndDrop (cl_conf (ce_close V)) code phrase
                           | None \<Rightarrow> drop_dialog) c1))
             | None \<Rightarrow> media_phase V c1)"

text \<open>The whole handler with its deferred calls: \<open>closeWithTerm\<close> runs first, then \<open>CallEnd\<close>.\<close>

definition handleInvite :: "call_env \<Rightarrow> inbound_call \<Rightarrow> (go_error option \<times> inbound_call) option" where
  "handleInvite V c =
     (let c1 = on_mon CallStart (on_mon (\<lambda>(m, ms). (m, InviteAccept m ms)) c)
      in case StartRinging (cl_conf (ce_close V)) (ib_cc c1) of
           None \<Rightarrow> None
         | Some cc \<Rightarrow>
             (case dispatch_phase V (ext V 0 (c1\<lparr>ib_cc := cc\<rparr>)) of
                None \<Rightarrow> None
              | Some (e, c2) \<Rightarrow> Some (e, on_mon CallEnd (closeWithTerm (ce_close V) (ServerError ''other'') c2))))"

end
