(* ===== verification/InboundCallProps.thy ===== *)
theory InboundCallProps
  imports InboundCall
begin

text \<open>
  What \<open>handleInvite\<close> guarantees: a call that returns is completely torn down, the caller was answered
  before the call counts as active, a dispatch refusal is what the caller is told, and a PIN is checked
  as entered.
\<close>

section \<open>Live and torn down calls\<close>

text \<open>\<open>g\<close> is the value of the active calls gauge while the call runs.\<close>

definition counted :: "(smap \<Rightarrow> int) \<Rightarrow> smap \<Rightarrow> inbound_call \<Rightarrow> bool" where
  "counted g L c =
     (cm_started (ib_mon c) \<and> labels (ib_mon c) [] = L \<and> (\<forall>l. ib_metrics c (CallsActive, l) = g l))"

definition live :: "inbound_call \<Rightarrow> bool" where
  "live c = (\<not> ib_done c \<and> invite_kept (ib_cc c) \<and> ib_session_ends c = [])"

definition torn :: "inbound_call \<Rightarrow> bool" where
  "torn c =
     (ib_done c \<and> dialog_closed (ib_cc c) \<and> \<not> ib_registered c \<and> \<not> ib_transfer_topic c \<and> ib_room_closed c
      \<and> (ib_media c \<longrightarrow> ib_media_closed c) \<and> cm_terminated (ib_mon c) \<and> length (ib_session_ends c) = 1 \<and> ib_ctx_done c)"

definition answered :: "inbound_call \<Rightarrow> bool" where
  "answered c = (\<exists>r \<in> set (finals (si_trace (ib_cc c))). rp_status r = 200)"

text \<open>The invariant of the handler: live or torn down, counted as active, and started only if answered.\<close>

definition sound :: "(smap \<Rightarrow> int) \<Rightarrow> smap \<Rightarrow> inbound_call \<Rightarrow> bool" where
  "sound g L c = (counted g L c \<and> (live c \<or> torn c) \<and> (ib_started c \<longrightarrow> answered c))"

definition running :: "(smap \<Rightarrow> int) \<Rightarrow> smap \<Rightarrow> inbound_call \<Rightarrow> bool" where
  "running g L c = (counted g L c \<and> live c \<and> (ib_started c \<longrightarrow> answered c))"

lemma running_sound: "running g L c \<Longrightarrow> sound g L c"
  by (simp add: running_def sound_def)

lemma finals_mono_Close:
  "set (finals (si_trace s)) \<subseteq> set (finals (si_trace (CloseWithStatus L conf fh result hs s)))"
  by (auto simp: CloseWithStatus_def sendBye_def sendStatus_def dialog_setCSeq_def Let_def split: option.splits prod.splits)

lemma setStatus_sel [simp]:
  "ib_done (setStatus v c) = ib_done c" "ib_cc (setStatus v c) = ib_cc c" "ib_mon (setStatus v c) = ib_mon c"
  "ib_metrics (setStatus v c) = ib_metrics c" "ib_session_ends (setStatus v c) = ib_session_ends c"
  "ib_started (setStatus v c) = ib_started c" "ib_media (setStatus v c) = ib_media c"
  by (simp_all add: setStatus_def Let_def)

lemma on_mon_Terminate_sel [simp]:
  "ib_done (on_mon f c) = ib_done c" "ib_cc (on_mon f c) = ib_cc c" "ib_session_ends (on_mon f c) = ib_session_ends c"
  "ib_started (on_mon f c) = ib_started c" "ib_media (on_mon f c) = ib_media c"
  "ib_registered (on_mon f c) = ib_registered c" "ib_transfer_topic (on_mon f c) = ib_transfer_topic c"
  "ib_room_closed (on_mon f c) = ib_room_closed c" "ib_media_closed (on_mon f c) = ib_media_closed c"
  "ib_ctx_done (on_mon f c) = ib_ctx_done c"
  "ib_mon (on_mon f c) = fst (f (ib_mon c, ib_metrics c))" "ib_metrics (on_mon f c) = snd (f (ib_mon c, ib_metrics c))"
  by (simp_all add: on_mon_def Let_def split: prod.splits)

lemma call_close_done: "ib_done c \<Longrightarrow> call_close E ec c = c"
  by (simp add: call_close_def)

lemma call_close_torn: "live c \<Longrightarrow> torn (call_close E ec c)"
  by (simp add: call_close_def Let_def live_def torn_def on_cc_def closeMedia_def Close_closes CallTerminate_sel)

interpretation inbound_teardown: once_op live "\<lambda>c. ib_done c" "call_close E" for E
  by unfold_locales (simp_all add: call_close_done call_close_torn [unfolded torn_def])

lemma call_close_counted: "counted g L c \<Longrightarrow> counted g L (call_close E ec c)"
  by (simp add: call_close_def Let_def counted_def on_cc_def closeMedia_def CallTerminate_sel)

lemma call_close_answered: "answered c \<Longrightarrow> answered (call_close E ec c)"
  by (simp add: call_close_def Let_def answered_def on_cc_def closeMedia_def) (meson finals_mono_Close subsetD)

lemma call_close_started [simp]: "ib_started (call_close E ec c) = ib_started c"
  by (simp add: call_close_def Let_def on_cc_def closeMedia_def)

lemma sound_close: "sound g L c \<Longrightarrow> sound g L (call_close E ec c)"
  using call_close_torn [of c E ec] call_close_counted [of g L c E ec] call_close_answered [of c E ec] call_close_done [of c E ec]
  by (auto simp: sound_def torn_def)

lemma sound_state [simp]: "sound g L (on_state f c) = sound g L c" "running g L (on_state f c) = running g L c"
  by (simp_all add: sound_def running_def counted_def live_def torn_def answered_def on_state_def)

lemma sound_closers:
  assumes "sound g L c"
  shows "sound g L (closeWithTerm E t c)" "sound g L (closeWithTimeout E mt b c)" "sound g L (closeWithNoACK E c)"
    "sound g L (closeWith E st t r c)" "sound g L (closeWithCancelled E c)" "sound g L (closeWithHangup E c)"
    "sound g L (snd (mediaTimeout E mt c))"
  using assms
  by (simp_all add: closeWithTerm_def closeWithTimeout_def closeWithNoACK_def closeWith_def closeWithCancelled_def
      closeWithHangup_def mediaTimeout_def sound_close Let_def)

lemma mediaTimeout_sound: "mediaTimeout E mt c = (e, c') \<Longrightarrow> sound g L c \<Longrightarrow> sound g L c'"
  using sound_closers(7) [of g L c E mt] by simp

section \<open>Concurrent events keep a call running\<close>

lemma running_cc:
  assumes "running g L c" and "invite_kept (f (ib_cc c))" and "set (finals (si_trace (ib_cc c))) \<subseteq> set (finals (si_trace (f (ib_cc c))))"
  shows "running g L (on_cc f c)"
  using assms by (auto simp: running_def counted_def live_def answered_def on_cc_def)

lemma kept_drop [simp]: "invite_kept (drop_dialog s)"
  by (simp add: invite_kept_def)

lemma finals_drop: "finals (si_trace (drop_dialog s)) = finals (si_trace s)"
  by simp

lemma kept_small:
  assumes "invite_kept s"
  shows "invite_kept (ring_tick conf s)" "invite_kept (ring_cancel s)" "invite_kept (ring_stop s)" "invite_kept (AcceptAck s)"
  using assms by (simp_all add: invite_kept_def AcceptAck_def)

lemma finals_ring_tick: "finals (si_trace (ring_tick conf s)) = finals (si_trace s)"
  by (simp add: ring_tick_def sendRinging_def respond_provisional)

lemma running_Bye: "running g L c \<Longrightarrow> running g L (Bye r c)"
  by (simp add: running_def counted_def live_def answered_def Bye_def)

lemma running_DTMF: "running g L c \<Longrightarrow> running g L (handleDTMF d c)"
  by (simp add: running_def counted_def live_def answered_def handleDTMF_def)

definition quiet :: "call_env \<Rightarrow> bool" where
  "quiet V = (\<forall>k. ExtShutdown \<notin> set (ce_ext V k))"

lemma running_kept: "running g L c \<Longrightarrow> invite_kept (ib_cc c)"
  by (simp add: running_def live_def)

lemma running_ext_step:
  assumes "running g L c" and "e \<noteq> ExtShutdown"
  shows "running g L (ext_step V e c)"
proof (cases e)
  case (ExtBye r)
  have "running g L (on_cc AcceptBye c)"
    by (rule running_cc [OF assms(1)]) (simp_all add: AcceptBye_def)
  then show ?thesis by (simp add: ExtBye ext_step_def running_Bye)
next
  case (ExtDTMF d)
  then show ?thesis using assms by (simp add: ext_step_def running_DTMF)
next
  case ExtAck
  show ?thesis unfolding ExtAck ext_step_def ext_event.case
    by (rule running_cc [OF assms(1)]) (use kept_small(4) [OF running_kept [OF assms(1)]] in \<open>simp_all add: AcceptAck_def\<close>)
qed (use assms in \<open>auto simp: ext_step_def intro!: running_cc [OF assms(1)]
       simp: kept_small running_kept [OF assms(1)] finals_ring_tick\<close>)

lemma running_ext: "running g L c \<Longrightarrow> quiet V \<Longrightarrow> running g L (ext V k c)"
proof -
  have "running g L c \<Longrightarrow> ExtShutdown \<notin> set es \<Longrightarrow> running g L (fold (ext_step V) es c)" for es c
    by (induction es arbitrary: c) (auto simp: running_ext_step)
  then show "running g L c \<Longrightarrow> quiet V \<Longrightarrow> running g L (ext V k c)" by (simp add: ext_def quiet_def)
qed

text \<open>An answer, once sent, stays in the trace whatever happens.\<close>

lemma answered_cc: "answered c \<Longrightarrow> set (finals (si_trace (ib_cc c))) \<subseteq> set (finals (si_trace (f (ib_cc c)))) \<Longrightarrow> answered (on_cc f c)"
  by (auto simp: answered_def on_cc_def)

lemma answered_ext_step: "answered c \<Longrightarrow> answered (ext_step V e c)"
proof (cases e)
  case (ExtBye r)
  assume "answered c"
  then have "answered (on_cc AcceptBye c)" by (rule answered_cc) (simp add: AcceptBye_def)
  then show ?thesis by (simp add: ExtBye ext_step_def answered_def Bye_def)
next
  case ExtShutdown
  assume "answered c"
  then show ?thesis by (simp add: ExtShutdown ext_step_def Shutdown_def closeWithTerm_def call_close_answered)
qed (auto simp: ext_step_def finals_ring_tick AcceptAck_def answered_def on_cc_def handleDTMF_def)

lemma answered_ext: "answered c \<Longrightarrow> answered (ext V k c)"
proof -
  have "answered c \<Longrightarrow> answered (fold (ext_step V) es c)" for es c
    by (induction es arbitrary: c) (auto simp: answered_ext_step)
  then show "answered c \<Longrightarrow> answered (ext V k c)" by (simp add: ext_def)
qed

section \<open>The phases\<close>

lemma running_setStatus [simp]: "running g L (setStatus v c) = running g L c"
  by (simp add: running_def counted_def live_def answered_def)

lemma waitMedia_sound:
  assumes "running g L c"
  shows "sound g L (snd (snd (waitMedia E mt w c))) \<and> (fst (waitMedia E mt w c) \<longrightarrow> snd (snd (waitMedia E mt w c)) = c)"
  using assms
  by (cases w) (auto simp: waitMedia_def sound_closers sound_close running_sound split: prod.splits
      intro: mediaTimeout_sound)

lemma waitSubscribe_sound:
  assumes "running g L c"
  shows "sound g L (snd (snd (waitSubscribe E mt w c))) \<and> (fst (waitSubscribe E mt w c) \<longrightarrow> snd (snd (waitSubscribe E mt w c)) = c)"
  using assms
  by (cases w) (auto simp: waitSubscribe_def sound_closers sound_close running_sound split: prod.splits
      intro: mediaTimeout_sound)

lemma waitForCallEnd_sound:
  assumes "running g L c" and "waitForCallEnd E mt es c = Some (e, c')"
  shows "sound g L c'"
  using assms
proof (induction E mt es c rule: waitForCallEnd.induct)
  case (7 E mt es c)
  then show ?case by (auto intro: mediaTimeout_sound [OF _ running_sound])
qed (auto simp: sound_closers sound_close running_sound)

lemma Accept_ok:
  assumes "Accept conf outcome sdp hs s = (None, s')"
  shows "\<exists>r \<in> set (finals (si_trace s')). rp_status r = 200"
proof -
  have tx: "si_tx s" by (rule ccontr) (use assms in \<open>simp add: Accept_def\<close>)
  let ?udp = "si_leg_tr s = TransportUDP"
  let ?o = "\<lambda>i. if si_acked s \<and> outcome i = TimerFires then AckArrives else outcome i"
  obtain res n t where l: "accept_loop ?udp (ic_wait_ack conf) ?o 1 (firstRetryAfter ?udp) 0 0 = (res, n, t)"
    by (cases "accept_loop ?udp (ic_wait_ack conf) ?o 1 (firstRetryAfter ?udp) 0 0")
  have "\<exists>x. res = Inr x" using assms tx l by (cases res) (auto simp: Accept_def Let_def)
  then have "0 < n" using accept_loop_sent [OF l] by simp
  then show ?thesis using assms tx l \<open>\<exists>x. res = Inr x\<close> by (auto simp: Accept_def Let_def accepted_def)
qed

lemma Accept_finals_mono: "set (finals (si_trace s)) \<subseteq> set (finals (si_trace (snd (Accept conf outcome sdp hs s))))"
  by (auto simp: Accept_def Let_def accepted_def split: prod.splits sum.splits)

lemma acceptCall_sound:
  assumes "running g L c" and "quiet V"
  shows "sound g L (snd (snd (acceptCall V disp answer c)))
    \<and> (fst (acceptCall V disp answer c) \<longrightarrow> running g L (snd (snd (acceptCall V disp answer c)))
         \<and> answered (snd (snd (acceptCall V disp answer c))))"
proof -
  define hs where "hs = (case ce_room_attrs V of Some attrs \<Rightarrow> AttrsToHeaders attrs (dp_attrs_to_headers disp) (dp_headers disp)
      | None \<Rightarrow> dp_headers disp)"
  obtain err cc' where a: "Accept (cl_conf (ce_close V)) (ce_accept V) answer hs (ib_cc c) = (err, cc')" by fastforce
  define c1 where "c1 = c\<lparr>ib_cc := cc'\<rparr>"
  have "invite_kept cc'" using Accept_kept [OF running_kept [OF assms(1)], of "cl_conf (ce_close V)" "ce_accept V" answer hs] a by simp
  moreover have "set (finals (si_trace (ib_cc c))) \<subseteq> set (finals (si_trace cc'))"
    using Accept_finals_mono [of "ib_cc c" "cl_conf (ce_close V)" "ce_accept V" answer hs] a by simp
  ultimately have r1: "running g L c1"
    using running_cc [OF assms(1), of "\<lambda>_. cc'"] by (simp add: c1_def on_cc_def)
  show ?thesis
  proof (cases err)
    case (Some e)
    then show ?thesis
      using sound_closers(3) [OF running_sound [OF r1]] sound_close [OF running_sound [OF r1]]
      by (simp add: acceptCall_def hs_def [symmetric] a c1_def [symmetric] Let_def)
  next
    case None
    have ans: "answered c1" using Accept_ok [OF a [unfolded None]] by (simp add: answered_def c1_def)
    define c2 where "c2 = ext V 3 c1"
    have r2: "running g L c2" unfolding c2_def using r1 assms(2) by (rule running_ext)
    have "answered c2" unfolding c2_def using ans by (rule answered_ext)
    then show ?thesis
      using waitMedia_sound [OF r2, of "ce_close V" "ce_media_timeout V" "ce_wait_media V"] r2 None
      by (auto simp: acceptCall_def hs_def [symmetric] a c1_def [symmetric] c2_def [symmetric] Let_def
          answered_def running_sound split: prod.splits)
  qed
qed

lemma active_phase_sound:
  assumes "running g L c" and "answered c" and "quiet V" and "active_phase V c = Some (e, c')"
  shows "sound g L c'"
proof -
  let ?f = "\<lambda>info0. let info = info0\<lparr>ci_started_at := ce_now V, ci_status := SCS_ACTIVE\<rparr> in
            case ce_room V of
              Some (sid, name, attrs) \<Rightarrow> info\<lparr>ci_room_id := sid, ci_room := name, ci_attributes := attrs\<rparr>
            | None \<Rightarrow> info"
  have "running g L ((on_state (Update ?f) c)\<lparr>ib_started := True\<rparr>)"
    using assms(1,2) by (simp add: running_def counted_def live_def answered_def on_state_def)
  then have "running g L (ext V 6 ((on_state (Update ?f) c)\<lparr>ib_started := True\<rparr>))"
    using assms(3) by (rule running_ext)
  then show ?thesis using assms(4) unfolding active_phase_def Let_def by (rule waitForCallEnd_sound)
qed

lemma joinRoom_sound:
  assumes "running g L c"
  shows "sound g L (snd (joinRoom V disp st c)) \<and> (fst (joinRoom V disp st c) = None \<longrightarrow> running g L (snd (joinRoom V disp st c)))
    \<and> (fst (joinRoom V disp st c) = None \<longrightarrow> ib_cc (snd (joinRoom V disp st c)) = ib_cc c)"
proof -
  define d where "d = c\<lparr>ib_part_attrs := participant_attrs (ce_htl V) (ce_hpre V) (ce_pre V) (remote_view (ib_cc c)) (ib_extra c) disp st,
                   ib_forward_dtmf := True\<rparr>"
  have r: "running g L d" "running g L (d\<lparr>ib_transfer_topic := True\<rparr>)"
    "running g L (d\<lparr>ib_transfer_topic := True, ib_joined := True, ib_attribute := call_attribute st\<rparr>)"
    using assms by (simp_all add: d_def running_def counted_def live_def answered_def)
  have "ib_cc d = ib_cc c" by (simp add: d_def)
  with r show ?thesis
    unfolding joinRoom_def d_def [symmetric] Let_def
    by (auto simp: sound_closers running_sound split: option.splits)
qed

lemma room_phase_sound:
  assumes "running g L c" and "pinned \<longrightarrow> answered c" and "quiet V" and "room_phase V disp pinned answer c = Some (e, c')"
  shows "sound g L c'"
proof -
  define st where "st = (if pinned then CallActive else CallRinging)"
  define d where "d = (ext V 4 c)\<lparr>ib_max_duration := bound_call_duration (dp_max_duration disp),
                         ib_ringing_timeout := bound_ringing_timeout (dp_ringing disp)\<rparr>"
  have "running g L (ext V 4 c)" using assms(1,3) by (rule running_ext)
  then have r0: "running g L d" by (simp add: d_def running_def counted_def live_def answered_def)
  obtain je c1 where j: "joinRoom V disp st d = (je, c1)" by fastforce
  note rp = room_phase_def [of V disp pinned answer c, folded st_def d_def, unfolded j Let_def prod.case]
  have s1: "sound g L c1" "je = None \<Longrightarrow> running g L c1" "je = None \<Longrightarrow> ib_cc c1 = ib_cc (ext V 4 c)"
    using joinRoom_sound [OF r0, of V disp st] j by (auto simp: d_def)
  show ?thesis
  proof (cases "je = None \<and> ce_publish V = None")
    case False
    then show ?thesis
      using assms(4) s1 sound_closers(1) [of g L "c1\<lparr>ib_room_closed := True\<rparr>"]
      by (auto simp: rp sound_def running_def counted_def live_def torn_def answered_def
          split: option.splits)
  next
    case True
    then have r1: "running g L c1" and cc: "ib_cc c1 = ib_cc (ext V 4 c)" using s1 by auto
    show ?thesis
    proof (cases pinned)
      case True
      then have "answered c1" using assms(2) answered_ext [of c V 4] cc by (simp add: answered_def)
      moreover have "active_phase V c1 = Some (e, c')"
        using assms(4) [unfolded rp] True \<open>je = None \<and> ce_publish V = None\<close> by simp
      ultimately show ?thesis by (rule active_phase_sound [OF r1 _ assms(3)])
    next
      case False
      have r2: "running g L (ext V 5 c1)" using r1 assms(3) by (rule running_ext)
      obtain ok e2 c2 where w: "waitSubscribe (ce_close V) (ce_media_timeout V) (ce_wait_subscribe V) (ext V 5 c1) = (ok, e2, c2)"
        by (metis prod.exhaust)
      have s2: "sound g L c2" "ok \<Longrightarrow> running g L c2"
        using waitSubscribe_sound [OF r2, of "ce_close V" "ce_media_timeout V" "ce_wait_subscribe V"] w r2 by auto
      obtain ok3 e3 c3 where ac: "acceptCall V disp answer c2 = (ok3, e3, c3)" by (metis prod.exhaust)
      have "ok \<Longrightarrow> sound g L c3 \<and> (ok3 \<longrightarrow> running g L c3 \<and> answered c3)"
        using acceptCall_sound [OF s2(2) assms(3), of disp answer] ac by auto
      then show ?thesis
        using assms(4) [unfolded rp w ac Let_def prod.case] False \<open>je = None \<and> ce_publish V = None\<close> s2
          active_phase_sound [OF _ _ assms(3)] ac
        by (auto split: if_splits)
    qed
  qed
qed

lemma pinPrompt_sound:
  assumes "running g L c" and "pinPrompt E mt check pin es c = Some (disp, ok, e, c')"
  shows "sound g L c' \<and> (ok \<longrightarrow> c' = c)"
  using assms
proof (induction E mt check pin es c rule: pinPrompt.induct)
  case (4 E mt check pin es c)
  then show ?case by (auto split: prod.splits intro: mediaTimeout_sound [OF _ running_sound])
next
  case (5 E mt check pin es c)
  then show ?case by (auto simp: sound_def running_def counted_def live_def answered_def)
next
  case (6 E mt check pin d es c)
  then show ?case by (auto simp: Let_def sound_closers sound_close running_sound split: if_splits)
qed (auto simp: sound_closers running_sound)

lemma running_RespondAndDrop: "running g L c \<Longrightarrow> running g L (on_cc (RespondAndDrop conf code phrase) c)"
proof (rule running_cc)
  show "set (finals (si_trace (ib_cc c))) \<subseteq> set (finals (si_trace (RespondAndDrop conf code phrase (ib_cc c))))"
    using RespondAndDrop_trace [of code phrase conf "ib_cc c"] by auto
qed (simp_all add: invite_kept_def)

lemma runMedia_sound:
  assumes "running g L c"
  shows "sound g L (snd (runMedia V c)) \<and> ((\<exists>a. fst (runMedia V c) = Inr a) \<longrightarrow> running g L (snd (runMedia V c)))"
proof -
  have r: "running g L (c\<lparr>ib_media := True\<rparr>)" using assms by (simp add: running_def counted_def live_def answered_def)
  show ?thesis
    using running_sound [OF running_RespondAndDrop [OF r]] r running_sound [OF r]
    by (auto simp: runMedia_def Let_def sound_close split: sum.splits prod.splits)
qed

lemma media_phase_sound:
  assumes "running g L c" and "quiet V" and "media_phase V c = Some (e, c')"
  shows "sound g L c'"
proof -
  have r0: "running g L (ext V 7 c)" using assms(1,2) by (rule running_ext)
  obtain m c1 where m: "runMedia V (ext V 7 c) = (m, c1)" by fastforce
  have s1: "sound g L c1" "\<exists>a. m = Inr a \<Longrightarrow> running g L c1" using runMedia_sound [OF r0, of V] m by auto
  show ?thesis
  proof (cases m)
    case (Inl err)
    then show ?thesis using assms(3) s1 by (simp add: media_phase_def m)
  next
    case (Inr answer)
    then have r1: "running g L c1" using s1 by blast
    show ?thesis
    proof (cases "dp_result (ce_dispatch V) = DispatchRequestPin")
      case False
      then have "room_phase V (ce_dispatch V) False answer c1 = Some (e, c')"
        using assms(3) Inr by (simp add: media_phase_def m)
      then show ?thesis by (rule room_phase_sound [OF r1 _ assms(2), rotated]) simp
    next
      case True
      obtain ok e2 c2 where ac: "acceptCall V (ce_dispatch V) answer c1 = (ok, e2, c2)" by (metis prod.exhaust)
      have s2: "sound g L c2" "ok \<Longrightarrow> running g L c2 \<and> answered c2"
        using acceptCall_sound [OF r1 assms(2), of "ce_dispatch V" answer] ac by auto
      have p: "ok \<Longrightarrow> running g L (ext V 2 c2) \<and> answered (ext V 2 c2)"
        using s2 running_ext [OF _ assms(2)] answered_ext by blast
      show ?thesis
      proof (cases ok)
        case False
        then show ?thesis using assms(3) Inr True s2 by (simp add: media_phase_def m ac)
      next
        case ok: True
        obtain disp2 ok2 e3 c3 where pp: "pinPrompt (ce_close V) (ce_media_timeout V) (ce_check_pin V) [] (ce_pin V) (ext V 2 c2) =
            Some (disp2, ok2, e3, c3)" and rest: "Some (e, c') = (if \<not> ok2 then Some (e3, c3) else room_phase V disp2 True answer c3)"
          using assms(3) Inr True ok by (auto simp: media_phase_def m ac split: option.splits)
        have s3: "sound g L c3" "ok2 \<longrightarrow> c3 = ext V 2 c2" using pinPrompt_sound [OF _ pp] p [OF ok] by auto
        show ?thesis
        proof (cases ok2)
          case True
          then have "room_phase V disp2 True answer (ext V 2 c2) = Some (e, c')" using rest s3 by simp
          then show ?thesis using p [OF ok] by (intro room_phase_sound [OF _ _ assms(2)]) simp_all
        qed (use rest s3 in simp)
      qed
    qed
  qed
qed

lemma dispatch_phase_sound:
  assumes "running g L c" and "quiet V" and "dispatch_phase V c = Some (e, c')"
  shows "sound g L c'"
proof (cases "ce_mconf V")
  case (Some err)
  then show ?thesis
    using assms sound_closers(1) [OF running_sound [OF running_RespondAndDrop [OF assms(1)]]] by (auto simp: dispatch_phase_def)
next
  case None
  define c1 where "c1 = on_state (Update (record_dispatch (ce_pre V) (si_call_id (ib_cc c)) (ce_dispatch V))) c"
  have r1: "running g L c1" using assms(1) by (simp add: c1_def)
  have d: "running g L (on_cc drop_dialog c1)" by (rule running_cc [OF r1]) simp_all
  show ?thesis
    using assms(3) None media_phase_sound [OF r1 assms(2)] sound_close [OF running_sound [OF running_RespondAndDrop [OF r1]]]
      sound_close [OF running_sound [OF d]]
    by (auto simp: dispatch_phase_def c1_def [symmetric] Let_def split: option.splits prod.splits)
qed

section \<open>The whole handler\<close>

lemma ringing_running:
  assumes "live c" and "\<not> cm_started (ib_mon c)" and "\<not> ib_started c"
    and "StartRinging conf (ib_cc c) = Some cc"
  shows "running (\<lambda>l. ib_metrics c (CallsActive, l) + (if l = labels (ib_mon c) [] then 1 else 0)) (labels (ib_mon c) [])
    ((on_mon CallStart (on_mon (\<lambda>(m, ms). (m, InviteAccept m ms)) c))\<lparr>ib_cc := cc\<rparr>)"
  using assms StartRinging_sel [OF assms(4)]
  by (auto simp: running_def counted_def live_def answered_def invite_kept_def CallStart_def InviteAccept_def)

lemma torn_closes: "sound g L c \<Longrightarrow> torn (closeWithTerm E t c)"
  using call_close_torn [of c E "end_of callDropped t"] call_close_done [of c E "end_of callDropped t"]
  by (auto simp: sound_def closeWithTerm_def torn_def [of c])

lemma torn_CallEnd: "torn c \<Longrightarrow> torn (on_mon CallEnd c)"
  by (simp add: torn_def CallEnd_def)

lemma handleInvite_split:
  assumes "handleInvite V c = Some (e, c')"
  obtains cc c2 where "StartRinging (cl_conf (ce_close V)) (ib_cc c) = Some cc"
    "dispatch_phase V (ext V 0 ((on_mon CallStart (on_mon (\<lambda>(m, ms). (m, InviteAccept m ms)) c))\<lparr>ib_cc := cc\<rparr>)) = Some (e, c2)"
    "c' = on_mon CallEnd (closeWithTerm (ce_close V) (ServerError ''other'') c2)"
  using assms by (auto simp: handleInvite_def Let_def split: option.splits)

section \<open>The PIN\<close>

fun digits_before_hash :: "pin_event list \<Rightarrow> string" where
  "digits_before_hash (PinDigit d # es) =
     (if d = CHR 0x00 then digits_before_hash es else if d = CHR 0x23 then [] else d # digits_before_hash es)"
| "digits_before_hash _ = []"

lemma pinPrompt_accepts:
  assumes "pinPrompt E mt check pin es c = Some (disp, True, e, c')" and "length pin \<le> pinLimit"
  shows "let p = pin @ digits_before_hash es in
    disp = check p (p = []) \<and> dp_result disp = DispatchAccept \<and> dp_room disp \<noteq> [] \<and> length p \<le> pinLimit \<and> e = None \<and> c' = c"
  using assms
proof (induction E mt check pin es c rule: pinPrompt.induct)
  case (6 E mt check pin d es c)
  consider "d = CHR 0x00" | "d = CHR 0x23" | "d \<noteq> CHR 0x00" "d \<noteq> CHR 0x23" by blast
  then show ?case
  proof cases
    case 3
    then have "length (pin @ [d]) \<le> pinLimit" "pinPrompt E mt check (pin @ [d]) es c = Some (disp, True, e, c')"
      using 6(3) by (auto simp: Let_def split: if_splits)
    then show ?thesis using 6(2) [OF 3 refl] 3 by (auto simp: Let_def)
  qed (use 6 in \<open>auto simp: Let_def split: if_splits\<close>)
qed (auto split: prod.splits)

section \<open>Refusals\<close>

lemma call_close_cc: "\<not> ib_done c \<Longrightarrow> ib_cc (call_close E ec c) =
    CloseWithStatus (cl_lib E) (cl_conf E) (cl_fill E) (close_result (ec_status ec)) (ec_headers ec) (ib_cc c)"
  by (simp add: call_close_def Let_def on_cc_def closeMedia_def)

lemma close_dropped_trace:
  "\<not> si_tx s \<Longrightarrow> si_invite_ok s = None \<Longrightarrow> si_trace (CloseWithStatus L conf fh res hs s) = si_trace s"
  by (simp add: CloseWithStatus_def)

lemma RespondAndDrop_finals:
  assumes "si_tx s" and "200 \<le> code"
  shows "map (\<lambda>x. (rp_status x, rp_reason x)) (finals (si_trace (RespondAndDrop conf code phrase s))) =
    map (\<lambda>x. (rp_status x, rp_reason x)) (finals (si_trace s)) @ [(code, phrase)]"
  using RespondAndDrop_trace [of code phrase conf s] assms by auto

lemma dispatch_rejection_code: "dispatch_rejection r = Some (Some (code, phrase), ec, e) \<Longrightarrow> 200 \<le> code"
  by (cases r) (auto simp: dispatch_rejection_def)

lemma closeWithTerm_done [simp]: "ib_done c \<Longrightarrow> closeWithTerm E t c = c"
  by (simp add: closeWithTerm_def call_close_def)

lemma call_close_is_done [simp]: "ib_done (call_close E ec c)"
  by (simp add: call_close_def Let_def on_cc_def closeMedia_def)

section \<open>An example\<close>

definition sample_close :: close_env where
  "sample_close = \<lparr>cl_lib = sample_lib, cl_conf = sample_conf, cl_fill = None\<rparr>"

definition sample_call_env :: "(nat \<Rightarrow> ext_event list) \<Rightarrow> call_dispatch \<Rightarrow> call_env" where
  "sample_call_env ex d = \<lparr>ce_close = sample_close, ce_htl = to_lower, ce_hpre = ''sip.h.'', ce_pre = ''sip.'',
     ce_media_timeout = ''media-timeout'', ce_ext = ex, ce_dispatch = d, ce_mconf = None, ce_media = Inr ''answer'',
     ce_room_attrs = None, ce_accept = (\<lambda>_. AckArrives), ce_wait_media = WReady, ce_check_pin = (\<lambda>_ _. no_dispatch),
     ce_pin = [], ce_register = None, ce_join = None, ce_publish = None, ce_wait_subscribe = WReady,
     ce_end = [ETick, ERoomClosed ROOM_DELETED], ce_now = 5, ce_room = Some (''RM_1'', ''room'', [])\<rparr>"

definition sample_call :: inbound_call where
  "sample_call = newInboundCall to_lower ''sip.h.'' ''sip.'' sample_dialog (NewCall Inbound ''a'' ''b'') (\<lambda>_. 0) (NewCallState sample_info)"

lemma sample_call_live: "live sample_call" "\<not> cm_started (ib_mon sample_call)" "\<not> ib_started sample_call"
  by (simp_all add: sample_call_def newInboundCall_def live_def invite_kept_def NewCall_def)

section \<open>Properties\<close>



text \<open>
  A call is let into a room through the PIN prompt only if the dispatch accepted exactly the digits the caller
  entered before the hash key, in order, at most 16 of them, and named a room; the no-PIN flag is set
  exactly if no digit was entered.
\<close>

theorem pin_checked_as_entered:
  assumes "pinPrompt E mt check [] es c = Some (disp, True, e, c')"
  shows "disp = check (digits_before_hash es) (digits_before_hash es = []) \<and> dp_result disp = DispatchAccept
    \<and> dp_room disp \<noteq> [] \<and> length (digits_before_hash es) \<le> 16 \<and> c' = c"
  using pinPrompt_accepts [OF assms] by (auto simp: Let_def pinLimit_def)

theorem pin_checked_as_entered_witness:
  "length (digits_before_hash [PinDigit CHR ''1'', PinDigit CHR 0x00, PinDigit CHR ''2'', PinDigit CHR 0x23]) \<le> 16
   \<and> digits_before_hash [PinDigit CHR ''1'', PinDigit CHR 0x00, PinDigit CHR ''2'', PinDigit CHR 0x23] = ''12''"
  using pin_checked_as_entered [of sample_close "[]" "\<lambda>_ _. no_dispatch\<lparr>dp_room := ''room''\<rparr>"
      "[PinDigit CHR ''1'', PinDigit CHR 0x00, PinDigit CHR ''2'', PinDigit CHR 0x23]" sample_call
      "no_dispatch\<lparr>dp_room := ''room''\<rparr>" None sample_call]
  by (simp add: Let_def no_dispatch_def pinLimit_def)

text \<open>
  What the dispatch decides is what the caller is told.  A refused call gets exactly the status and
  phrase of the refusal as its only final answer, and the error is returned; a dispatch that asks to drop the call gives
  the caller no final answer at all.
\<close>

theorem dispatch_refusal_answered:
  assumes "live c" and "si_tx (ib_cc c)" and "finals (si_trace (ib_cc c)) = []" and "ce_ext V 0 = []" and "ce_mconf V = None"
    and "dispatch_rejection (dp_result (ce_dispatch V)) = Some (reply, ec, err)"
  shows "\<exists>c'. handleInvite V c = Some (Some err, c')
    \<and> map (\<lambda>x. (rp_status x, rp_reason x)) (finals (si_trace (ib_cc c'))) = (case reply of Some p \<Rightarrow> [p] | None \<Rightarrow> [])"
proof -
  obtain cc where r: "StartRinging (cl_conf (ce_close V)) (ib_cc c) = Some cc"
    using assms(2) by (auto simp: StartRinging_def sendRinging_def attachTag_def Let_def)
  have cc: "si_tx cc" "finals (si_trace cc) = []" using StartRinging_sel [OF r] assms(2,3) by auto
  define c1 where "c1 = on_state (Update (record_dispatch (ce_pre V) (si_call_id cc) (ce_dispatch V)))
      ((on_mon CallStart (on_mon (\<lambda>(m, ms). (m, InviteAccept m ms)) c))\<lparr>ib_cc := cc\<rparr>)"
  have c1: "ib_cc c1 = cc" "\<not> ib_done c1" using assms(1) by (simp_all add: c1_def on_state_def live_def)
  define f where "f = (case reply of Some (code, phrase) \<Rightarrow> RespondAndDrop (cl_conf (ce_close V)) code phrase | None \<Rightarrow> drop_dialog)"
  have f: "\<not> si_tx (f cc)" "si_invite_ok (f cc) = None" by (auto simp: f_def split: option.splits)
  have fin: "map (\<lambda>x. (rp_status x, rp_reason x)) (finals (si_trace (f cc))) = (case reply of Some p \<Rightarrow> [p] | None \<Rightarrow> [])"
  proof (cases reply)
    case (Some p)
    then show ?thesis
      using RespondAndDrop_finals [OF cc(1), of "fst p" "cl_conf (ce_close V)" "snd p"] cc(2)
        dispatch_rejection_code [of "dp_result (ce_dispatch V)" "fst p" "snd p" ec err] assms(6)
      by (cases p) (simp add: f_def)
  qed (simp add: f_def cc)
  have d: "dispatch_phase V (ext V 0 ((on_mon CallStart (on_mon (\<lambda>(m, ms). (m, InviteAccept m ms)) c))\<lparr>ib_cc := cc\<rparr>)) =
      Some (Some err, call_close (ce_close V) ec (on_cc f c1))"
    using assms(4,5,6) by (simp add: dispatch_phase_def ext_def c1_def f_def)
  have t: "si_trace (ib_cc (call_close (ce_close V) ec (on_cc f c1))) = si_trace (f cc)"
    using c1 f by (simp add: call_close_cc on_cc_def close_dropped_trace)
  show ?thesis
    using fin by (simp add: handleInvite_def r d t)
qed

theorem dispatch_refusal_answered_witness:
  "\<exists>c'. handleInvite (sample_call_env (\<lambda>_. []) (no_dispatch\<lparr>dp_result := DispatchNoRuleReject\<rparr>)) sample_call =
       Some (Some (Psrpc NotFound (Plain ''no trunk configuration for call'')), c')
    \<and> map (\<lambda>x. (rp_status x, rp_reason x)) (finals (si_trace (ib_cc c'))) = [(404, ''Does not match Trunks or Dispatch Rules'')]"
  using dispatch_refusal_answered [OF sample_call_live(1), of "sample_call_env (\<lambda>_. []) (no_dispatch\<lparr>dp_result := DispatchNoRuleReject\<rparr>)"
      "Some (404, ''Does not match Trunks or Dispatch Rules'')"]
  by (simp add: sample_call_env_def dispatch_rejection_def sample_call_def newInboundCall_def)

text \<open>
  Closing a call from outside its handler can leak its media: if the server shuts the call down while the
  dispatch is being evaluated, the handler still opens a media port afterwards, the close it defers does
  nothing because the call is already closed, and the port stays open.
\<close>

theorem shutdown_leaks_media:
  "case handleInvite (sample_call_env (\<lambda>k. if k = 0 then [ExtShutdown] else []) (no_dispatch\<lparr>dp_room := ''room''\<rparr>)) sample_call of
     None \<Rightarrow> False
   | Some (e, c') \<Rightarrow> ib_done c' \<and> ib_media c' \<and> \<not> ib_media_closed c'"
  by code_simp

text \<open>
  A BYE that reaches a call before it rings closes its transaction, after which \<open>StartRinging\<close> uses the
  nil transaction and panics: the handler does not return.
\<close>

theorem early_bye_panics:
  "handleInvite V (Bye r (on_cc AcceptBye c)) = None"
  by (simp add: handleInvite_def on_cc_def Bye_def AcceptBye_def StartRinging_def sendRinging_def attachTag_def respond_def
      respondWithData_def Let_def)

end
