(* ===== verification/OutboundDialog.thy ===== *)
theory OutboundDialog
  imports SipMessage InviteFailure "HOL-Library.List_Lexorder" "HOL-Library.Char_ord"
begin

text \<open>
  The SIP side of an outbound call, \<open>sipOutbound\<close> of \<open>pkg/sip/outbound.go\<close>: sending the INVITE with its
  authentication retries, waiting for responses, what is kept of the answer, ACK, BYE and REFER, the
  watcher of a cancelled INVITE and the ways to close the dialog.  The state is the record
  \<open>sip_outbound\<close>; what the code sends is appended to its trace, what the background watcher sends to
  \<open>so_background\<close>.

  Which case each \<open>select\<close> takes is an input (\<open>tx_event\<close>, \<open>watch_event\<close>); a result \<open>None\<close> means that the
  operation still waits.  ACK, BYE and CANCEL requests are built by the SIP library and are described by
  what the code gives to it.
\<close>

section \<open>Messages\<close>

record out_response =
  or_status :: int
  or_reason :: string
  or_to :: "(sip_uri \<times> smap) option"
  or_contact :: "sip_uri option"
  or_record_routes :: "sip_uri list"
  or_headers :: smap
  or_body :: string

text \<open>
  The libraries: \<open>GetHeader\<close>, the generic headers \<open>RemoveHeader("Route")\<close> removes, the Via, transport,
  source and destination \<open>TransactionRequest\<close> adds to a request, \<open>Uri.String\<close>, \<open>digest.ParseChallenge\<close>
  (challenges stay text) and \<open>digest.Digest\<close> with method, URI, user name and password.
\<close>

record out_lib =
  ol_header :: "smap \<Rightarrow> string \<Rightarrow> string option"
  ol_is_route :: "string \<Rightarrow> bool"
  ol_send :: "invite \<Rightarrow> via list \<times> string \<times> string \<times> string"
  ol_uri_string :: "sip_uri \<Rightarrow> string"
  ol_parse_challenge :: "string \<Rightarrow> go_error + string"
  ol_digest :: "string \<Rightarrow> string \<Rightarrow> string \<Rightarrow> string \<Rightarrow> string \<Rightarrow> go_error + string"

text \<open>In \<open>OutBye\<close> the number is the CSeq the code sets, \<open>None\<close> if the library's is kept.\<close>

datatype out_effect =
    OutInvite invite
  | OutState int smap
  | OutTxCancel invite
  | OutTxTerminate invite
  | OutAck invite out_response
  | OutBye invite out_response "u32 option" smap
  | OutCancel invite smap
  | OutRefer sip_request
  | OutByeOK

section \<open>State\<close>

record sip_outbound =
  so_id :: string
  so_uri :: sip_uri
  so_from :: "sip_uri \<times> smap"
  so_to :: "sip_uri \<times> smap"
  so_contact :: sip_uri
  so_route_headers :: "string list"
  so_tag :: string
  so_call_id :: string
  so_invite :: "invite option"
  so_invite_ok :: "out_response option"
  so_local_sdp :: string
  so_next_cseq :: u32
  so_refer_cseq :: u32
  so_latest_invite_cseq :: u32
  so_trace :: "out_effect list"
  so_background :: "out_effect list"

definition out_emit :: "out_effect list \<Rightarrow> sip_outbound \<Rightarrow> sip_outbound" where
  "out_emit es s = s\<lparr>so_trace := so_trace s @ es\<rparr>"

text \<open>\<open>hashed\<close> is \<open>guid.HashedID\<close>; the route headers are those \<open>newCall\<close> sets.\<close>

definition newOutbound ::
  "(string \<Rightarrow> string) \<Rightarrow> string \<Rightarrow> sip_uri \<Rightarrow> sip_uri \<times> smap \<Rightarrow> sip_uri \<times> smap \<Rightarrow> uri \<Rightarrow> string list \<Rightarrow> sip_outbound" where
  "newOutbound hashed lt u to from contact routes =
     \<lparr>so_id = lt, so_uri = u, so_from = (fst from, mput ''tag'' lt (snd from)), so_to = to,
      so_contact = GetContactURI contact, so_route_headers = routes, so_tag = [], so_call_id = hashed lt,
      so_invite = None, so_invite_ok = None, so_local_sdp = [], so_next_cseq = 1, so_refer_cseq = 0,
      so_latest_invite_cseq = 0, so_trace = [], so_background = []\<rparr>"

definition RecordInvite :: "u32 \<Rightarrow> sip_outbound \<Rightarrow> sip_outbound" where
  "RecordInvite cseq s = (if cseq > so_latest_invite_cseq s then s\<lparr>so_latest_invite_cseq := cseq\<rparr> else s)"

definition SetLocalSDP :: "string \<Rightarrow> sip_outbound \<Rightarrow> sip_outbound" where
  "SetLocalSDP sdp s = s\<lparr>so_local_sdp := sdp\<rparr>"

definition OwnSDP :: "sip_outbound \<Rightarrow> string" where
  "OwnSDP s = (case so_invite s of None \<Rightarrow> [] | Some iv \<Rightarrow> iv_body iv)"

definition drop_out :: "sip_outbound \<Rightarrow> sip_outbound" where
  "drop_out s = s\<lparr>so_invite := None, so_invite_ok := None, so_next_cseq := 0\<rparr>"

section \<open>Waiting for responses\<close>

datatype tx_event = TxCtxDone | TxStop | TxDone | TxNil | TxResponse out_response

text \<open>
  \<open>sipResponse\<close>: whether the transaction was cancelled, the result, and the calls of \<open>setState\<close>.
\<close>

fun sipResponse :: "int \<Rightarrow> tx_event list \<Rightarrow> (bool \<times> (go_error + out_response) \<times> (int \<times> smap) list) option" where
  "sipResponse cnt [] = None"
| "sipResponse cnt (TxCtxDone # es) = Some (True, Inl (Psrpc Canceled (Sentinel ErrSIPRequestTimeout)), [])"
| "sipResponse cnt (TxStop # es) = Some (True, Inl (Psrpc Canceled (Plain ''service shutting down'')), [])"
| "sipResponse cnt (TxDone # es) = Some (False, Inl (Psrpc Canceled (TransactionTimeout cnt)), [])"
| "sipResponse cnt (TxNil # es) = Some (False, Inl (Psrpc Canceled (TransactionTimeout cnt)), [])"
| "sipResponse cnt (TxResponse r # es) =
     (if or_status r div 100 \<noteq> 1 then Some (False, Inr r, [(or_status r, or_headers r)])
      else case sipResponse (cnt + 1) es of
             None \<Rightarrow> None
           | Some (c, res, st) \<Rightarrow> Some (c, res, (or_status r, or_headers r) # st))"

section \<open>What is kept of an answer\<close>

definition or_5060 :: "int \<Rightarrow> int" where
  "or_5060 p = (if p = 0 then 5060 else p)"

definition applyInviteResponse :: "(string \<Rightarrow> bool) \<Rightarrow> invite \<Rightarrow> out_response \<Rightarrow> invite" where
  "applyInviteResponse is_route req resp =
     (let (flush1, req1) =
            (case or_contact resp of
               None \<Rightarrow> (False, req)
             | Some cont \<Rightarrow>
                 let newContact = cont\<lparr>su_port := or_5060 (su_port cont)\<rparr>;
                     old = iv_recipient req
                 in (\<not> equal_fold (su_host old) (su_host newContact) \<or> or_5060 (su_port old) \<noteq> su_port newContact,
                     req\<lparr>iv_recipient := newContact\<rparr>));
          flush2 = (flush1 \<or> iv_route req1 \<noteq> [] \<or> list_ex (\<lambda>h. is_route (fst h)) (iv_headers req1));
          req2 = req1\<lparr>iv_route := [], iv_headers := filter (\<lambda>h. \<not> is_route (fst h)) (iv_headers req1)\<rparr>;
          flush3 = (flush2 \<or> or_record_routes resp \<noteq> []);
          req3 = req2\<lparr>iv_route := fold (\<lambda>h rs. h # rs) (or_record_routes resp) (iv_route req2)\<rparr>
      in if flush3 then req3\<lparr>iv_destination := []\<rparr> else req3)"

datatype watch_event = WatchResponse out_response | WatchNil | WatchDone | WatchTimer

text \<open>\<open>fh\<close> are the attributes \<open>getHeaders\<close> reads; what is sent until the events given are used up.\<close>

fun watchCancelledInvite ::
  "(string \<Rightarrow> bool) \<Rightarrow> (smap \<times> smap) option \<Rightarrow> invite \<Rightarrow> watch_event list \<Rightarrow> out_effect list" where
  "watchCancelledInvite is_route fh req [] = []"
| "watchCancelledInvite is_route fh req (WatchResponse r # es) =
     (if or_status r div 100 = 1 then watchCancelledInvite is_route fh req es
      else if or_status r div 100 = 2 then
        (let req' = applyInviteResponse is_route req r
         in [OutAck req' r, OutBye req' r None ((''User-Agent'', ''LiveKit'') # fillHeaders fh []), OutTxTerminate req'])
      else [OutTxTerminate req])"
| "watchCancelledInvite is_route fh req (_ # es) = [OutTxTerminate req]"

section \<open>INVITE\<close>

definition setCSeq_out :: "sip_outbound \<Rightarrow> u32 \<times> sip_outbound" where
  "setCSeq_out s = (so_next_cseq s, s\<lparr>so_next_cseq := so_next_cseq s + 1\<rparr>)"

definition build_invite :: "sip_outbound \<Rightarrow> string \<Rightarrow> string \<Rightarrow> string \<Rightarrow> smap \<Rightarrow> invite \<times> sip_outbound" where
  "build_invite s offer authName auth headers =
     (let (n, s1) = setCSeq_out s;
          hs = (''Allow'', ''INVITE, ACK, CANCEL, BYE, NOTIFY, REFER, MESSAGE, OPTIONS, INFO, SUBSCRIBE'')
                 # (if auth \<noteq> [] then [(authName, auth)] else []) @ headers
      in (\<lparr>iv_call_id = Some (so_call_id s), iv_from = Some (fst (so_from s), Some (snd (so_from s))),
           iv_to = Some (fst (so_to s), Some (snd (so_to s))), iv_vias = [], iv_recipient = so_uri s,
           iv_cseq = Some n, iv_contact = Some (so_contact s), iv_record_route = [], iv_route = [],
           iv_transport = [], iv_source = [], iv_destination = [],
           iv_headers = fold (\<lambda>r hs. (''Route'', r) # hs) (so_route_headers s) hs,
           iv_ctype = Some ''application/sdp'', iv_body = offer\<rparr>, s1))"

definition sent_invite :: "out_lib \<Rightarrow> invite \<Rightarrow> invite" where
  "sent_invite L req =
     (let (vias, tr, src, dst) = ol_send L req
      in req\<lparr>iv_vias := vias, iv_transport := tr, iv_source := src, iv_destination := dst\<rparr>)"

text \<open>
  One attempt: the error of \<open>TransactionRequest\<close>, or what its transaction reports; whether the context or
  the client was done when waiting ended; what the watcher of a cancelled INVITE sees.
\<close>

record invite_tx =
  it_error :: "go_error option"
  it_events :: "tx_event list"
  it_cancelled :: bool
  it_watch :: "watch_event list"

definition attemptInvite ::
  "out_lib \<Rightarrow> (smap \<times> smap) option \<Rightarrow> invite_tx \<Rightarrow> string \<Rightarrow> string \<Rightarrow> string \<Rightarrow> smap \<Rightarrow> sip_outbound
    \<Rightarrow> (invite \<times> (go_error + out_response) \<times> sip_outbound) option" where
  "attemptInvite L fh tx offer authName auth headers s =
     (let (req0, s1) = build_invite s offer authName auth headers
      in case it_error tx of
           Some e \<Rightarrow> Some (req0, Inl e, s1)
         | None \<Rightarrow>
             let req = sent_invite L req0
             in case sipResponse 0 (it_events tx) of
                  None \<Rightarrow> None
                | Some (cancelled, res, states) \<Rightarrow>
                    let s2 = out_emit (OutInvite req # map (\<lambda>(c, h). OutState c h) states
                               @ (if cancelled then [OutTxCancel req] else [])) s1;
                        handedOff = (case res of Inl _ \<Rightarrow> cancelled \<or> it_cancelled tx | Inr _ \<Rightarrow> False)
                    in Some (req, res,
                         if handedOff then
                           s2\<lparr>so_background := so_background s2 @ watchCancelledInvite (ol_is_route L) fh req (it_watch tx)\<rparr>
                         else out_emit [OutTxTerminate req] s2))"

datatype invite_verdict = Answered | Refused go_error | Challenged string string

definition invite_response :: "out_lib \<Rightarrow> out_response \<Rightarrow> invite_verdict" where
  "invite_response L resp =
     (let code = or_status resp;
          twilio = ol_header L (or_headers resp) ''X-Twilio-Error'';
          refuse = (\<lambda>msg st. case carrierBlockFromResponse twilio st of
                      Some blocked \<Rightarrow> Refused (Wrapped ''INVITE blocked by carrier'' blocked)
                    | None \<Rightarrow> Refused (Wrapped msg (SIPStatusErr st)))
      in if code = 200 then Answered
         else if code = 401 then Challenged ''WWW-Authenticate'' ''Authorization''
         else if code = 407 then Challenged ''Proxy-Authenticate'' ''Proxy-Authorization''
         else if code \<in> {400, 404, 480, 488, 486} then
           refuse ''INVITE failed''
             \<lparr>st_code = code,
              st_text = (if or_body resp \<noteq> [] then or_body resp
                         else case twilio of Some v \<Rightarrow> v | None \<Rightarrow> or_reason resp)\<rparr>
         else refuse ''unexpected status from INVITE response'' \<lparr>st_code = code, st_text = or_reason resp\<rparr>)"

definition answer_challenge :: "out_lib \<Rightarrow> string \<Rightarrow> string \<Rightarrow> string \<Rightarrow> out_response \<Rightarrow> go_error + string" where
  "answer_challenge L user pass name resp =
     (if user = [] \<or> pass = [] then Inl (Psrpc FailedPrecondition (Sentinel ErrAuthMissingCreds))
      else case ol_header L (or_headers resp) name of
        None \<Rightarrow> Inl (Psrpc FailedPrecondition (Sentinel ErrAuthNoHeader))
      | Some challengeStr \<Rightarrow>
      (case ol_parse_challenge L challengeStr of
        Inl e \<Rightarrow> Inl (Psrpc Internal (Plain ''invalid challenge''))
      | Inr challenge \<Rightarrow>
      (case or_to resp of
        None \<Rightarrow> Inl (Psrpc Internal (Plain ''no 'To' header on Response''))
      | Some (addr, _) \<Rightarrow> ol_digest L challenge ''INVITE'' (ol_uri_string L addr) user pass)))"

function invite_loop ::
  "out_lib \<Rightarrow> (smap \<times> smap) option \<Rightarrow> (nat \<Rightarrow> invite_tx) \<Rightarrow> string \<Rightarrow> string \<Rightarrow> string \<Rightarrow> smap \<Rightarrow> nat \<Rightarrow> string \<Rightarrow> string
    \<Rightarrow> sip_outbound \<Rightarrow> ((go_error + invite \<times> out_response) \<times> sip_outbound) option" where
  "invite_loop L fh txs user pass offer hs k authName auth s =
     (if k \<ge> 5 then Some (Inl (Psrpc FailedPrecondition (Sentinel ErrAuthMaxRetry)), s)
      else case attemptInvite L fh (txs k) offer authName auth hs s of
             None \<Rightarrow> None
           | Some (req, Inl e, s1) \<Rightarrow> Some (Inl e, s1)
           | Some (req, Inr resp, s1) \<Rightarrow>
               (case invite_response L resp of
                  Answered \<Rightarrow> Some (Inr (req, resp), s1)
                | Refused e \<Rightarrow> Some (Inl e, s1)
                | Challenged name respName \<Rightarrow>
                    (case answer_challenge L user pass name resp of
                       Inl e \<Rightarrow> Some (Inl e, s1)
                     | Inr cred \<Rightarrow> invite_loop L fh txs user pass offer hs (k + 1) respName cred s1)))"
  by pat_completeness auto

termination
  by (relation "measure (\<lambda>(_, _, _, _, _, _, _, k, _). 5 - k)") auto

declare invite_loop.simps [simp del]

definition Invite ::
  "out_lib \<Rightarrow> (smap \<times> smap) option \<Rightarrow> (nat \<Rightarrow> invite_tx) \<Rightarrow> string \<Rightarrow> string \<Rightarrow> smap \<Rightarrow> string \<Rightarrow> sip_outbound
    \<Rightarrow> ((go_error + string) \<times> sip_outbound) option" where
  "Invite L fh txs user pass headers offer s =
     (case invite_loop L fh txs user pass offer (sort_key fst headers) 0 [] [] s of
        None \<Rightarrow> None
      | Some (Inl e, s1) \<Rightarrow> Some (Inl e, s1)
      | Some (Inr (req, resp), s1) \<Rightarrow>
          let s2 = s1\<lparr>so_invite := Some req, so_invite_ok := Some resp\<rparr>
          in case or_to resp of
               None \<Rightarrow> Some (Inl (Psrpc Internal (Plain ''no To header in INVITE response'')), s2)
             | Some (_, ps) \<Rightarrow>
                 (case map_of ps ''tag'' of
                    None \<Rightarrow> Some (Inl (Psrpc Internal (Plain ''no tag in To header in INVITE response'')), s2\<lparr>so_tag := []\<rparr>)
                  | Some t \<Rightarrow> Some (Inr (or_body resp),
                      s2\<lparr>so_tag := t, so_invite := Some (applyInviteResponse (ol_is_route L) req resp)\<rparr>)))"

section \<open>Requests within the dialog\<close>

text \<open>\<open>werr\<close> is the result of \<open>WriteRequest\<close>.\<close>

definition AckInviteOK :: "go_error option \<Rightarrow> sip_outbound \<Rightarrow> go_error option \<times> sip_outbound" where
  "AckInviteOK werr s =
     (case (so_invite s, so_invite_ok s) of
        (Some iv, Some ok) \<Rightarrow> (werr, out_emit [OutAck iv ok] s)
      | _ \<Rightarrow> (Some (Psrpc Canceled (Plain ''call already closed'')), s))"

definition AcceptBye_out :: "sip_outbound \<Rightarrow> sip_outbound" where
  "AcceptBye_out s = drop_out (out_emit [OutByeOK] s)"

text \<open>\<open>closing\<close>: the client is being stopped.\<close>

definition sendBye_out :: "(smap \<times> smap) option \<Rightarrow> bool \<Rightarrow> smap \<Rightarrow> sip_outbound \<Rightarrow> sip_outbound" where
  "sendBye_out fh closing headers s =
     (case (so_invite s, so_invite_ok s) of
        (Some iv, Some ok) \<Rightarrow>
          let hs = (''User-Agent'', ''LiveKit'') # fillHeaders fh [] @ headers
          in if closing then out_emit [OutBye iv ok None hs] s
             else let (n, s1) = setCSeq_out s in out_emit [OutBye iv ok (Some n) hs] (drop_out s1)
      | _ \<Rightarrow> s)"

definition sendCancel_out :: "(smap \<times> smap) option \<Rightarrow> smap \<Rightarrow> sip_outbound \<Rightarrow> sip_outbound" where
  "sendCancel_out fh headers s =
     (case so_invite s of
        None \<Rightarrow> s
      | Some iv \<Rightarrow> drop_out (out_emit [OutCancel iv ((''User-Agent'', ''LiveKit'') # fillHeaders fh [] @ headers)] s))"

definition Close_out :: "(smap \<times> smap) option \<Rightarrow> bool \<Rightarrow> smap \<Rightarrow> sip_outbound \<Rightarrow> sip_outbound" where
  "Close_out fh closing headers s =
     (if so_invite_ok s \<noteq> None then sendBye_out fh closing headers s
      else if so_invite s \<noteq> None then sendCancel_out fh headers s
      else drop_out s)"

text \<open>What \<open>NewReferRequest\<close> reads of a response.\<close>

definition view_of :: "out_response \<Rightarrow> resp_view" where
  "view_of r = \<lparr>rv_source = [], rv_destination = [], rv_record_route = or_record_routes r, rv_to = or_to r\<rparr>"

text \<open>
  The first part of \<open>transferCall\<close>, up to sending the REFER; the outer option is \<open>None\<close> if building the
  request panics.  Waiting for the outcome is \<open>waitReferResult\<close>.
\<close>

definition refer_out ::
  "(smap \<times> smap) option \<Rightarrow> bool \<Rightarrow> string \<Rightarrow> smap \<Rightarrow> sip_outbound \<Rightarrow> (go_error option \<times> sip_outbound) option" where
  "refer_out fh closing transferTo headers s =
     (case (so_invite s, so_invite_ok s) of
        (Some iv, Some ok) \<Rightarrow>
          if closing then Some (Some (Psrpc FailedPrecondition (Plain ''can't transfer hung up call'')), s)
          else
            (case NewReferRequest iv (view_of ok) (so_contact s) transferTo (fillHeaders fh headers) of
               None \<Rightarrow> None
             | Some req0 \<Rightarrow>
                 let (n, s1) = setCSeq_out s
                 in Some (None, out_emit [OutRefer (setCSeq req0 n)] (s1\<lparr>so_refer_cseq := n\<rparr>)))
      | _ \<Rightarrow> Some (Some (Psrpc FailedPrecondition (Plain ''can't transfer non established call'')), s))"

section \<open>The dialog as a machine\<close>

text \<open>
  What can happen to the dialog once \<open>Invite\<close> has returned, each event under the dialog's lock.  \<open>None\<close> is the
  panic of a REFER.
\<close>

datatype out_event =
    OeAck "go_error option"
  | OePeerBye
  | OeDrop
  | OeClose "(smap \<times> smap) option" bool smap
  | OeRefer "(smap \<times> smap) option" bool string smap
  | OeRecordInvite u32
  | OeLocalSDP string

fun out_step :: "out_event \<Rightarrow> sip_outbound \<Rightarrow> sip_outbound option" where
  "out_step (OeAck werr) s = Some (snd (AckInviteOK werr s))"
| "out_step OePeerBye s = Some (AcceptBye_out s)"
| "out_step OeDrop s = Some (drop_out s)"
| "out_step (OeClose fh closing headers) s = Some (Close_out fh closing headers s)"
| "out_step (OeRefer fh closing to headers) s = map_option snd (refer_out fh closing to headers s)"
| "out_step (OeRecordInvite n) s = Some (RecordInvite n s)"
| "out_step (OeLocalSDP sdp) s = Some (SetLocalSDP sdp s)"

definition out_run :: "out_event list \<Rightarrow> sip_outbound \<Rightarrow> sip_outbound option" where
  "out_run es s = fold (\<lambda>e so. Option.bind so (out_step e)) es (Some s)"

end
