(* ===== verification/OutboundCall.thy ===== *)
theory OutboundCall
  imports OutboundDialog CallMonitor CallState
begin

text \<open>
  The life of an outbound call, \<open>outboundCall\<close> of \<open>pkg/sip/outbound.go\<close> and \<open>createSIPParticipant\<close> of
  \<open>pkg/sip/client.go\<close>: checking the request, joining the room, dialling, waiting for the end and closing.

  What other components return (media, room, SIP transactions, the case each \<open>select\<close> takes) is the input
  \<open>dial_env\<close>.  Closing, hanging up and BYE by other goroutines while the call is up are events of \<open>waitClose\<close>;
  while it dials they wait for the call's mutex.  Tone playback, stage timers and the sizes and durations
  reported as histograms are left out.
\<close>

section \<open>State\<close>

record out_conf =
  sc_user :: string
  sc_pass :: string
  sc_dtmf :: string
  sc_headers :: smap
  sc_include :: header_opts
  sc_hdr_to_attr :: smap
  sc_attrs_to_hdr :: smap
  sc_ringing :: nanos
  sc_max_duration :: nanos
  sc_flags :: smap

text \<open>
  \<open>oc_joined\<close>: \<open>lkRoom\<close> is set; \<open>oc_room\<close>: it has a room (\<open>Room()\<close> is not nil); \<open>oc_attrs\<close>: the attributes of its
  participant; \<open>oc_invited\<close>: the time of the INVITE is set.
\<close>

record outbound_call =
  oc_cc :: sip_outbound
  oc_conf :: out_conf
  oc_mon :: call_monitor
  oc_metrics :: metrics
  oc_state :: call_state
  oc_joined :: bool
  oc_room :: bool
  oc_attrs :: smap
  oc_room_reason :: "disconnect_reason option"
  oc_media :: bool
  oc_media_closed :: bool
  oc_media_out :: bool
  oc_connected :: bool
  oc_started :: bool
  oc_stopped :: bool
  oc_closing :: bool
  oc_registered :: bool
  oc_transfer_topic :: bool
  oc_invited :: bool
  oc_ringing :: bool
  oc_session_ends :: "string list"

record dial_env =
  de_lib :: out_lib
  de_hashed :: "string \<Rightarrow> string"
  de_msg :: "go_error \<Rightarrow> string"
  de_htl :: "string \<Rightarrow> string"
  de_hpre :: string
  de_pre :: string
  de_contact :: contact_conf
  de_ip :: "string option"
  de_routes :: "string list"
  de_closing :: bool
  de_media :: "go_error option"
  de_connect :: "go_error option"
  de_track :: "go_error option"
  de_rpc :: "go_error option"
  de_offer :: "go_error + string"
  de_txs :: "nat \<Rightarrow> invite_tx"
  de_watch_fill :: "(smap \<times> smap) option"
  de_answer :: "go_error + string"
  de_ack :: "go_error option"
  de_aborted :: "go_error option"
  de_dtmf :: "go_error option"
  de_room_id :: string
  de_identity :: string
  de_now :: int

definition oc_on_state :: "(call_state \<Rightarrow> call_state) \<Rightarrow> outbound_call \<Rightarrow> outbound_call" where
  "oc_on_state f c = c\<lparr>oc_state := f (oc_state c)\<rparr>"

definition oc_on_mon :: "(call_monitor \<times> metrics \<Rightarrow> call_monitor \<times> metrics) \<Rightarrow> outbound_call \<Rightarrow> outbound_call" where
  "oc_on_mon f c = (let (m, ms) = f (oc_mon c, oc_metrics c) in c\<lparr>oc_mon := m, oc_metrics := ms\<rparr>)"

definition oc_count :: "(call_monitor \<Rightarrow> metrics \<Rightarrow> metrics) \<Rightarrow> outbound_call \<Rightarrow> outbound_call" where
  "oc_count f c = c\<lparr>oc_metrics := f (oc_mon c) (oc_metrics c)\<rparr>"

section \<open>Attributes\<close>

definition setStatus_out :: "string \<Rightarrow> call_status \<Rightarrow> outbound_call \<Rightarrow> outbound_call" where
  "setStatus_out pre v c =
     (let attr = call_attribute v in
      if attr = [] then c else if \<not> oc_joined c then c else if \<not> oc_room c then c
      else c\<lparr>oc_attrs := mput (pre @ ''callStatus'') attr (oc_attrs c)\<rparr>)"

definition setExtraAttrs ::
  "dial_env \<Rightarrow> smap \<Rightarrow> header_opts \<Rightarrow> (string \<times> string \<times> smap) option \<Rightarrow> smap \<Rightarrow> outbound_call \<Rightarrow> outbound_call" where
  "setExtraAttrs V hdrToAttr opts remote hdrs c =
     (let extra = HeadersToAttrs (de_htl V) (de_hpre V) (de_pre V) [] hdrToAttr opts remote hdrs in
      if oc_joined c \<and> extra \<noteq> [] \<and> oc_room c then c\<lparr>oc_attrs := fold (\<lambda>(k, v). mput k v) extra (oc_attrs c)\<rparr> else c)"

text \<open>\<open>setAttrsToHeaders\<close> as the argument of \<open>fillHeaders\<close>.\<close>

definition setAttrsToHeaders :: "outbound_call \<Rightarrow> (smap \<times> smap) option" where
  "setAttrsToHeaders c = (if oc_room c then Some (oc_attrs c, sc_attrs_to_hdr (oc_conf c)) else None)"

section \<open>Closing\<close>

definition stopSIP :: "bool \<Rightarrow> call_term \<Rightarrow> smap \<Rightarrow> outbound_call \<Rightarrow> outbound_call" where
  "stopSIP closing t headers c =
     (let c1 = oc_on_mon (CallTerminate t) c
      in c1\<lparr>oc_cc := Close_out (setAttrsToHeaders c1) closing headers (oc_cc c1)\<rparr>)"

definition close_record :: "(go_error \<Rightarrow> string) \<Rightarrow> end_call \<Rightarrow> call_info \<Rightarrow> call_info" where
  "close_record msg ec info =
     (let info1 = (case ec_report ec of
                     Some e \<Rightarrow> if ci_error info = [] then info\<lparr>ci_error := msg e, ci_status := SCS_ERROR\<rparr> else info
                   | None \<Rightarrow> info)
      in info1\<lparr>ci_reason := ec_reason ec\<rparr>)"

definition close_out_call :: "dial_env \<Rightarrow> end_call \<Rightarrow> outbound_call \<Rightarrow> outbound_call" where
  "close_out_call V ec c0 =
     (let c = c0\<lparr>oc_closing := True\<rparr> in
      if oc_stopped c then c
      else
        let c1 = setStatus_out (de_pre V) (ec_status ec) (c\<lparr>oc_stopped := True\<rparr>);
            c2 = oc_on_state (Update (close_record (de_msg V) ec)) c1;
            c3 = stopSIP (de_closing V) (ec_term ec) (ec_headers ec) c2;
            c4 = (if oc_media c3 then c3\<lparr>oc_media_closed := True\<rparr> else c3);
            c5 = (if oc_joined c4 then
                    c4\<lparr>oc_room := False,
                       oc_room_reason := (case oc_room_reason c4 of None \<Rightarrow> Some (call_disconnect_reason (ec_status ec)) | r \<Rightarrow> r)\<rparr>
                  else c4)
        in c5\<lparr>oc_registered := False, oc_transfer_topic := False,
              oc_session_ends := oc_session_ends c5 @ [tm_reason (ec_term ec)]\<rparr>)"

definition out_end :: "go_error option \<Rightarrow> call_status \<Rightarrow> call_term \<Rightarrow> disconnect_reason \<Rightarrow> smap \<Rightarrow> end_call" where
  "out_end report st t reason headers =
     \<lparr>ec_report = report, ec_status = st, ec_term = t, ec_reason = reason, ec_headers = headers\<rparr>"

definition Close_call :: "dial_env \<Rightarrow> outbound_call \<Rightarrow> outbound_call" where
  "Close_call V = close_out_call V (out_end None callDropped (ServerError ''shutdown'') SERVER_SHUTDOWN [])"

text \<open>\<open>CloseWith\<close> and \<open>EndCall\<close> tell whether this call ended the call.\<close>

definition CloseWith_out :: "dial_env \<Rightarrow> end_call \<Rightarrow> outbound_call \<Rightarrow> bool \<times> outbound_call" where
  "CloseWith_out V ec c = (\<not> oc_stopped c, close_out_call V ec c)"

definition closeWithTimeout_out :: "dial_env \<Rightarrow> outbound_call \<Rightarrow> outbound_call" where
  "closeWithTimeout_out V =
     close_out_call V (out_end (Some (Psrpc DeadlineExceeded (Plain ''media-timeout''))) callDropped
       (Indeterminate ''media-timeout'') UNKNOWN_REASON [])"

definition EndCall_out :: "dial_env \<Rightarrow> smap \<Rightarrow> outbound_call \<Rightarrow> go_error option \<times> outbound_call" where
  "EndCall_out V headers c =
     (let (done, c') = CloseWith_out V (out_end None CallHangup (Success ''rpc'') CLIENT_INITIATED headers) c
      in (if done then None else Some (Plain ''call already ended''), c'))"

definition onBye_out :: "dial_env \<Rightarrow> outbound_call \<Rightarrow> outbound_call" where
  "onBye_out V c =
     snd (CloseWith_out V (out_end None CallHangup (Success ''bye'') CLIENT_INITIATED [])
       (c\<lparr>oc_cc := AcceptBye_out (oc_cc c)\<rparr>))"

definition ended_record :: "dial_env \<Rightarrow> outbound_call \<Rightarrow> call_info \<Rightarrow> call_info" where
  "ended_record V c info =
     (let info1 = info\<lparr>ci_status := (if ci_error info \<noteq> [] then SCS_ERROR else SCS_DISCONNECTED)\<rparr>;
          info2 = (if oc_room c then info1\<lparr>ci_identity := de_identity V, ci_attributes := oc_attrs c\<rparr> else info1)
      in info2\<lparr>ci_ended_at := de_now V\<rparr>)"

definition ensureClosed :: "dial_env \<Rightarrow> outbound_call \<Rightarrow> outbound_call" where
  "ensureClosed V c = oc_on_state (Update (ended_record V c)) c"

definition setErrStatus :: "dial_env \<Rightarrow> go_error option \<Rightarrow> outbound_call \<Rightarrow> outbound_call" where
  "setErrStatus V err c =
     (case err of
        None \<Rightarrow> c
      | Some e \<Rightarrow> oc_on_state (Update (\<lambda>info.
          if ci_error info \<noteq> [] then info else info\<lparr>ci_error := de_msg V e, ci_status := SCS_ERROR\<rparr>)) c)"

section \<open>Creating the call\<close>

definition connectToRoom :: "dial_env \<Rightarrow> smap \<Rightarrow> outbound_call \<Rightarrow> go_error option \<times> outbound_call" where
  "connectToRoom V attrs c =
     (let c1 = (if param (de_pre V @ ''callID'') attrs \<noteq> [] then c\<lparr>oc_transfer_topic := True\<rparr> else c);
          attrs1 = mput (de_pre V @ ''callStatus'') (call_attribute CallDialing) attrs
      in case de_connect V of
           Some e \<Rightarrow> (Some e, c1)
         | None \<Rightarrow>
             (case de_track V of
                Some e \<Rightarrow> (Some e, c1)
              | None \<Rightarrow> (de_rpc V, c1\<lparr>oc_joined := True, oc_room := True, oc_attrs := attrs1\<rparr>)))"

definition newCall ::
  "dial_env \<Rightarrow> string \<Rightarrow> lk_transport \<Rightarrow> sip_uri \<Rightarrow> sip_uri \<Rightarrow> sip_uri \<Rightarrow> out_conf \<Rightarrow> smap \<Rightarrow> metrics \<Rightarrow> call_state
    \<Rightarrow> go_error option \<times> outbound_call" where
  "newCall V lt tr uri from to conf0 attrs ms st =
     (let conf = conf0\<lparr>sc_max_duration := bound_call_duration (sc_max_duration conf0),
                       sc_ringing := bound_ringing_timeout (sc_ringing conf0)\<rparr>;
          contact = getContactURI (de_contact V) (de_ip V) (TransportFrom tr);
          routes = (if param ''sip.outbound_route_headers'' (sc_flags conf) = ''true'' then de_routes V else []);
          c = \<lparr>oc_cc = newOutbound (de_hashed V) lt uri (to, []) (from, []) contact routes, oc_conf = conf,
               oc_mon = NewCall Outbound (su_host from) (su_host to), oc_metrics = ms, oc_state = st,
               oc_joined = False, oc_room = False, oc_attrs = [], oc_room_reason = None, oc_media = False,
               oc_media_closed = False, oc_media_out = False, oc_connected = False, oc_started = False,
               oc_stopped = False, oc_closing = False, oc_registered = False, oc_transfer_topic = False,
               oc_invited = False, oc_ringing = False, oc_session_ends = []\<rparr>
      in case de_media V of
           Some e \<Rightarrow> (Some e, close_out_call V (out_end (Some (Wrapped ''media failed'' e)) callDropped
                        (ServerError ''media-failed'') UNKNOWN_REASON []) c)
         | None \<Rightarrow>
             (case connectToRoom V attrs (c\<lparr>oc_media := True\<rparr>) of
                (Some e, c1) \<Rightarrow>
                  (Some (Psrpc Internal (Wrapped ''update room failed'' e)),
                   close_out_call V (out_end (Some (Wrapped ''room join failed'' e)) callDropped
                     (ServerError ''join-failed'') UNKNOWN_REASON []) c1)
              | (None, c1) \<Rightarrow> (None, c1\<lparr>oc_registered := True\<rparr>)))"

section \<open>Dialling\<close>

text \<open>The callback \<open>sipSignal\<close> gives to \<open>Invite\<close>, run for every response.\<close>

definition on_response :: "dial_env \<Rightarrow> out_effect \<Rightarrow> outbound_call \<Rightarrow> outbound_call" where
  "on_response V e c =
     (case e of
        OutState code hdrs \<Rightarrow>
          if code = 200 then c
          else
            let c1 = (if \<not> oc_ringing c \<and> 180 \<le> code \<and> code < 200
                      then setStatus_out (de_pre V) CallRinging (c\<lparr>oc_ringing := True\<rparr>) else c)
            in setExtraAttrs V [] SIP_NO_HEADERS None hdrs c1
      | _ \<Rightarrow> c)"

definition remote_view_out :: "sip_outbound \<Rightarrow> string \<times> string \<times> smap" where
  "remote_view_out s = (so_tag s, so_call_id s, case so_invite_ok s of None \<Rightarrow> [] | Some r \<Rightarrow> or_headers r)"

definition record_sip_id :: "string \<Rightarrow> string \<Rightarrow> call_info \<Rightarrow> call_info" where
  "record_sip_id pre cid info =
     info\<lparr>ci_sip_call_id := cid, ci_attributes := mput (pre @ ''callIDFull'') cid (ci_attributes info)\<rparr>"

text \<open>The branch of \<open>sipSignal\<close> for a failed INVITE.\<close>

definition invite_failed :: "dial_env \<Rightarrow> go_error \<Rightarrow> outbound_call \<Rightarrow> outbound_call" where
  "invite_failed V e c =
     (let c1 = (case as_sip_status (chain e) of
                  Some st \<Rightarrow> oc_on_state (DeferUpdate (\<lambda>info. info\<lparr>ci_status_code := Some st\<rparr>))
                               (oc_count (\<lambda>m. InviteError m (statusName (st_code st))) c)
                | None \<Rightarrow> oc_count (\<lambda>m. InviteError m ''other'') c)
      in c1\<lparr>oc_cc := Close_out (setAttrsToHeaders c1) (de_closing V) [] (oc_cc c1)\<rparr>)"

text \<open>The rest of \<open>sipSignal\<close>, once the INVITE was answered.\<close>

definition call_answered :: "dial_env \<Rightarrow> outbound_call \<Rightarrow> go_error option \<times> outbound_call" where
  "call_answered V c =
     (case de_answer V of
        Inl e \<Rightarrow> (Some e, c)
      | Inr localSDP \<Rightarrow>
          let c1 = oc_count InviteAccept (c\<lparr>oc_cc := SetLocalSDP localSDP (oc_cc c)\<rparr>);
              (err, cc) = AckInviteOK (de_ack V) (oc_cc c1);
              c2 = c1\<lparr>oc_media_out := True, oc_cc := cc\<rparr>
          in case err of
               Some e \<Rightarrow> (Some e, c2)
             | None \<Rightarrow>
                 (case de_aborted V of
                    Some e \<Rightarrow> (Some e, c2)
                  | None \<Rightarrow>
                      let c3 = setExtraAttrs V (sc_hdr_to_attr (oc_conf c2)) (sc_include (oc_conf c2))
                                 (Some (remote_view_out (oc_cc c2))) [] c2
                      in (None, oc_on_state (DeferUpdate (\<lambda>info.
                            if oc_room c3 then info\<lparr>ci_attributes := oc_attrs c3\<rparr> else info)) c3)))"

definition sipSignal :: "dial_env \<Rightarrow> outbound_call \<Rightarrow> (go_error option \<times> outbound_call) option" where
  "sipSignal V c =
     (case de_offer V of
        Inl e \<Rightarrow> Some (Some e, c)
      | Inr offer \<Rightarrow>
          let c1 = oc_count InviteReq (c\<lparr>oc_invited := True\<rparr>);
              conf = oc_conf c1
          in case Invite (de_lib V) (de_watch_fill V) (de_txs V) (sc_user conf) (sc_pass conf) (sc_headers conf) offer (oc_cc c1) of
               None \<Rightarrow> None
             | Some (res, cc) \<Rightarrow>
                 let c2 = fold (on_response V) (drop (length (so_trace (oc_cc c1))) (so_trace cc)) (c1\<lparr>oc_cc := cc\<rparr>);
                     c3 = (if so_call_id cc \<noteq> []
                           then oc_on_state (DeferUpdate (record_sip_id (de_pre V) (so_call_id cc))) c2 else c2)
                 in Some (case res of
                            Inl e \<Rightarrow> (Some e, invite_failed V e c3)
                          | Inr _ \<Rightarrow> call_answered V c3))"

definition dialSIP :: "dial_env \<Rightarrow> outbound_call \<Rightarrow> (go_error option \<times> outbound_call) option" where
  "dialSIP V c =
     (case sipSignal V c of
        None \<Rightarrow> None
      | Some (Some e, c1) \<Rightarrow> Some (Some e, c1)
      | Some (None, c1) \<Rightarrow>
          let active = (\<lambda>c. (None, setStatus_out (de_pre V) CallActive c))
          in Some (if sc_dtmf (oc_conf c1) = [] then active c1
                   else
                     let c2 = setStatus_out (de_pre V) CallAutomation c1
                     in case de_dtmf V of Some e \<Rightarrow> (Some e, c2) | None \<Rightarrow> active c2))"

definition connectSIP :: "dial_env \<Rightarrow> outbound_call \<Rightarrow> (go_error option \<times> outbound_call) option" where
  "connectSIP V c =
     (case dialSIP V c of
        None \<Rightarrow> None
      | Some (Some e, c1) \<Rightarrow>
          let res = connect_verdict (oc_invited c1) e
          in Some (if_err res, close_out_call V (if_end res) c1)
      | Some (None, c1) \<Rightarrow> Some (None, c1\<lparr>oc_connected := True, oc_started := True\<rparr>))"

definition Dial :: "dial_env \<Rightarrow> outbound_call \<Rightarrow> (go_error option \<times> outbound_call) option" where
  "Dial V c =
     (case connectSIP V (oc_on_mon CallStart c) of
        None \<Rightarrow> None
      | Some (Some e, c1) \<Rightarrow> Some (Some e, oc_on_mon CallEnd (ensureClosed V c1))
      | Some (None, c1) \<Rightarrow>
          Some (None, oc_on_mon CallEnd (oc_on_state (Update (\<lambda>info.
            if oc_room c1 then info\<lparr>ci_room_id := de_room_id V, ci_started_at := de_now V, ci_status := SCS_ACTIVE\<rparr>
            else info)) c1)))"

section \<open>Waiting for the end\<close>

text \<open>
  The cases of the select in \<open>waitClose\<close>, and what other goroutines do to the call meanwhile: a BYE, the end
  of the call by RPC or after a transfer, the client being stopped.  The call's \<open>Closed\<close> channel can only be
  taken once it is closed.
\<close>

datatype wait_close =
    WcStats | WcTick | WcDisconnected disconnect_reason | WcMediaTimeout | WcCtxDone | WcClosed
  | WcPeerBye | WcEndCall smap | WcTransferred | WcStop

fun waitClose :: "dial_env \<Rightarrow> wait_close list \<Rightarrow> outbound_call \<Rightarrow> (go_error option \<times> outbound_call) option" where
  "waitClose V [] c = None"
| "waitClose V (WcStats # es) c = waitClose V es c"
| "waitClose V (WcTick # es) c = waitClose V es (oc_on_state ForceFlush c)"
| "waitClose V (WcDisconnected r # es) c =
     Some (None, ensureClosed V (close_out_call V
       (out_end None callDropped (terminationFromRoomDisconnect r) (disconnectReasonFromRoomClose r) []) c))"
| "waitClose V (WcMediaTimeout # es) c =
     (let e = Psrpc DeadlineExceeded (Plain ''media timeout'')
      in Some (Some e, ensureClosed V (setErrStatus V (Some e) (closeWithTimeout_out V c))))"
| "waitClose V (WcCtxDone # es) c =
     Some (None, ensureClosed V (close_out_call V (out_end None CallHangup (Success ''hangup'') CLIENT_INITIATED []) c))"
| "waitClose V (WcClosed # es) c = (if oc_stopped c then Some (None, ensureClosed V c) else waitClose V es c)"
| "waitClose V (WcPeerBye # es) c = waitClose V es (onBye_out V c)"
| "waitClose V (WcEndCall hs # es) c = waitClose V es (snd (EndCall_out V hs c))"
| "waitClose V (WcTransferred # es) c =
     waitClose V es (close_out_call V (out_end None CallHangup (Success ''call transferred'') CLIENT_INITIATED []) c)"
| "waitClose V (WcStop # es) c = waitClose V es (Close_call V c)"

section \<open>The API request\<close>

record create_req =
  cr_room :: string
  cr_call_id :: string
  cr_trunk :: string
  cr_identity :: string
  cr_attrs :: smap
  cr_wait :: bool
  cr_dial :: dial_req
  cr_conf :: out_conf

definition createSIPCallInfo ::
  "string \<Rightarrow> string option \<Rightarrow> int \<Rightarrow> int \<Rightarrow> create_req \<Rightarrow> sip_uri \<Rightarrow> sip_uri \<Rightarrow> call_info" where
  "createSIPCallInfo region ip port now req from to =
     \<lparr>ci_call_id = cr_call_id req, ci_status = SCS_CALL_INCOMING, ci_error = [], ci_reason = UNKNOWN_REASON,
      ci_status_code = None, ci_created_at = now, ci_started_at = 0, ci_ended_at = 0, ci_trunk = cr_trunk req,
      ci_rule = [], ci_room = cr_room req, ci_room_id = [], ci_identity = cr_identity req,
      ci_attributes = cr_attrs req, ci_sip_call_id = [], ci_region = region, ci_inbound = False,
      ci_from = URI_ToSIPUri ((ConvertURI from)\<lparr>u_addr := \<lparr>ap_addr = ip, ap_port = of_int port\<rparr>\<rparr>),
      ci_to = URI_ToSIPUri (ConvertURI to)\<rparr>"

text \<open>The deferred update of \<open>createSIPParticipant\<close>.\<close>

definition finish_create :: "(go_error \<Rightarrow> string) \<Rightarrow> go_error option \<Rightarrow> call_info \<Rightarrow> call_info" where
  "finish_create msg ret info =
     (case ret of
        None \<Rightarrow> info\<lparr>ci_status := SCS_PARTICIPANT_JOINED\<rparr>
      | Some e \<Rightarrow> info\<lparr>ci_status := SCS_ERROR, ci_reason := UNKNOWN_REASON, ci_error := msg e\<rparr>)"

text \<open>
  \<open>createSIPParticipant\<close> of an upgraded request.  \<open>mconf\<close> is the error of \<open>newMediaConfig\<close>, \<open>parse\<close> and \<open>name\<close> are as
  for \<open>buildOutboundHeaders\<close>.  The call is absent if none was created.  Without \<open>WaitUntilAnswered\<close> the dial
  runs afterwards, in \<open>DialAsync\<close>.
\<close>

definition createSIPParticipant ::
  "dial_env \<Rightarrow> health_status \<Rightarrow> go_error option \<Rightarrow> (string \<Rightarrow> sip_uri \<Rightarrow> sip_uri option) \<Rightarrow> (lk_transport \<Rightarrow> string)
    \<Rightarrow> string \<Rightarrow> int \<Rightarrow> metrics \<Rightarrow> create_req \<Rightarrow> (go_error option \<times> outbound_call option) option" where
  "createSIPParticipant V health mconf parse name region port ms req =
     (if health \<noteq> HealthOK then Some (Some (Psrpc Unavailable (Plain ''cpu exhausted'')), None)
      else if cr_room req = [] then Some (Some (Psrpc InvalidArgument (Plain ''room name must be set'')), None)
      else case mconf of
        Some e \<Rightarrow> Some (Some e, None)
      | None \<Rightarrow>
      (case buildOutboundHeaders parse name (cr_dial req)
              (GetHost (getContactURI (de_contact V) (de_ip V) (TransportFrom (dr_transport (cr_dial req))))) of
        Inl e \<Rightarrow> Some (Some e, None)
      | Inr (uri, from, to) \<Rightarrow>
          let st = NewCallState (createSIPCallInfo region (de_ip V) port (de_now V) req (na_address from) (na_address to));
              finish = (\<lambda>(ret, c). (ret, Some (oc_on_state (Update (finish_create (de_msg V) ret)) c)));
              (e, c) = newCall V (cr_call_id req) (dr_transport (cr_dial req)) uri (na_address from) (na_address to)
                         (cr_conf req) (cr_attrs req) ms st
          in if e \<noteq> None then Some (finish (e, c))
             else if \<not> cr_wait req then Some (finish (None, c))
             else map_option finish (Dial V c)))"

definition DialAsync :: "dial_env \<Rightarrow> wait_close list \<Rightarrow> outbound_call \<Rightarrow> (go_error option \<times> outbound_call) option" where
  "DialAsync V es c =
     (case Dial V c of
        None \<Rightarrow> None
      | Some (Some e, c1) \<Rightarrow> Some (Some e, c1)
      | Some (None, c1) \<Rightarrow> waitClose V es c1)"

end
