(* ===== verification/OutboundDialogProps.thy ===== *)
theory OutboundDialogProps
  imports OutboundDialog
begin

text \<open>
  What the outbound dialog guarantees: a bounded number of numbered INVITEs, credentials only in answer to
  a challenge, BYE only for an answered call and once, and the route set of the answer on what follows.
\<close>

section \<open>What the trace shows\<close>

fun invite_of :: "out_effect \<Rightarrow> invite list" where
  "invite_of (OutInvite iv) = [iv]"
| "invite_of _ = []"

fun out_bye_of :: "out_effect \<Rightarrow> out_response list" where
  "out_bye_of (OutBye iv ok n hs) = [ok]"
| "out_bye_of _ = []"

fun number_of :: "out_effect \<Rightarrow> u32 option list" where
  "number_of (OutInvite iv) = [iv_cseq iv]"
| "number_of (OutBye iv ok n hs) = [n]"
| "number_of (OutRefer q) = [rq_cseq q]"
| "number_of _ = []"

fun is_cancel :: "out_effect \<Rightarrow> bool" where
  "is_cancel (OutCancel iv hs) = True"
| "is_cancel _ = False"

definition invites :: "out_effect list \<Rightarrow> invite list" where
  "invites tr = concat (map invite_of tr)"

definition out_byes :: "out_effect list \<Rightarrow> out_response list" where
  "out_byes tr = concat (map out_bye_of tr)"

definition numbers :: "out_effect list \<Rightarrow> u32 option list" where
  "numbers tr = concat (map number_of tr)"

lemma invites_simps [simp]:
  "invites [] = []" "invites (tr @ tr') = invites tr @ invites tr'" "invites (e # tr) = invite_of e @ invites tr"
  by (simp_all add: invites_def)

lemma out_byes_simps [simp]:
  "out_byes [] = []" "out_byes (tr @ tr') = out_byes tr @ out_byes tr'" "out_byes (e # tr) = out_bye_of e @ out_byes tr"
  by (simp_all add: out_byes_def)

lemma numbers_simps [simp]:
  "numbers [] = []" "numbers (tr @ tr') = numbers tr @ numbers tr'" "numbers (e # tr) = number_of e @ numbers tr"
  by (simp_all add: numbers_def)

lemma states_silent [simp]:
  "invites (map (\<lambda>(c, h). OutState c h) st) = []" "out_byes (map (\<lambda>(c, h). OutState c h) st) = []"
  "numbers (map (\<lambda>(c, h). OutState c h) st) = []" "list_ex is_cancel (map (\<lambda>(c, h). OutState c h) st) = False"
  by (induction st) auto

lemma out_emit_sel [simp]:
  "so_trace (out_emit es s) = so_trace s @ es" "so_invite (out_emit es s) = so_invite s"
  "so_invite_ok (out_emit es s) = so_invite_ok s" "so_next_cseq (out_emit es s) = so_next_cseq s"
  "so_call_id (out_emit es s) = so_call_id s" "so_from (out_emit es s) = so_from s" "so_to (out_emit es s) = so_to s"
  "so_route_headers (out_emit es s) = so_route_headers s" "so_background (out_emit es s) = so_background s"
  by (simp_all add: out_emit_def)

lemma drop_out_sel [simp]:
  "so_trace (drop_out s) = so_trace s" "so_invite (drop_out s) = None" "so_invite_ok (drop_out s) = None"
  by (simp_all add: drop_out_def)

lemma setCSeq_out_sel [simp]:
  "fst (setCSeq_out s) = so_next_cseq s" "so_next_cseq (snd (setCSeq_out s)) = so_next_cseq s + 1"
  "so_trace (snd (setCSeq_out s)) = so_trace s" "so_invite (snd (setCSeq_out s)) = so_invite s"
  "so_invite_ok (snd (setCSeq_out s)) = so_invite_ok s" "so_route_headers (snd (setCSeq_out s)) = so_route_headers s"
  "so_call_id (snd (setCSeq_out s)) = so_call_id s"
  by (simp_all add: setCSeq_out_def)

section \<open>One attempt\<close>

text \<open>The generic headers of an INVITE: the configured routes, \<open>Allow\<close>, credentials, the headers of the call.\<close>

definition invite_headers :: "string list \<Rightarrow> smap \<Rightarrow> smap \<Rightarrow> smap" where
  "invite_headers routes creds hs =
     map (\<lambda>r. (''Route'', r)) (rev routes)
     @ (''Allow'', ''INVITE, ACK, CANCEL, BYE, NOTIFY, REFER, MESSAGE, OPTIONS, INFO, SUBSCRIBE'') # creds @ hs"

definition creds_of :: "string \<Rightarrow> string \<Rightarrow> smap" where
  "creds_of name auth = (if auth \<noteq> [] then [(name, auth)] else [])"

lemma fold_cons_map: "fold (\<lambda>r hs. f r # hs) rs hs = map f (rev rs) @ hs"
  by (induction rs arbitrary: hs) simp_all

lemma sent_invite_sel [simp]:
  "iv_cseq (sent_invite L q) = iv_cseq q" "iv_call_id (sent_invite L q) = iv_call_id q" "iv_body (sent_invite L q) = iv_body q"
  "iv_headers (sent_invite L q) = iv_headers q" "iv_route (sent_invite L q) = iv_route q"
  "iv_recipient (sent_invite L q) = iv_recipient q"
  by (simp_all add: sent_invite_def split: prod.splits)

lemma build_invite_sel:
  "iv_cseq (fst (build_invite s offer an ah hs)) = Some (so_next_cseq s)"
  "iv_call_id (fst (build_invite s offer an ah hs)) = Some (so_call_id s)"
  "iv_body (fst (build_invite s offer an ah hs)) = offer"
  "iv_route (fst (build_invite s offer an ah hs)) = []"
  "iv_headers (fst (build_invite s offer an ah hs)) = invite_headers (so_route_headers s) (creds_of an ah) hs"
  "snd (build_invite s offer an ah hs) = snd (setCSeq_out s)"
  by (simp_all add: build_invite_def setCSeq_out_def invite_headers_def creds_of_def fold_cons_map)

text \<open>What one attempt leaves behind.\<close>

definition attempt_of :: "string \<Rightarrow> smap \<Rightarrow> smap \<Rightarrow> sip_outbound \<Rightarrow> invite \<Rightarrow> bool" where
  "attempt_of offer creds hs s iv \<longleftrightarrow>
     iv_cseq iv = Some (so_next_cseq s) \<and> iv_call_id iv = Some (so_call_id s) \<and> iv_body iv = offer \<and> iv_route iv = []
     \<and> iv_headers iv = invite_headers (so_route_headers s) creds hs"

definition after_attempt :: "sip_outbound \<Rightarrow> invite list \<Rightarrow> sip_outbound \<Rightarrow> bool" where
  "after_attempt s ivs s' \<longleftrightarrow>
     invites (so_trace s') = invites (so_trace s) @ ivs \<and> numbers (so_trace s') = numbers (so_trace s) @ map iv_cseq ivs
     \<and> out_byes (so_trace s') = out_byes (so_trace s) \<and> list_ex is_cancel (so_trace s') = list_ex is_cancel (so_trace s)
     \<and> so_invite s' = so_invite s \<and> so_invite_ok s' = so_invite_ok s
     \<and> so_call_id s' = so_call_id s \<and> so_route_headers s' = so_route_headers s"

lemma after_attempt_trans: "after_attempt s a t \<Longrightarrow> after_attempt t b u \<Longrightarrow> after_attempt s (a @ b) u"
  by (auto simp: after_attempt_def)

lemma attemptInvite_sent:
  assumes "attemptInvite L fh tx offer an ah hs s = Some (req, res, s')"
  shows "\<exists>ivs. after_attempt s ivs s' \<and> so_next_cseq s' = so_next_cseq s + 1 \<and> attempt_of offer (creds_of an ah) hs s req
    \<and> (ivs = [req] \<or> ivs = [] \<and> (\<exists>e. res = Inl e))
    \<and> (\<forall>resp. res = Inr resp \<longrightarrow> (\<exists>c st. sipResponse 0 (it_events tx) = Some (c, Inr resp, st)))"
proof -
  note b = build_invite_sel [of s offer an ah hs]
  obtain q s1 where q: "build_invite s offer an ah hs = (q, s1)" by fastforce
  have s1: "s1 = snd (setCSeq_out s)" and a: "attempt_of offer (creds_of an ah) hs s q"
    using b q by (simp_all add: attempt_of_def)
  have a': "attempt_of offer (creds_of an ah) hs s (sent_invite L q)" using a by (simp add: attempt_of_def)
  show ?thesis
  proof (cases "it_error tx")
    case (Some e)
    then have "res = Inl e" "s' = s1" "req = q" using assms by (simp_all add: attemptInvite_def q)
    then show ?thesis using a by (intro exI [of _ "[]"]) (simp add: after_attempt_def s1)
  next
    case None
    obtain c r st where w: "sipResponse 0 (it_events tx) = Some (c, r, st)"
      using assms None by (auto simp: attemptInvite_def q Let_def split: option.splits)
    have "req = sent_invite L q" "res = r"
      and "so_trace s' = so_trace s1 @ OutInvite req # map (\<lambda>(c, h). OutState c h) st @ (if c then [OutTxCancel req] else [])
             \<or> so_trace s' = so_trace s1 @ OutInvite req # map (\<lambda>(c, h). OutState c h) st @ (if c then [OutTxCancel req] else []) @ [OutTxTerminate req]"
      and "so_next_cseq s' = so_next_cseq s1" "so_invite s' = so_invite s1" "so_invite_ok s' = so_invite_ok s1"
        "so_call_id s' = so_call_id s1" "so_route_headers s' = so_route_headers s1"
      using assms None w by (auto simp: attemptInvite_def q Let_def split: sum.splits if_splits)
    then show ?thesis using a' w by (intro exI [of _ "[req]"]) (auto simp: after_attempt_def s1 split: if_splits)
  qed
qed

section \<open>The authentication loop\<close>

text \<open>An INVITE whose credentials answer the challenge in the response to an attempt.\<close>

definition answers_challenge :: "out_lib \<Rightarrow> string \<Rightarrow> string \<Rightarrow> string list \<Rightarrow> smap \<Rightarrow> invite_tx \<Rightarrow> invite \<Rightarrow> bool" where
  "answers_challenge L user pass routes hs tx iv \<longleftrightarrow>
     (\<exists>c st resp name rname cred. sipResponse 0 (it_events tx) = Some (c, Inr resp, st)
        \<and> invite_response L resp = Challenged name rname \<and> answer_challenge L user pass name resp = Inr cred
        \<and> iv_headers iv = invite_headers routes (creds_of rname cred) hs)"

definition loop_sent ::
  "out_lib \<Rightarrow> (nat \<Rightarrow> invite_tx) \<Rightarrow> string \<Rightarrow> string \<Rightarrow> string \<Rightarrow> smap \<Rightarrow> smap \<Rightarrow> nat \<Rightarrow> sip_outbound \<Rightarrow> invite list \<Rightarrow> bool" where
  "loop_sent L txs user pass offer hs creds k s ivs \<longleftrightarrow>
     length ivs \<le> 5 - k \<and> map iv_cseq ivs = map (\<lambda>i. Some (so_next_cseq s + of_nat i)) [0..<length ivs]
     \<and> (\<forall>iv\<in>set ivs. iv_call_id iv = Some (so_call_id s) \<and> iv_body iv = offer \<and> iv_route iv = [])
     \<and> (ivs \<noteq> [] \<longrightarrow> iv_headers (hd ivs) = invite_headers (so_route_headers s) creds hs)
     \<and> (\<forall>j<length ivs. 0 < j \<longrightarrow> answers_challenge L user pass (so_route_headers s) hs (txs (k + j - 1)) (ivs ! j))"

lemma loop_sent_Cons:
  assumes "k < 5" and "attempt_of offer creds hs s req" and "so_next_cseq s1 = so_next_cseq s + 1" and "after_attempt s [req] s1"
    and "loop_sent L txs user pass offer hs (creds_of rname cred) (k + 1) s1 ivs"
    and "sipResponse 0 (it_events (txs k)) = Some (c, Inr resp, st)" and "invite_response L resp = Challenged name rname"
    and "answer_challenge L user pass name resp = Inr cred"
  shows "loop_sent L txs user pass offer hs creds k s (req # ivs)"
proof -
  have same: "so_call_id s1 = so_call_id s" "so_route_headers s1 = so_route_headers s"
    using assms(4) by (simp_all add: after_attempt_def)
  have "map iv_cseq (req # ivs) = Some (so_next_cseq s) # map (\<lambda>i. Some (so_next_cseq s + of_nat (Suc i))) [0..<length ivs]"
    using assms(2,3,5) by (simp add: loop_sent_def attempt_of_def add.assoc)
  also have "\<dots> = map (\<lambda>i. Some (so_next_cseq s + of_nat i)) [0..<length (req # ivs)]"
    by (simp add: upt_conv_Cons map_Suc_upt [symmetric] comp_def del: upt_Suc)
  finally have n: "map iv_cseq (req # ivs) = map (\<lambda>i. Some (so_next_cseq s + of_nat i)) [0..<length (req # ivs)]" .
  have "answers_challenge L user pass (so_route_headers s) hs (txs (k + j - 1)) ((req # ivs) ! j)"
    if "j < length (req # ivs)" "0 < j" for j
  proof (cases j)
    case (Suc i)
    show ?thesis
    proof (cases i)
      case 0
      have "iv_headers (ivs ! 0) = invite_headers (so_route_headers s) (creds_of rname cred) hs"
        using assms(5) that Suc 0 same by (cases ivs) (auto simp: loop_sent_def)
      then show ?thesis using assms(6,7,8) Suc 0 by (auto simp: answers_challenge_def)
    next
      case (Suc i')
      then show ?thesis using assms(5) that \<open>j = Suc i\<close> same by (auto simp: loop_sent_def)
    qed
  qed (use that in simp)
  then show ?thesis
    using n assms(1,2,5) same by (auto simp: loop_sent_def attempt_of_def)
qed

lemma invite_loop_sent:
  assumes "invite_loop L fh txs user pass offer hs k an ah s = Some (res, s')"
  shows "\<exists>ivs. after_attempt s ivs s' \<and> loop_sent L txs user pass offer hs (creds_of an ah) k s ivs
    \<and> (\<forall>req resp. res = Inr (req, resp) \<longrightarrow>
         ivs \<noteq> [] \<and> req = last ivs \<and> or_status resp = 200 \<and> so_next_cseq s' = so_next_cseq s + of_nat (length ivs))"
  using assms
proof (induction L fh txs user pass offer hs k an ah s arbitrary: res s' rule: invite_loop.induct)
  case (1 L fh txs user pass offer hs k an ah s)
  show ?case
  proof (cases "k \<ge> 5")
    case True
    then show ?thesis using 1(2)
      by (intro exI [of _ "[]"]) (auto simp: invite_loop.simps [of L] loop_sent_def after_attempt_def)
  next
    case False
    obtain req r s1 where at: "attemptInvite L fh (txs k) offer an ah hs s = Some (req, r, s1)"
      using 1(2) False by (auto simp: invite_loop.simps [of L] split: option.splits)
    obtain iv0 where a: "after_attempt s iv0 s1" "so_next_cseq s1 = so_next_cseq s + 1" "attempt_of offer (creds_of an ah) hs s req"
      "iv0 = [req] \<or> iv0 = [] \<and> (\<exists>e. r = Inl e)"
      "\<And>resp. r = Inr resp \<Longrightarrow> \<exists>c st. sipResponse 0 (it_events (txs k)) = Some (c, Inr resp, st)"
      using attemptInvite_sent [OF at] by blast
    have one: "loop_sent L txs user pass offer hs (creds_of an ah) k s iv0"
      using a(3,4) False by (auto simp: loop_sent_def attempt_of_def)
    note step = 1(2) [unfolded invite_loop.simps [of L fh txs user pass offer hs k an ah s] at, simplified False if_False option.case prod.case]
    show ?thesis
    proof (cases "\<exists>resp name rname cred. r = Inr resp \<and> invite_response L resp = Challenged name rname
        \<and> answer_challenge L user pass name resp = Inr cred")
      case True
      then obtain resp name rname cred where r: "r = Inr resp" "invite_response L resp = Challenged name rname"
        "answer_challenge L user pass name resp = Inr cred" by blast
      then have lp: "invite_loop L fh txs user pass offer hs (k + 1) rname cred s1 = Some (res, s')"
        using step by simp
      obtain ivs where i: "after_attempt s1 ivs s'" "loop_sent L txs user pass offer hs (creds_of rname cred) (k + 1) s1 ivs"
        "\<And>req' resp'. res = Inr (req', resp') \<Longrightarrow>
         ivs \<noteq> [] \<and> req' = last ivs \<and> or_status resp' = 200 \<and> so_next_cseq s' = so_next_cseq s1 + of_nat (length ivs)"
        using 1(1) [OF False at refl refl r(1) r(2) r(3) lp] by blast
      obtain c st where w: "sipResponse 0 (it_events (txs k)) = Some (c, Inr resp, st)" using a(5) r(1) by blast
      have iv0: "iv0 = [req]" using a(4) r(1) by simp
      have "loop_sent L txs user pass offer hs (creds_of an ah) k s (req # ivs)"
        using loop_sent_Cons [OF _ a(3,2) a(1) [unfolded iv0] i(2) w r(2,3)] False by simp
      moreover have "after_attempt s (req # ivs) s'" using after_attempt_trans [OF a(1) i(1)] iv0 by simp
      ultimately show ?thesis using i(3) a(2) by (intro exI [of _ "req # ivs"]) (auto simp: add.assoc)
    next
      case False
      then show ?thesis
        using step one a by (intro exI [of _ iv0]) (auto split: sum.splits invite_verdict.splits
            simp: invite_response_def Let_def split: if_splits option.splits)
    qed
  qed
qed

section \<open>After the INVITE\<close>

definition numbered :: "u32 option list \<Rightarrow> bool" where
  "numbered xs \<longleftrightarrow> xs = map (\<lambda>i. Some (of_nat (i + 1))) [0..<length xs]"

lemma numbered_snoc: "numbered xs \<Longrightarrow> x = Some (of_nat (length xs + 1)) \<Longrightarrow> numbered (xs @ [x])"
  by (simp add: numbered_def)

text \<open>
  The dialog after \<open>Invite\<close>: INVITE and its answer are kept together, the requests sent are numbered from
  one, and the next number follows while the dialog is open; at most one BYE went out, for an answered
  call, after which the dialog is closed.
\<close>

definition out_inv :: "sip_outbound \<Rightarrow> bool" where
  "out_inv s \<longleftrightarrow>
     (so_invite s = None \<longleftrightarrow> so_invite_ok s = None)
     \<and> (\<forall>ok. so_invite_ok s = Some ok \<longrightarrow> or_status ok = 200 \<and> out_byes (so_trace s) = []
           \<and> so_next_cseq s = of_nat (length (numbers (so_trace s)) + 1))
     \<and> numbered (numbers (so_trace s))
     \<and> length (out_byes (so_trace s)) \<le> 1 \<and> (\<forall>ok\<in>set (out_byes (so_trace s)). or_status ok = 200)
     \<and> \<not> list_ex is_cancel (so_trace s)"

fun stopping :: "out_event \<Rightarrow> bool" where
  "stopping (OeClose fh closing headers) = closing"
| "stopping _ = False"

lemma out_inv_drop: "out_inv s \<Longrightarrow> out_inv (drop_out s)"
  unfolding out_inv_def drop_out_sel by blast

lemma out_inv_same:
  assumes "out_inv s" and "so_invite t = so_invite s" "so_invite_ok t = so_invite_ok s" "so_next_cseq t = so_next_cseq s"
    "numbers (so_trace t) = numbers (so_trace s)" "out_byes (so_trace t) = out_byes (so_trace s)"
    "list_ex is_cancel (so_trace t) = list_ex is_cancel (so_trace s)"
  shows "out_inv t"
  using assms(1) unfolding out_inv_def assms(2-7) .

lemma out_inv_open:
  assumes "so_invite t \<noteq> None" "so_invite_ok t = Some ok" "or_status ok = 200" "out_byes (so_trace t) = []"
    "so_next_cseq t = of_nat (length (numbers (so_trace t)) + 1)" "numbered (numbers (so_trace t))" "\<not> list_ex is_cancel (so_trace t)"
  shows "out_inv t"
  unfolding out_inv_def assms(2,4) using assms(1,3,5,6,7) by simp

lemma out_inv_openD:
  assumes "out_inv s" "so_invite_ok s = Some ok"
  shows "so_invite s \<noteq> None" "or_status ok = 200" "out_byes (so_trace s) = []"
    "so_next_cseq s = of_nat (length (numbers (so_trace s)) + 1)" "numbered (numbers (so_trace s))" "\<not> list_ex is_cancel (so_trace s)"
  using assms(1) unfolding out_inv_def assms(2) by auto

lemma out_inv_quiet:
  assumes "out_inv s" "numbers es = []" "out_byes es = []" "\<not> list_ex is_cancel es"
  shows "out_inv (out_emit es s)"
  by (rule out_inv_same [OF assms(1)]) (use assms(2-4) in simp_all)

lemma out_inv_Close:
  assumes "out_inv s"
  shows "out_inv (Close_out fh False headers s)"
proof (cases "so_invite_ok s")
  case None
  then have "so_invite s = None" using assms by (simp add: out_inv_def)
  then show ?thesis using None out_inv_drop [OF assms] by (simp add: Close_out_def)
next
  case (Some ok)
  then obtain iv where iv: "so_invite s = Some iv" using assms by (auto simp: out_inv_def)
  obtain n s1 where q: "setCSeq_out s = (n, s1)" by fastforce
  have n: "n = so_next_cseq s" and s1: "so_trace s1 = so_trace s" using setCSeq_out_sel [of s] q by auto
  define t where "t = Close_out fh False headers s"
  have tr: "so_trace t = so_trace s @ [OutBye iv ok (Some n) ((''User-Agent'', ''LiveKit'') # fillHeaders fh [] @ headers)]"
    and cl: "so_invite t = None" "so_invite_ok t = None"
    using Some iv q s1 by (simp_all add: t_def Close_out_def sendBye_out_def)
  note op = out_inv_openD [OF assms Some]
  have "numbered (numbers (so_trace t))"
    unfolding tr numbers_simps number_of.simps append_Nil2
    by (rule numbered_snoc [OF op(5)]) (use op(4) n in simp)
  moreover have "out_byes (so_trace t) = [ok]" "\<not> list_ex is_cancel (so_trace t)"
    using op by (simp_all add: tr)
  ultimately show ?thesis using cl op(2) unfolding t_def [symmetric] out_inv_def by simp
qed

lemma out_inv_refer:
  assumes "out_inv s" and "refer_out fh closing to headers s = Some (e, s')"
  shows "out_inv s'"
proof (cases "s' = s")
  case False
  obtain n s1 where q: "setCSeq_out s = (n, s1)" by fastforce
  have n: "n = so_next_cseq s" "so_next_cseq s1 = n + 1" and s1: "so_trace s1 = so_trace s" "so_invite s1 = so_invite s"
    "so_invite_ok s1 = so_invite_ok s"
    using setCSeq_out_sel [of s] q by auto
  obtain ok req where o: "so_invite_ok s = Some ok" "so_invite s \<noteq> None" and s': "s' = out_emit [OutRefer (setCSeq req n)] (s1\<lparr>so_refer_cseq := n\<rparr>)"
    using assms(2) False by (auto simp: refer_out_def q Let_def split: option.splits if_splits)
  note op = out_inv_openD [OF assms(1) o(1)]
  have tr: "so_trace s' = so_trace s @ [OutRefer (setCSeq req n)]" using s1 by (simp add: s')
  have "numbered (numbers (so_trace s'))"
    unfolding tr numbers_simps number_of.simps append_Nil2
    by (rule numbered_snoc [OF op(5)]) (use op(4) n in \<open>simp add: setCSeq_def\<close>)
  moreover have "so_next_cseq s' = of_nat (length (numbers (so_trace s')) + 1)"
    using op(4) n by (simp add: tr) (simp add: s')
  ultimately show ?thesis
    using o s1 op by (intro out_inv_open [of s' ok]) (simp_all add: tr, simp_all add: s')
qed (use assms in simp)

lemma out_inv_step:
  assumes "out_inv s" and "\<not> stopping e" and "out_step e s = Some s'"
  shows "out_inv s'"
proof (cases e)
  case (OeAck werr)
  then show ?thesis using assms out_inv_quiet [OF assms(1)] by (auto simp: AckInviteOK_def split: option.splits)
next
  case OePeerBye
  then show ?thesis using assms out_inv_drop [OF out_inv_quiet [OF assms(1), of "[OutByeOK]"]] by (auto simp: AcceptBye_out_def)
next
  case (OeRefer fh closing to headers)
  then show ?thesis using assms out_inv_refer by auto
next
  case (OeRecordInvite n)
  then have "s' = RecordInvite n s" using assms by simp
  then show ?thesis by (intro out_inv_same [OF assms(1)]) (simp_all add: RecordInvite_def)
next
  case (OeLocalSDP sdp)
  then have "s' = SetLocalSDP sdp s" using assms by simp
  then show ?thesis by (intro out_inv_same [OF assms(1)]) (simp_all add: SetLocalSDP_def)
qed (use assms in \<open>auto simp: out_inv_Close out_inv_drop\<close>)

interpretation outbound_dialog: machine
  "\<lambda>e so. Option.bind so (out_step e)" "\<lambda>e. \<not> stopping e" "\<lambda>so. case so of None \<Rightarrow> True | Some s \<Rightarrow> out_inv s"
  by unfold_locales (auto split: option.splits bind_splits intro: out_inv_step)

lemma newOutbound_sel [simp]:
  "so_trace (newOutbound h lt u to from ct rs) = []" "so_invite (newOutbound h lt u to from ct rs) = None"
  "so_invite_ok (newOutbound h lt u to from ct rs) = None" "so_next_cseq (newOutbound h lt u to from ct rs) = 1"
  "so_call_id (newOutbound h lt u to from ct rs) = h lt" "so_route_headers (newOutbound h lt u to from ct rs) = rs"
  by (simp_all add: newOutbound_def)

lemma Invite_split:
  assumes "Invite L fh txs user pass headers offer s = Some (res, s')"
  obtains e where "res = Inl e" "invite_loop L fh txs user pass offer (sort_key fst headers) 0 [] [] s = Some (Inl e, s')"
  | req resp s1 where "invite_loop L fh txs user pass offer (sort_key fst headers) 0 [] [] s = Some (Inr (req, resp), s1)"
    "so_invite_ok s' = Some resp" "so_invite s' \<noteq> None" "so_trace s' = so_trace s1" "so_next_cseq s' = so_next_cseq s1"
    "\<And>body. res = Inr body \<Longrightarrow> body = or_body resp \<and> so_invite s' = Some (applyInviteResponse (ol_is_route L) req resp)
       \<and> (\<exists>addr ps. or_to resp = Some (addr, ps) \<and> map_of ps ''tag'' = Some (so_tag s'))"
  using assms by (auto simp: Invite_def Let_def split: option.splits sum.splits prod.splits)

lemma Invite_inv:
  assumes "Invite L fh txs user pass headers offer (newOutbound h lt u to from ct rs) = Some (res, s')"
  shows "out_inv s'"
  using assms
proof (cases rule: Invite_split)
  case (1 e)
  then obtain ivs where "after_attempt (newOutbound h lt u to from ct rs) ivs s'"
    "loop_sent L txs user pass offer (sort_key fst headers) (creds_of [] []) 0 (newOutbound h lt u to from ct rs) ivs"
    using invite_loop_sent by blast
  then show ?thesis by (simp add: out_inv_def after_attempt_def loop_sent_def numbered_def)
next
  case (2 req resp s1)
  then obtain ivs where "after_attempt (newOutbound h lt u to from ct rs) ivs s1" "or_status resp = 200"
    "loop_sent L txs user pass offer (sort_key fst headers) (creds_of [] []) 0 (newOutbound h lt u to from ct rs) ivs"
    "so_next_cseq s1 = 1 + of_nat (length ivs)"
    using invite_loop_sent [OF 2(1)] by auto
  then show ?thesis using 2(2-5) by (simp add: out_inv_def after_attempt_def loop_sent_def numbered_def)
qed

section \<open>The answer\<close>

lemma fold_cons: "fold (\<lambda>h rs. h # rs) xs ys = rev xs @ ys"
  by (induction xs arbitrary: ys) simp_all

lemma applyInviteResponse_sel:
  "iv_route (applyInviteResponse p req resp) = rev (or_record_routes resp)"
  "iv_headers (applyInviteResponse p req resp) = filter (\<lambda>h. \<not> p (fst h)) (iv_headers req)"
  "iv_recipient (applyInviteResponse p req resp) =
     (case or_contact resp of None \<Rightarrow> iv_recipient req | Some c \<Rightarrow> c\<lparr>su_port := or_5060 (su_port c)\<rparr>)"
  "iv_cseq (applyInviteResponse p req resp) = iv_cseq req"
  by (simp_all add: applyInviteResponse_def fold_cons Let_def split: option.splits)

text \<open>The peer's address and the route set are those the destination was resolved for.\<close>

definition same_next_hop :: "(string \<Rightarrow> bool) \<Rightarrow> invite \<Rightarrow> out_response \<Rightarrow> bool" where
  "same_next_hop p req resp \<longleftrightarrow>
     (\<forall>c. or_contact resp = Some c \<longrightarrow> equal_fold (su_host (iv_recipient req)) (su_host c)
        \<and> or_5060 (su_port (iv_recipient req)) = or_5060 (su_port c))
     \<and> iv_route req = [] \<and> \<not> list_ex (\<lambda>h. p (fst h)) (iv_headers req) \<and> or_record_routes resp = []"

lemma applyInviteResponse_destination:
  "iv_destination (applyInviteResponse p req resp) = (if same_next_hop p req resp then iv_destination req else [])"
  by (cases "or_contact resp") (simp_all add: applyInviteResponse_def same_next_hop_def Let_def)

section \<open>A cancelled INVITE\<close>

lemma watch_provisional:
  "list_all (\<lambda>r. or_status r div 100 = 1) ps \<Longrightarrow>
   watchCancelledInvite p fh req (map WatchResponse ps @ es) = watchCancelledInvite p fh req es"
  by (induction ps) simp_all

lemma attemptInvite_cancelled:
  assumes "attemptInvite L fh tx offer an ah hs s = Some (req, res, s')" and "it_error tx = None"
    and "sipResponse 0 (it_events tx) = Some (True, Inl e, st)"
  shows "res = Inl e \<and> OutTxCancel req \<in> set (so_trace s')
    \<and> so_background s' = so_background s @ watchCancelledInvite (ol_is_route L) fh req (it_watch tx)"
proof -
  obtain q s1 where q: "build_invite s offer an ah hs = (q, s1)" by fastforce
  have "so_background s1 = so_background s" using q by (auto simp: build_invite_def setCSeq_out_def)
  then show ?thesis using assms by (auto simp: attemptInvite_def q Let_def)
qed

section \<open>Running out of attempts\<close>

text \<open>Every attempt is challenged, and the challenge can be answered.\<close>

definition always_challenged :: "out_lib \<Rightarrow> (nat \<Rightarrow> invite_tx) \<Rightarrow> string \<Rightarrow> string \<Rightarrow> bool" where
  "always_challenged L txs user pass \<longleftrightarrow>
     (\<forall>k<5. it_error (txs k) = None \<and> (\<exists>c resp st name rname cred. sipResponse 0 (it_events (txs k)) = Some (c, Inr resp, st)
        \<and> invite_response L resp = Challenged name rname \<and> answer_challenge L user pass name resp = Inr cred))"

lemma invite_loop_challenged:
  assumes "always_challenged L txs user pass" and "k + n = 5"
  shows "\<exists>s'. invite_loop L fh txs user pass offer hs k an ah s = Some (Inl (Psrpc FailedPrecondition (Sentinel ErrAuthMaxRetry)), s')
    \<and> length (invites (so_trace s')) = length (invites (so_trace s)) + n"
  using assms(2)
proof (induction n arbitrary: k an ah s)
  case 0
  then show ?case by (simp add: invite_loop.simps)
next
  case (Suc n)
  then obtain c resp st name rname cred where w: "it_error (txs k) = None" "sipResponse 0 (it_events (txs k)) = Some (c, Inr resp, st)"
    "invite_response L resp = Challenged name rname" "answer_challenge L user pass name resp = Inr cred"
    using assms(1) unfolding always_challenged_def by (metis less_add_same_cancel1 zero_less_Suc)
  obtain req s1 where at: "attemptInvite L fh (txs k) offer an ah hs s = Some (req, Inr resp, s1)"
    using w by (cases "build_invite s offer an ah hs") (auto simp: attemptInvite_def Let_def)
  have "length (invites (so_trace s1)) = length (invites (so_trace s)) + 1"
    using attemptInvite_sent [OF at] by (auto simp: after_attempt_def)
  moreover have "invite_loop L fh txs user pass offer hs k an ah s = invite_loop L fh txs user pass offer hs (k + 1) rname cred s1"
    using Suc(2) w at by (subst invite_loop.simps) simp
  ultimately show ?case using Suc(1) [of "k + 1" rname cred s1] Suc(2) by auto
qed

section \<open>An example\<close>

definition trunk_uri :: "string \<Rightarrow> sip_uri" where
  "trunk_uri host = \<lparr>su_scheme = ''sip'', su_user = ''+1'', su_host = host, su_port = 0, su_params = []\<rparr>"

definition sample_out_lib :: out_lib where
  "sample_out_lib = \<lparr>ol_header = (\<lambda>hs n. map_of hs n), ol_is_route = (\<lambda>n. n = ''Route''),
     ol_send = (\<lambda>_. ([\<lparr>via_transport = ''UDP'', via_host = ''10.0.0.1'', via_port = 5060\<rparr>], ''UDP'', ''10.0.0.1:5060'', ''10.0.0.2:5060'')),
     ol_uri_string = su_host, ol_parse_challenge = Inr, ol_digest = (\<lambda>ch m u user pass. Inr (ch @ user @ pass))\<rparr>"

definition sample_reply :: "int \<Rightarrow> smap \<Rightarrow> out_response" where
  "sample_reply code hs = \<lparr>or_status = code, or_reason = [], or_to = Some (trunk_uri ''callee'', [(''tag'', ''t1'')]),
     or_contact = Some (trunk_uri ''gw''), or_record_routes = [trunk_uri ''p1'', trunk_uri ''p2''], or_headers = hs, or_body = ''answer''\<rparr>"

definition sample_out :: sip_outbound where
  "sample_out = newOutbound (\<lambda>x. x) ''SCL'' (trunk_uri ''callee'') (trunk_uri ''callee'', []) (trunk_uri ''bridge'', [])
     (CreateURIFromUserAndAddress [] [] []) []"

definition sample_txs :: "nat \<Rightarrow> invite_tx" where
  "sample_txs k = \<lparr>it_error = None, it_events = (if k = 0 then [TxResponse (sample_reply 401 [(''WWW-Authenticate'', ''n'')])]
       else [TxResponse (sample_reply 180 []), TxResponse (sample_reply 200 [])]), it_cancelled = False, it_watch = []\<rparr>"

definition sample_dialled :: "((go_error + string) \<times> sip_outbound) option" where
  "sample_dialled = Invite sample_out_lib None sample_txs ''u'' ''p'' [] ''offer'' sample_out"

lemma sample_dialled_ok: "\<exists>s'. sample_dialled = Some (Inr ''answer'', s')"
proof -
  have "case sample_dialled of Some (Inr b, s') \<Rightarrow> b = ''answer'' | _ \<Rightarrow> False" by code_simp
  then show ?thesis by (auto split: option.splits prod.splits sum.splits)
qed

section \<open>Properties\<close>

text \<open>
  C6: Dialling sends at most five INVITEs for a call.  They carry the same Call-ID and offer and the CSeq
  numbers 1, 2, and so on; the first has no credentials, and each later one the credentials computed
  from the challenge that the response to the one before contained.  Dialling succeeds only if the last
  INVITE was answered with a 200, and the answer's To tag is kept.
\<close>

theorem invite_attempts:
  assumes "Invite L fh txs user pass headers offer (newOutbound h lt u to from ct rs) = Some (res, s')"
  shows "\<exists>ivs. invites (so_trace s') = ivs \<and> length ivs \<le> 5
    \<and> map iv_cseq ivs = map (\<lambda>i. Some (of_nat (i + 1))) [0..<length ivs]
    \<and> (\<forall>iv\<in>set ivs. iv_call_id iv = Some (h lt) \<and> iv_body iv = offer)
    \<and> (ivs \<noteq> [] \<longrightarrow> iv_headers (hd ivs) = invite_headers rs [] (sort_key fst headers))
    \<and> (\<forall>j<length ivs. 0 < j \<longrightarrow> answers_challenge L user pass rs (sort_key fst headers) (txs (j - 1)) (ivs ! j))
    \<and> (\<forall>body. res = Inr body \<longrightarrow> ivs \<noteq> [] \<and> (\<exists>resp addr ps. so_invite_ok s' = Some resp \<and> or_status resp = 200
         \<and> or_to resp = Some (addr, ps) \<and> map_of ps ''tag'' = Some (so_tag s') \<and> body = or_body resp))"
proof -
  let ?n = "newOutbound h lt u to from ct rs" and ?hs = "sort_key fst headers"
  have "\<exists>ivs. loop_sent L txs user pass offer ?hs [] 0 ?n ivs \<and> invites (so_trace s') = ivs
    \<and> (\<forall>body. res = Inr body \<longrightarrow> ivs \<noteq> [] \<and> (\<exists>resp addr ps. so_invite_ok s' = Some resp \<and> or_status resp = 200
         \<and> or_to resp = Some (addr, ps) \<and> map_of ps ''tag'' = Some (so_tag s') \<and> body = or_body resp))"
    using assms
  proof (cases rule: Invite_split)
    case (1 e)
    then show ?thesis using invite_loop_sent [OF 1(2)] by (auto simp: after_attempt_def creds_of_def)
  next
    case (2 req resp s1)
    obtain ivs where "after_attempt ?n ivs s1" "loop_sent L txs user pass offer ?hs [] 0 ?n ivs" "ivs \<noteq> []" "or_status resp = 200"
      using invite_loop_sent [OF 2(1)] by (auto simp: creds_of_def)
    then show ?thesis using 2(2,4,6) by (intro exI [of _ ivs]) (auto simp: after_attempt_def)
  qed
  then show ?thesis by (auto simp: loop_sent_def)
qed

theorem invite_attempts_witness:
  "\<exists>s'. sample_dialled = Some (Inr ''answer'', s') \<and> length (invites (so_trace s')) \<le> 5"
proof -
  obtain s' where d: "sample_dialled = Some (Inr ''answer'', s')" using sample_dialled_ok by blast
  show ?thesis using invite_attempts [OF d [unfolded sample_dialled_def sample_out_def]] d by blast
qed



text \<open>
  C23: After a successful dial the requests of the dialog go where the callee asked: to its Contact (port 5060 if
  it has none), along its Record-Route set in reverse order and no other route; the destination address
  resolved for the INVITE is kept only if neither the peer's address nor the route set changed.
\<close>

theorem answer_route_set:
  assumes "Invite L fh txs user pass headers offer s = Some (Inr body, s')"
  shows "\<exists>req resp iv. so_invite s' = Some iv \<and> so_invite_ok s' = Some resp \<and> req = last (invites (so_trace s')) \<and> iv_route iv = rev (or_record_routes resp)
    \<and> list_all (\<lambda>h. \<not> ol_is_route L (fst h)) (iv_headers iv) \<and> iv_cseq iv = iv_cseq req
    \<and> iv_recipient iv = (case or_contact resp of None \<Rightarrow> iv_recipient req | Some c \<Rightarrow> c\<lparr>su_port := or_5060 (su_port c)\<rparr>)
    \<and> iv_destination iv = (if same_next_hop (ol_is_route L) req resp then iv_destination req else [])"
  using assms
proof (cases rule: Invite_split)
  case (2 req resp s1)
  then have "so_invite s' = Some (applyInviteResponse (ol_is_route L) req resp)" by blast
  moreover have "req = last (invites (so_trace s'))"
    using invite_loop_sent [OF 2(1)] 2(4) by (auto simp: after_attempt_def)
  ultimately show ?thesis using 2(2)
    by - (rule exI [of _ req], rule exI [of _ resp], rule exI [of _ "applyInviteResponse (ol_is_route L) req resp"],
        simp add: applyInviteResponse_sel applyInviteResponse_destination list_all_iff split: option.splits)
qed simp

theorem answer_route_set_witness:
  "\<exists>s' iv. sample_dialled = Some (Inr ''answer'', s') \<and> so_invite s' = Some iv \<and> list_all (\<lambda>h. fst h \<noteq> ''Route'') (iv_headers iv)"
proof -
  obtain s' where d: "sample_dialled = Some (Inr ''answer'', s')" using sample_dialled_ok by blast
  show ?thesis using answer_route_set [OF d [unfolded sample_dialled_def]] d by (auto simp: sample_out_lib_def)
qed

text \<open>
  C24: A callee that answers an INVITE after it was cancelled is let go: if the first final response the watcher
  sees is a 2xx, it sends exactly one ACK and one BYE for it, addressed to the callee's Contact along
  its route set.  The dial itself has failed and was cancelled at the transaction.
\<close>

theorem cancelled_invite_released:
  assumes "attemptInvite L fh tx offer an ah hs s = Some (req, res, s')" and "it_error tx = None"
    and "sipResponse 0 (it_events tx) = Some (True, Inl e, st)"
    and "it_watch tx = map WatchResponse ps @ WatchResponse r # es" and "list_all (\<lambda>p. or_status p div 100 = 1) ps"
    and "or_status r div 100 = 2"
  shows "res = Inl e \<and> OutTxCancel req \<in> set (so_trace s')
    \<and> (\<exists>iv hs'. so_background s' = so_background s @ [OutAck iv r, OutBye iv r None hs', OutTxTerminate iv]
         \<and> iv_route iv = rev (or_record_routes r) \<and> (\<forall>c. or_contact r = Some c \<longrightarrow> iv_recipient iv = c\<lparr>su_port := or_5060 (su_port c)\<rparr>))"
  using attemptInvite_cancelled [OF assms(1-3)] assms(5,6)
  by (auto simp: assms(4) watch_provisional Let_def applyInviteResponse_sel)

theorem cancelled_invite_released_witness:
  "\<exists>req res s'. attemptInvite sample_out_lib None
       \<lparr>it_error = None, it_events = [TxResponse (sample_reply 180 []), TxCtxDone], it_cancelled = True,
        it_watch = [WatchResponse (sample_reply 200 [])]\<rparr> ''offer'' [] [] [] sample_out = Some (req, res, s')
    \<and> (\<exists>iv hs'. so_background s' = [OutAck iv (sample_reply 200 []), OutBye iv (sample_reply 200 []) None hs', OutTxTerminate iv])"
proof -
  let ?tx = "\<lparr>it_error = None, it_events = [TxResponse (sample_reply 180 []), TxCtxDone], it_cancelled = True,
        it_watch = [WatchResponse (sample_reply 200 [])]\<rparr> :: invite_tx"
  obtain req res s' where a: "attemptInvite sample_out_lib None ?tx ''offer'' [] [] [] sample_out = Some (req, res, s')"
    by (cases "build_invite sample_out ''offer'' [] [] []") (auto simp: attemptInvite_def sample_reply_def Let_def)
  show ?thesis
    using cancelled_invite_released [OF a, of "Psrpc Canceled (Sentinel ErrSIPRequestTimeout)" "[(180, [])]" "[]" "sample_reply 200 []" "[]"] a
    by (auto simp: sample_reply_def sample_out_def newOutbound_def)
qed

text \<open>
  A peer that challenges every INVITE is not dialled forever: after exactly five INVITEs the dial fails with
  \<open>ErrAuthMaxRetry\<close>, a precondition failure, and no dialog is left.
\<close>

theorem auth_retries_end:
  assumes "always_challenged L txs user pass"
  shows "\<exists>s'. Invite L fh txs user pass headers offer (newOutbound h lt u to from ct rs) =
      Some (Inl (Psrpc FailedPrecondition (Sentinel ErrAuthMaxRetry)), s') \<and> length (invites (so_trace s')) = 5 \<and> so_invite s' = None"
proof -
  let ?n = "newOutbound h lt u to from ct rs"
  obtain s' where l: "invite_loop L fh txs user pass offer (sort_key fst headers) 0 [] [] ?n =
      Some (Inl (Psrpc FailedPrecondition (Sentinel ErrAuthMaxRetry)), s')" "length (invites (so_trace s')) = 5"
    using invite_loop_challenged [OF assms, of 0 5 fh offer "sort_key fst headers" "[]" "[]" ?n] by auto
  have "so_invite s' = None" using invite_loop_sent [OF l(1)] by (auto simp: after_attempt_def)
  then show ?thesis using l by (simp add: Invite_def)
qed

theorem auth_retries_end_witness:
  "\<exists>s'. Invite sample_out_lib None (\<lambda>_. sample_txs 0) ''u'' ''p'' [] ''offer'' sample_out =
      Some (Inl (Psrpc FailedPrecondition (Sentinel ErrAuthMaxRetry)), s') \<and> length (invites (so_trace s')) = 5 \<and> so_invite s' = None"
  unfolding sample_out_def
  by (rule auth_retries_end)
    (auto simp: always_challenged_def sample_txs_def sample_reply_def invite_response_def answer_challenge_def sample_out_lib_def
      intro: exI [of _ False])

end
