(* ===== verification/OutboundCallProps.thy ===== *)
theory OutboundCallProps
  imports OutboundCall OutboundDialogProps
begin

text \<open>
  What an outbound call guarantees: however it ends it is torn down completely and reported; and four
  deviations the model shows: established calls are not counted as active, an unusable answer is not
  acknowledged, and the record of a call that was waited for is overwritten at the end of the request.
\<close>

section \<open>The core of a call\<close>

text \<open>What teardown is about.  Attributes, the call record and the other counters do not matter to it.\<close>

definition core :: "outbound_call \<Rightarrow> _" where
  "core c = (oc_cc c, oc_mon c, \<lambda>l. oc_metrics c (CallsActive, l), oc_joined c, oc_room c, oc_media c, oc_media_closed c,
     oc_stopped c, oc_registered c, oc_transfer_topic c, oc_session_ends c, oc_invited c)"

lemma core_simps [simp]:
  "core (oc_on_state f c) = core c" "core (setStatus_out pre v c) = core c" "core (setExtraAttrs V m opts r hs c) = core c"
  "core (c\<lparr>oc_ringing := b\<rparr>) = core c" "core (c\<lparr>oc_media_out := b\<rparr>) = core c" "core (c\<lparr>oc_closing := b\<rparr>) = core c"
  "core (c\<lparr>oc_connected := b\<rparr>) = core c" "core (c\<lparr>oc_started := b\<rparr>) = core c" "core (c\<lparr>oc_attrs := at\<rparr>) = core c"
  "core (ensureClosed V c) = core c" "core (setErrStatus V e c) = core c"
  by (simp_all add: core_def oc_on_state_def setStatus_out_def setExtraAttrs_def ensureClosed_def setErrStatus_def Let_def
      split: option.splits)

lemma core_count: "(\<And>m ms l. f m ms (CallsActive, l) = ms (CallsActive, l)) \<Longrightarrow> core (oc_count f c) = core c"
  by (simp add: core_def oc_count_def)

lemma core_on_response [simp]: "core (on_response V e c) = core c"
  by (cases e) (auto simp: on_response_def Let_def)

lemma core_responses [simp]: "core (fold (on_response V) es c) = core c"
  by (induction es arbitrary: c) simp_all

lemma core_cc: "core c = core d \<Longrightarrow> core (c\<lparr>oc_cc := cc\<rparr>) = core (d\<lparr>oc_cc := cc\<rparr>)"
  by (simp add: core_def)

lemma coreD:
  assumes "core c = core d"
  shows "oc_cc c = oc_cc d" "oc_mon c = oc_mon d" "oc_metrics c (CallsActive, l) = oc_metrics d (CallsActive, l)"
    "oc_joined c = oc_joined d" "oc_room c = oc_room d" "oc_media c = oc_media d" "oc_media_closed c = oc_media_closed d"
    "oc_stopped c = oc_stopped d" "oc_registered c = oc_registered d" "oc_transfer_topic c = oc_transfer_topic d"
    "oc_session_ends c = oc_session_ends d" "oc_invited c = oc_invited d"
  using assms by (simp_all add: core_def fun_eq_iff)

section \<open>Live and torn down calls\<close>

definition synced :: "sip_outbound \<Rightarrow> bool" where
  "synced s \<longleftrightarrow> (so_invite s = None \<longleftrightarrow> so_invite_ok s = None)"

definition up :: "outbound_call \<Rightarrow> bool" where
  "up c \<longleftrightarrow> \<not> oc_stopped c \<and> oc_joined c \<and> oc_room c \<and> oc_media c \<and> oc_session_ends c = [] \<and> synced (oc_cc c)"

definition down :: "bool \<Rightarrow> outbound_call \<Rightarrow> bool" where
  "down closing c \<longleftrightarrow>
     oc_stopped c \<and> (oc_joined c \<longrightarrow> \<not> oc_room c) \<and> (oc_media c \<longrightarrow> oc_media_closed c) \<and> \<not> oc_registered c \<and> \<not> oc_transfer_topic c
     \<and> cm_terminated (oc_mon c) \<and> length (oc_session_ends c) = 1 \<and> synced (oc_cc c)
     \<and> (\<not> closing \<longrightarrow> so_invite (oc_cc c) = None)"

text \<open>\<open>b\<close>: the call counts as active; \<open>g\<close>: the active calls gauge.\<close>

definition gauge :: "bool \<Rightarrow> smap \<Rightarrow> (smap \<Rightarrow> int) \<Rightarrow> outbound_call \<Rightarrow> bool" where
  "gauge b L g c \<longleftrightarrow> cm_started (oc_mon c) = b \<and> labels (oc_mon c) [] = L \<and> (\<forall>l. oc_metrics c (CallsActive, l) = g l)"

lemma core_cong:
  assumes "core c = core d"
  shows "up c = up d" "down b c = down b d" "gauge s L g c = gauge s L g d"
  using coreD [OF assms] by (simp_all add: up_def down_def gauge_def)

lemma synced_drop [simp]: "synced (drop_out s)"
  by (simp add: synced_def)

lemma synced_emit [simp]: "synced (out_emit es s) = synced s"
  by (simp add: synced_def)

lemma Close_out_closes:
  assumes "synced s"
  shows "synced (Close_out fh closing hs s)" "\<not> closing \<Longrightarrow> so_invite (Close_out fh closing hs s) = None"
  using assms by (auto simp: synced_def Close_out_def sendBye_out_def sendCancel_out_def Let_def split: option.splits prod.splits)

text \<open>What \<open>close\<close> does to the core of a call that is not closed yet.\<close>

definition shut_call :: "(smap \<times> smap) option \<Rightarrow> dial_env \<Rightarrow> end_call \<Rightarrow> outbound_call \<Rightarrow> outbound_call" where
  "shut_call fh V ec c = c\<lparr>oc_stopped := True, oc_mon := fst (CallTerminate (ec_term ec) (oc_mon c, oc_metrics c)),
      oc_cc := Close_out fh (de_closing V) (ec_headers ec) (oc_cc c), oc_room := (\<not> oc_joined c \<and> oc_room c),
      oc_media_closed := (oc_media c \<or> oc_media_closed c), oc_registered := False, oc_transfer_topic := False,
      oc_session_ends := oc_session_ends c @ [tm_reason (ec_term ec)]\<rparr>"

lemma close_core:
  assumes "\<not> oc_stopped c"
  shows "\<exists>fh. core (close_out_call V ec c) = core (shut_call fh V ec c)"
proof -
  define d where "d = oc_on_state (Update (close_record (de_msg V) ec))
      (setStatus_out (de_pre V) (ec_status ec) (c\<lparr>oc_closing := True, oc_stopped := True\<rparr>))"
  have "core d = core (c\<lparr>oc_closing := True, oc_stopped := True\<rparr>)" by (simp add: d_def)
  note dd = coreD [OF this, simplified]
  have m: "oc_metrics d = oc_metrics c" by (simp add: d_def oc_on_state_def setStatus_out_def Let_def)
  show ?thesis
    unfolding close_out_call_def Let_def using assms
    by (intro exI [of _ "setAttrsToHeaders (oc_on_mon (CallTerminate (ec_term ec)) d)"])
      (simp add: shut_call_def d_def [symmetric, simplified] stopSIP_def Let_def core_def dd m oc_on_mon_def CallTerminate_sel case_prod_beta)
qed

lemma close_again: "oc_stopped c \<Longrightarrow> core (close_out_call V ec c) = core c"
  by (simp add: close_out_call_def)

lemma close_up:
  assumes "up c"
  shows "down (de_closing V) (close_out_call V ec c)"
proof -
  obtain fh where k: "core (close_out_call V ec c) = core (shut_call fh V ec c)"
    using close_core [of c V ec] assms unfolding up_def by blast
  have "down (de_closing V) (shut_call fh V ec c)"
    using assms Close_out_closes [where s = "oc_cc c" and closing = "de_closing V"]
    by (simp add: shut_call_def down_def up_def CallTerminate_sel)
  then show ?thesis by (simp only: core_cong(2) [OF k])
qed

lemma close_gauge:
  assumes "gauge b L g c"
  shows "gauge b L g (close_out_call V ec c)"
proof (cases "oc_stopped c")
  case True
  then show ?thesis using assms by (simp only: core_cong(3) [OF close_again])
next
  case False
  then obtain fh where k: "core (close_out_call V ec c) = core (shut_call fh V ec c)" using close_core [of c V ec] by blast
  have "gauge b L g (shut_call fh V ec c)" using assms by (simp add: gauge_def shut_call_def CallTerminate_sel)
  then show ?thesis by (simp only: core_cong(3) [OF k])
qed

text \<open>Closing is a one-shot operation.\<close>

interpretation outbound_teardown: once_op up "\<lambda>c. oc_stopped c \<and> oc_closing c" "close_out_call V" for V
proof
  show "up c \<Longrightarrow> oc_stopped (close_out_call V ec c) \<and> oc_closing (close_out_call V ec c)" for c ec
    using close_up [of c V ec]
    by (auto simp: down_def close_out_call_def stopSIP_def oc_on_mon_def oc_on_state_def setStatus_out_def Let_def case_prod_beta)
  show "oc_stopped c \<and> oc_closing c \<Longrightarrow> close_out_call V ec c = c" for c ec
    by (simp add: close_out_call_def)
qed

text \<open>The state of a call from its creation on.\<close>

definition fit :: "bool \<Rightarrow> outbound_call \<Rightarrow> bool" where
  "fit closing c \<longleftrightarrow> up c \<or> down closing c"

lemma close_down: "fit (de_closing V) c \<Longrightarrow> down (de_closing V) (close_out_call V ec c)"
  using close_up [of c V ec] close_again [of c V ec] core_cong(2) [of "close_out_call V ec c" c] by (auto simp: fit_def down_def)

section \<open>Dialling\<close>

text \<open>Dialling leaves everything but the dialog and the INVITE time alone.\<close>

lemma Invite_synced:
  assumes "Invite L fh txs user pass hs offer s = Some (res, s')" and "synced s"
  shows "synced s'"
  using assms(1)
proof (cases rule: Invite_split)
  case (1 e)
  then show ?thesis using invite_loop_sent [OF 1(2)] assms(2) by (auto simp: after_attempt_def synced_def)
qed (simp add: synced_def)

lemma AckInviteOK_synced [simp]: "synced (snd (AckInviteOK werr s)) = synced s"
  by (simp add: AckInviteOK_def split: option.splits)

lemma SetLocalSDP_sel [simp]:
  "synced (SetLocalSDP sdp s) = synced s" "so_trace (SetLocalSDP sdp s) = so_trace s" "so_invite (SetLocalSDP sdp s) = so_invite s"
  "so_invite_ok (SetLocalSDP sdp s) = so_invite_ok s"
  by (simp_all add: SetLocalSDP_def synced_def)

text \<open>\<open>c'\<close> comes from \<open>c\<close> by signalling only.\<close>

definition signalled :: "outbound_call \<Rightarrow> outbound_call \<Rightarrow> bool" where
  "signalled c c' \<longleftrightarrow>
     core c' = core (c\<lparr>oc_cc := oc_cc c', oc_invited := oc_invited c'\<rparr>) \<and> (synced (oc_cc c) \<longrightarrow> synced (oc_cc c'))"

lemma signalled_core: "core c = core c' \<Longrightarrow> signalled c c'"
  by (simp add: signalled_def core_def fun_eq_iff)

lemma signalled_trans [trans]: "signalled c d \<Longrightarrow> signalled d e \<Longrightarrow> signalled c e"
  by (simp add: signalled_def core_def fun_eq_iff)

lemma signalled_cc: "(synced (oc_cc c) \<Longrightarrow> synced cc) \<Longrightarrow> signalled c (c\<lparr>oc_cc := cc\<rparr>)"
  by (simp add: signalled_def core_def)

lemma signalled_invited [simp]: "signalled c (c\<lparr>oc_invited := b\<rparr>)"
  by (simp add: signalled_def core_def)

lemma signalled_up: "signalled c c' \<Longrightarrow> up c \<Longrightarrow> up c'" and signalled_gauge: "signalled c c' \<Longrightarrow> gauge b L g c = gauge b L g c'"
proof -
  assume s: "signalled c c'"
  then have k: "core c' = core (c\<lparr>oc_cc := oc_cc c', oc_invited := oc_invited c'\<rparr>)" by (simp add: signalled_def)
  show "up c \<Longrightarrow> up c'" using s unfolding core_cong(1) [OF k] by (auto simp: signalled_def up_def)
  show "gauge b L g c = gauge b L g c'" unfolding core_cong(3) [OF k] by (simp add: gauge_def)
qed

lemma signalled_invite_failed: "signalled c (invite_failed V e c)"
proof -
  let ?c1 = "case as_sip_status (chain e) of
        Some st \<Rightarrow> oc_on_state (DeferUpdate (\<lambda>info. info\<lparr>ci_status_code := Some st\<rparr>)) (oc_count (\<lambda>m. InviteError m (statusName (st_code st))) c)
      | None \<Rightarrow> oc_count (\<lambda>m. InviteError m ''other'') c"
  have "signalled c ?c1"
    by (rule signalled_core) (cases "as_sip_status (chain e)", simp_all add: core_count)
  also have "signalled ?c1 (invite_failed V e c)"
    unfolding invite_failed_def Let_def by (rule signalled_cc) (rule Close_out_closes(1))
  finally show ?thesis .
qed

lemma signalled_answered:
  assumes "call_answered V c = (r, c')"
  shows "signalled c c'"
proof (cases "de_answer V")
  case (Inl e)
  then show ?thesis using assms by (auto simp: call_answered_def intro: signalled_core)
next
  case (Inr sdp)
  define c1 where "c1 = oc_count InviteAccept (c\<lparr>oc_cc := SetLocalSDP sdp (oc_cc c)\<rparr>)"
  obtain err cc where a: "AckInviteOK (de_ack V) (oc_cc c1) = (err, cc)" by fastforce
  define c2 where "c2 = c1\<lparr>oc_media_out := True, oc_cc := cc\<rparr>"
  have "signalled c (c\<lparr>oc_cc := SetLocalSDP sdp (oc_cc c)\<rparr>)" by (rule signalled_cc) simp
  also have "signalled \<dots> c1" unfolding c1_def by (rule signalled_core) (simp add: core_count)
  also have "signalled \<dots> (c1\<lparr>oc_cc := cc\<rparr>)"
    by (rule signalled_cc) (use AckInviteOK_synced [of "de_ack V" "oc_cc c1"] a in simp)
  also have "signalled \<dots> c2" unfolding c2_def by (rule signalled_core) (simp add: core_def)
  finally have "signalled c c2" .
  moreover have "core c' = core c2"
    using assms Inr a
    by (auto simp: call_answered_def c1_def [symmetric] c2_def [symmetric] Let_def split: option.splits)
  ultimately show ?thesis using signalled_trans signalled_core by metis
qed

lemma signalled_sipSignal:
  assumes "sipSignal V c = Some (r, c')"
  shows "signalled c c'"
proof (cases "de_offer V")
  case (Inl e)
  then show ?thesis using assms by (auto simp: sipSignal_def intro: signalled_core)
next
  case (Inr offer)
  define c1 where "c1 = oc_count InviteReq (c\<lparr>oc_invited := True\<rparr>)"
  obtain res cc where i: "Invite (de_lib V) (de_watch_fill V) (de_txs V) (sc_user (oc_conf c1)) (sc_pass (oc_conf c1))
      (sc_headers (oc_conf c1)) offer (oc_cc c1) = Some (res, cc)"
    using assms Inr by (auto simp: sipSignal_def c1_def [symmetric] Let_def split: option.splits)
  define c3 where "c3 = (let c2 = fold (on_response V) (drop (length (so_trace (oc_cc c1))) (so_trace cc)) (c1\<lparr>oc_cc := cc\<rparr>)
      in if so_call_id cc \<noteq> [] then oc_on_state (DeferUpdate (record_sip_id (de_pre V) (so_call_id cc))) c2 else c2)"
  have "signalled c (c\<lparr>oc_invited := True\<rparr>)" by simp
  also have "signalled \<dots> c1" unfolding c1_def by (rule signalled_core) (simp add: core_count)
  also have "signalled \<dots> (c1\<lparr>oc_cc := cc\<rparr>)" by (rule signalled_cc) (rule Invite_synced [OF i])
  also have "signalled \<dots> c3" unfolding c3_def Let_def by (rule signalled_core) simp
  also have "signalled \<dots> c'"
    using assms Inr i signalled_invite_failed [of c3 V] signalled_answered [of V c3]
    by (auto simp: sipSignal_def c1_def [symmetric] c3_def [symmetric, unfolded Let_def] Let_def split: sum.splits)
  finally show ?thesis .
qed

lemma signalled_dialSIP:
  assumes "dialSIP V c = Some (r, c')"
  shows "signalled c c'"
proof -
  obtain r1 c1 where s: "sipSignal V c = Some (r1, c1)" using assms by (auto simp: dialSIP_def split: option.splits)
  have "core c' = core c1" using assms s by (auto simp: dialSIP_def Let_def split: option.splits if_splits)
  then show ?thesis using signalled_sipSignal [OF s] signalled_trans signalled_core by metis
qed

lemma connect_verdict_err: "if_err (connect_verdict b e) \<noteq> None"
  using classify_keeps_cause [of e] by (auto simp: connect_verdict_def Let_def afterInvite_err)

lemma gauge_start:
  "gauge False L g c \<Longrightarrow> gauge True L (\<lambda>l. g l + (if l = L then 1 else 0)) (oc_on_mon CallStart c)"
  by (auto simp: gauge_def oc_on_mon_def CallStart_def inc_def labels_def)

lemma gauge_end:
  "gauge True L (\<lambda>l. g l + (if l = L then 1 else 0)) c \<Longrightarrow> gauge False L g (oc_on_mon CallEnd c)"
  by (auto simp: gauge_def oc_on_mon_def CallEnd_def dec_def labels_def)

lemma up_mon [simp]: "up (oc_on_mon CallStart c) = up c" "up (oc_on_mon CallEnd c) = up c" "down b (oc_on_mon CallEnd c) = down b c"
  by (auto simp: up_def down_def oc_on_mon_def CallEnd_def CallStart_def split: prod.splits)

lemma Dial_sound:
  assumes "up c" and "gauge False L g c" and "Dial V c = Some (r, c')"
  shows "gauge False L g c' \<and> (r = None \<longrightarrow> up c') \<and> (r \<noteq> None \<longrightarrow> down (de_closing V) c')"
proof -
  let ?g = "\<lambda>l. g l + (if l = L then 1 else 0)"
  obtain r1 c1 where d: "dialSIP V (oc_on_mon CallStart c) = Some (r1, c1)"
    using assms(3) by (auto simp: Dial_def connectSIP_def split: option.splits)
  have u: "up c1" and g: "gauge True L ?g c1"
    using signalled_up [OF signalled_dialSIP [OF d]] signalled_gauge [OF signalled_dialSIP [OF d]] assms(1)
      gauge_start [OF assms(2)] by simp_all
  show ?thesis
  proof (cases r1)
    case None
    let ?c2 = "oc_on_state (Update (\<lambda>info. if oc_room c1
        then info\<lparr>ci_room_id := de_room_id V, ci_started_at := de_now V, ci_status := SCS_ACTIVE\<rparr> else info)) (c1\<lparr>oc_connected := True, oc_started := True\<rparr>)"
    have k: "core ?c2 = core c1" by simp
    have "r = None" "c' = oc_on_mon CallEnd ?c2" using assms(3) d None by (simp_all add: Dial_def connectSIP_def)
    then show ?thesis using gauge_end [of L g ?c2] u g core_cong(1,3) [OF k] by simp
  next
    case (Some e)
    let ?v = "connect_verdict (oc_invited c1) e"
    let ?c2 = "ensureClosed V (close_out_call V (if_end ?v) c1)"
    obtain e' where e': "if_err ?v = Some e'" using connect_verdict_err by blast
    have k: "core ?c2 = core (close_out_call V (if_end ?v) c1)" by simp
    have "r = Some e'" "c' = oc_on_mon CallEnd ?c2" using assms(3) d Some e' by (simp_all add: Dial_def connectSIP_def Let_def)
    then show ?thesis
      using gauge_end [of L g ?c2] close_up [OF u, of V "if_end ?v"] close_gauge [OF g, of V "if_end ?v"] core_cong(2,3) [OF k] by simp
  qed
qed

section \<open>The end of a call\<close>

lemma fit_cc:
  assumes "fit b c" and "synced (f (oc_cc c))" and "so_invite (f (oc_cc c)) = None"
  shows "fit b (c\<lparr>oc_cc := f (oc_cc c)\<rparr>)"
  using assms by (auto simp: fit_def up_def down_def)

lemma fit_close: "fit (de_closing V) c \<Longrightarrow> fit (de_closing V) (close_out_call V ec c)"
  by (simp add: fit_def close_down [unfolded fit_def])

lemma onBye_out_fit: "fit (de_closing V) c \<Longrightarrow> fit (de_closing V) (onBye_out V c)"
  unfolding onBye_out_def CloseWith_out_def snd_conv
  by (intro fit_close fit_cc) (simp_all add: AcceptBye_out_def)

lemma core_fit: "core c = core d \<Longrightarrow> fit b c = fit b d"
  unfolding fit_def using core_cong(1,2) [of c d] by simp

text \<open>The call is over and its record was reported as ended.\<close>

definition ended :: "dial_env \<Rightarrow> outbound_call \<Rightarrow> bool" where
  "ended V c \<longleftrightarrow>
     (\<exists>sent info. cs_sent (oc_state c) = sent @ [HandleUpdate info] \<and> ci_ended_at info = de_now V
        \<and> ci_status info = (if ci_error info = [] then SCS_DISCONNECTED else SCS_ERROR))"

lemma ensureClosed_ended: "ended V (ensureClosed V c)"
  by (auto simp: ended_def ensureClosed_def ended_record_def oc_on_state_def Update_def flushLocked_def Let_def)

lemma gauge_cc [simp]: "gauge b L g (c\<lparr>oc_cc := cc\<rparr>) = gauge b L g c"
  by (simp add: gauge_def)

lemma waitClose_sound:
  assumes "waitClose V es c = Some (r, c')" and "fit (de_closing V) c" and "gauge b L g c"
  shows "down (de_closing V) c' \<and> gauge b L g c' \<and> ended V c'"
  using assms
proof (induction es arbitrary: c)
  case (Cons e es)
  have cl: "down (de_closing V) (ensureClosed V (close_out_call V ec c))" "gauge b L g (ensureClosed V (close_out_call V ec c))" for ec
    using close_down [OF Cons(3), of ec] close_gauge [OF Cons(4), of V ec]
      core_cong(2,3) [of "ensureClosed V (close_out_call V ec c)" "close_out_call V ec c"] by simp_all
  note nx = Cons(1) [OF _ fit_close [OF Cons(3)] close_gauge [OF Cons(4)]]
  show ?case
  proof (cases e)
    case WcTick
    then show ?thesis using Cons core_fit [of "oc_on_state ForceFlush c" c] core_cong(3) [of "oc_on_state ForceFlush c" c] by simp
  next
    case WcMediaTimeout
    let ?d = "closeWithTimeout_out V c" and ?e = "Some (Psrpc DeadlineExceeded (Plain ''media timeout''))"
    have k: "core (ensureClosed V (setErrStatus V ?e ?d)) = core ?d" by simp
    have "down (de_closing V) ?d" "gauge b L g ?d"
      unfolding closeWithTimeout_out_def by (rule close_down [OF Cons(3)], rule close_gauge [OF Cons(4)])
    moreover have "c' = ensureClosed V (setErrStatus V ?e ?d)" using Cons(2) WcMediaTimeout by (auto simp: Let_def)
    ultimately show ?thesis using core_cong(2,3) [OF k] ensureClosed_ended by simp
  next
    case WcClosed
    show ?thesis
    proof (cases "oc_stopped c")
      case True
      then have "down (de_closing V) c" using Cons(3) by (simp add: fit_def up_def)
      then show ?thesis using Cons(2,4) WcClosed True core_cong(2,3) [of "ensureClosed V c" c] ensureClosed_ended by auto
    qed (use Cons WcClosed in simp)
  next
    case WcPeerBye
    have "gauge b L g (onBye_out V c)" using Cons(4) close_gauge by (simp add: onBye_out_def CloseWith_out_def)
    then show ?thesis using Cons(1) [OF _ onBye_out_fit [OF Cons(3)]] Cons(2) WcPeerBye by simp
  next
    case (WcEndCall hs)
    then show ?thesis using nx Cons(2) by (simp add: EndCall_out_def CloseWith_out_def)
  qed (use Cons cl nx ensureClosed_ended in \<open>auto simp: Close_call_def\<close>)
qed simp

section \<open>Creation\<close>

lemma newCall_up:
  assumes "newCall V lt tr uri from to conf attrs ms st = (None, c)"
  shows "up c" "gauge False (labels (oc_mon c) []) (\<lambda>l. ms (CallsActive, l)) c"
    "oc_cc c = newOutbound (de_hashed V) lt uri (to, []) (from, []) (getContactURI (de_contact V) (de_ip V) (TransportFrom tr))
       (if param ''sip.outbound_route_headers'' (sc_flags conf) = ''true'' then de_routes V else [])"
    "oc_state c = st"
    "0 < sc_max_duration (oc_conf c) \<and> sc_max_duration (oc_conf c) \<le> maxCallDuration" "\<not> oc_invited c"
  using assms bound_call_duration_range [of "sc_max_duration conf"]
  by (auto simp: newCall_def connectToRoom_def Let_def up_def gauge_def synced_def NewCall_def split: option.splits if_splits prod.splits)

lemma close_fresh:
  assumes "\<not> oc_stopped c" and "oc_session_ends c = []" and "synced (oc_cc c)"
  shows "down (de_closing V) (close_out_call V ec c)"
proof -
  obtain fh where k: "core (close_out_call V ec c) = core (shut_call fh V ec c)" using close_core [OF assms(1)] by blast
  have "down (de_closing V) (shut_call fh V ec c)"
    using assms Close_out_closes [where s = "oc_cc c" and closing = "de_closing V"]
    by (simp add: shut_call_def down_def CallTerminate_sel)
  then show ?thesis by (simp only: core_cong(2) [OF k])
qed

lemma newCall_down:
  assumes "newCall V lt tr uri from to conf attrs ms st = (Some e, c)"
  shows "down (de_closing V) c \<and> gauge False (labels (oc_mon c) []) (\<lambda>l. ms (CallsActive, l)) c"
proof -
  obtain d ec where c: "c = close_out_call V ec d" and d: "\<not> oc_stopped d" "oc_session_ends d = []" "synced (oc_cc d)"
    "gauge False (labels (oc_mon d) []) (\<lambda>l. ms (CallsActive, l)) d"
  proof (cases "de_media V")
    case (Some e')
    then show ?thesis using assms by (intro that) (auto simp: newCall_def Let_def synced_def gauge_def NewCall_def)
  next
    case None
    then show ?thesis
      using assms by (auto simp: newCall_def connectToRoom_def Let_def synced_def gauge_def NewCall_def intro: that
          split: option.splits prod.splits if_splits)
  qed
  have "gauge False (labels (oc_mon d) []) (\<lambda>l. ms (CallsActive, l)) c" using close_gauge [OF d(4)] c by simp
  then show ?thesis using close_fresh [OF d(1-3), of V ec] c by (auto simp: gauge_def)
qed

lemma newCall_no_room:
  "de_media V = None \<Longrightarrow> de_connect V = Some e \<Longrightarrow>
   \<exists>c. newCall V lt tr uri from to conf attrs ms st = (Some (Psrpc Internal (Wrapped ''update room failed'' e)), c)"
  by (simp add: newCall_def connectToRoom_def Let_def)

lemma newCall_joined:
  "de_media V = None \<Longrightarrow> de_connect V = None \<Longrightarrow> de_track V = None \<Longrightarrow> de_rpc V = None \<Longrightarrow>
   \<exists>c. newCall V lt tr uri from to conf attrs ms st = (None, c)"
  by (simp add: newCall_def connectToRoom_def Let_def)

lemma create_runs:
  assumes "cr_room req \<noteq> []"
    and "buildOutboundHeaders parse name (cr_dial req)
      (GetHost (getContactURI (de_contact V) (de_ip V) (TransportFrom (dr_transport (cr_dial req))))) = Inr (uri, f, t)"
    and "newCall V (cr_call_id req) (dr_transport (cr_dial req)) uri (na_address f) (na_address t) (cr_conf req) (cr_attrs req) ms
      (NewCallState (createSIPCallInfo region (de_ip V) port (de_now V) req (na_address f) (na_address t))) = (e, c)"
  shows "createSIPParticipant V HealthOK None parse name region port ms req =
    (let finish = (\<lambda>(ret, c). (ret, Some (oc_on_state (Update (finish_create (de_msg V) ret)) c))) in
     if e \<noteq> None then Some (finish (e, c)) else if \<not> cr_wait req then Some (finish (None, c)) else map_option finish (Dial V c))"
  unfolding createSIPParticipant_def using assms(1) by (simp add: assms(2,3))

section \<open>An answered call\<close>

lemma conf_kept [simp]:
  "oc_conf (oc_on_state f c) = oc_conf c" "oc_conf (oc_count h c) = oc_conf c" "oc_conf (setStatus_out pre v c) = oc_conf c"
  "oc_conf (setExtraAttrs V m opts r hs c) = oc_conf c" "oc_conf (oc_on_mon k c) = oc_conf c"
  by (simp_all add: oc_on_state_def oc_count_def setStatus_out_def setExtraAttrs_def oc_on_mon_def Let_def case_prod_beta)

lemma conf_responses [simp]: "oc_conf (fold (on_response V) es c) = oc_conf c"
proof (induction es arbitrary: c)
  case (Cons e es)
  then show ?case by (cases e) (auto simp: on_response_def Let_def)
qed simp

lemma cc_kept [simp]: "oc_cc (oc_on_state f c) = oc_cc c" "oc_cc (oc_count h c) = oc_cc c" "oc_cc (oc_on_mon k c) = oc_cc c"
  "oc_cc (fold (on_response V) es c) = oc_cc c" "oc_cc (ensureClosed V c) = oc_cc c" "oc_cc (setStatus_out pre v c) = oc_cc c"
  "oc_cc (setExtraAttrs V m opts r hs c) = oc_cc c"
  using coreD(1) [OF core_responses] coreD(1) [OF core_simps(2)] coreD(1) [OF core_simps(3)] coreD(1) [OF core_simps(10)]
  by (simp_all add: oc_on_state_def oc_count_def oc_on_mon_def case_prod_beta)

lemma Invite_answered:
  assumes "Invite L fh txs user pass hs offer s = Some (Inr b, cc)"
  obtains iv ok where "so_invite cc = Some iv" "so_invite_ok cc = Some ok"
  using assms by (cases rule: Invite_split) auto

text \<open>The INVITE of a call, and \<open>sipSignal\<close> once it was answered.\<close>

definition call_invite :: "dial_env \<Rightarrow> string \<Rightarrow> outbound_call \<Rightarrow> ((go_error + string) \<times> sip_outbound) option" where
  "call_invite V offer c = Invite (de_lib V) (de_watch_fill V) (de_txs V) (sc_user (oc_conf c)) (sc_pass (oc_conf c))
     (sc_headers (oc_conf c)) offer (oc_cc c)"

lemma sipSignal_answered:
  assumes "de_offer V = Inr offer" and "call_invite V offer c = Some (Inr b, cc)"
  shows "\<exists>c3. sipSignal V c = Some (call_answered V c3) \<and> oc_cc c3 = cc \<and> oc_conf c3 = oc_conf c \<and> oc_invited c3"
proof -
  have "oc_invited (fold (on_response V) es d) = oc_invited d" for es d using coreD(12) [OF core_responses] .
  then show ?thesis
    using assms by (auto simp: sipSignal_def call_invite_def Let_def oc_count_def oc_on_state_def)
qed

lemma Dial_answered:
  assumes "de_offer V = Inr offer" and "call_invite V offer c = Some (Inr b, cc)" and "de_answer V = Inr sdp" and "de_ack V = None"
    and "de_aborted V = None" and "sc_dtmf (oc_conf c) = []"
  shows "\<exists>c'. Dial V c = Some (None, c')"
proof -
  have i: "call_invite V offer (oc_on_mon CallStart c) = Some (Inr b, cc)" using assms(2) by (simp add: call_invite_def)
  obtain iv ok where iv: "so_invite cc = Some iv" "so_invite_ok cc = Some ok"
    using assms(2) unfolding call_invite_def by (rule Invite_answered)
  obtain c3 where c3: "sipSignal V (oc_on_mon CallStart c) = Some (call_answered V c3)" "oc_cc c3 = cc" "oc_conf c3 = oc_conf c"
    using sipSignal_answered [OF assms(1) i] by auto
  have "\<exists>c4. call_answered V c3 = (None, c4) \<and> oc_conf c4 = oc_conf c"
    using assms(3,4,5) iv c3 by (auto simp: call_answered_def AckInviteOK_def Let_def)
  then show ?thesis using c3 assms(6) by (auto simp: Dial_def connectSIP_def dialSIP_def)
qed

section \<open>An example\<close>

definition sample_contact :: contact_conf where
  "sample_contact = \<lparr>cf_sip_port = 5060, cf_tls_port = None, cf_hostname = ''sip.example.org''\<rparr>"

definition sample_dial :: "(go_error + string) \<Rightarrow> (nat \<Rightarrow> invite_tx) \<Rightarrow> dial_env" where
  "sample_dial ans txs = \<lparr>de_lib = sample_out_lib, de_hashed = (\<lambda>x. x), de_msg = (\<lambda>_. ''failed''), de_htl = (\<lambda>x. x), de_hpre = ''sip.h.'',
     de_pre = ''sip.'', de_contact = sample_contact, de_ip = None, de_routes = [], de_closing = False, de_media = None,
     de_connect = None, de_track = None, de_rpc = None, de_offer = Inr ''offer'', de_txs = txs, de_watch_fill = None,
     de_answer = ans, de_ack = None, de_aborted = None, de_dtmf = None, de_room_id = ''RM'', de_identity = ''p'', de_now = 7\<rparr>"

definition sample_out_conf :: out_conf where
  "sample_out_conf = \<lparr>sc_user = ''u'', sc_pass = ''p'', sc_dtmf = [], sc_headers = [], sc_include = SIP_NO_HEADERS, sc_hdr_to_attr = [],
     sc_attrs_to_hdr = [], sc_ringing = 0, sc_max_duration = 0, sc_flags = []\<rparr>"

definition busy_txs :: "nat \<Rightarrow> invite_tx" where
  "busy_txs k = \<lparr>it_error = None, it_events = [TxResponse (sample_reply 486 [])], it_cancelled = False, it_watch = []\<rparr>"

definition sample_record :: call_info where
  "sample_record = \<lparr>ci_call_id = ''SCL'', ci_status = SCS_CALL_INCOMING, ci_error = [], ci_reason = UNKNOWN_REASON,
     ci_status_code = None, ci_created_at = 0, ci_started_at = 0, ci_ended_at = 0, ci_trunk = [], ci_rule = [],
     ci_room = [], ci_room_id = [], ci_identity = [], ci_attributes = [], ci_sip_call_id = [],
     ci_region = [], ci_inbound = False, ci_from = URI_ToSIPUri (CreateURIFromUserAndAddress [] [] []),
     ci_to = URI_ToSIPUri (CreateURIFromUserAndAddress [] [] [])\<rparr>"

definition sample_new :: "(go_error + string) \<Rightarrow> (nat \<Rightarrow> invite_tx) \<Rightarrow> go_error option \<times> outbound_call" where
  "sample_new ans txs = newCall (sample_dial ans txs) ''SCL'' TR_UDP (trunk_uri ''callee'') (trunk_uri ''bridge'') (trunk_uri ''callee'')
     sample_out_conf [(''sip.callID'', ''SCL'')] (\<lambda>_. 0) (NewCallState sample_record)"

lemma sample_new_ok: "\<exists>c. sample_new ans txs = (None, c)"
  by (simp add: sample_new_def newCall_def connectToRoom_def sample_dial_def Let_def)

lemma sample_call_invite:
  "\<exists>cc. call_invite (sample_dial ans sample_txs) ''offer'' (snd (sample_new ans sample_txs)) = Some (Inr ''answer'', cc)"
proof -
  have "case Invite sample_out_lib None sample_txs ''u'' ''p'' [] ''offer'' (newOutbound (\<lambda>x. x) ''SCL'' (trunk_uri ''callee'')
      (trunk_uri ''callee'', []) (trunk_uri ''bridge'', []) (getContactURI sample_contact None (TransportFrom TR_UDP)) []) of
    Some (Inr b, cc) \<Rightarrow> b = ''answer'' | _ \<Rightarrow> False" by code_simp
  then show ?thesis
    by (auto simp: call_invite_def sample_new_def newCall_def connectToRoom_def sample_dial_def sample_out_conf_def Let_def param_def
        split: option.splits prod.splits sum.splits)
qed

lemma sample_call_answered: "\<exists>c'. Dial (sample_dial (Inr ''sdp'') sample_txs) (snd (sample_new (Inr ''sdp'') sample_txs)) = Some (None, c')"
proof -
  obtain cc where i: "call_invite (sample_dial (Inr ''sdp'') sample_txs) ''offer'' (snd (sample_new (Inr ''sdp'') sample_txs)) = Some (Inr ''answer'', cc)"
    using sample_call_invite by blast
  show ?thesis
    by (rule Dial_answered [OF _ i])
      (simp_all add: sample_dial_def sample_new_def newCall_def connectToRoom_def sample_out_conf_def Let_def)
qed

lemma waitClose_ends: "WcCtxDone \<in> set es \<Longrightarrow> \<exists>r c'. waitClose V es c = Some (r, c')"
proof (induction es arbitrary: c)
  case (Cons e es)
  then show ?case by (cases e) (auto simp: Let_def)
qed simp

text \<open>The foreground messages of a dial whose answer cannot be used.\<close>

fun is_ack :: "out_effect \<Rightarrow> bool" where
  "is_ack (OutAck iv ok) = True"
| "is_ack _ = False"

lemma attempt_no_ack:
  "attemptInvite L fh tx offer an ah hs s = Some (q, r, s') \<Longrightarrow> list_ex is_ack (so_trace s') = list_ex is_ack (so_trace s)"
  by (auto simp: attemptInvite_def build_invite_def setCSeq_out_def Let_def list_ex_iff split: option.splits prod.splits sum.splits if_splits)

lemma loop_no_ack:
  "invite_loop L fh txs user pass offer hs k an ah s = Some (r, s') \<Longrightarrow> list_ex is_ack (so_trace s') = list_ex is_ack (so_trace s)"
proof (induction L fh txs user pass offer hs k an ah s arbitrary: r s' rule: invite_loop.induct)
  case (1 L fh txs user pass offer hs k an ah s)
  note st = 1(2) [unfolded invite_loop.simps [of L fh txs user pass offer hs k an ah s]]
  show ?case
  proof (cases "k \<ge> 5")
    case False
    then obtain q res s1 where at: "attemptInvite L fh (txs k) offer an ah hs s = Some (q, res, s1)"
      using st by (auto split: option.splits)
    then show ?thesis
      using st False attempt_no_ack [OF at] 1(1) [OF False at refl refl]
      by (auto split: sum.splits invite_verdict.splits)
  qed (use st in simp)
qed

lemma Invite_no_ack:
  "Invite L fh txs user pass hs offer s = Some (r, s') \<Longrightarrow> list_ex is_ack (so_trace s') = list_ex is_ack (so_trace s)"
  by (cases rule: Invite_split, assumption) (auto dest: loop_no_ack)

definition sample_create :: create_req where
  "sample_create = \<lparr>cr_room = ''room'', cr_call_id = ''SCL'', cr_trunk = [], cr_identity = ''p'', cr_attrs = [], cr_wait = True,
     cr_dial = \<lparr>dr_request_uri = None, dr_call_to = ''+1'', dr_address = ''callee'', dr_transport = TR_UDP, dr_to_header = None,
       dr_to_override = [], dr_hostname = ''bridge'', dr_from_header = None, dr_display = None, dr_number = ''+2''\<rparr>,
     cr_conf = sample_out_conf\<rparr>"

lemma sample_headers:
  "\<exists>u f t. buildOutboundHeaders (\<lambda>_ _. None) (\<lambda>_. ''udp'') (cr_dial sample_create)
      (GetHost (getContactURI sample_contact None (TransportFrom TR_UDP))) = Inr (u, f, t)"
proof -
  have "case buildOutboundHeaders (\<lambda>_ _. None) (\<lambda>_. ''udp'') (cr_dial sample_create)
      (GetHost (getContactURI sample_contact None (TransportFrom TR_UDP))) of Inl _ \<Rightarrow> False | Inr _ \<Rightarrow> True" by code_simp
  then show ?thesis by (auto split: sum.splits)
qed

lemma Dial_bad_answer:
  assumes "de_offer V = Inr offer" and "call_invite V offer c = Some (Inr b, cc)" and "de_answer V = Inl e" and "up c"
  shows "\<exists>r c' fh hs. Dial V c = Some (Some r, c') \<and> oc_cc c' = Close_out fh (de_closing V) hs cc"
proof -
  have i: "call_invite V offer (oc_on_mon CallStart c) = Some (Inr b, cc)" using assms(2) by (simp add: call_invite_def)
  obtain c3 where c3: "sipSignal V (oc_on_mon CallStart c) = Some (call_answered V c3)" "oc_cc c3 = cc"
    using sipSignal_answered [OF assms(1) i] by auto
  have d: "dialSIP V (oc_on_mon CallStart c) = Some (Some e, c3)" using c3 assms(3) by (simp add: dialSIP_def call_answered_def)
  have "up c3" using signalled_up [OF signalled_dialSIP [OF d]] assms(4) by simp
  let ?v = "connect_verdict (oc_invited c3) e"
  obtain r where r: "if_err ?v = Some r" using connect_verdict_err by blast
  have "\<not> oc_stopped c3" using \<open>up c3\<close> by (simp add: up_def)
  then obtain fh where k: "core (close_out_call V (if_end ?v) c3) = core (shut_call fh V (if_end ?v) c3)"
    using close_core by blast
  have "oc_cc (close_out_call V (if_end ?v) c3) = Close_out fh (de_closing V) (ec_headers (if_end ?v)) cc"
    using coreD(1) [OF k] c3(2) by (simp add: shut_call_def)
  then show ?thesis using d r by (auto simp: Dial_def connectSIP_def Let_def)
qed

text \<open>The record is reported twice in a row, the second time changed.\<close>

definition rewritten :: "call_info \<Rightarrow> (call_info \<Rightarrow> call_info) \<Rightarrow> outbound_call \<Rightarrow> bool" where
  "rewritten info f c \<longleftrightarrow> (\<exists>sent. cs_sent (oc_state c) = sent @ [HandleUpdate info, HandleUpdate (f info)])"

lemma Update_rewrites:
  assumes "oc_state c = Update f st"
  shows "rewritten (f (cs_info st)) g (oc_on_state (Update g) c)"
  using assms by (simp add: rewritten_def oc_on_state_def Update_def flushLocked_def)

lemma close_reason:
  assumes "\<not> oc_stopped c"
  shows "ci_reason (cs_info (oc_state (close_out_call V ec c))) = ec_reason ec"
  using assms
  by (simp add: close_out_call_def stopSIP_def oc_on_mon_def oc_on_state_def setStatus_out_def Update_def flushLocked_def
      close_record_def Let_def case_prod_beta)

lemma Dial_report:
  assumes "Dial V c = Some (ret, c1)" and "up c"
  shows "case ret of
      None \<Rightarrow> \<exists>f st. oc_state c1 = Update f st \<and> ci_status (f (cs_info st)) = SCS_ACTIVE
    | Some e \<Rightarrow> \<exists>f st err b. oc_state c1 = Update f st \<and> if_err (connect_verdict b err) = Some e
        \<and> ci_reason (f (cs_info st)) = ec_reason (if_end (connect_verdict b err))"
proof -
  obtain r1 d where d: "dialSIP V (oc_on_mon CallStart c) = Some (r1, d)"
    using assms(1) by (auto simp: Dial_def connectSIP_def split: option.splits)
  have u: "up d" using signalled_up [OF signalled_dialSIP [OF d]] assms(2) by simp
  show ?thesis
  proof (cases r1)
    case None
    let ?f = "\<lambda>info. if oc_room d then info\<lparr>ci_room_id := de_room_id V, ci_started_at := de_now V, ci_status := SCS_ACTIVE\<rparr> else info"
    have "ret = None" "oc_state c1 = Update ?f (oc_state d)"
      using assms(1) d None by (auto simp: Dial_def connectSIP_def oc_on_mon_def oc_on_state_def case_prod_beta)
    then show ?thesis using u by (auto simp: up_def intro!: exI [of _ ?f])
  next
    case (Some err)
    let ?v = "connect_verdict (oc_invited d) err"
    let ?c2 = "close_out_call V (if_end ?v) d"
    obtain e where e: "if_err ?v = Some e" using connect_verdict_err by blast
    have "ret = Some e" "c1 = oc_on_mon CallEnd (ensureClosed V ?c2)"
      using assms(1) d Some e by (auto simp: Dial_def connectSIP_def Let_def)
    then have "oc_state c1 = Update (ended_record V ?c2) (oc_state ?c2)"
      by (simp add: ensureClosed_def oc_on_state_def oc_on_mon_def case_prod_beta)
    moreover have "ci_reason (ended_record V ?c2 (cs_info (oc_state ?c2))) = ec_reason (if_end ?v)"
      using close_reason [of d V "if_end ?v"] u by (simp add: up_def ended_record_def Let_def)
    ultimately show ?thesis using \<open>ret = Some e\<close> e by auto
  qed
qed

section \<open>Properties\<close>

text \<open>
  C5: However an outbound call ends (dial refused, cancelled or failed; hung up by either side, by RPC, after a
  transfer, by the room or on a media timeout; client stopped; in any order and number), once its
  goroutine returns everything is torn down: room left, media closed, call out of the client's table,
  transfer topic gone, the end of the session and the termination reported once, no dialog left (unless
  the client is being stopped), the active calls gauge back at its old value.  The last record
  reported says that the call ended, with an error status exactly if it has an error.
\<close>

theorem outbound_call_torn_down:
  assumes "newCall V lt tr uri from to conf attrs ms st = (None, c)" and "DialAsync V es c = Some (r, c')"
  shows "down (de_closing V) c' \<and> ended V c' \<and> (\<forall>l. oc_metrics c' (CallsActive, l) = ms (CallsActive, l))"
proof -
  note n = newCall_up [OF assms(1)]
  obtain r1 c1 where d: "Dial V c = Some (r1, c1)" using assms(2) by (auto simp: DialAsync_def split: option.splits)
  note s = Dial_sound [OF n(1,2) d]
  show ?thesis
  proof (cases r1)
    case None
    then have w: "waitClose V es c1 = Some (r, c')" using assms(2) d by (simp add: DialAsync_def)
    have "fit (de_closing V) c1" using s None by (simp add: fit_def)
    then show ?thesis using waitClose_sound [OF w _ conjunct1 [OF s]] by (auto simp: gauge_def)
  next
    case (Some e)
    then have "c' = c1" using assms(2) d by (simp add: DialAsync_def)
    moreover have "ended V c1"
    proof -
      obtain c0 where "c1 = oc_on_mon CallEnd (ensureClosed V c0)"
        using d Some by (auto simp: Dial_def split: option.splits prod.splits)
      then show ?thesis using ensureClosed_ended [of V c0] by (simp add: ended_def oc_on_mon_def case_prod_beta)
    qed
    ultimately show ?thesis using s Some by (simp add: gauge_def)
  qed
qed

theorem outbound_call_torn_down_witness:
  "\<exists>r c'. DialAsync (sample_dial (Inr ''sdp'') sample_txs) [WcTick, WcPeerBye, WcClosed] (snd (sample_new (Inr ''sdp'') sample_txs)) = Some (r, c')
    \<and> down False c'"
proof -
  let ?V = "sample_dial (Inr ''sdp'') sample_txs" and ?es = "[WcTick, WcPeerBye, WcClosed]"
  obtain c where c: "sample_new (Inr ''sdp'') sample_txs = (None, c)" using sample_new_ok by blast
  obtain c1 where d: "Dial ?V c = Some (None, c1)" using sample_call_answered c by auto
  have "oc_stopped (onBye_out ?V (oc_on_state ForceFlush c1))"
    by (simp add: onBye_out_def CloseWith_out_def close_out_call_def stopSIP_def oc_on_mon_def oc_on_state_def setStatus_out_def
        Let_def case_prod_beta)
  then have "\<exists>r c'. DialAsync ?V ?es c = Some (r, c')" using d by (auto simp: DialAsync_def)
  then show ?thesis
    using outbound_call_torn_down [OF c [unfolded sample_new_def], of ?es] c by (auto simp: sample_dial_def)
qed



text \<open>
  C34: A request to create a SIP participant that fails leaves nothing behind: either no call was created, or the
  call is torn down and not counted as active.
\<close>

theorem failed_request_leaves_nothing:
  assumes "createSIPParticipant V health mconf parse name region port ms req = Some (Some e, oc)"
  shows "case oc of None \<Rightarrow> True
    | Some c \<Rightarrow> down (de_closing V) c \<and> (\<forall>l. oc_metrics c (CallsActive, l) = ms (CallsActive, l))"
proof (cases oc)
  case (Some c)
  obtain lt tr uri fr to conf attrs st r0 c0 where n: "newCall V lt tr uri fr to conf attrs ms st = (r0, c0)"
    and f: "(r0 = Some e \<and> core c = core c0) \<or> (r0 = None \<and> (\<exists>c1. Dial V c0 = Some (Some e, c1) \<and> core c = core c1))"
    using assms Some
    by (fastforce simp: createSIPParticipant_def Let_def split: if_splits option.splits sum.splits prod.splits)
  have "\<exists>d. core c = core d \<and> down (de_closing V) d \<and> gauge False (labels (oc_mon c0) []) (\<lambda>l. ms (CallsActive, l)) d"
    using f
  proof
    assume "r0 = Some e \<and> core c = core c0"
    then show ?thesis using newCall_down [of V lt tr uri fr to conf attrs ms st e c0] n by auto
  next
    assume "r0 = None \<and> (\<exists>c1. Dial V c0 = Some (Some e, c1) \<and> core c = core c1)"
    then obtain c1 where c1: "Dial V c0 = Some (Some e, c1)" "core c = core c1" and "r0 = None" by blast
    note u = newCall_up [OF n [unfolded \<open>r0 = None\<close>]]
    show ?thesis using Dial_sound [OF u(1,2) c1(1)] c1(2) by auto
  qed
  then obtain d where k: "core c = core d" and "down (de_closing V) d"
    and "gauge False (labels (oc_mon c0) []) (\<lambda>l. ms (CallsActive, l)) d" by blast
  then show ?thesis using core_cong(2) [OF k] coreD(3) [OF k] Some by (simp add: gauge_def)
qed simp

theorem failed_request_leaves_nothing_witness:
  "\<exists>c. createSIPParticipant ((sample_dial (Inr ''sdp'') sample_txs)\<lparr>de_connect := Some (Plain ''no room'')\<rparr>) HealthOK None
       (\<lambda>_ _. None) (\<lambda>_. ''udp'') [] 5060 (\<lambda>_. 0) sample_create = Some (Some (Psrpc Internal (Wrapped ''update room failed'' (Plain ''no room''))), Some c)
    \<and> down False c"
proof -
  let ?V = "(sample_dial (Inr ''sdp'') sample_txs)\<lparr>de_connect := Some (Plain ''no room'')\<rparr>"
  obtain u f t where b: "buildOutboundHeaders (\<lambda>_ _. None) (\<lambda>_. ''udp'') (cr_dial sample_create)
      (GetHost (getContactURI sample_contact None (TransportFrom TR_UDP))) = Inr (u, f, t)"
    using sample_headers by blast
  have v: "de_media ?V = None" "de_connect ?V = Some (Plain ''no room'')" by (simp_all add: sample_dial_def)
  obtain c where n: "newCall ?V (cr_call_id sample_create) (dr_transport (cr_dial sample_create)) u (na_address f) (na_address t)
      (cr_conf sample_create) (cr_attrs sample_create) (\<lambda>_. 0)
      (NewCallState (createSIPCallInfo [] (de_ip ?V) 5060 (de_now ?V) sample_create (na_address f) (na_address t))) =
      (Some (Psrpc Internal (Wrapped ''update room failed'' (Plain ''no room''))), c)"
    using newCall_no_room [OF v] by blast
  have "\<exists>c. createSIPParticipant ?V HealthOK None (\<lambda>_ _. None) (\<lambda>_. ''udp'') [] 5060 (\<lambda>_. 0) sample_create =
      Some (Some (Psrpc Internal (Wrapped ''update room failed'' (Plain ''no room''))), Some c)"
    by (subst create_runs [OF _ _ n]) (use b in \<open>simp_all add: sample_dial_def sample_create_def\<close>)
  then show ?thesis
    using failed_request_leaves_nothing [of ?V HealthOK None "\<lambda>_ _. None" "\<lambda>_. ''udp''" "[]" 5060 "\<lambda>_. 0" sample_create]
    by (fastforce simp: sample_dial_def)
qed

text \<open>
  An established outbound call is not counted as active: \<open>Dial\<close> ends the count when it returns, not when the
  call ends, so after a successful dial the gauge shows its value from before although the call is up.
\<close>

theorem established_call_not_counted:
  assumes "newCall V lt tr uri from to conf attrs ms st = (None, c)" and "Dial V c = Some (None, c')"
  shows "\<not> oc_stopped c' \<and> \<not> cm_started (oc_mon c') \<and> (\<forall>l. oc_metrics c' (CallsActive, l) = ms (CallsActive, l))"
  using Dial_sound [OF newCall_up(1,2) [OF assms(1)] assms(2)] by (simp add: gauge_def up_def)

theorem established_call_not_counted_witness:
  "\<exists>c'. Dial (sample_dial (Inr ''sdp'') sample_txs) (snd (sample_new (Inr ''sdp'') sample_txs)) = Some (None, c')
    \<and> \<not> oc_stopped c' \<and> \<not> cm_started (oc_mon c')"
proof -
  obtain c where c: "sample_new (Inr ''sdp'') sample_txs = (None, c)" using sample_new_ok by blast
  obtain c1 where d: "Dial (sample_dial (Inr ''sdp'') sample_txs) c = Some (None, c1)" using sample_call_answered c by auto
  show ?thesis using established_call_not_counted [OF c [unfolded sample_new_def] d] c d by auto
qed

text \<open>
  If the callee answers but the answer cannot be used (no common codec, bad SDP), the 200 is never
  acknowledged: the dial fails with a BYE as the only request after the INVITEs, and no ACK is sent for
  the answer.
\<close>

theorem unusable_answer_not_acked:
  assumes "newCall V lt tr uri from to conf attrs ms st = (None, c)" and "de_offer V = Inr offer"
    and "call_invite V offer c = Some (Inr body, cc)" and "de_answer V = Inl e" and "\<not> de_closing V"
  shows "\<exists>r c'. Dial V c = Some (Some r, c') \<and> \<not> list_ex is_ack (so_trace (oc_cc c')) \<and> length (out_byes (so_trace (oc_cc c'))) = 1"
proof -
  note n = newCall_up [OF assms(1)]
  note i = assms(3) [unfolded call_invite_def n(3)]
  obtain iv ok where iv: "so_invite cc = Some iv" "so_invite_ok cc = Some ok" using i by (rule Invite_answered)
  have "out_byes (so_trace cc) = []" using out_inv_openD(3) [OF Invite_inv [OF i] iv(2)] .
  moreover have "\<not> list_ex is_ack (so_trace cc)" using Invite_no_ack [OF i] by simp
  ultimately have "\<not> list_ex is_ack (so_trace (Close_out fh False hs cc)) \<and> length (out_byes (so_trace (Close_out fh False hs cc))) = 1" for fh hs
    using iv by (auto simp: Close_out_def sendBye_out_def Let_def case_prod_beta)
  then show ?thesis using Dial_bad_answer [OF assms(2,3,4) n(1)] assms(5) by auto
qed

theorem unusable_answer_not_acked_witness:
  "\<exists>r c'. Dial (sample_dial (Inl (SDPError (Sentinel ErrNoCommonMedia))) sample_txs) (snd (sample_new (Inl (SDPError (Sentinel ErrNoCommonMedia))) sample_txs)) = Some (Some r, c')
    \<and> \<not> list_ex is_ack (so_trace (oc_cc c'))"
proof -
  let ?a = "Inl (SDPError (Sentinel ErrNoCommonMedia)) :: go_error + string"
  obtain c where c: "sample_new ?a sample_txs = (None, c)" using sample_new_ok by blast
  obtain cc where "call_invite (sample_dial ?a sample_txs) ''offer'' c = Some (Inr ''answer'', cc)"
    using sample_call_invite [of ?a] c by auto
  from unusable_answer_not_acked [OF c [unfolded sample_new_def] _ this, of "SDPError (Sentinel ErrNoCommonMedia)"]
  show ?thesis using c by (auto simp: sample_dial_def)
qed

text \<open>
  The record of a request that waits for the answer is spoiled when the request returns: an answered call
  was just reported as active and is reported again as merely joined, and for a call that failed the
  disconnect reason the dial had recorded is replaced by \<open>UNKNOWN_REASON\<close>.
\<close>

theorem waited_call_report_overwritten:
  assumes "createSIPParticipant V HealthOK None parse name region port ms req = Some (ret, Some c)" and "cr_wait req"
    and "de_media V = None" "de_connect V = None" "de_track V = None" "de_rpc V = None"
  shows "case ret of
      None \<Rightarrow> \<exists>info. ci_status info = SCS_ACTIVE \<and> \<not> oc_stopped c \<and> rewritten info (\<lambda>i. i\<lparr>ci_status := SCS_PARTICIPANT_JOINED\<rparr>) c
    | Some e \<Rightarrow> \<exists>info err b. if_err (connect_verdict b err) = Some e \<and> ci_reason info = ec_reason (if_end (connect_verdict b err))
        \<and> rewritten info (\<lambda>i. i\<lparr>ci_status := SCS_ERROR, ci_reason := UNKNOWN_REASON, ci_error := de_msg V e\<rparr>) c"
proof -
  obtain lt tr uri fr to conf attrs st r0 c0 where n0: "newCall V lt tr uri fr to conf attrs ms st = (r0, c0)"
    and d0: "r0 = None \<Longrightarrow> \<exists>c1. Dial V c0 = Some (ret, c1) \<and> c = oc_on_state (Update (finish_create (de_msg V) ret)) c1"
    using assms(1,2)
    by (fastforce simp: createSIPParticipant_def Let_def split: if_splits option.splits sum.splits prod.splits)
  have "r0 = None" using newCall_joined [OF assms(3-6)] n0 by (metis fst_conv)
  note n = n0 [unfolded \<open>r0 = None\<close>]
  obtain c1 where d: "Dial V c0 = Some (ret, c1)" and c: "c = oc_on_state (Update (finish_create (de_msg V) ret)) c1"
    using d0 [OF \<open>r0 = None\<close>] by blast
  note u = newCall_up(1) [OF n] and g = newCall_up(2) [OF n]
  have "\<not> oc_stopped c" if "ret = None" using Dial_sound [OF u g d] that by (auto simp: c up_def oc_on_state_def)
  moreover have "finish_create (de_msg V) ret = (case ret of None \<Rightarrow> (\<lambda>i. i\<lparr>ci_status := SCS_PARTICIPANT_JOINED\<rparr>)
      | Some e \<Rightarrow> (\<lambda>i. i\<lparr>ci_status := SCS_ERROR, ci_reason := UNKNOWN_REASON, ci_error := de_msg V e\<rparr>))"
    by (auto simp: finish_create_def split: option.splits)
  ultimately show ?thesis
    using Dial_report [OF d u] Update_rewrites [of c1] unfolding c by (fastforce split: option.splits)
qed

theorem waited_call_report_overwritten_witness:
  "\<exists>e c info. createSIPParticipant ((sample_dial (Inr ''sdp'') sample_txs)\<lparr>de_offer := Inl (Sentinel CtxCanceled)\<rparr>) HealthOK None
       (\<lambda>_ _. None) (\<lambda>_. ''udp'') [] 5060 (\<lambda>_. 0) sample_create = Some (Some e, Some c)
    \<and> rewritten info (\<lambda>i. i\<lparr>ci_status := SCS_ERROR, ci_reason := UNKNOWN_REASON, ci_error := ''failed''\<rparr>) c"
proof -
  let ?V = "(sample_dial (Inr ''sdp'') sample_txs)\<lparr>de_offer := Inl (Sentinel CtxCanceled)\<rparr>"
  obtain u f t where b: "buildOutboundHeaders (\<lambda>_ _. None) (\<lambda>_. ''udp'') (cr_dial sample_create)
      (GetHost (getContactURI sample_contact None (TransportFrom TR_UDP))) = Inr (u, f, t)"
    using sample_headers by blast
  have v: "de_media ?V = None" "de_connect ?V = None" "de_track ?V = None" "de_rpc ?V = None" by (simp_all add: sample_dial_def)
  obtain c where n: "newCall ?V (cr_call_id sample_create) (dr_transport (cr_dial sample_create)) u (na_address f) (na_address t)
      (cr_conf sample_create) (cr_attrs sample_create) (\<lambda>_. 0)
      (NewCallState (createSIPCallInfo [] (de_ip ?V) 5060 (de_now ?V) sample_create (na_address f) (na_address t))) = (None, c)"
    using newCall_joined [OF v] by blast
  obtain e where "if_err (connect_verdict False (Sentinel CtxCanceled)) = Some e" using connect_verdict_err by blast
  moreover have "\<not> oc_invited (oc_on_mon CallStart c)"
    using newCall_up(6) [OF n] by (simp add: oc_on_mon_def case_prod_beta)
  ultimately have "\<exists>c1. Dial ?V c = Some (Some e, c1)"
    by (simp add: Dial_def connectSIP_def dialSIP_def sipSignal_def Let_def)
  then have "\<exists>c. createSIPParticipant ?V HealthOK None (\<lambda>_ _. None) (\<lambda>_. ''udp'') [] 5060 (\<lambda>_. 0) sample_create = Some (Some e, Some c)"
    by (subst create_runs [OF _ _ n]) (use b in \<open>auto simp: sample_dial_def sample_create_def\<close>)
  then obtain c' where c': "createSIPParticipant ?V HealthOK None (\<lambda>_ _. None) (\<lambda>_. ''udp'') [] 5060 (\<lambda>_. 0) sample_create = Some (Some e, Some c')"
    by blast
  have "cr_wait sample_create" by (simp add: sample_create_def)
  from waited_call_report_overwritten [OF c' this v] show ?thesis using c' by (auto simp: sample_dial_def)
qed

end
