(* ===== verification/TransferQueue.thy ===== *)
theory TransferQueue
  imports GoErrors
begin

text \<open>
  The pending transfers of \<open>pkg/sip/service.go\<close>: \<open>transferSIPParticipant\<close> lets several RPC requests for the
  same call wait for one transfer, which a worker goroutine carries out.  A \<open>PendingTransfer\<close> is a cell of a
  heap, and its address an index; the channel \<open>Done\<close> of capacity one is its buffer and its closed flag.  The
  goroutines interleave: each step of \<open>svc_step\<close> is one critical section, channel operation or atomic access.

  The abstract system \<open>cell_step\<close> says what the requests rely on: one live transfer per call, whose
  outcome is written once and answered to everybody who waits for it.  \<open>svc_step\<close> is shown to refine it.
\<close>

section \<open>Pending transfers\<close>

record transfer_out =
  to_id :: string
  to_err :: "go_error option"

definition zero_out :: transfer_out where
  "zero_out = \<lparr>to_id = [], to_err = None\<rparr>"

definition failed_out :: "go_error \<Rightarrow> transfer_out" where
  "failed_out e = \<lparr>to_id = [], to_err = Some e\<rparr>"

text \<open>Where the worker goroutine stands, with its local variable \<open>out\<close> once it has a value.\<close>

datatype worker_pc =
    Transferring
  | Sending transfer_out
  | Storing transfer_out
  | Closing transfer_out
  | Deleting transfer_out
  | Finished transfer_out

record pending_transfer =
  pt_call :: string
  pt_to :: string
  pt_done :: "transfer_out option"
  pt_closed :: bool
  pt_outcome :: "transfer_out option"
  pt_pc :: worker_pc

datatype waiter_state = Waiting | Received transfer_out | Returned transfer_out | GaveUp transfer_out

record waiter =
  wt_pid :: nat
  wt_to :: string
  wt_state :: waiter_state

record transfer_svc =
  sv_pending :: "pending_transfer list"
  sv_table :: "string \<Rightarrow> nat option"
  sv_waiters :: "waiter list"

definition svc_init :: "transfer_svc \<Rightarrow> bool" where
  "svc_init s = (sv_pending s = [] \<and> sv_table s = (\<lambda>_. None) \<and> sv_waiters s = [])"

definition on_pending :: "nat \<Rightarrow> (pending_transfer \<Rightarrow> pending_transfer) \<Rightarrow> transfer_svc \<Rightarrow> transfer_svc" where
  "on_pending p f s = s\<lparr>sv_pending := (sv_pending s)[p := f (sv_pending s ! p)]\<rparr>"

definition on_waiter :: "nat \<Rightarrow> waiter_state \<Rightarrow> transfer_svc \<Rightarrow> transfer_svc" where
  "on_waiter w st s = s\<lparr>sv_waiters := (sv_waiters s)[w := (sv_waiters s ! w)\<lparr>wt_state := st\<rparr>]\<rparr>"

section \<open>The request\<close>

definition getOrCreatePendingTransfer :: "string \<Rightarrow> string \<Rightarrow> transfer_svc \<Rightarrow> nat \<times> bool \<times> transfer_svc" where
  "getOrCreatePendingTransfer callID transferTo s =
     (case sv_table s callID of
        Some p \<Rightarrow> (p, False, s)
      | None \<Rightarrow>
          let p = length (sv_pending s);
              pending = \<lparr>pt_call = callID, pt_to = transferTo, pt_done = None, pt_closed = False,
                         pt_outcome = None, pt_pc = Transferring\<rparr>
          in (p, True, s\<lparr>sv_pending := sv_pending s @ [pending], sv_table := (sv_table s)(callID \<mapsto> p)\<rparr>))"

text \<open>
  The part of \<open>transferSIPParticipant\<close> up to the select.  \<open>perr\<close> is the result of
  \<open>checkInternalProviderRequest\<close>.  \<open>Inl\<close> is an answer given at once, \<open>Inr\<close> the waiter the request becomes.
\<close>

definition request_transfer ::
  "go_error option \<Rightarrow> string \<Rightarrow> string \<Rightarrow> transfer_svc \<Rightarrow> (transfer_out + nat) \<times> transfer_svc" where
  "request_transfer perr callID transferTo s =
     (case perr of
        Some e \<Rightarrow> (Inl (failed_out e), s)
      | None \<Rightarrow>
          let (p, isNew, s1) = getOrCreatePendingTransfer callID transferTo s in
          if \<not> isNew \<and> pt_to (sv_pending s1 ! p) \<noteq> transferTo then
            (Inl (failed_out (Psrpc InvalidArgument (Plain ''call already being transferred elsewhere''))), s1)
          else
            (Inr (length (sv_waiters s1)),
             s1\<lparr>sv_waiters := sv_waiters s1 @ [\<lparr>wt_pid = p, wt_to = transferTo, wt_state = Waiting\<rparr>]\<rparr>))"

section \<open>The worker\<close>

text \<open>The outcome of \<open>processParticipantTransfer\<close>, then the statements that publish it.\<close>

definition worker_result :: "transfer_out \<Rightarrow> pending_transfer \<Rightarrow> pending_transfer" where
  "worker_result out p = p\<lparr>pt_pc := Sending out\<rparr>"

text \<open>The select with a default branch: the value is dropped if the buffer is full.\<close>

definition worker_send :: "transfer_out \<Rightarrow> pending_transfer \<Rightarrow> pending_transfer" where
  "worker_send out p =
     (case pt_done p of
        None \<Rightarrow> p\<lparr>pt_done := Some out, pt_pc := Storing out\<rparr>
      | Some _ \<Rightarrow> p\<lparr>pt_pc := Storing out\<rparr>)"

definition worker_store :: "transfer_out \<Rightarrow> pending_transfer \<Rightarrow> pending_transfer" where
  "worker_store out p = p\<lparr>pt_outcome := Some out, pt_pc := Closing out\<rparr>"

definition worker_close :: "transfer_out \<Rightarrow> pending_transfer \<Rightarrow> pending_transfer" where
  "worker_close out p = p\<lparr>pt_closed := True, pt_pc := Deleting out\<rparr>"

definition worker_delete :: "nat \<Rightarrow> transfer_out \<Rightarrow> transfer_svc \<Rightarrow> transfer_svc" where
  "worker_delete p out s =
     on_pending p (\<lambda>x. x\<lparr>pt_pc := Finished out\<rparr>)
       (s\<lparr>sv_table := (sv_table s)(pt_call (sv_pending s ! p) := None)\<rparr>)"

section \<open>The waiters\<close>

text \<open>A receive takes the buffered value, else the zero value of a closed channel; \<open>None\<close> blocks.\<close>

definition chan_recv :: "pending_transfer \<Rightarrow> (transfer_out \<times> pending_transfer) option" where
  "chan_recv p =
     (case pt_done p of
        Some out \<Rightarrow> Some (out, p\<lparr>pt_done := None\<rparr>)
      | None \<Rightarrow> if pt_closed p then Some (zero_out, p) else None)"

definition load_outcome :: "pending_transfer \<Rightarrow> transfer_out \<Rightarrow> transfer_out" where
  "load_outcome p out =
     (if to_err out = None then (case pt_outcome p of Some o' \<Rightarrow> o' | None \<Rightarrow> out) else out)"

definition cancelled_out :: "sentinel \<Rightarrow> transfer_out" where
  "cancelled_out c = failed_out (Psrpc Canceled (Sentinel c))"

section \<open>Interleaving\<close>

inductive svc_step :: "transfer_svc \<Rightarrow> transfer_svc \<Rightarrow> bool" where
  request: "request_transfer perr callID transferTo s = (r, t) \<Longrightarrow> svc_step s t"
| result: "p < length (sv_pending s) \<Longrightarrow> pt_pc (sv_pending s ! p) = Transferring \<Longrightarrow>
     svc_step s (on_pending p (worker_result out) s)"
| send: "p < length (sv_pending s) \<Longrightarrow> pt_pc (sv_pending s ! p) = Sending out \<Longrightarrow>
     svc_step s (on_pending p (worker_send out) s)"
| store: "p < length (sv_pending s) \<Longrightarrow> pt_pc (sv_pending s ! p) = Storing out \<Longrightarrow>
     svc_step s (on_pending p (worker_store out) s)"
| shut: "p < length (sv_pending s) \<Longrightarrow> pt_pc (sv_pending s ! p) = Closing out \<Longrightarrow>
     svc_step s (on_pending p (worker_close out) s)"
| remove: "p < length (sv_pending s) \<Longrightarrow> pt_pc (sv_pending s ! p) = Deleting out \<Longrightarrow>
     svc_step s (worker_delete p out s)"
| recv: "w < length (sv_waiters s) \<Longrightarrow> wt_state (sv_waiters s ! w) = Waiting \<Longrightarrow>
     p = wt_pid (sv_waiters s ! w) \<Longrightarrow> chan_recv (sv_pending s ! p) = Some (out, x) \<Longrightarrow>
     svc_step s (on_waiter w (Received out) (on_pending p (\<lambda>_. x) s))"
| reply: "w < length (sv_waiters s) \<Longrightarrow> wt_state (sv_waiters s ! w) = Received out \<Longrightarrow>
     p = wt_pid (sv_waiters s ! w) \<Longrightarrow>
     svc_step s (on_waiter w (Returned (load_outcome (sv_pending s ! p) out)) s)"
| cancel: "w < length (sv_waiters s) \<Longrightarrow> wt_state (sv_waiters s ! w) = Waiting \<Longrightarrow>
     svc_step s (on_waiter w (GaveUp (cancelled_out c)) s)"

section \<open>The abstract system\<close>

record cell =
  cl_call :: string
  cl_to :: string
  cl_result :: "transfer_out option"
  cl_live :: bool

record asker =
  ak_cell :: nat
  ak_answer :: "(transfer_out + transfer_out) option"

record cells =
  cs_cells :: "cell list"
  cs_askers :: "asker list"

definition cell_init :: "cells \<Rightarrow> bool" where
  "cell_init a = (cs_cells a = [] \<and> cs_askers a = [])"

inductive cell_step :: "cells \<Rightarrow> cells \<Rightarrow> bool" where
  ask_new: "(\<forall>i < length (cs_cells a). cl_live (cs_cells a ! i) \<longrightarrow> cl_call (cs_cells a ! i) \<noteq> call) \<Longrightarrow>
     cell_step a (a\<lparr>cs_cells := cs_cells a @ [\<lparr>cl_call = call, cl_to = to, cl_result = None, cl_live = True\<rparr>],
                    cs_askers := cs_askers a @ [\<lparr>ak_cell = length (cs_cells a), ak_answer = None\<rparr>]\<rparr>)"
| ask_join: "i < length (cs_cells a) \<Longrightarrow> cl_live (cs_cells a ! i) \<Longrightarrow>
     cell_step a (a\<lparr>cs_askers := cs_askers a @ [\<lparr>ak_cell = i, ak_answer = None\<rparr>]\<rparr>)"
| decide: "i < length (cs_cells a) \<Longrightarrow> cl_live (cs_cells a ! i) \<Longrightarrow> cl_result (cs_cells a ! i) = None \<Longrightarrow>
     cell_step a (a\<lparr>cs_cells := (cs_cells a)[i := (cs_cells a ! i)\<lparr>cl_result := Some out\<rparr>]\<rparr>)"
| retire: "i < length (cs_cells a) \<Longrightarrow> cl_live (cs_cells a ! i) \<Longrightarrow> cl_result (cs_cells a ! i) = Some out \<Longrightarrow>
     cell_step a (a\<lparr>cs_cells := (cs_cells a)[i := (cs_cells a ! i)\<lparr>cl_live := False\<rparr>]\<rparr>)"
| answer: "k < length (cs_askers a) \<Longrightarrow> ak_answer (cs_askers a ! k) = None \<Longrightarrow>
     ak_cell (cs_askers a ! k) = i \<Longrightarrow> cl_result (cs_cells a ! i) = Some out \<Longrightarrow>
     cell_step a (a\<lparr>cs_askers := (cs_askers a)[k := (cs_askers a ! k)\<lparr>ak_answer := Some (Inr out)\<rparr>]\<rparr>)"
| give_up: "k < length (cs_askers a) \<Longrightarrow> ak_answer (cs_askers a ! k) = None \<Longrightarrow>
     cell_step a (a\<lparr>cs_askers := (cs_askers a)[k := (cs_askers a ! k)\<lparr>ak_answer := Some (Inl out)\<rparr>]\<rparr>)"

definition cell_inv :: "cells \<Rightarrow> bool" where
  "cell_inv a \<longleftrightarrow>
     (\<forall>i < length (cs_cells a). \<forall>j < length (cs_cells a).
        cl_live (cs_cells a ! i) \<and> cl_live (cs_cells a ! j) \<and> cl_call (cs_cells a ! i) = cl_call (cs_cells a ! j)
        \<longrightarrow> i = j) \<and>
     (\<forall>k < length (cs_askers a). ak_cell (cs_askers a ! k) < length (cs_cells a) \<and>
        (\<forall>out. ak_answer (cs_askers a ! k) = Some (Inr out) \<longrightarrow>
           cl_result (cs_cells a ! ak_cell (cs_askers a ! k)) = Some out))"

text \<open>The abstraction: an outcome is decided as soon as the worker has it, a waiter answered when it returns.\<close>

fun decided :: "worker_pc \<Rightarrow> transfer_out option" where
  "decided Transferring = None"
| "decided (Sending out) = Some out"
| "decided (Storing out) = Some out"
| "decided (Closing out) = Some out"
| "decided (Deleting out) = Some out"
| "decided (Finished out) = Some out"

definition finished :: "pending_transfer \<Rightarrow> bool" where
  "finished p = (case pt_pc p of Finished _ \<Rightarrow> True | _ \<Rightarrow> False)"

definition abs_pending :: "pending_transfer \<Rightarrow> cell" where
  "abs_pending p = \<lparr>cl_call = pt_call p, cl_to = pt_to p, cl_result = decided (pt_pc p), cl_live = (\<not> finished p)\<rparr>"

definition abs_waiter :: "waiter \<Rightarrow> asker" where
  "abs_waiter w =
     \<lparr>ak_cell = wt_pid w,
      ak_answer = (case wt_state w of Returned out \<Rightarrow> Some (Inr out) | GaveUp out \<Rightarrow> Some (Inl out) | _ \<Rightarrow> None)\<rparr>"

definition abs_svc :: "transfer_svc \<Rightarrow> cells" where
  "abs_svc s = \<lparr>cs_cells = map abs_pending (sv_pending s), cs_askers = map abs_waiter (sv_waiters s)\<rparr>"

section \<open>The invariant\<close>

definition pending_ok :: "pending_transfer \<Rightarrow> bool" where
  "pending_ok p =
     (case pt_pc p of
        Transferring \<Rightarrow> pt_done p = None \<and> \<not> pt_closed p \<and> pt_outcome p = None
      | Sending _ \<Rightarrow> pt_done p = None \<and> \<not> pt_closed p \<and> pt_outcome p = None
      | Storing out \<Rightarrow> pt_done p \<in> {None, Some out} \<and> \<not> pt_closed p \<and> pt_outcome p = None
      | Closing out \<Rightarrow> pt_done p \<in> {None, Some out} \<and> \<not> pt_closed p \<and> pt_outcome p = Some out
      | Deleting out \<Rightarrow> pt_done p \<in> {None, Some out} \<and> pt_closed p \<and> pt_outcome p = Some out
      | Finished out \<Rightarrow> pt_done p \<in> {None, Some out} \<and> pt_closed p \<and> pt_outcome p = Some out)"

definition waiter_ok :: "pending_transfer list \<Rightarrow> waiter \<Rightarrow> bool" where
  "waiter_ok ps w \<longleftrightarrow>
     wt_pid w < length ps \<and> wt_to w = pt_to (ps ! wt_pid w) \<and>
     (case wt_state w of
        Received out \<Rightarrow> decided (pt_pc (ps ! wt_pid w)) = Some out
                        \<or> out = zero_out \<and> pt_closed (ps ! wt_pid w)
      | Returned out \<Rightarrow> decided (pt_pc (ps ! wt_pid w)) = Some out
      | _ \<Rightarrow> True)"

definition pending_table_ok :: "transfer_svc \<Rightarrow> bool" where
  "pending_table_ok s \<longleftrightarrow>
     (\<forall>c p. sv_table s c = Some p \<longleftrightarrow>
        p < length (sv_pending s) \<and> pt_call (sv_pending s ! p) = c \<and> \<not> finished (sv_pending s ! p))"

definition svc_inv :: "transfer_svc \<Rightarrow> bool" where
  "svc_inv s \<longleftrightarrow>
     pending_table_ok s \<and> list_all pending_ok (sv_pending s) \<and> list_all (waiter_ok (sv_pending s)) (sv_waiters s)"

section \<open>Preservation of the invariant\<close>

lemma on_pending_sel [simp]:
  "sv_pending (on_pending p f s) = (sv_pending s)[p := f (sv_pending s ! p)]"
  "sv_table (on_pending p f s) = sv_table s" "sv_waiters (on_pending p f s) = sv_waiters s"
  by (simp_all add: on_pending_def)

lemma on_waiter_sel [simp]:
  "sv_pending (on_waiter w st s) = sv_pending s" "sv_table (on_waiter w st s) = sv_table s"
  "sv_waiters (on_waiter w st s) = (sv_waiters s)[w := (sv_waiters s ! w)\<lparr>wt_state := st\<rparr>]"
  by (simp_all add: on_waiter_def)

text \<open>What a step of a worker or of a receive may do to a cell: nothing that is decided changes.\<close>

definition grows :: "pending_transfer \<Rightarrow> pending_transfer \<Rightarrow> bool" where
  "grows x y \<longleftrightarrow> pt_call y = pt_call x \<and> pt_to y = pt_to x \<and> (pt_closed x \<longrightarrow> pt_closed y) \<and>
     (\<forall>out. decided (pt_pc x) = Some out \<longrightarrow> decided (pt_pc y) = Some out)"

lemma waiter_ok_grows:
  "grows (ps ! p) y \<Longrightarrow> waiter_ok ps w \<Longrightarrow> waiter_ok (ps[p := y]) w"
  by (cases "p = wt_pid w") (auto simp: waiter_ok_def grows_def nth_list_update split: waiter_state.splits)

lemma waiter_ok_append: "waiter_ok ps w \<Longrightarrow> waiter_ok (ps @ qs) w"
  by (auto simp: waiter_ok_def nth_append split: waiter_state.splits)

lemma pending_table_ok_live:
  "pending_table_ok s \<Longrightarrow> p < length (sv_pending s) \<Longrightarrow> \<not> finished (sv_pending s ! p) \<Longrightarrow>
     sv_table s (pt_call (sv_pending s ! p)) = Some p"
  by (simp add: pending_table_ok_def)

lemma pending_table_ok_update:
  assumes "pending_table_ok s" "grows (sv_pending s ! p) y" "finished y = finished (sv_pending s ! p)"
  shows "pending_table_ok (on_pending p (\<lambda>_. y) s)"
proof -
  have "pt_call ((sv_pending s)[p := y] ! q) = pt_call (sv_pending s ! q)"
    and "finished ((sv_pending s)[p := y] ! q) = finished (sv_pending s ! q)" if "q < length (sv_pending s)" for q
    using that assms(2,3) by (cases "p = q"; simp add: grows_def)+
  then show ?thesis using assms(1) by (simp add: pending_table_ok_def cong: conj_cong)
qed

lemma svc_inv_update:
  assumes "svc_inv s" "grows (sv_pending s ! p) y" "finished y = finished (sv_pending s ! p)" "pending_ok y"
  shows "svc_inv (on_pending p (\<lambda>_. y) s)"
  using assms pending_table_ok_update [of s p y]
  by (auto simp: svc_inv_def list_all_iff waiter_ok_grows dest: set_update_subset_insert [THEN subsetD])

lemma on_pending_const: "on_pending p f s = on_pending p (\<lambda>_. f (sv_pending s ! p)) s"
  by (simp add: on_pending_def)

lemma svc_inv_waiter:
  assumes "svc_inv s" "waiter_ok (sv_pending s) ((sv_waiters s ! w)\<lparr>wt_state := st\<rparr>)"
  shows "svc_inv (on_waiter w st s)"
  using assms by (auto simp: svc_inv_def pending_table_ok_def list_all_iff dest: set_update_subset_insert [THEN subsetD])

lemma svc_inv_pending: "svc_inv s \<Longrightarrow> p < length (sv_pending s) \<Longrightarrow> pending_ok (sv_pending s ! p)"
  by (simp add: svc_inv_def list_all_length)

lemma svc_inv_waiter_ok: "svc_inv s \<Longrightarrow> w < length (sv_waiters s) \<Longrightarrow> waiter_ok (sv_pending s) (sv_waiters s ! w)"
  by (simp add: svc_inv_def list_all_length)

text \<open>The worker statements between the transfer and the removal of the table entry.\<close>

lemma worker_grows:
  "pt_pc x = Transferring \<Longrightarrow> grows x (worker_result out x)"
  "pt_pc x = Sending out \<Longrightarrow> grows x (worker_send out x)"
  "pt_pc x = Storing out \<Longrightarrow> grows x (worker_store out x)"
  "pt_pc x = Closing out \<Longrightarrow> grows x (worker_close out x)"
  by (simp_all add: grows_def worker_result_def worker_send_def worker_store_def worker_close_def split: option.splits)

lemma worker_ok:
  "pending_ok x \<Longrightarrow> pt_pc x = Transferring \<Longrightarrow> pending_ok (worker_result out x)"
  "pending_ok x \<Longrightarrow> pt_pc x = Sending out \<Longrightarrow> pending_ok (worker_send out x)"
  "pending_ok x \<Longrightarrow> pt_pc x = Storing out \<Longrightarrow> pending_ok (worker_store out x)"
  "pending_ok x \<Longrightarrow> pt_pc x = Closing out \<Longrightarrow> pending_ok (worker_close out x)"
  by (simp_all add: pending_ok_def worker_result_def worker_send_def worker_store_def worker_close_def)

lemma worker_finished:
  "pt_pc x = Transferring \<Longrightarrow> finished (worker_result out x) = finished x"
  "pt_pc x = Sending out \<Longrightarrow> finished (worker_send out x) = finished x"
  "pt_pc x = Storing out \<Longrightarrow> finished (worker_store out x) = finished x"
  "pt_pc x = Closing out \<Longrightarrow> finished (worker_close out x) = finished x"
  by (simp_all add: finished_def worker_result_def worker_send_def worker_store_def worker_close_def split: option.splits)

lemmas worker_facts = worker_grows worker_ok worker_finished

lemma svc_inv_worker:
  assumes "svc_inv s" "p < length (sv_pending s)"
    "grows (sv_pending s ! p) (f (sv_pending s ! p))" "finished (f (sv_pending s ! p)) = finished (sv_pending s ! p)"
    "pending_ok (sv_pending s ! p) \<Longrightarrow> pending_ok (f (sv_pending s ! p))"
  shows "svc_inv (on_pending p f s)"
  unfolding on_pending_const [of p f] using assms svc_inv_pending by (intro svc_inv_update) auto

lemma recv_facts:
  assumes "chan_recv x = Some (out, y)" "pending_ok x"
  shows "grows x y" "finished y = finished x" "pending_ok y"
    "decided (pt_pc x) = Some out \<or> out = zero_out \<and> pt_closed x"
  using assms by (auto simp: chan_recv_def grows_def finished_def pending_ok_def
      split: option.splits if_splits worker_pc.splits)

lemma load_outcome_decided:
  assumes "pending_ok x" "decided (pt_pc x) = Some out \<or> out = zero_out \<and> pt_closed x"
  shows "decided (pt_pc x) = Some (load_outcome x out)"
  using assms by (auto simp: pending_ok_def load_outcome_def zero_out_def split: worker_pc.splits)

lemma svc_inv_ask:
  assumes "svc_inv s" "p < length (sv_pending s)"
  shows "svc_inv (s\<lparr>sv_waiters := sv_waiters s @ [\<lparr>wt_pid = p, wt_to = pt_to (sv_pending s ! p), wt_state = Waiting\<rparr>]\<rparr>)"
  using assms by (simp add: svc_inv_def pending_table_ok_def waiter_ok_def)

lemma svc_inv_create:
  assumes "svc_inv s" "sv_table s c = None" "getOrCreatePendingTransfer c to s = (p, isNew, t)"
  shows "svc_inv t"
proof -
  define x where "x = \<lparr>pt_call = c, pt_to = to, pt_done = None, pt_closed = False, pt_outcome = None, pt_pc = Transferring\<rparr>"
  have t: "t = s\<lparr>sv_pending := sv_pending s @ [x], sv_table := (sv_table s)(c \<mapsto> length (sv_pending s))\<rparr>"
    using assms(2,3) by (auto simp: getOrCreatePendingTransfer_def x_def Let_def)
  have x: "pt_call x = c" "\<not> finished x" "pending_ok x" by (simp_all add: x_def finished_def pending_ok_def)
  have tab: "sv_table s d = Some q \<longleftrightarrow>
      q < length (sv_pending s) \<and> pt_call (sv_pending s ! q) = d \<and> \<not> finished (sv_pending s ! q)" for d q
    using assms(1) by (simp add: svc_inv_def pending_table_ok_def)
  have "pending_table_ok t" unfolding pending_table_ok_def
  proof (intro allI)
    fix d q
    have nc: "\<not> (q < length (sv_pending s) \<and> pt_call (sv_pending s ! q) = c \<and> \<not> finished (sv_pending s ! q))"
      using tab [of c q] assms(2) by simp
    show "sv_table t d = Some q \<longleftrightarrow>
        q < length (sv_pending t) \<and> pt_call (sv_pending t ! q) = d \<and> \<not> finished (sv_pending t ! q)"
      using nc x(1,2) by (auto simp: t tab nth_append less_Suc_eq)
  qed
  then show ?thesis using assms(1) x(3) by (auto simp: svc_inv_def t list_all_iff waiter_ok_append)
qed

lemma create_fresh:
  "sv_table s c = None \<Longrightarrow> getOrCreatePendingTransfer c to s = (p, isNew, t) \<Longrightarrow>
     isNew \<and> p < length (sv_pending t) \<and> pt_to (sv_pending t ! p) = to"
  by (auto simp: getOrCreatePendingTransfer_def Let_def)

lemma request_inv:
  assumes "svc_inv s" "request_transfer perr c to s = (r, t)"
  shows "svc_inv t"
proof (cases "perr = None")
  case True
  obtain p n s1 where g: "getOrCreatePendingTransfer c to s = (p, n, s1)" by (metis prod_cases3)
  have s1: "svc_inv s1 \<and> p < length (sv_pending s1) \<and> (n \<longrightarrow> pt_to (sv_pending s1 ! p) = to)"
  proof (cases "sv_table s c")
    case None
    then show ?thesis using svc_inv_create [OF assms(1) _ g] create_fresh [OF _ g] by simp
  next
    case (Some q)
    then have "q < length (sv_pending s)" using assms(1) by (simp add: svc_inv_def pending_table_ok_def)
    then show ?thesis using Some g assms(1) by (auto simp: getOrCreatePendingTransfer_def)
  qed
  show ?thesis
  proof (cases "pt_to (sv_pending s1 ! p) = to")
    case eq: True
    then show ?thesis using assms(2) svc_inv_ask [of s1 p] s1 by (simp add: request_transfer_def True g)
  next
    case False
    then show ?thesis using assms(2) s1 by (simp add: request_transfer_def True g)
  qed
qed (use assms in \<open>auto simp: request_transfer_def\<close>)

lemma delete_inv:
  assumes "svc_inv s" "p < length (sv_pending s)" "pt_pc (sv_pending s ! p) = Deleting out"
  shows "svc_inv (worker_delete p out s)"
proof -
  let ?x = "(sv_pending s ! p)\<lparr>pt_pc := Finished out\<rparr>"
  have t: "pending_table_ok s" using assms by (simp add: svc_inv_def)
  have tp: "sv_table s (pt_call (sv_pending s ! p)) = Some p"
    using assms by (intro pending_table_ok_live [OF t]) (simp_all add: finished_def)
  have only: "q = p" if "q < length (sv_pending s)" "pt_call (sv_pending s ! q) = pt_call (sv_pending s ! p)"
      "\<not> finished (sv_pending s ! q)" for q
    using tp pending_table_ok_live [OF t that(1,3)] that(2) by simp
  have fx: "finished ?x" by (simp add: finished_def)
  have "pending_table_ok (worker_delete p out s)"
    using t assms(2) fx only by (auto simp: pending_table_ok_def worker_delete_def nth_list_update)
  moreover have "pending_ok ?x" using svc_inv_pending [OF assms(1,2)] assms(3) by (simp add: pending_ok_def)
  moreover have "grows (sv_pending s ! p) ?x" using assms by (simp add: grows_def)
  ultimately show ?thesis using assms(1)
    by (auto simp: svc_inv_def worker_delete_def list_all_iff waiter_ok_grows dest: set_update_subset_insert [THEN subsetD])
qed

lemma svc_step_inv: "svc_step s t \<Longrightarrow> svc_inv s \<Longrightarrow> svc_inv t"
proof (induction rule: svc_step.induct)
  case (request perr c to s r t)
  then show ?case by (blast intro: request_inv)
next
  case (remove p s out)
  then show ?case by (blast intro: delete_inv)
next
  case (recv w s p out x)
  have w: "waiter_ok (sv_pending s) (sv_waiters s ! w)" using recv svc_inv_waiter_ok by blast
  then have p: "p < length (sv_pending s)" using recv by (simp add: waiter_ok_def)
  note f = recv_facts [OF recv.hyps(4) svc_inv_pending [OF recv.prems p]]
  have "svc_inv (on_pending p (\<lambda>_. x) s)" using svc_inv_update [OF recv.prems f(1-3)] .
  then show ?case
    using w recv.hyps(3) p f
    by (intro svc_inv_waiter) (auto simp: waiter_ok_def grows_def)
next
  case (reply w s out p)
  have w: "waiter_ok (sv_pending s) (sv_waiters s ! w)" using reply svc_inv_waiter_ok by blast
  then have "decided (pt_pc (sv_pending s ! p)) = Some (load_outcome (sv_pending s ! p) out)"
    using reply svc_inv_pending by (intro load_outcome_decided) (auto simp: waiter_ok_def)
  then show ?case using w reply by (intro svc_inv_waiter) (auto simp: waiter_ok_def)
next
  case (cancel w s c)
  then show ?case using svc_inv_waiter_ok [of s w] by (intro svc_inv_waiter) (auto simp: waiter_ok_def)
qed (auto intro!: svc_inv_worker worker_facts)

section \<open>Refinement\<close>

lemma cell_step_inv: "cell_step a b \<Longrightarrow> cell_inv a \<Longrightarrow> cell_inv b"
proof (induction rule: cell_step.induct)
  case (ask_new a call to)
  then show ?case by (auto simp: cell_inv_def nth_append less_Suc_eq)
next
  case (ask_join i a)
  then show ?case by (auto simp: cell_inv_def nth_append less_Suc_eq)
next
  case (decide i a out)
  have "cl_result ((cs_cells a)[i := (cs_cells a ! i)\<lparr>cl_result := Some out\<rparr>] ! j) = Some o'"
    if "cl_result (cs_cells a ! j) = Some o'" for j o' using that decide by (cases "i = j") simp_all
  moreover have "cl_live ((cs_cells a)[i := (cs_cells a ! i)\<lparr>cl_result := Some out\<rparr>] ! j) = cl_live (cs_cells a ! j)"
    "cl_call ((cs_cells a)[i := (cs_cells a ! i)\<lparr>cl_result := Some out\<rparr>] ! j) = cl_call (cs_cells a ! j)" for j
    using decide by (cases "i = j"; simp)+
  ultimately show ?case using decide.prems by (simp add: cell_inv_def)
next
  case (retire i a out)
  then show ?case by (auto simp: cell_inv_def nth_list_update split: if_splits)
next
  case (answer k a i out)
  then show ?case by (auto simp: cell_inv_def nth_list_update split: if_splits)
next
  case (give_up k a out)
  then show ?case by (auto simp: cell_inv_def nth_list_update split: if_splits)
qed

interpretation cells: step_system cell_init cell_step cell_inv
  by unfold_locales (simp add: cell_init_def cell_inv_def, rule cell_step_inv)

lemma abs_svc_sel [simp]:
  "cs_cells (abs_svc s) = map abs_pending (sv_pending s)" "cs_askers (abs_svc s) = map abs_waiter (sv_waiters s)"
  by (simp_all add: abs_svc_def)

lemma abs_svc_pending:
  "abs_svc (on_pending p f s) =
     (abs_svc s)\<lparr>cs_cells := (map abs_pending (sv_pending s))[p := abs_pending (f (sv_pending s ! p))]\<rparr>"
  by (simp add: abs_svc_def map_update)

lemma abs_svc_same:
  assumes "abs_pending (f (sv_pending s ! p)) = abs_pending (sv_pending s ! p)"
  shows "abs_svc (on_pending p f s) = abs_svc s"
proof -
  have "map abs_pending ((sv_pending s)[p := f (sv_pending s ! p)])
      = map abs_pending ((sv_pending s)[p := sv_pending s ! p])"
    unfolding map_update assms ..
  then show ?thesis by (simp add: abs_svc_def)
qed

lemma abs_svc_waiter:
  assumes "w < length (sv_waiters s)"
  shows "abs_svc (on_waiter w st s) = (abs_svc s)\<lparr>cs_askers := (cs_askers (abs_svc s))[w :=
           (cs_askers (abs_svc s) ! w)\<lparr>ak_answer := ak_answer (abs_waiter ((sv_waiters s ! w)\<lparr>wt_state := st\<rparr>))\<rparr>]\<rparr>"
  using assms by (simp add: abs_svc_def map_update abs_waiter_def)

lemma abs_svc_waiter_same:
  assumes "abs_waiter ((sv_waiters s ! w)\<lparr>wt_state := st\<rparr>) = abs_waiter (sv_waiters s ! w)"
  shows "abs_svc (on_waiter w st s) = abs_svc s"
proof -
  have "map abs_waiter ((sv_waiters s)[w := (sv_waiters s ! w)\<lparr>wt_state := st\<rparr>])
      = map abs_waiter ((sv_waiters s)[w := sv_waiters s ! w])"
    unfolding map_update assms ..
  then show ?thesis by (simp add: abs_svc_def)
qed

lemma worker_abs:
  "pt_pc x = Sending out \<Longrightarrow> abs_pending (worker_send out x) = abs_pending x"
  "pt_pc x = Storing out \<Longrightarrow> abs_pending (worker_store out x) = abs_pending x"
  "pt_pc x = Closing out \<Longrightarrow> abs_pending (worker_close out x) = abs_pending x"
  "chan_recv x = Some (o', y) \<Longrightarrow> abs_pending y = abs_pending x"
  by (auto simp: abs_pending_def worker_send_def worker_store_def worker_close_def chan_recv_def finished_def
      split: option.splits if_splits)

lemma request_refines:
  assumes "svc_inv s" "request_transfer perr c to s = (r, t)"
  shows "abs_svc t = abs_svc s \<or> cell_step (abs_svc s) (abs_svc t)"
proof (cases "perr = None")
  case True
  have tab: "pending_table_ok s" using assms(1) by (simp add: svc_inv_def)
  show ?thesis
  proof (cases "sv_table s c")
    case None
    then have "\<forall>i < length (cs_cells (abs_svc s)). cl_live (cs_cells (abs_svc s) ! i) \<longrightarrow> cl_call (cs_cells (abs_svc s) ! i) \<noteq> c"
      using pending_table_ok_live [OF tab] by (auto simp: abs_pending_def)
    from cell_step.ask_new [OF this, of to] show ?thesis
      using assms(2) True None
      by (auto simp: request_transfer_def getOrCreatePendingTransfer_def Let_def abs_svc_def abs_pending_def abs_waiter_def finished_def)
  next
    case (Some p)
    then have "p < length (cs_cells (abs_svc s))" "cl_live (cs_cells (abs_svc s) ! p)"
      using tab by (simp_all add: pending_table_ok_def abs_pending_def)
    from cell_step.ask_join [OF this] show ?thesis
      using assms(2) True Some
      by (auto simp: request_transfer_def getOrCreatePendingTransfer_def abs_svc_def abs_waiter_def split: if_splits)
  qed
qed (use assms in \<open>auto simp: request_transfer_def\<close>)

lemma svc_step_refines:
  "svc_step s t \<Longrightarrow> svc_inv s \<Longrightarrow> abs_svc t = abs_svc s \<or> cell_step (abs_svc s) (abs_svc t)"
proof (induction rule: svc_step.induct)
  case (request perr c to s r t)
  then show ?case using request_refines by blast
next
  case (result p s out)
  have "cell_step (abs_svc s) ((abs_svc s)\<lparr>cs_cells := (cs_cells (abs_svc s))[p := (cs_cells (abs_svc s) ! p)\<lparr>cl_result := Some out\<rparr>]\<rparr>)"
    using result by (intro cell_step.decide) (simp_all add: abs_pending_def finished_def)
  then show ?case using result by (simp add: abs_svc_pending abs_pending_def worker_result_def finished_def)
next
  case (remove p s out)
  have "cell_step (abs_svc s) ((abs_svc s)\<lparr>cs_cells := (cs_cells (abs_svc s))[p := (cs_cells (abs_svc s) ! p)\<lparr>cl_live := False\<rparr>]\<rparr>)"
    using remove by (intro cell_step.retire [where out = out]) (simp_all add: abs_pending_def finished_def)
  then show ?case using remove
    by (simp add: worker_delete_def abs_svc_pending abs_pending_def finished_def) (simp add: abs_svc_def)
next
  case (recv w s p out x)
  have "abs_svc (on_pending p (\<lambda>_. x) s) = abs_svc s"
    by (rule abs_svc_same) (rule worker_abs(4) [OF recv.hyps(4)])
  moreover have "abs_svc (on_waiter w (Received out) (on_pending p (\<lambda>_. x) s)) = abs_svc (on_pending p (\<lambda>_. x) s)"
    using recv by (intro abs_svc_waiter_same) (simp add: abs_waiter_def)
  ultimately show ?case by simp
next
  case (reply w s out p)
  have w: "waiter_ok (sv_pending s) (sv_waiters s ! w)" using reply svc_inv_waiter_ok by blast
  then have "decided (pt_pc (sv_pending s ! p)) = Some (load_outcome (sv_pending s ! p) out)"
    using reply svc_inv_pending by (intro load_outcome_decided) (auto simp: waiter_ok_def)
  then have "cell_step (abs_svc s) ((abs_svc s)\<lparr>cs_askers := (cs_askers (abs_svc s))[w :=
      (cs_askers (abs_svc s) ! w)\<lparr>ak_answer := Some (Inr (load_outcome (sv_pending s ! p) out))\<rparr>]\<rparr>)"
    using reply w by (intro cell_step.answer [where i = p]) (simp_all add: abs_waiter_def abs_pending_def waiter_ok_def)
  then show ?case using reply by (simp add: abs_svc_waiter abs_waiter_def)
next
  case (cancel w s c)
  then have "cell_step (abs_svc s) ((abs_svc s)\<lparr>cs_askers := (cs_askers (abs_svc s))[w :=
      (cs_askers (abs_svc s) ! w)\<lparr>ak_answer := Some (Inl (cancelled_out c))\<rparr>]\<rparr>)"
    by (intro cell_step.give_up) (simp_all add: abs_waiter_def)
  then show ?case using cancel by (simp add: abs_svc_waiter abs_waiter_def)
qed (simp_all add: abs_svc_same worker_abs)

interpretation transfers: simulation svc_init svc_step svc_inv cell_init cell_step abs_svc
proof unfold_locales
  show "svc_init s \<Longrightarrow> svc_inv s" for s by (simp add: svc_init_def svc_inv_def pending_table_ok_def)
  show "svc_init s \<Longrightarrow> cell_init (abs_svc s)" for s by (simp add: svc_init_def cell_init_def)
qed (use svc_step_inv svc_step_refines in blast)+

section \<open>What the requests can rely on\<close>

text \<open>Driving a transfer whose outcome is known to the point where a waiter has it.\<close>

lemma run_worker:
  assumes "decided (pt_pc (sv_pending s ! p)) = Some out" "svc_inv s" "p < length (sv_pending s)"
  shows "\<exists>t. svc_step\<^sup>*\<^sup>* s t \<and> svc_inv t \<and> sv_waiters t = sv_waiters s \<and> p < length (sv_pending t) \<and>
           decided (pt_pc (sv_pending t ! p)) = Some out \<and> pt_closed (sv_pending t ! p)"
proof -
  let ?goal = "\<lambda>s. \<exists>t. svc_step\<^sup>*\<^sup>* s t \<and> svc_inv t \<and> sv_waiters t = sv_waiters s \<and> p < length (sv_pending t) \<and>
           decided (pt_pc (sv_pending t ! p)) = Some out \<and> pt_closed (sv_pending t ! p)"
  have shut: "?goal s" if "pt_closed (sv_pending s ! p)" "svc_inv s" "p < length (sv_pending s)"
      "decided (pt_pc (sv_pending s ! p)) = Some out" for s
    using that by blast
  have next_: "?goal s" if "svc_step s (on_pending p f s)" "svc_inv s" "?goal (on_pending p f s)" for s f
    using that by (auto intro: converse_rtranclp_into_rtranclp)
  have closing: "?goal s" if "pt_pc (sv_pending s ! p) = Closing out" "svc_inv s" "p < length (sv_pending s)" for s
  proof (rule next_ [OF svc_step.shut [OF that(3,1)] that(2)])
    show "?goal (on_pending p (worker_close out) s)"
      using that svc_step_inv [OF svc_step.shut [OF that(3,1)]] by (intro shut) (simp_all add: worker_close_def)
  qed
  have storing: "?goal s" if "pt_pc (sv_pending s ! p) = Storing out" "svc_inv s" "p < length (sv_pending s)" for s
  proof (rule next_ [OF svc_step.store [OF that(3,1)] that(2)])
    show "?goal (on_pending p (worker_store out) s)"
      using that svc_step_inv [OF svc_step.store [OF that(3,1)]] by (intro closing) (simp_all add: worker_store_def)
  qed
  have sending: "?goal s" if "pt_pc (sv_pending s ! p) = Sending out" "svc_inv s" "p < length (sv_pending s)" for s
  proof (rule next_ [OF svc_step.send [OF that(3,1)] that(2)])
    show "?goal (on_pending p (worker_send out) s)"
      using that svc_step_inv [OF svc_step.send [OF that(3,1)]]
      by (intro storing) (simp_all add: worker_send_def split: option.splits)
  qed
  show ?thesis
  proof (cases "pt_closed (sv_pending s ! p)")
    case True
    then show ?thesis using assms shut by blast
  next
    case False
    then have "pt_pc (sv_pending s ! p) \<in> {Sending out, Storing out, Closing out}"
      using assms(1) svc_inv_pending [OF assms(2,3)] by (cases "pt_pc (sv_pending s ! p)") (simp_all add: pending_ok_def)
    then show ?thesis using assms sending storing closing by blast
  qed
qed

lemma recv_closed: "pt_closed x \<Longrightarrow> \<exists>out y. chan_recv x = Some (out, y)"
  by (cases "pt_done x") (simp_all add: chan_recv_def)

lemma run_reply:
  assumes "svc_inv s" "w < length (sv_waiters s)" "wt_state (sv_waiters s ! w) = Received o'"
    "decided (pt_pc (sv_pending s ! wt_pid (sv_waiters s ! w))) = Some out"
  shows "\<exists>t. svc_step\<^sup>*\<^sup>* s t \<and> wt_state (sv_waiters t ! w) = Returned out"
proof -
  let ?p = "wt_pid (sv_waiters s ! w)" and ?l = "load_outcome (sv_pending s ! wt_pid (sv_waiters s ! w)) o'"
  have w: "waiter_ok (sv_pending s) (sv_waiters s ! w)" using assms svc_inv_waiter_ok by blast
  have "decided (pt_pc (sv_pending s ! ?p)) = Some ?l"
    using assms w svc_inv_pending by (intro load_outcome_decided) (auto simp: waiter_ok_def)
  then have "?l = out" using assms(4) by simp
  then have "svc_step s (on_waiter w (Returned out) s)"
    using svc_step.reply [OF assms(2,3) refl] by simp
  then show ?thesis using assms(2) by (intro exI [of _ "on_waiter w (Returned out) s"]) simp
qed

lemma run_recv:
  assumes "svc_inv s" "w < length (sv_waiters s)" "wt_state (sv_waiters s ! w) = Waiting"
    "decided (pt_pc (sv_pending s ! wt_pid (sv_waiters s ! w))) = Some out"
    "pt_closed (sv_pending s ! wt_pid (sv_waiters s ! w))"
  shows "\<exists>t. svc_step\<^sup>*\<^sup>* s t \<and> wt_state (sv_waiters t ! w) = Returned out"
proof -
  let ?p = "wt_pid (sv_waiters s ! w)"
  obtain o' y where r: "chan_recv (sv_pending s ! ?p) = Some (o', y)" using recv_closed assms(5) by blast
  let ?t = "on_waiter w (Received o') (on_pending ?p (\<lambda>_. y) s)"
  have st: "svc_step s ?t" using svc_step.recv [OF assms(2,3) refl r] .
  have p: "?p < length (sv_pending s)" using svc_inv_waiter_ok [OF assms(1,2)] by (simp add: waiter_ok_def)
  have "decided (pt_pc y) = Some out"
    using recv_facts(1) [OF r svc_inv_pending [OF assms(1) p]] assms(4) by (simp add: grows_def)
  then have "\<exists>u. svc_step\<^sup>*\<^sup>* ?t u \<and> wt_state (sv_waiters u ! w) = Returned out"
    using assms(2) p svc_step_inv [OF st assms(1)] by (intro run_reply) simp_all
  then show ?thesis using st by (blast intro: converse_rtranclp_into_rtranclp)
qed

text \<open>
  A run of the service: two requests for the same transfer, which succeeds; the first takes the outcome
  out of the channel and returns before the worker stores it, the second still waits.
\<close>

definition demo_out :: transfer_out where
  "demo_out = \<lparr>to_id = ''ST_1'', to_err = None\<rparr>"

definition demo_wait :: transfer_svc where
  "demo_wait =
     snd (request_transfer None ''c'' ''tel:1'' (snd (request_transfer None ''c'' ''tel:1''
       \<lparr>sv_pending = [], sv_table = (\<lambda>_. None), sv_waiters = []\<rparr>)))"

definition demo_sent :: transfer_svc where
  "demo_sent = on_pending 0 (worker_send demo_out) (on_pending 0 (worker_result demo_out) demo_wait)"

definition demo_svc :: transfer_svc where
  "demo_svc = on_waiter 0 (Returned demo_out)
     (on_waiter 0 (Received demo_out) (on_pending 0 (\<lambda>x. x\<lparr>pt_done := None\<rparr>) demo_sent))"

lemmas demo_defs = demo_wait_def demo_sent_def demo_svc_def request_transfer_def getOrCreatePendingTransfer_def
  worker_send_def worker_result_def on_pending_def on_waiter_def

lemma reach_request:
  "reach svc_init svc_step s \<Longrightarrow> reach svc_init svc_step (snd (request_transfer perr c to s))"
  by (rule reach.reach_step, assumption) (rule svc_step.request [OF surjective_pairing])

lemma demo_wait_reach: "reach svc_init svc_step demo_wait"
  unfolding demo_wait_def by (intro reach_request reach.reach_init) (simp add: svc_init_def)

lemma demo_sent_reach: "reach svc_init svc_step demo_sent"
proof -
  have "svc_step demo_wait (on_pending 0 (worker_result demo_out) demo_wait)"
    by (rule svc_step.result) (simp_all add: demo_defs)
  moreover have "svc_step (on_pending 0 (worker_result demo_out) demo_wait) demo_sent"
    unfolding demo_sent_def by (rule svc_step.send) (simp_all add: demo_defs)
  ultimately show ?thesis using demo_wait_reach by (blast intro: reach.reach_step)
qed

lemma demo_svc_reach: "reach svc_init svc_step demo_svc"
proof -
  let ?r = "on_waiter 0 (Received demo_out) (on_pending 0 (\<lambda>_. (sv_pending demo_sent ! 0)\<lparr>pt_done := None\<rparr>) demo_sent)"
  have "svc_step demo_sent ?r"
    by (rule svc_step.recv) (simp_all add: demo_defs chan_recv_def)
  moreover have "svc_step ?r (on_waiter 0 (Returned (load_outcome (sv_pending ?r ! 0) demo_out)) ?r)"
    by (rule svc_step.reply) (simp_all add: demo_defs)
  moreover have "on_waiter 0 (Returned (load_outcome (sv_pending ?r ! 0) demo_out)) ?r = demo_svc"
    by (simp add: demo_defs load_outcome_def demo_out_def)
  ultimately show ?thesis using demo_sent_reach by (metis reach.reach_step)
qed

text \<open>
  C7: The pending transfers refine a table of write-once cells.  Whatever the interleaving of requests,
  workers and waiters, each state the service reaches corresponds to a state of the abstract system, and
  each of its steps either leaves that state alone or is a step of it: a transfer is opened only if the
  call has no live one, its outcome is written once, and an answer is the outcome of the cell asked for.
\<close>

theorem transfer_queue_refines:
  assumes "reach svc_init svc_step s"
  shows "reach cell_init cell_step (abs_svc s) \<and>
         (\<forall>t. svc_step s t \<longrightarrow> abs_svc t = abs_svc s \<or> cell_step (abs_svc s) (abs_svc t))"
  using transfers.sim_reach [OF assms] transfers.sim_step [OF transfers.reach_inv [OF assms]] by blast

theorem transfer_queue_refines_witness:
  "reach svc_init svc_step demo_svc \<and> reach cell_init cell_step (abs_svc demo_svc)"
  using demo_svc_reach transfer_queue_refines [OF demo_svc_reach] by blast

text \<open>
  C11: All requests that wait for the same transfer and are not cancelled return the outcome of its
  worker, the same for all of them although the channel carries it only once; they asked for the target
  that transfer has; and a call has at most one transfer at a time.
\<close>

theorem waiters_agree:
  assumes "reach svc_init svc_step s"
  shows "(\<forall>w < length (sv_waiters s). \<forall>out. wt_state (sv_waiters s ! w) = Returned out \<longrightarrow>
            decided (pt_pc (sv_pending s ! wt_pid (sv_waiters s ! w))) = Some out) \<and>
         (\<forall>w < length (sv_waiters s). wt_to (sv_waiters s ! w) = pt_to (sv_pending s ! wt_pid (sv_waiters s ! w))) \<and>
         (\<forall>i < length (sv_pending s). \<forall>j < length (sv_pending s).
            \<not> finished (sv_pending s ! i) \<and> \<not> finished (sv_pending s ! j) \<and>
            pt_call (sv_pending s ! i) = pt_call (sv_pending s ! j) \<longrightarrow> i = j)"
proof -
  have i: "svc_inv s" by (rule transfers.reach_inv [OF assms])
  have a: "cell_inv (abs_svc s)" by (rule transfers.sim_transfer [OF assms cells.reach_inv])
  show ?thesis
  proof (intro conjI allI impI)
    fix w out
    assume w: "w < length (sv_waiters s)" "wt_state (sv_waiters s ! w) = Returned out"
    then show "decided (pt_pc (sv_pending s ! wt_pid (sv_waiters s ! w))) = Some out"
      using svc_inv_waiter_ok [OF i w(1)] by (simp add: waiter_ok_def)
  next
    fix w
    assume "w < length (sv_waiters s)"
    then show "wt_to (sv_waiters s ! w) = pt_to (sv_pending s ! wt_pid (sv_waiters s ! w))"
      using svc_inv_waiter_ok [OF i] by (simp add: waiter_ok_def)
  next
    fix i j
    assume "i < length (sv_pending s)" "j < length (sv_pending s)"
      "\<not> finished (sv_pending s ! i) \<and> \<not> finished (sv_pending s ! j) \<and>
         pt_call (sv_pending s ! i) = pt_call (sv_pending s ! j)"
    then show "i = j" using a by (simp add: cell_inv_def abs_pending_def)
  qed
qed

theorem waiters_agree_witness:
  "wt_state (sv_waiters demo_svc ! 0) = Returned demo_out \<and>
   decided (pt_pc (sv_pending demo_svc ! wt_pid (sv_waiters demo_svc ! 0))) = Some demo_out \<and>
   wt_to (sv_waiters demo_svc ! 1) = ''tel:1''"
proof -
  have l: "length (sv_waiters demo_svc) = 2" "wt_state (sv_waiters demo_svc ! 0) = Returned demo_out"
    "pt_to (sv_pending demo_svc ! wt_pid (sv_waiters demo_svc ! 1)) = ''tel:1''" by (simp_all add: demo_defs)
  then show ?thesis using waiters_agree [OF demo_svc_reach] by simp
qed

text \<open>
  C32: A request is never left waiting: once the worker has the outcome of the transfer, the goroutines
  can always be run on until the request returns that outcome, however many requests wait and whichever
  of them took the value out of the channel.
\<close>

theorem waiting_request_answered:
  assumes "reach svc_init svc_step s" "w < length (sv_waiters s)"
    "wt_state (sv_waiters s ! w) = Waiting \<or> (\<exists>o'. wt_state (sv_waiters s ! w) = Received o')"
    "decided (pt_pc (sv_pending s ! wt_pid (sv_waiters s ! w))) = Some out"
  shows "\<exists>t. svc_step\<^sup>*\<^sup>* s t \<and> wt_state (sv_waiters t ! w) = Returned out"
proof -
  have i: "svc_inv s" by (rule transfers.reach_inv [OF assms(1)])
  have p: "wt_pid (sv_waiters s ! w) < length (sv_pending s)"
    using svc_inv_waiter_ok [OF i assms(2)] by (simp add: waiter_ok_def)
  from run_worker [OF assms(4) i p] obtain t where t: "svc_step\<^sup>*\<^sup>* s t" "svc_inv t" "sv_waiters t = sv_waiters s"
    "decided (pt_pc (sv_pending t ! wt_pid (sv_waiters s ! w))) = Some out"
    "pt_closed (sv_pending t ! wt_pid (sv_waiters s ! w))" by blast
  have "\<exists>u. svc_step\<^sup>*\<^sup>* t u \<and> wt_state (sv_waiters u ! w) = Returned out"
    using assms(2,3) t run_recv [of t w out] run_reply [of t w _ out] by auto
  then show ?thesis using t(1) by (blast intro: rtranclp_trans)
qed

theorem waiting_request_answered_witness:
  "\<exists>t. svc_step\<^sup>*\<^sup>* demo_svc t \<and> wt_state (sv_waiters t ! 1) = Returned demo_out"
  by (rule waiting_request_answered [OF demo_svc_reach]) (simp_all add: demo_defs)

end
