(* ===== verification/ReferProtocol.thy ===== *)
theory ReferProtocol
  imports CallTermination
begin

text \<open>
  The REFER side of a cold transfer, from \<open>pkg/sip/protocol.go\<close>: parsing a NOTIFY (event package,
  sipfrag status line, Subscription-State), deciding what a NOTIFY says about the transfer
  (\<open>handleReferNotify\<close>) and waiting for the outcome (\<open>waitReferResult\<close>, a select over the events that
  can arrive).  \<open>grpc\<close> stands for \<open>psrpc.GetErrorCode\<close> on a SIP status.
\<close>

section \<open>Subscription-State\<close>

record subscription_state =
  ss_state :: string
  ss_reason :: string
  ss_expires :: int

definition ss_zero :: subscription_state where
  "ss_zero = \<lparr>ss_state = [], ss_reason = [], ss_expires = 0\<rparr>"

definition Terminated :: "subscription_state \<Rightarrow> bool" where
  "Terminated s = (ss_state s = ''terminated'')"

definition SubscriptionState_String :: "subscription_state \<Rightarrow> string" where
  "SubscriptionState_String s =
     (if ss_state s = [] then ''<none>''
      else if ss_reason s = [] then ss_state s
      else ss_state s @ '';reason='' @ ss_reason s)"

definition subscription_param :: "string \<Rightarrow> subscription_state \<Rightarrow> subscription_state" where
  "subscription_param line st =
     (case cut_on CHR ''='' (trim_space line) of
        (_, None) \<Rightarrow> st
      | (k, Some v) \<Rightarrow>
          let key = to_lower (trim_space k); val = trim_space v in
          if key = ''reason'' then st\<lparr>ss_reason := to_lower val\<rparr>
          else if key = ''expires'' then st\<lparr>ss_expires := fst (atoi val)\<rparr>
          else st)"

definition ParseSubscriptionState :: "string \<Rightarrow> subscription_state" where
  "ParseSubscriptionState header =
     (let list = split_on CHR '';'' header in
      fold subscription_param (tl list) (ss_zero\<lparr>ss_state := to_lower (trim_space (hd list))\<rparr>))"

lemma subscription_param_state [simp]: "ss_state (subscription_param l st) = ss_state st"
  by (auto simp: subscription_param_def Let_def split: option.splits prod.splits)

lemma fold_subscription_state [simp]: "ss_state (fold subscription_param ls st) = ss_state st"
  by (induction ls arbitrary: st) simp_all

section \<open>The sipfrag status line\<close>

definition parseNotifyBody :: "string \<Rightarrow> go_error + int \<times> string" where
  "parseNotifyBody body =
     (let v = split_n 3 CHR '' '' body in
      if length v < 2 then Inl (Psrpc InvalidArgument (Plain ''invalid notify body: not enough tokens''))
      else if to_upper (v ! 0) \<noteq> ''SIP/2.0'' then
        Inl (Psrpc InvalidArgument (Plain ''invalid notify body: wrong prefix or SIP version''))
      else case parse_int 32 (v ! 1) of
        (_, Some _) \<Rightarrow> Inl (Psrpc InvalidArgument (Plain ''strconv.ParseInt''))
      | (code, None) \<Rightarrow>
          if code < 100 \<or> code > 699 then
            Inl (Psrpc InvalidArgument (Plain ''invalid notify body: status out of range''))
          else if length v < 3 then Inr (code, [])
          else (case cut_on (CHR 0x0A) (v ! 2) of
                  (_, None) \<Rightarrow> Inr (code, v ! 2)
                | (line, Some _) \<Rightarrow> Inr (code, trim_suffix line [CHR 0x0D])))"

section \<open>NOTIFY\<close>

text \<open>What \<open>handleNotify\<close> reads of the request: the Event header or its short form, Subscription-State, body.\<close>

record notify_req =
  nr_event :: "string option"
  nr_event_short :: "string option"
  nr_sub_state :: "string option"
  nr_body :: string

datatype notify_method = NotifyREFER | NotifyOther

record notify_info =
  ni_method :: notify_method
  ni_cseq :: nat
  ni_status :: int
  ni_reason :: string
  ni_sub :: subscription_state

text \<open>
  \<open>referIdRegexp\<close>, \<open>^refer(;id=(\d+))?$\<close>: the result is the second submatch, empty if the group is
  absent.
\<close>

definition refer_id :: "string \<Rightarrow> string option" where
  "refer_id ev =
     (if ev = ''refer'' then Some []
      else if has_prefix ev ''refer;id='' \<and> drop 9 ev \<noteq> [] \<and> list_all is_digit (drop 9 ev)
      then Some (drop 9 ev) else None)"

definition handleNotify :: "notify_req \<Rightarrow> go_error + notify_info" where
  "handleNotify req =
     (case (case nr_event req of Some e \<Rightarrow> Some e | None \<Rightarrow> nr_event_short req) of
        None \<Rightarrow> Inl (Psrpc MalformedRequest (Plain ''no event in NOTIFY request''))
      | Some event \<Rightarrow>
     (case refer_id (to_lower event) of
        None \<Rightarrow> Inl (Psrpc Unimplemented (Plain ''unknown event''))
      | Some idstr \<Rightarrow>
          let info = \<lparr>ni_method = NotifyREFER, ni_cseq = fst (parse_uint 32 idstr), ni_status = 0,
                      ni_reason = [],
                      ni_sub = (case nr_sub_state req of None \<Rightarrow> ss_zero
                                | Some h \<Rightarrow> ParseSubscriptionState h)\<rparr>;
              body = trim_space (nr_body req)
          in if body = [] then Inr info
             else (case parseNotifyBody body of
                     Inl e \<Rightarrow> Inl e
                   | Inr (status, reason) \<Rightarrow> Inr (info\<lparr>ni_status := status, ni_reason := reason\<rparr>))))"

text \<open>
  \<open>handleReferNotify\<close>: \<open>None\<close> when nothing is handed over, \<open>Some r\<close> when the result \<open>r\<close> (\<open>None\<close> is nil,
  success) is offered on the unbuffered channel \<open>referDone\<close>.
\<close>

definition refer_failure_code :: "(sip_status \<Rightarrow> psrpc_code) \<Rightarrow> sip_status \<Rightarrow> psrpc_code" where
  "refer_failure_code grpc st =
     (let c = grpc st in
      if c = Internal \<or> c = Unavailable then
        (if st_code st < 500 \<or> st_code st \<ge> 600 then UpstreamClientError else UpstreamServerError)
      else c)"

definition handleReferNotify ::
  "(sip_status \<Rightarrow> psrpc_code) \<Rightarrow> notify_info \<Rightarrow> nat \<Rightarrow> go_error option option" where
  "handleReferNotify grpc info referCseq =
     (if ni_cseq info \<noteq> 0 \<and> ni_cseq info \<noteq> referCseq then None
      else if ni_status info = 200 then Some None
      else if ni_status info = 0 \<or> 100 \<le> ni_status info \<and> ni_status info < 200 then
        (if \<not> Terminated (ni_sub info) then None
         else Some (Some (Psrpc UpstreamServerError
                (Wrapped ''call transfer failed'' (Sentinel ErrReferSubscriptionTerminated)))))
      else
        let st = \<lparr>st_code = ni_status info, st_text = ni_reason info\<rparr> in
        Some (Some (Psrpc (refer_failure_code grpc st)
               (Wrapped ''call transfer failed'' (SIPStatusErr st)))))"

text \<open>The answer \<open>onNotify\<close> sends to the NOTIFY itself.\<close>

definition notify_answer :: "(go_error \<Rightarrow> string) \<Rightarrow> notify_req \<Rightarrow> int \<times> string" where
  "notify_answer text req =
     (case handleNotify req of
        Inl e \<Rightarrow> sipCodeAndMessageFromError text (Some e)
      | Inr _ \<Rightarrow> sipCodeAndMessageFromError text None)"

section \<open>Waiting for the outcome\<close>

datatype refer_event = CtxDone sentinel | ReferDone "go_error option" | CallDone | GraceElapsed

text \<open>
  The two selects of \<open>waitReferResult\<close> over the events in the order they are taken: \<open>waitGrace\<close> is the
  inner one, entered when the call ended first.  \<open>None\<close> means still waiting.
\<close>

fun waitGrace :: "refer_event list \<Rightarrow> go_error option option" where
  "waitGrace [] = None"
| "waitGrace (ReferDone r # es) = Some r"
| "waitGrace (GraceElapsed # es) = Some (Some (Psrpc Aborted (Sentinel ErrTransferCallEnded)))"
| "waitGrace (e # es) = waitGrace es"

fun waitReferResult :: "refer_event list \<Rightarrow> go_error option option" where
  "waitReferResult [] = None"
| "waitReferResult (CtxDone s # es) = Some (Some (Psrpc Canceled (Wrapped ''refer canceled'' (Sentinel s))))"
| "waitReferResult (ReferDone r # es) = Some r"
| "waitReferResult (CallDone # es) = waitGrace es"
| "waitReferResult (GraceElapsed # es) = waitReferResult es"

text \<open>
  What reaches a waiting transfer: NOTIFYs, which go through \<open>handleReferNotify\<close>, and the other events.
\<close>

datatype transfer_input = GotNotify notify_info | OtherInput refer_event

fun transfer_event ::
  "(sip_status \<Rightarrow> psrpc_code) \<Rightarrow> nat \<Rightarrow> transfer_input \<Rightarrow> refer_event list" where
  "transfer_event grpc cs (GotNotify info) =
     (case handleReferNotify grpc info cs of None \<Rightarrow> [] | Some r \<Rightarrow> [ReferDone r])"
| "transfer_event grpc cs (OtherInput e) = (case e of ReferDone _ \<Rightarrow> [] | _ \<Rightarrow> [e])"

definition transfer_outcome ::
  "(sip_status \<Rightarrow> psrpc_code) \<Rightarrow> nat \<Rightarrow> transfer_input list \<Rightarrow> go_error option option" where
  "transfer_outcome grpc cs ins = waitReferResult (concat (map (transfer_event grpc cs) ins))"

text \<open>The response \<open>sendRefer\<close> accepts: 200 or 202; anything else is a SIP status error.\<close>

definition refer_response :: "int \<Rightarrow> string \<Rightarrow> go_error option" where
  "refer_response status reason =
     (if status = 200 \<or> status = 202 then None
      else Some (SIPStatusErr \<lparr>st_code = status, st_text = reason\<rparr>))"

section \<open>Lemmas\<close>

lemma waitGrace_nil: "waitGrace es = Some None \<Longrightarrow> ReferDone None \<in> set es"
  by (induction es rule: waitGrace.induct) auto

lemma waitReferResult_nil: "waitReferResult es = Some None \<Longrightarrow> ReferDone None \<in> set es"
  by (induction es rule: waitReferResult.induct) (auto dest: waitGrace_nil)

lemma handleReferNotify_success:
  "handleReferNotify grpc info cs = Some None \<longleftrightarrow>
     ni_status info = 200 \<and> (ni_cseq info = 0 \<or> ni_cseq info = cs)"
  by (auto simp: handleReferNotify_def Let_def)

lemma transfer_event_success:
  "ReferDone None \<in> set (transfer_event grpc cs i) \<Longrightarrow>
     \<exists>info. i = GotNotify info \<and> ni_status info = 200 \<and> (ni_cseq info = 0 \<or> ni_cseq info = cs)"
  by (cases i) (auto split: option.splits refer_event.splits dest!: handleReferNotify_success [THEN iffD1, OF sym])

lemma waitGrace_ends: "ReferDone r \<in> set es \<Longrightarrow> \<exists>x. waitGrace es = Some x"
  by (induction es rule: waitGrace.induct) auto

lemma waitReferResult_ends: "ReferDone r \<in> set es \<Longrightarrow> \<exists>x. waitReferResult es = Some x"
  by (induction es rule: waitReferResult.induct) (auto dest: waitGrace_ends)

lemma parseNotifyBody_range: "parseNotifyBody b = Inr (c, r) \<Longrightarrow> 100 \<le> c \<and> c \<le> 699"
  by (auto simp: parseNotifyBody_def Let_def split: if_splits prod.splits option.splits)

lemma split_n_3:
  "CHR '' '' \<notin> set a \<Longrightarrow> CHR '' '' \<notin> set b \<Longrightarrow>
     split_n 3 CHR '' '' (a @ CHR '' '' # b @ CHR '' '' # r) = [a, b, r]"
  by (simp add: numeral_3_eq_3 cut_on_append)

lemma parseNotifyBody_line:
  assumes "100 \<le> c" and "c \<le> 699"
  shows "parseNotifyBody (''SIP/2.0'' @ CHR '' '' # itoa_nat c @ CHR '' '' # text) =
    (case cut_on (CHR 0x0A) text of
       (_, None) \<Rightarrow> Inr (int c, text)
     | (line, Some _) \<Rightarrow> Inr (int c, trim_suffix line [CHR 0x0D]))"
proof -
  have nsp: "CHR '' '' \<notin> set (itoa_nat c)" using is_digit_not itoa_nat_set by blast
  have s: "split_n 3 CHR '' '' (''SIP/2.0'' @ CHR '' '' # itoa_nat c @ CHR '' '' # text) =
      [''SIP/2.0'', itoa_nat c, text]"
    by (rule split_n_3) (simp_all add: nsp)
  have p: "parse_int 32 (itoa_nat c) = (int c, None)"
    using assms by (intro parse_int_itoa_nat) simp
  have u: "to_upper ''SIP/2.0'' = ''SIP/2.0''" by code_simp
  show ?thesis
    unfolding parseNotifyBody_def s using assms by (simp add: p u Let_def)
qed

lemma trim_suffix_absent: "c \<notin> set s \<Longrightarrow> trim_suffix s [c] = s"
  by (cases s rule: rev_cases) (auto simp: trim_suffix_def)

lemma trim_suffix_snoc: "trim_suffix (s @ [c]) [c] = s"
  by (simp add: trim_suffix_def)

section \<open>Properties\<close>

text \<open>
  A transfer is reported as completed only if a NOTIFY with status 200 arrived for this REFER:
  its event id is either absent or the CSeq of the REFER that was sent.  In particular neither the end
  of the call nor a provisional status ever counts as success.
\<close>

theorem transfer_success_needs_200:
  assumes "transfer_outcome grpc cs ins = Some None"
  shows "\<exists>info. GotNotify info \<in> set ins \<and> ni_status info = 200 \<and> (ni_cseq info = 0 \<or> ni_cseq info = cs)"
proof -
  have "ReferDone None \<in> set (concat (map (transfer_event grpc cs) ins))"
    using assms unfolding transfer_outcome_def by (rule waitReferResult_nil)
  then show ?thesis by (auto dest: transfer_event_success)
qed

theorem transfer_success_needs_200_witness:
  "\<exists>info. GotNotify info \<in> set
      [GotNotify \<lparr>ni_method = NotifyREFER, ni_cseq = 7, ni_status = 100, ni_reason = [], ni_sub = ss_zero\<rparr>,
       OtherInput CallDone,
       GotNotify \<lparr>ni_method = NotifyREFER, ni_cseq = 7, ni_status = 200, ni_reason = ''OK'', ni_sub = ss_zero\<rparr>] \<and>
      ni_status info = 200 \<and> (ni_cseq info = 0 \<or> ni_cseq info = 7)"
proof -
  have "transfer_outcome (\<lambda>_. Internal) 7
      [GotNotify \<lparr>ni_method = NotifyREFER, ni_cseq = 7, ni_status = 100, ni_reason = [], ni_sub = ss_zero\<rparr>,
       OtherInput CallDone,
       GotNotify \<lparr>ni_method = NotifyREFER, ni_cseq = 7, ni_status = 200, ni_reason = ''OK'', ni_sub = ss_zero\<rparr>]
     = Some None"
    by (simp add: transfer_outcome_def handleReferNotify_def Terminated_def ss_zero_def)
  then show ?thesis by (rule transfer_success_needs_200)
qed

text \<open>
  Reading a sipfrag status line gives back the code and the reason phrase it was printed from, for
  every SIP response code and every line ending (none, LF or CR LF, with anything after it); and
  no accepted line carries a code outside 100 to 699.
\<close>

theorem parseNotifyBody_print:
  assumes "100 \<le> c" and "c \<le> 699" and "CHR 0x0A \<notin> set reason" and "CHR 0x0D \<notin> set reason"
    and "eol = [CHR 0x0A] \<or> eol = [CHR 0x0D, CHR 0x0A] \<or> eol = [] \<and> rest = []"
  shows "parseNotifyBody (''SIP/2.0'' @ '' '' @ itoa (int c) @ '' '' @ reason @ eol @ rest) = Inr (int c, reason)
    \<and> (parseNotifyBody body = Inr (d, r) \<longrightarrow> 100 \<le> d \<and> d \<le> 699)"
proof -
  have "parseNotifyBody (''SIP/2.0'' @ CHR '' '' # itoa_nat c @ CHR '' '' # reason @ eol @ rest) = Inr (int c, reason)"
    using assms(5)
  proof (elim disjE)
    assume "eol = [CHR 0x0A]"
    then show ?thesis
      using assms by (simp only: parseNotifyBody_line) (simp add: cut_on_append trim_suffix_absent)
  next
    assume e: "eol = [CHR 0x0D, CHR 0x0A]"
    have "cut_on (CHR 0x0A) ((reason @ [CHR 0x0D]) @ CHR 0x0A # rest) = (reason @ [CHR 0x0D], Some rest)"
      using assms(3) by (intro cut_on_append) simp
    then show ?thesis
      using assms(1,2) e by (simp only: parseNotifyBody_line) (simp add: trim_suffix_snoc)
  next
    assume "eol = [] \<and> rest = []"
    then show ?thesis
      using assms by (simp only: parseNotifyBody_line) (simp add: cut_on_absent)
  qed
  then show ?thesis by (simp add: itoa_def) (blast dest: parseNotifyBody_range)
qed

theorem parseNotifyBody_print_witness:
  "parseNotifyBody (''SIP/2.0'' @ '' '' @ itoa (int 603) @ '' '' @ ''Declined'' @ [CHR 0x0D, CHR 0x0A] @ ''x'') =
     Inr (603, ''Declined'')"
  using parseNotifyBody_print [of 603 "''Declined''" "[CHR 0x0D, CHR 0x0A]" "''x''"] by simp

text \<open>
  A transfer never waits past the last word of the notifier: any NOTIFY for this REFER that carries
  a final status, or that terminates the subscription, ends the wait, whatever else happens before or
  after it.
\<close>

theorem decisive_notify_ends_wait:
  assumes "GotNotify info \<in> set ins" and "ni_cseq info = 0 \<or> ni_cseq info = cs"
    and "200 \<le> ni_status info \<or> Terminated (ni_sub info)"
  shows "\<exists>r. transfer_outcome grpc cs ins = Some r"
proof -
  have "handleReferNotify grpc info cs \<noteq> None"
    using assms(2,3) by (auto simp: handleReferNotify_def Let_def)
  then obtain r where "handleReferNotify grpc info cs = Some r" by blast
  then have "ReferDone r \<in> set (concat (map (transfer_event grpc cs) ins))"
    using assms(1) by force
  then show ?thesis unfolding transfer_outcome_def by (rule waitReferResult_ends)
qed

theorem decisive_notify_ends_wait_witness:
  "\<exists>r. transfer_outcome (\<lambda>_. Internal) 3
     [OtherInput CallDone,
      GotNotify \<lparr>ni_method = NotifyREFER, ni_cseq = 0, ni_status = 100, ni_reason = [],
        ni_sub = ss_zero\<lparr>ss_state := ''terminated''\<rparr>\<rparr>] = Some r"
  by (rule decisive_notify_ends_wait [of "\<lparr>ni_method = NotifyREFER, ni_cseq = 0, ni_status = 100,
        ni_reason = [], ni_sub = ss_zero\<lparr>ss_state := ''terminated''\<rparr>\<rparr>"])
     (simp_all add: Terminated_def)

end
