(* ===== verification/TransferService.thy ===== *)
theory TransferService
  imports TransferQueue CallState CallMonitor InboundDialog OutboundDialog ReferProtocol
begin

text \<open>
  Cold transfers from the RPC request to the REFER.  \<open>pkg/sip/service.go\<close>: the provider check, the answer
  of \<open>TransferSIPParticipant\<close>, \<open>processParticipantTransfer\<close> with its metrics and the reason label
  of a failure.  \<open>transferCall\<close> of an inbound and of an outbound call (\<open>pkg/sip/inbound.go\<close>,
  \<open>pkg/sip/outbound.go\<close>): reporting, the dial tone, which takes the room's audio away from the caller, and
  the hangup after a success.  \<open>sendRefer\<close> (\<open>pkg/sip/protocol.go\<close>) and \<open>TransferCall\<close> of the dialogs.
  \<open>short_name\<close> is the generated name of a SIP status code; \<open>msg\<close> the text of an error.
\<close>

section \<open>The answer to the request\<close>

datatype transfer_reason =
    STR_UNSPECIFIED | STR_COMPLETED | STR_CALL_ENDED | STR_SUBSCRIPTION_TERMINATED | STR_REJECTED
  | STR_RINGING_TIMEOUT

record transfer_resp =
  tr_id :: string
  tr_status :: transfer_status
  tr_reason :: transfer_reason
  tr_sip_status :: "sip_status option"

definition transferResponse :: "transfer_out \<Rightarrow> transfer_resp" where
  "transferResponse out =
     (let resp = \<lparr>tr_id = to_id out, tr_status = TRANSFER_SUCCESSFUL, tr_reason = STR_COMPLETED, tr_sip_status = None\<rparr> in
      case to_err out of
        None \<Rightarrow> resp
      | Some e \<Rightarrow>
          let failed = resp\<lparr>tr_status := TRANSFER_FAILED, tr_reason := STR_UNSPECIFIED\<rparr> in
          if errors_is e ErrTransferCallEnded then failed\<lparr>tr_reason := STR_CALL_ENDED\<rparr>
          else if errors_is e ErrReferSubscriptionTerminated then failed\<lparr>tr_reason := STR_SUBSCRIPTION_TERMINATED\<rparr>
          else (case as_sip_status (chain e) of
                  Some st \<Rightarrow> failed\<lparr>tr_reason := STR_REJECTED, tr_sip_status := Some st\<rparr>
                | None \<Rightarrow>
                    if errors_is e CtxDeadlineExceeded then failed\<lparr>tr_reason := STR_RINGING_TIMEOUT\<rparr> else failed))"

text \<open>\<open>TransferSIPParticipant\<close> given the outcome \<open>transferSIPParticipant\<close> returns.\<close>

definition TransferSIPParticipant ::
  "(sip_status \<Rightarrow> psrpc_code) \<Rightarrow> transfer_out \<Rightarrow> transfer_resp \<times> go_error option" where
  "TransferSIPParticipant grpc out =
     (case to_err out of
        Some e \<Rightarrow>
          if errors_is e ErrTransferCallEnded then (transferResponse out, None)
          else (transferResponse out, ApplySIPStatus grpc (Some e))
      | None \<Rightarrow> (transferResponse out, ApplySIPStatus grpc None))"

definition extractTransferErrorReason :: "(int \<Rightarrow> string) \<Rightarrow> go_error option \<Rightarrow> string" where
  "extractTransferErrorReason short_name err =
     (case err of
        None \<Rightarrow> ''unknown''
      | Some e \<Rightarrow>
     (case as_sip_status (chain e) of
        Some st \<Rightarrow> to_lower (short_name (st_code st))
      | None \<Rightarrow>
          if errors_is e ErrTransferCallEnded then ''call_ended''
          else if errors_is e ErrReferSubscriptionTerminated then ''refer_terminated''
          else (case as_psrpc (chain e) of
                  Some c \<Rightarrow>
                    (case c of
                       NotFound \<Rightarrow> ''not_found'' | Canceled \<Rightarrow> ''canceled'' | DeadlineExceeded \<Rightarrow> ''timeout''
                     | InvalidArgument \<Rightarrow> ''invalid_argument'' | Internal \<Rightarrow> ''internal_error'' | _ \<Rightarrow> ''psrpc_error'')
                | None \<Rightarrow>
                    if errors_is e CtxCanceled then ''canceled''
                    else if errors_is e CtxDeadlineExceeded then ''timeout''
                    else ''other'')))"

section \<open>Looking up the call\<close>

record provider_info =
  pv_internal :: bool
  pv_prevent_transfer :: bool

definition validateCallProvider :: "provider_info option \<Rightarrow> go_error option" where
  "validateCallProvider p =
     (case p of
        None \<Rightarrow> None
      | Some i \<Rightarrow>
          if pv_internal i \<and> pv_prevent_transfer i
          then Some (Psrpc Unimplemented (Plain ''we don't yet support transfers for this phone number type''))
          else None)"

text \<open>\<open>outs\<close> and \<open>ins\<close> are the tables of outbound and inbound calls, with the provider of each call.\<close>

definition checkInternalProviderRequest ::
  "(string \<Rightarrow> provider_info option option) \<Rightarrow> (string \<Rightarrow> provider_info option option) \<Rightarrow> string \<Rightarrow> go_error option" where
  "checkInternalProviderRequest outs ins callID =
     (case outs callID of
        Some p \<Rightarrow> validateCallProvider p
      | None \<Rightarrow>
          (case ins callID of
             Some p \<Rightarrow> validateCallProvider p
           | None \<Rightarrow> Some (Psrpc NotFound (Plain ''unknown call''))))"

section \<open>REFER\<close>

text \<open>\<open>RPanic\<close>: building the request panics.  \<open>RWaiting\<close>: the events seen so far do not end the wait.\<close>

datatype refer_run = RPanic | RWaiting | RDone "go_error option"

text \<open>
  \<open>sendRefer\<close>: \<open>terr\<close> is the error of creating the transaction.  The context is stripped of its
  cancellation, so it never ends the wait.
\<close>

definition sendRefer :: "go_error option \<Rightarrow> tx_event list \<Rightarrow> refer_run" where
  "sendRefer terr txs =
     (case terr of
        Some e \<Rightarrow> RDone (Some e)
      | None \<Rightarrow>
          (case sipResponse 0 (filter (\<lambda>e. e \<noteq> TxCtxDone) txs) of
             None \<Rightarrow> RWaiting
           | Some (_, Inl e, _) \<Rightarrow> RDone (Some e)
           | Some (_, Inr r, _) \<Rightarrow> RDone (refer_response (or_status r) (or_reason r))))"

definition refer_wait ::
  "(sip_status \<Rightarrow> psrpc_code) \<Rightarrow> nat \<Rightarrow> go_error option \<Rightarrow> tx_event list \<Rightarrow> transfer_input list \<Rightarrow> refer_run" where
  "refer_wait grpc cseq terr txs ins =
     (case sendRefer terr txs of
        RDone None \<Rightarrow> (case transfer_outcome grpc cseq ins of None \<Rightarrow> RWaiting | Some r \<Rightarrow> RDone r)
      | r \<Rightarrow> r)"

text \<open>\<open>TransferCall\<close> of an inbound dialog and \<open>transferCall\<close> of an outbound one.\<close>

definition TransferCall ::
  "sip_lib \<Rightarrow> inbound_conf \<Rightarrow> (sip_status \<Rightarrow> psrpc_code) \<Rightarrow> (smap \<times> smap) option \<Rightarrow> string \<Rightarrow> smap
    \<Rightarrow> go_error option \<Rightarrow> tx_event list \<Rightarrow> transfer_input list \<Rightarrow> sip_inbound \<Rightarrow> refer_run \<times> sip_inbound" where
  "TransferCall L conf grpc fh transferTo headers terr txs ins s =
     (case newReferReq L conf fh transferTo headers s of
        None \<Rightarrow> (RPanic, s)
      | Some (Inl e, s') \<Rightarrow> (RDone (Some e), s')
      | Some (Inr req, s') \<Rightarrow>
          (refer_wait grpc (unat (si_refer_cseq s')) terr txs ins, emit (SendRefer req) s'))"

definition transferCall_out ::
  "(sip_status \<Rightarrow> psrpc_code) \<Rightarrow> (smap \<times> smap) option \<Rightarrow> bool \<Rightarrow> string \<Rightarrow> smap
    \<Rightarrow> go_error option \<Rightarrow> tx_event list \<Rightarrow> transfer_input list \<Rightarrow> sip_outbound \<Rightarrow> refer_run \<times> sip_outbound" where
  "transferCall_out grpc fh closing transferTo headers terr txs ins s =
     (case refer_out fh closing transferTo headers s of
        None \<Rightarrow> (RPanic, s)
      | Some (Some e, s') \<Rightarrow> (RDone (Some e), s')
      | Some (None, s') \<Rightarrow> (refer_wait grpc (unat (so_refer_cseq s')) terr txs ins, s'))"

section \<open>transferCall of a call\<close>

text \<open>
  The leg of a call as a transfer sees it.  \<open>tl_output\<close> is the writer the room's audio goes to, and
  \<open>tl_closed\<close> the writers that were closed; \<open>tl_ended\<close> is \<open>done\<close> of an inbound and \<open>stopped\<close> of an outbound
  call; \<open>tl_hangup\<close> says that the hangup after \<open>referByeTimeout\<close> is armed.
\<close>

record transfer_leg =
  tl_state :: call_state
  tl_started :: bool
  tl_ended :: bool
  tl_output :: "nat option"
  tl_closed :: "nat list"
  tl_hangup :: bool

definition SwapOutput :: "nat option \<Rightarrow> transfer_leg \<Rightarrow> nat option \<times> transfer_leg" where
  "SwapOutput w l = (tl_output l, l\<lparr>tl_output := w\<rparr>)"

text \<open>
  Both functions with the result \<open>err\<close> of the dialog's REFER; \<open>during\<close> is what happened to the leg
  meanwhile.  The deferred functions run last to first: the audio, then \<open>EndTransfer\<close>.  \<open>None\<close> is the
  panic of closing a nil writer.
\<close>

definition release_in :: "go_error option \<Rightarrow> nat option \<Rightarrow> transfer_leg \<Rightarrow> transfer_leg" where
  "release_in err w l =
     (if err \<noteq> None \<and> \<not> tl_ended l then snd (SwapOutput w l)
      else (case w of Some n \<Rightarrow> l\<lparr>tl_closed := tl_closed l @ [n]\<rparr> | None \<Rightarrow> l))"

definition inbound_transferCall ::
  "(go_error \<Rightarrow> string) \<Rightarrow> string \<Rightarrow> int \<Rightarrow> int \<Rightarrow> bool \<Rightarrow> string \<Rightarrow> go_error option
    \<Rightarrow> (transfer_leg \<Rightarrow> transfer_leg) \<Rightarrow> transfer_leg \<Rightarrow> transfer_out \<times> transfer_leg" where
  "inbound_transferCall msg tid start fin dialtone transferTo err during l =
     (let l1 = l\<lparr>tl_state := StartTransfer tid start transferTo (tl_state l)\<rparr>;
          tone = (dialtone \<and> tl_started l1 \<and> \<not> tl_ended l1);
          (w, l2) = (if tone then SwapOutput None l1 else (None, l1));
          l3 = during l2;
          l4 = (if err = None then l3\<lparr>tl_hangup := True\<rparr> else l3);
          l5 = (if tone then release_in err w l4 else l4)
      in (\<lparr>to_id = tid, to_err = err\<rparr>, l5\<lparr>tl_state := EndTransfer msg tid fin err (tl_state l5)\<rparr>))"

definition release_out :: "go_error option \<Rightarrow> nat option \<Rightarrow> transfer_leg \<Rightarrow> transfer_leg option" where
  "release_out err w l =
     (if err \<noteq> None \<and> \<not> tl_ended l then Some (snd (SwapOutput w l))
      else (case w of Some n \<Rightarrow> Some (l\<lparr>tl_closed := tl_closed l @ [n]\<rparr>) | None \<Rightarrow> None))"

definition outbound_transferCall ::
  "(go_error \<Rightarrow> string) \<Rightarrow> string \<Rightarrow> int \<Rightarrow> int \<Rightarrow> bool \<Rightarrow> string \<Rightarrow> go_error option
    \<Rightarrow> (transfer_leg \<Rightarrow> transfer_leg) \<Rightarrow> transfer_leg \<Rightarrow> (transfer_out \<times> transfer_leg) option" where
  "outbound_transferCall msg tid start fin dialtone transferTo err during l =
     (let l1 = l\<lparr>tl_state := StartTransfer tid start transferTo (tl_state l)\<rparr>;
          tone = (dialtone \<and> tl_started l1 \<and> \<not> tl_ended l1);
          (w, l2) = (if tone then SwapOutput None l1 else (None, l1));
          l3 = during l2;
          l4 = (if err = None then l3\<lparr>tl_hangup := True\<rparr> else l3)
      in case (if tone then release_out err w l4 else Some l4) of
           None \<Rightarrow> None
         | Some l5 \<Rightarrow> Some (\<lparr>to_id = tid, to_err = err\<rparr>, l5\<lparr>tl_state := EndTransfer msg tid fin err (tl_state l5)\<rparr>))"

section \<open>processParticipantTransfer\<close>

text \<open>
  \<open>outs\<close> and \<open>ins\<close> map a call to the outcome its \<open>transferCall\<close> returns.
\<close>

definition counted_transfer :: "(int \<Rightarrow> string) \<Rightarrow> call_dir \<Rightarrow> transfer_out \<Rightarrow> metrics \<Rightarrow> metrics" where
  "counted_transfer short_name d out ms =
     (let ms1 = TransferStarted d ms in
      case to_err out of
        Some e \<Rightarrow> TransferFailed d (extractTransferErrorReason short_name (Some e)) True ms1
      | None \<Rightarrow> TransferSucceeded d ms1)"

definition processParticipantTransfer ::
  "(int \<Rightarrow> string) \<Rightarrow> (string \<Rightarrow> transfer_out option) \<Rightarrow> (string \<Rightarrow> transfer_out option) \<Rightarrow> string \<Rightarrow> metrics
    \<Rightarrow> transfer_out \<times> metrics" where
  "processParticipantTransfer short_name outs ins callID ms =
     (case outs callID of
        Some out \<Rightarrow> (out, counted_transfer short_name Outbound out ms)
      | None \<Rightarrow>
          (case ins callID of
             Some out \<Rightarrow> (out, counted_transfer short_name Inbound out ms)
           | None \<Rightarrow>
               (failed_out (Psrpc NotFound (Plain ''unknown call'')),
                TransferFailed Inbound ''unknown_call'' False ms)))"

section \<open>Capacity\<close>

text \<open>\<open>sampleMap\<close>: the values of the map in the order of the iteration.\<close>

fun sample_loop :: "int \<Rightarrow> ('v \<Rightarrow> string) \<Rightarrow> 'v list \<Rightarrow> string list" where
  "sample_loop limit sample [] = []"
| "sample_loop limit sample (v # vs) =
     (let s = sample v; out = (if s \<noteq> [] then [s] else []) in
      if limit - 1 \<le> 0 then out else out @ sample_loop (limit - 1) sample vs)"

definition sampleMap :: "int \<Rightarrow> 'v list \<Rightarrow> ('v \<Rightarrow> string) \<Rightarrow> string list \<times> nat" where
  "sampleMap limit m sample = (sample_loop limit sample m, length m)"

record active_calls =
  ac_inbound :: nat
  ac_outbound :: nat
  ac_samples :: "string list"

definition ActiveCalls :: "string list \<Rightarrow> string list \<Rightarrow> active_calls" where
  "ActiveCalls outs ins =
     (let (so, no) = sampleMap 5 outs id; (si, ni) = sampleMap 5 ins id
      in \<lparr>ac_inbound = ni, ac_outbound = no, ac_samples = so @ si\<rparr>)"

definition ActiveCalls_Total :: "active_calls \<Rightarrow> nat" where
  "ActiveCalls_Total st = ac_outbound st + ac_inbound st"

text \<open>The arithmetic of \<open>float32\<close> is that of an ordered field.\<close>

definition CreateSIPParticipantAffinity ::
  "string list \<Rightarrow> int \<Rightarrow> string \<Rightarrow> active_calls \<Rightarrow> 'a::linordered_field" where
  "CreateSIPParticipantAffinity trunkIds maxActive trunk st =
     (if trunkIds \<noteq> [] \<and> trunk \<notin> set trunkIds then 0
      else
        let active = of_nat (ActiveCalls_Total st); mx = of_int maxActive in
        if mx > 0 then (if active \<ge> mx then 0 else 1 - active / mx)
        else 1 / (1 + active))"

end
