(* ===== verification/TransferServiceProps.thy ===== *)
theory TransferServiceProps
  imports TransferService InboundDialogProps Complex_Main
begin

text \<open>
  Properties of transfers: what the caller of the RPC is told, what a success requires of the peer, that the
  transfer metrics balance, what happens to the audio of the call, and the affinity of a node.
\<close>

section \<open>Success\<close>

lemma transfer_outcome_success:
  assumes "transfer_outcome grpc cs ins = Some None"
  shows "\<exists>info. GotNotify info \<in> set ins \<and> ni_status info = 200 \<and> (ni_cseq info = 0 \<or> ni_cseq info = cs)"
  using waitReferResult_nil [OF assms [unfolded transfer_outcome_def]] by (auto dest: transfer_event_success)

lemma sipResponse_final:
  "sipResponse n es = Some (b, Inr r, st) \<Longrightarrow> TxResponse r \<in> set es \<and> or_status r div 100 \<noteq> 1"
  by (induction n es arbitrary: st rule: sipResponse.induct) (auto split: if_splits option.splits)

lemma sendRefer_accepted:
  assumes "sendRefer terr txs = RDone None"
  shows "terr = None \<and> (\<exists>r. TxResponse r \<in> set txs \<and> or_status r \<in> {200, 202})"
proof -
  obtain b r st where "terr = None" "sipResponse 0 (filter (\<lambda>e. e \<noteq> TxCtxDone) txs) = Some (b, Inr r, st)"
    "refer_response (or_status r) (or_reason r) = None"
    using assms by (auto simp: sendRefer_def split: option.splits prod.splits sum.splits)
  then show ?thesis using sipResponse_final by (fastforce simp: refer_response_def split: if_splits)
qed

lemma refer_wait_success:
  assumes "refer_wait grpc cseq terr txs ins = RDone None"
  shows "(\<exists>r. TxResponse r \<in> set txs \<and> or_status r \<in> {200, 202}) \<and>
         (\<exists>info. GotNotify info \<in> set ins \<and> ni_status info = 200 \<and> (ni_cseq info = 0 \<or> ni_cseq info = cseq))"
proof -
  have "sendRefer terr txs = RDone None" "transfer_outcome grpc cseq ins = Some None"
    using assms by (auto simp: refer_wait_def split: refer_run.splits option.splits)
  then show ?thesis using sendRefer_accepted transfer_outcome_success by blast
qed

lemma newReferReq_sent:
  assumes "newReferReq L conf fh to h s = Some (Inr req, s')"
  shows "si_invite_ok s \<noteq> None \<and> rq_cseq req = Some (si_refer_cseq s')"
  using assms by (auto simp: newReferReq_def Let_def split: option.splits if_splits prod.splits)

text \<open>
  C8: An inbound call counts as transferred only if it was answered, the REFER that was sent was accepted
  with 200 or 202, and a NOTIFY with status 200 arrived whose event id is absent or the CSeq of that REFER.
  Neither the end of the call nor the caller's timeout nor a closed transaction produces a success.
\<close>

theorem transfer_success_path:
  assumes "TransferCall L conf grpc fh to h terr txs ins s = (RDone None, s')"
  shows "si_invite_ok s \<noteq> None \<and>
         (\<exists>req cseq. si_trace s' \<noteq> [] \<and> last (si_trace s') = SendRefer req \<and> rq_cseq req = Some cseq \<and>
            (\<exists>r. TxResponse r \<in> set txs \<and> or_status r \<in> {200, 202}) \<and>
            (\<exists>info. GotNotify info \<in> set ins \<and> ni_status info = 200 \<and>
               (ni_cseq info = 0 \<or> ni_cseq info = unat cseq)))"
proof -
  obtain req s1 where r: "newReferReq L conf fh to h s = Some (Inr req, s1)"
      "refer_wait grpc (unat (si_refer_cseq s1)) terr txs ins = RDone None" "s' = emit (SendRefer req) s1"
    using assms by (auto simp: TransferCall_def split: option.splits prod.splits sum.splits)
  have "si_trace s' \<noteq> []" "last (si_trace s') = SendRefer req" using r(3) by (simp_all add: emit_def)
  then show ?thesis using newReferReq_sent [OF r(1)] refer_wait_success [OF r(2)] by blast
qed

theorem transfer_success_path_witness:
  "\<exists>s' req. TransferCall sample_lib sample_conf (\<lambda>_. Internal) None ''sip:bob'' [] None
       [TxResponse \<lparr>or_status = 202, or_reason = [], or_to = None, or_contact = None, or_record_routes = [],
          or_headers = [], or_body = []\<rparr>]
       [GotNotify \<lparr>ni_method = NotifyREFER, ni_cseq = 0, ni_status = 200, ni_reason = [], ni_sub = ss_zero\<rparr>]
       (sample_dialog\<lparr>si_invite_ok := Some (plain_response 200 [] [])\<rparr>) = (RDone None, s')
     \<and> last (si_trace s') = SendRefer req"
proof -
  let ?s = "sample_dialog\<lparr>si_invite_ok := Some (plain_response 200 [] [])\<rparr>"
  obtain req s1 where r: "newReferReq sample_lib sample_conf None ''sip:bob'' [] ?s = Some (Inr req, s1)"
    by (simp add: newReferReq_def NewReferRequest_def sample_invite_def dialog_setCSeq_def setCSeq_def
        swapSrcDst_def Let_def)
  have t: "TransferCall sample_lib sample_conf (\<lambda>_. Internal) None ''sip:bob'' [] None
       [TxResponse \<lparr>or_status = 202, or_reason = [], or_to = None, or_contact = None, or_record_routes = [],
          or_headers = [], or_body = []\<rparr>]
       [GotNotify \<lparr>ni_method = NotifyREFER, ni_cseq = 0, ni_status = 200, ni_reason = [], ni_sub = ss_zero\<rparr>] ?s
     = (RDone None, emit (SendRefer req) s1)"
    by (simp add: TransferCall_def r refer_wait_def sendRefer_def refer_response_def transfer_outcome_def handleReferNotify_def)
  then show ?thesis using transfer_success_path [OF t] by blast
qed

section \<open>The answer\<close>

text \<open>
  What the caller of the RPC is told.  The status is successful exactly if the transfer succeeded; the
  error is nil for a success and, deliberately, for a call that ended first, and then the status still
  says failed; a SIP status is attached exactly to a rejection, and the transfer id is always passed on.
\<close>

theorem transfer_answer:
  "let (resp, err) = TransferSIPParticipant grpc out;
       ended = (case to_err out of None \<Rightarrow> False | Some e \<Rightarrow> errors_is e ErrTransferCallEnded)
   in (err = None \<longleftrightarrow> to_err out = None \<or> ended) \<and>
      (tr_status resp = TRANSFER_SUCCESSFUL \<longleftrightarrow> to_err out = None) \<and>
      (tr_reason resp = STR_COMPLETED \<longleftrightarrow> to_err out = None) \<and>
      (tr_reason resp = STR_CALL_ENDED \<longleftrightarrow> ended) \<and>
      (tr_sip_status resp \<noteq> None \<longleftrightarrow> tr_reason resp = STR_REJECTED) \<and>
      tr_id resp = to_id out"
  by (cases "to_err out")
     (auto simp: TransferSIPParticipant_def transferResponse_def ApplySIPStatus_def Let_def split: option.splits)

section \<open>Metrics\<close>

lemma counted_transfer_metrics:
  "counted_transfer sn d out ms (TransfersActive, l) = ms (TransfersActive, l)"
  "counted_transfer sn d out ms (TransfersTotal, [(''dir'', dir_string d)]) = ms (TransfersTotal, [(''dir'', dir_string d)]) + 1"
  "counted_transfer sn d out ms (TransfersSucceeded, [(''dir'', dir_string d)]) =
     ms (TransfersSucceeded, [(''dir'', dir_string d)]) + (if to_err out = None then 1 else 0)"
  "to_err out = Some e \<Longrightarrow>
     counted_transfer sn d out ms (TransfersFailed, [(''dir'', dir_string d), (''reason'', extractTransferErrorReason sn (Some e))])
       = ms (TransfersFailed, [(''dir'', dir_string d), (''reason'', extractTransferErrorReason sn (Some e))]) + 1"
  by (auto simp: counted_transfer_def TransferStarted_def TransferSucceeded_def TransferFailed_def Let_def inc_def dec_def
      split: option.splits)

text \<open>
  Every transfer of a known call is counted once as started and once as succeeded or failed (in the
  direction of the call), and the gauge of active transfers is back where it was; a transfer of an
  unknown call changes neither the gauge nor the number of started transfers.
\<close>

theorem transfer_metrics_balanced:
  "(\<forall>l. snd (processParticipantTransfer sn outs ins c ms) (TransfersActive, l) = ms (TransfersActive, l)) \<and>
   (case (outs c, ins c) of
      (None, None) \<Rightarrow>
        (\<forall>l. snd (processParticipantTransfer sn outs ins c ms) (TransfersTotal, l) = ms (TransfersTotal, l)) \<and>
        to_err (fst (processParticipantTransfer sn outs ins c ms)) \<noteq> None
    | (out, inb) \<Rightarrow>
        let d = (if out = None then Inbound else Outbound); ls = [(''dir'', dir_string d)];
            (res, ms') = processParticipantTransfer sn outs ins c ms
        in Some res = (if out = None then inb else out) \<and>
           ms' (TransfersTotal, ls) = ms (TransfersTotal, ls) + 1 \<and>
           ms' (TransfersSucceeded, ls) = ms (TransfersSucceeded, ls) + (if to_err res = None then 1 else 0))"
  by (auto simp: processParticipantTransfer_def counted_transfer_metrics TransferFailed_def failed_out_def Let_def inc_def
      split: option.splits)

section \<open>Audio during a transfer\<close>

lemma inbound_transfer_sel:
  assumes "\<And>l. tl_output (during l) = tl_output l" "\<And>l. tl_closed (during l) = tl_closed l"
    "dialtone \<and> tl_started l \<and> \<not> tl_ended l"
  shows "tl_output (snd (inbound_transferCall msg tid a b dialtone to err during l)) =
           (if err \<noteq> None \<and> \<not> tl_ended (snd (inbound_transferCall msg tid a b dialtone to err during l))
            then tl_output l else None)"
    "tl_closed (snd (inbound_transferCall msg tid a b dialtone to err during l)) = tl_closed l @
           (if err \<noteq> None \<and> \<not> tl_ended (snd (inbound_transferCall msg tid a b dialtone to err during l))
            then [] else (case tl_output l of None \<Rightarrow> [] | Some w \<Rightarrow> [w]))"
  using assms by (auto simp: inbound_transferCall_def release_in_def SwapOutput_def Let_def split: option.splits)

lemma outbound_transfer_panics:
  "outbound_transferCall msg tid a b dialtone to err during l = None \<longleftrightarrow>
     dialtone \<and> tl_started l \<and> \<not> tl_ended l \<and> tl_output l = None \<and>
     (err = None \<or> tl_ended (during (l\<lparr>tl_state := StartTransfer tid a to (tl_state l), tl_output := None\<rparr>)))"
  by (auto simp: outbound_transferCall_def release_out_def SwapOutput_def Let_def split: option.splits)

text \<open>
  While a transfer plays the dial tone, the room's audio is taken off an inbound call.  If the transfer
  fails and the call is still up, the very writer that was removed is back and open; otherwise it is
  closed once and the room has no output left.  Nothing else is closed.
\<close>

theorem dialtone_restores_audio:
  assumes "\<And>l. tl_output (during l) = tl_output l" "\<And>l. tl_closed (during l) = tl_closed l"
    "dialtone" "tl_started l" "\<not> tl_ended l" "tl_output l = Some w"
    "inbound_transferCall msg tid a b dialtone to err during l = (out, l')"
  shows "if err \<noteq> None \<and> \<not> tl_ended l' then tl_output l' = Some w \<and> tl_closed l' = tl_closed l
         else tl_output l' = None \<and> tl_closed l' = tl_closed l @ [w]"
  using inbound_transfer_sel [of during dialtone l msg tid a b to err] assms by simp

definition demo_leg :: transfer_leg where
  "demo_leg = \<lparr>tl_state = \<lparr>cs_info = undefined, cs_transfers = [], cs_dirty = False, cs_sent = []\<rparr>, tl_started = True,
     tl_ended = False, tl_output = Some 4, tl_closed = [], tl_hangup = False\<rparr>"

theorem dialtone_restores_audio_witness:
  "tl_output (snd (inbound_transferCall (\<lambda>_. []) ''t'' 1 2 True ''tel:1'' (Some (Plain [])) id demo_leg)) = Some 4"
proof -
  obtain out l' where r: "inbound_transferCall (\<lambda>_. []) ''t'' 1 2 True ''tel:1'' (Some (Plain [])) id demo_leg = (out, l')"
    by (meson surj_pair)
  then have "\<not> tl_ended l'"
    by (auto simp: inbound_transferCall_def release_in_def SwapOutput_def Let_def demo_leg_def)
  then show ?thesis
    using dialtone_restores_audio [OF _ _ _ _ _ _ r, of 4] r by (simp add: demo_leg_def)
qed

text \<open>
  An outbound call lacks the check for a missing writer: a second transfer with dial tone within the
  time a call stays up after the first one succeeded panics as soon as it succeeds too, since the first
  one left the room without an output; the inbound side survives the same sequence.
\<close>

theorem second_transfer_panics:
  assumes "tl_started l" "\<not> tl_ended l"
    "outbound_transferCall msg tid a b True to None id l = Some (out, l')"
  shows "outbound_transferCall msg tid2 a2 b2 True to2 None id l' = None \<and>
         tl_output (snd (inbound_transferCall msg tid2 a2 b2 True to2 None id l')) = None"
proof -
  have "tl_started l'" "\<not> tl_ended l'" "tl_output l' = None"
    using assms by (auto simp: outbound_transferCall_def release_out_def SwapOutput_def Let_def split: option.splits)
  then show ?thesis
    by (simp add: outbound_transfer_panics inbound_transfer_sel)
qed

theorem second_transfer_panics_witness:
  "outbound_transferCall (\<lambda>_. []) ''u'' 3 4 True ''tel:2'' None id
     (snd (the (outbound_transferCall (\<lambda>_. []) ''t'' 1 2 True ''tel:1'' None id demo_leg))) = None"
proof -
  have "outbound_transferCall (\<lambda>_. []) ''t'' 1 2 True ''tel:1'' None id demo_leg \<noteq> None"
    by (simp add: outbound_transfer_panics demo_leg_def)
  then obtain out l' where r: "outbound_transferCall (\<lambda>_. []) ''t'' 1 2 True ''tel:1'' None id demo_leg = Some (out, l')"
    by auto
  then show ?thesis using second_transfer_panics [OF _ _ r, of "''u''" 3 4 "''tel:2''"] by (simp add: demo_leg_def)
qed

section \<open>Affinity\<close>

lemma sample_loop_bound: "length (sample_loop n f xs) \<le> nat (max 1 n)"
proof (induction xs arbitrary: n)
  case (Cons x xs)
  have "n > 1 \<Longrightarrow> Suc (nat (max 1 (n - 1))) \<le> nat n \<or> n = 2 \<and> nat (max 1 (n - 1)) = 1" by linarith
  then show ?case using Cons.IH [of "n - 1"] by (auto simp: Let_def)
qed simp

lemma affinity_mono:
  fixes x :: "'a::linordered_field"
  assumes "0 \<le> x" "x \<le> y"
  shows "(if 0 < m then if m \<le> y then 0 else 1 - y / m else 1 / (1 + y)) \<le>
         (if 0 < m then if m \<le> x then 0 else 1 - x / m else 1 / (1 + x))"
proof (cases "0 < m")
  case True
  then have "x / m \<le> y / m" using assms by (simp add: divide_right_mono)
  then show ?thesis using True assms by (auto simp: not_le)
next
  case False
  then show ?thesis using assms by (simp add: frac_le add_pos_nonneg)
qed

text \<open>
  The affinity of a node for a new call lies between 0 and 1; it is 0 exactly if the node does not
  serve the trunk or is at its limit of active calls, and it falls as the number of calls grows.  The
  sample of call identifiers beside it never exceeds ten.
\<close>

theorem affinity_bounds:
  fixes st :: active_calls
  shows "0 \<le> (CreateSIPParticipantAffinity ts mx t st :: 'a::linordered_field) \<and>
         (CreateSIPParticipantAffinity ts mx t st :: 'a) \<le> 1 \<and>
         ((CreateSIPParticipantAffinity ts mx t st :: 'a) = 0 \<longleftrightarrow>
            ts \<noteq> [] \<and> t \<notin> set ts \<or> 0 < mx \<and> mx \<le> int (ActiveCalls_Total st)) \<and>
         (ActiveCalls_Total st \<le> ActiveCalls_Total st' \<longrightarrow>
            (CreateSIPParticipantAffinity ts mx t st' :: 'a) \<le> CreateSIPParticipantAffinity ts mx t st) \<and>
         length (ac_samples (ActiveCalls outs ins)) \<le> 10"
proof (intro conjI impI)
  let ?n = "of_nat (ActiveCalls_Total st) :: 'a" and ?m = "of_int mx :: 'a"
  have n: "0 \<le> ?n" by simp
  have cmp: "?m \<le> ?n \<longleftrightarrow> mx \<le> int (ActiveCalls_Total st)" by (metis of_int_le_iff of_int_of_nat_eq)
  have frac: "0 < ?m \<Longrightarrow> ?n < ?m \<Longrightarrow> ?n / ?m < 1 \<and> 0 \<le> ?n / ?m" by simp
  show "0 \<le> (CreateSIPParticipantAffinity ts mx t st :: 'a)"
    using frac n by (auto simp: CreateSIPParticipantAffinity_def Let_def not_le)
  have inv: "1 / (1 + ?n) \<le> 1" using n by (simp add: divide_le_eq_1 add_pos_nonneg)
  show "(CreateSIPParticipantAffinity ts mx t st :: 'a) \<le> 1"
    using frac inv by (auto simp: CreateSIPParticipantAffinity_def Let_def not_le)
  show "((CreateSIPParticipantAffinity ts mx t st :: 'a) = 0 \<longleftrightarrow>
            ts \<noteq> [] \<and> t \<notin> set ts \<or> 0 < mx \<and> mx \<le> int (ActiveCalls_Total st))"
  proof -
    have "1 + ?n \<noteq> 0" using n by (metis add_nonneg_eq_0_iff zero_le_one zero_neq_one)
    then show ?thesis using frac cmp by (auto simp: CreateSIPParticipantAffinity_def Let_def not_le)
  qed
  show "length (ac_samples (ActiveCalls outs ins)) \<le> 10"
    using sample_loop_bound [of 5 id outs] sample_loop_bound [of 5 id ins]
    by (simp add: ActiveCalls_def sampleMap_def)
next
  assume le: "ActiveCalls_Total st \<le> ActiveCalls_Total st'"
  then have "(of_nat (ActiveCalls_Total st) :: 'a) \<le> of_nat (ActiveCalls_Total st')" by simp
  from affinity_mono [OF of_nat_0_le_iff this, of "of_int mx"]
  show "(CreateSIPParticipantAffinity ts mx t st' :: 'a) \<le> CreateSIPParticipantAffinity ts mx t st"
    by (simp only: CreateSIPParticipantAffinity_def Let_def) simp
qed

theorem affinity_bounds_witness:
  "(CreateSIPParticipantAffinity [] 10 [] \<lparr>ac_inbound = 5, ac_outbound = 2, ac_samples = []\<rparr> :: real)
     \<le> CreateSIPParticipantAffinity [] 10 [] \<lparr>ac_inbound = 3, ac_outbound = 2, ac_samples = []\<rparr>"
  using affinity_bounds [where 'a = real and ts = "[]" and mx = 10 and t = "[]" and outs = "[]" and ins = "[]" and
      st = "\<lparr>ac_inbound = 3, ac_outbound = 2, ac_samples = []\<rparr>" and
      st' = "\<lparr>ac_inbound = 5, ac_outbound = 2, ac_samples = []\<rparr>"]
  by (simp add: ActiveCalls_Total_def)

end
