(* ===== verification/MediaStream.thy ===== *)
theory MediaStream
  imports CallMonitor
begin

text \<open>
  The packet path of incoming media: \<open>pkg/sip/silence_filler.go\<close>, the stream statistics and payload names of
  \<open>pkg/sip/media.go\<close>, the latency accumulator of \<open>pkg/sip/media_latency.go\<close>, and of
  \<open>pkg/sip/media_pipeline.go\<close> the digit handler and the read loop.  Sequence numbers, timestamps and event
  identifiers are machine words.  \<open>fps\<close> is \<open>rtp.DefFramesPerSec\<close> and \<open>mtu\<close> is \<open>rtp.MTUSize\<close> of the media
  library, whose decoders and sinks are arguments too.  Event counters are natural numbers.
\<close>

unbundle bit_operations_syntax

record rtp_header =
  rh_seq :: u16
  rh_ts :: u32
  rh_pt :: u8

section \<open>Silence filler\<close>

record silence_filler =
  sf_max_gap :: int
  sf_rtp_spf :: int
  sf_pcm_spf :: int
  sf_last_ts :: u64
  sf_last_seq :: u64
  sf_packets :: nat
  sf_gap_count :: nat
  sf_gap_sum :: u64

definition WithMaxGapSize :: "int \<Rightarrow> silence_filler \<Rightarrow> silence_filler" where
  "WithMaxGapSize n h = (if n > 0 then h\<lparr>sf_max_gap := n\<rparr> else h)"

text \<open>Clock and sample rates are not negative, so \<open>div\<close> is the division of Go.\<close>

definition newSilenceFiller :: "int \<Rightarrow> int \<Rightarrow> int \<Rightarrow> (silence_filler \<Rightarrow> silence_filler) list \<Rightarrow> silence_filler" where
  "newSilenceFiller fps rtpClockRate pcmSampleRate options =
     fold (\<lambda>opt h. opt h) options
       \<lparr>sf_max_gap = 25, sf_rtp_spf = rtpClockRate div fps, sf_pcm_spf = pcmSampleRate div fps, sf_last_ts = 0,
        sf_last_seq = 0, sf_packets = 0, sf_gap_count = 0, sf_gap_sum = 0\<rparr>"

text \<open>\<open>None\<close> is the panic of a division by zero, at a clock rate below \<open>fps\<close>.\<close>

definition isSilenceSuppression :: "rtp_header \<Rightarrow> silence_filler \<Rightarrow> ((bool \<times> int) \<times> silence_filler) option" where
  "isSilenceSuppression hdr h =
     (let h1 = h\<lparr>sf_packets := sf_packets h + 1, sf_last_seq := ucast (rh_seq hdr), sf_last_ts := ucast (rh_ts hdr)\<rparr>;
          lastSeq = (ucast (sf_last_seq h) :: u16); lastTS = (ucast (sf_last_ts h) :: u32)
      in if sf_packets h1 = 1 then Some ((False, 0), h1)
         else
           let expectedSeq = lastSeq + 1; expectedTS = lastTS + word_of_int (sf_rtp_spf h);
               seqDiff = rh_seq hdr - expectedSeq; tsDiff = rh_ts hdr - expectedTS
           in if seqDiff \<noteq> 0 then Some ((False, 0), h1)
              else if sf_rtp_spf h = 0 then None
              else let missedFrames = uint tsDiff div sf_rtp_spf h
                   in if missedFrames = 0 then Some ((False, 0), h1) else Some ((True, missedFrames), h1))"

datatype pcm_frame = Silence int | Encoded rtp_header

text \<open>\<open>werr i\<close> is the error of the sink for the \<open>i\<close>-th silent frame of this packet.\<close>

fun fillWithSilence :: "(nat \<Rightarrow> go_error option) \<Rightarrow> int \<Rightarrow> nat \<Rightarrow> nat \<Rightarrow> pcm_frame list \<times> go_error option" where
  "fillWithSilence werr spf i 0 = ([], None)"
| "fillWithSilence werr spf i (Suc n) =
     (case werr i of
        Some e \<Rightarrow> ([Silence spf], Some e)
      | None \<Rightarrow> (let (fs, e) = fillWithSilence werr spf (i + 1) n in (Silence spf # fs, e)))"

definition filler_HandleRTP ::
  "(nat \<Rightarrow> go_error option) \<Rightarrow> go_error option \<Rightarrow> rtp_header \<Rightarrow> silence_filler
    \<Rightarrow> ((pcm_frame list \<times> go_error option) \<times> silence_filler) option" where
  "filler_HandleRTP werr herr hdr h =
     (case isSilenceSuppression hdr h of
        None \<Rightarrow> None
      | Some ((gap, missing), h1) \<Rightarrow>
          if gap \<and> missing \<le> sf_max_gap h1 * 100 then
            let h2 = h1\<lparr>sf_gap_count := sf_gap_count h1 + 1, sf_gap_sum := sf_gap_sum h1 + word_of_int missing\<rparr> in
            if missing \<le> sf_max_gap h2 then
              (case fillWithSilence werr (sf_pcm_spf h2) 0 (nat missing) of
                 (fs, Some e) \<Rightarrow> Some ((fs, Some e), h2)
               | (fs, None) \<Rightarrow> Some ((fs @ [Encoded hdr], herr), h2))
            else Some (([Encoded hdr], herr), h2)
          else Some (([Encoded hdr], herr), h1))"

text \<open>A stream of packets through sinks that accept everything.\<close>

fun filler_run :: "rtp_header list \<Rightarrow> silence_filler \<Rightarrow> (pcm_frame list \<times> silence_filler) option" where
  "filler_run [] h = Some ([], h)"
| "filler_run (p # ps) h =
     (case filler_HandleRTP (\<lambda>_. None) None p h of
        None \<Rightarrow> None
      | Some ((fs, _), h1) \<Rightarrow>
          (case filler_run ps h1 of None \<Rightarrow> None | Some (gs, h2) \<Rightarrow> Some (fs @ gs, h2)))"

section \<open>Stream statistics\<close>

definition Diff16 :: "u16 \<Rightarrow> u16 \<Rightarrow> 16 word" where
  "Diff16 cur prev = cur - prev"

record rtp_counting =
  rc_packets :: nat
  rc_bytes :: nat
  rc_resets :: nat
  rc_gaps :: nat
  rc_gaps_sum :: nat
  rc_late :: nat
  rc_late_sum :: nat
  rc_delayed :: nat
  rc_delayed_sum :: nat
  rc_rapid :: nat

record stream_stats =
  ss_packets :: nat
  ss_last_seq :: u64
  ss_last_packet :: int
  ss_stats :: rtp_counting

definition maxPositiveSeqDiff :: "int \<Rightarrow> int" where
  "maxPositiveSeqDiff fps = 30 * fps"

definition maxNegativeSeqDiff :: "int \<Rightarrow> int" where
  "maxNegativeSeqDiff fps = - 5 * fps"

definition rapidPacketThreshold :: "int \<Rightarrow> int" where
  "rapidPacketThreshold fps = (1000 div fps) div 2"

definition delayedPacketThreshold :: "int \<Rightarrow> int" where
  "delayedPacketThreshold fps = 3 * (1000 div fps) div 2"

text \<open>
  The sequence numbers are compared as signed 16-bit differences; \<open>uint64(-diff)\<close> extends the negated
  16-bit value.
\<close>

definition count_seq :: "int \<Rightarrow> 16 word \<Rightarrow> rtp_counting \<Rightarrow> rtp_counting" where
  "count_seq fps diff c =
     (if sint diff > maxPositiveSeqDiff fps \<or> sint diff < maxNegativeSeqDiff fps then c\<lparr>rc_resets := rc_resets c + 1\<rparr>
      else if sint diff < 0 then
        c\<lparr>rc_late := rc_late c + 1, rc_late_sum := rc_late_sum c + unat (scast (- diff) :: u64)\<rparr>
      else if sint diff > 1 then
        c\<lparr>rc_gaps := rc_gaps c + 1, rc_gaps_sum := rc_gaps_sum c + unat (scast diff :: u64)\<rparr>
      else c)"

definition count_delay :: "int \<Rightarrow> int \<Rightarrow> rtp_counting \<Rightarrow> rtp_counting" where
  "count_delay fps since c =
     (if since < rapidPacketThreshold fps then c\<lparr>rc_rapid := rc_rapid c + 1\<rparr>
      else if since > delayedPacketThreshold fps then
        c\<lparr>rc_delayed := rc_delayed c + 1, rc_delayed_sum := rc_delayed_sum c + nat since\<rparr>
      else c)"

text \<open>\<open>now\<close> in milliseconds; \<open>len\<close> is the length of the payload.\<close>

definition stats_HandleRTP :: "int \<Rightarrow> int \<Rightarrow> rtp_header \<times> nat \<Rightarrow> stream_stats \<Rightarrow> stream_stats" where
  "stats_HandleRTP fps now pkt s =
     (case pkt of (hdr, len) \<Rightarrow>
        let count = ss_packets s + 1; st = ss_stats s;
            c0 = st\<lparr>rc_packets := rc_packets st + 1, rc_bytes := rc_bytes st + len\<rparr>;
            lastSeq = (ucast (ss_last_seq s) :: u16); lastPacket = ss_last_packet s;
            c1 = (if count > 1
                  then count_delay fps (now - lastPacket) (count_seq fps (Diff16 (rh_seq hdr) lastSeq) c0)
                  else c0)
        in \<lparr>ss_packets = count, ss_last_seq = ucast (rh_seq hdr), ss_last_packet = now, ss_stats = c1\<rparr>)"

section \<open>Payload names\<close>

definition staticPayloadTypes :: "nat \<Rightarrow> string" where
  "staticPayloadTypes pt =
     (case map_of
        [(0, ''Auto_PCMU/8000''), (3, ''Auto_GSM/8000''), (4, ''Auto_G723/8000''), (5, ''Auto_DVI4/8000''),
         (6, ''Auto_DVI4/16000''), (7, ''Auto_LPC/8000''), (8, ''Auto_PCMA/8000''), (9, ''Auto_G722/8000''),
         (10, ''Auto_L16/44100/2''), (11, ''Auto_L16/44100''), (12, ''Auto_QCELP/8000''), (13, ''Auto_CN/8000''),
         (14, ''Auto_MPA/90000''), (15, ''Auto_G728/16000''), (16, ''Auto_DVI4/11025''), (17, ''Auto_DVI4/22050''),
         (18, ''Auto_G729/8000''), (25, ''Auto_CELLB/90000''), (26, ''Auto_JPEG/90000''), (28, ''Auto_NV/90000''),
         (31, ''Auto_H261/90000''), (32, ''Auto_MPV/90000''), (33, ''Auto_MP2T/90000''), (34, ''Auto_H263/90000'')] pt of
        Some s \<Rightarrow> s | None \<Rightarrow> [])"

definition payload_label :: "string \<Rightarrow> u8 \<Rightarrow> string" where
  "payload_label typ pt =
     (let t1 = (if typ = [] \<and> pt < 96 then staticPayloadTypes (unat pt) else typ)
      in if t1 = [] then itoa (uint pt) else t1)"

definition statsHandler_HandleRTP :: "call_monitor option \<Rightarrow> string \<Rightarrow> rtp_header \<Rightarrow> metrics \<Rightarrow> metrics" where
  "statsHandler_HandleRTP mon typ h ms =
     (case mon of None \<Rightarrow> ms | Some c \<Rightarrow> RTPPacketRecv c (payload_label typ (rh_pt h)) ms)"

definition statsWriter_WriteRTP ::
  "call_monitor option \<Rightarrow> u8 \<Rightarrow> u8 \<Rightarrow> string \<Rightarrow> string \<Rightarrow> rtp_header \<Rightarrow> metrics \<Rightarrow> metrics" where
  "statsWriter_WriteRTP mon audioPT dtmfPT audioType dtmfType h ms =
     (case mon of
        None \<Rightarrow> ms
      | Some c \<Rightarrow>
          let typ = (if rh_pt h = audioPT then audioType else if rh_pt h = dtmfPT then dtmfType else [])
          in RTPPacketSend c (payload_label typ (rh_pt h)) ms)"

section \<open>Latency\<close>

record latency_stats =
  la_count :: u64
  la_sum :: u64
  la_max :: u64

text \<open>\<open>Record\<close> when no other goroutine interferes; the loop under interference is \<open>latency_step\<close> below.\<close>

definition Record :: "int \<Rightarrow> latency_stats \<Rightarrow> latency_stats" where
  "Record d s =
     (let ns = (word_of_int d :: u64) in
      s\<lparr>la_count := la_count s + 1, la_sum := la_sum s + ns, la_max := max (la_max s) ns\<rparr>)"

definition latency_Load :: "latency_stats \<Rightarrow> latency_stats" where
  "latency_Load s =
     \<lparr>la_count = la_count s, la_sum = (if la_count s > 0 then la_sum s div la_count s else 0), la_max = la_max s\<rparr>"

datatype record_pc = AtCount | AtSum | AtLoad | AtCas u64 | AtDone

record latency_sys =
  ls_stats :: latency_stats
  ls_threads :: "(u64 \<times> record_pc) list"

definition latency_init :: "latency_sys \<Rightarrow> bool" where
  "latency_init s \<longleftrightarrow> ls_stats s = \<lparr>la_count = 0, la_sum = 0, la_max = 0\<rparr> \<and> (\<forall>t \<in> set (ls_threads s). snd t = AtCount)"

definition move :: "nat \<Rightarrow> record_pc \<Rightarrow> latency_sys \<Rightarrow> latency_sys" where
  "move i pc s = s\<lparr>ls_threads := (ls_threads s)[i := (fst (ls_threads s ! i), pc)]\<rparr>"

text \<open>One atomic access of the \<open>i\<close>-th call of \<open>Record\<close> at a time, in any order.\<close>

inductive latency_step :: "latency_sys \<Rightarrow> latency_sys \<Rightarrow> bool" where
  add_count: "i < length (ls_threads s) \<Longrightarrow> ls_threads s ! i = (ns, AtCount) \<Longrightarrow>
     latency_step s (move i AtSum (s\<lparr>ls_stats := (ls_stats s)\<lparr>la_count := la_count (ls_stats s) + 1\<rparr>\<rparr>))"
| add_sum: "i < length (ls_threads s) \<Longrightarrow> ls_threads s ! i = (ns, AtSum) \<Longrightarrow>
     latency_step s (move i AtLoad (s\<lparr>ls_stats := (ls_stats s)\<lparr>la_sum := la_sum (ls_stats s) + ns\<rparr>\<rparr>))"
| load_small: "i < length (ls_threads s) \<Longrightarrow> ls_threads s ! i = (ns, AtLoad) \<Longrightarrow> ns \<le> la_max (ls_stats s) \<Longrightarrow>
     latency_step s (move i AtDone s)"
| load_large: "i < length (ls_threads s) \<Longrightarrow> ls_threads s ! i = (ns, AtLoad) \<Longrightarrow> \<not> ns \<le> la_max (ls_stats s) \<Longrightarrow>
     latency_step s (move i (AtCas (la_max (ls_stats s))) s)"
| cas_ok: "i < length (ls_threads s) \<Longrightarrow> ls_threads s ! i = (ns, AtCas old) \<Longrightarrow> la_max (ls_stats s) = old \<Longrightarrow>
     latency_step s (move i AtDone (s\<lparr>ls_stats := (ls_stats s)\<lparr>la_max := ns\<rparr>\<rparr>))"
| cas_retry: "i < length (ls_threads s) \<Longrightarrow> ls_threads s ! i = (ns, AtCas old) \<Longrightarrow> la_max (ls_stats s) \<noteq> old \<Longrightarrow>
     latency_step s (move i AtLoad s)"

text \<open>The exit wrappers record only once an entry time was set.\<close>

definition latency_exit :: "int \<Rightarrow> int \<Rightarrow> latency_stats \<Rightarrow> latency_stats" where
  "latency_exit entryTime now s = (if entryTime > 0 then Record (now - entryTime) s else s)"

section \<open>Digits\<close>

text \<open>\<open>code\<close> is the event code that \<open>dtmf.Decode\<close> finds in the payload, \<open>None\<close> for an error.\<close>

definition dtmf_event_id :: "u32 \<Rightarrow> u8 \<Rightarrow> u64" where
  "dtmf_event_id ts code = push_bit 8 (ucast ts) OR ucast code"

record dtmf_state =
  dt_handler :: bool
  dt_last :: u64
  dt_events :: "u8 list"

definition dtmf_initial :: dtmf_state where
  "dtmf_initial = \<lparr>dt_handler = True, dt_last = - 1, dt_events = []\<rparr>"

definition dtmfHandler :: "u32 \<times> u8 option \<Rightarrow> dtmf_state \<Rightarrow> dtmf_state" where
  "dtmfHandler pkt s =
     (if \<not> dt_handler s then s
      else case pkt of
        (ts, None) \<Rightarrow> s
      | (ts, Some code) \<Rightarrow>
          let eventID = dtmf_event_id ts code in
          if eventID = dt_last s then s else s\<lparr>dt_last := eventID, dt_events := dt_events s @ [code]\<rparr>)"

section \<open>Read loop\<close>

text \<open>
  One \<open>ReadRTP\<close>: the end of the stream, an error, or a packet with its size, whether a handler is
  installed, and the handler's result.
\<close>

datatype rtp_read = ReadEOF | ReadFail | ReadPacket int bool "go_error option"

record read_stats =
  rd_packets :: nat
  rd_ignored :: nat
  rd_failed :: nat
  rd_input :: nat

datatype loop_end = StillReading | StreamEnded | TooManyErrors

fun rtpReadLoop :: "int \<Rightarrow> nat \<Rightarrow> rtp_read list \<Rightarrow> read_stats \<Rightarrow> loop_end \<times> read_stats" where
  "rtpReadLoop mtu errorCnt [] st = (StillReading, st)"
| "rtpReadLoop mtu errorCnt (ReadEOF # rs) st = (StreamEnded, st)"
| "rtpReadLoop mtu errorCnt (ReadFail # rs) st = (StreamEnded, st)"
| "rtpReadLoop mtu errorCnt (ReadPacket n hnd err # rs) st =
     (let st1 = st\<lparr>rd_packets := rd_packets st + 1\<rparr> in
      if n > mtu \<or> \<not> hnd then rtpReadLoop mtu errorCnt rs (st1\<lparr>rd_ignored := rd_ignored st1 + 1\<rparr>)
      else case err of
        Some e \<Rightarrow>
          let st2 = st1\<lparr>rd_failed := rd_failed st1 + 1\<rparr> in
          if errorCnt + 1 \<ge> 50 then (TooManyErrors, st2) else rtpReadLoop mtu (errorCnt + 1) rs st2
      | None \<Rightarrow> rtpReadLoop mtu 0 rs (st1\<lparr>rd_input := rd_input st1 + 1\<rparr>))"

end
