(* ===== verification/MediaStreamProps.thy ===== *)
theory MediaStreamProps
  imports MediaStream
begin

text \<open>
  Properties of the packet path: the silence filler reconstructs the time line of a stream, the stream
  statistics are consistent, the latency maximum survives concurrent recording, digits are
  delivered once, and the read loop accounts for every packet.
\<close>

section \<open>Silence filler\<close>

text \<open>
  A stream without loss: each packet with the frame slot it belongs to; sequence numbers are consecutive and
  timestamps advance by the samples of the slots in between, both modulo their width.
\<close>

fun stream_ok :: "int \<Rightarrow> int \<Rightarrow> (nat \<times> rtp_header) list \<Rightarrow> bool" where
  "stream_ok spf mx ((k, h) # (k', h') # ps) \<longleftrightarrow>
     k < k' \<and> int (k' - k - 1) \<le> mx \<and> rh_seq h' = rh_seq h + 1 \<and>
     rh_ts h' = rh_ts h + word_of_int (int (k' - k) * spf) \<and> stream_ok spf mx ((k', h') # ps)"
| "stream_ok spf mx ps \<longleftrightarrow> True"

text \<open>One frame for every slot from the first packet to the last: the packet's or silence.\<close>

definition timeline :: "int \<Rightarrow> (nat \<times> rtp_header) list \<Rightarrow> pcm_frame list" where
  "timeline pcm ps =
     (if ps = [] then []
      else map (\<lambda>k. case map_of ps k of Some h \<Rightarrow> Encoded h | None \<Rightarrow> Silence pcm) [fst (hd ps)..<Suc (fst (last ps))])"

lemma fillWithSilence_all: "fillWithSilence (\<lambda>_. None) spf i n = (replicate n (Silence spf), None)"
  by (induction n arbitrary: i) simp_all

definition follows :: "rtp_header \<Rightarrow> silence_filler \<Rightarrow> bool" where
  "follows h f \<longleftrightarrow> sf_packets f > 0 \<and> sf_last_seq f = ucast (rh_seq h) \<and> sf_last_ts f = ucast (rh_ts h)"

lemma gap_word:
  assumes "0 \<le> spf" "int g * spf < 2 ^ 32"
  shows "uint ((ts + word_of_int (int (Suc g) * spf)) - (ts + word_of_int spf) :: u32) = int g * spf"
proof -
  have eq: "(ts + word_of_int (int (Suc g) * spf)) - (ts + word_of_int spf) = (word_of_int (int g * spf) :: u32)"
    by (simp add: algebra_simps)
  show ?thesis unfolding eq using assms by (simp only: uint_word_of_int_eq) (simp add: take_bit_int_eq_self)
qed

lemma filler_gap:
  assumes f: "follows h f" and spf: "0 < sf_rtp_spf f" "sf_max_gap f * sf_rtp_spf f < 2 ^ 32"
    and seq: "rh_seq h' = rh_seq h + 1" and ts: "rh_ts h' = rh_ts h + word_of_int (int (Suc g) * sf_rtp_spf f)"
    and g: "int g \<le> sf_max_gap f"
  shows "\<exists>f'. filler_HandleRTP (\<lambda>_. None) None h' f = Some ((replicate g (Silence (sf_pcm_spf f)) @ [Encoded h'], None), f')
          \<and> follows h' f' \<and> sf_rtp_spf f' = sf_rtp_spf f \<and> sf_pcm_spf f' = sf_pcm_spf f \<and> sf_max_gap f' = sf_max_gap f"
proof -
  let ?f1 = "f\<lparr>sf_packets := sf_packets f + 1, sf_last_seq := ucast (rh_seq h'), sf_last_ts := ucast (rh_ts h')\<rparr>"
  have lt: "int g * sf_rtp_spf f < 2 ^ 32" using g spf by (meson le_less_trans less_imp_le mult_right_mono)
  have u: "uint (rh_ts h' - (rh_ts h + word_of_int (sf_rtp_spf f))) = int g * sf_rtp_spf f"
    unfolding ts using spf(1) by (intro gap_word [OF _ lt]) simp
  have l: "(ucast (ucast (rh_seq h) :: u64) :: u16) = rh_seq h" "(ucast (ucast (rh_ts h) :: u64) :: u32) = rh_ts h"
    by (rule bit_word_eqI; simp add: bit_simps)+
  have "isSilenceSuppression h' f = Some ((g \<noteq> 0, int g), ?f1)"
    using f spf seq u by (simp add: isSilenceSuppression_def follows_def Let_def l)
  moreover have "int g \<le> sf_max_gap f * 100" using g by linarith
  ultimately show ?thesis
    using g by (auto simp: filler_HandleRTP_def Let_def fillWithSilence_all follows_def)
qed

lemma stream_keys: "stream_ok spf mx ((k, h) # ps) \<Longrightarrow> k' \<in> fst ` set ps \<Longrightarrow> k < k'"
  by (induction ps arbitrary: k h) force+

lemma stream_last: "stream_ok spf mx ((k, h) # ps) \<Longrightarrow> k \<le> fst (last ((k, h) # ps))"
  using stream_keys [of spf mx k h ps "fst (last ps)"] by auto

lemma timeline_hd:
  assumes "stream_ok spf mx ((k, h) # ps)"
  shows "timeline pcm ((k, h) # ps) = Encoded h # tl (timeline pcm ((k, h) # ps))"
  using stream_last [OF assms] by (simp add: timeline_def upt_conv_Cons del: upt_Suc)

lemma timeline_step:
  assumes "stream_ok spf mx ((k, h) # (k', h') # ps)"
  shows "timeline pcm ((k, h) # (k', h') # ps) =
           Encoded h # replicate (k' - k - 1) (Silence pcm) @ timeline pcm ((k', h') # ps)"
proof -
  let ?ps = "(k', h') # ps" and ?l = "fst (last ((k', h') # ps))"
  have lt: "k < k'" and ok: "stream_ok spf mx ?ps" using assms by simp_all
  have k'l: "k' \<le> ?l" by (rule stream_last [OF ok])
  have up: "[k..<Suc ?l] = k # [Suc k..<k'] @ [k'..<Suc ?l]"
    using upt_add_eq_append [of "Suc k" k' "Suc ?l - k'"] lt k'l by (simp add: upt_conv_Cons del: upt_Suc)
  have none: "map_of ((k, h) # ?ps) j = None" if "j \<in> set [Suc k..<k']" for j
    using that stream_keys [OF ok, of j] by (auto simp: map_of_eq_None_iff)
  have same: "map_of ((k, h) # ?ps) j = map_of ?ps j" if "j \<in> set [k'..<Suc ?l]" for j
    using that lt by auto
  define g where "g j = (case map_of ((k, h) # ?ps) j of Some h \<Rightarrow> Encoded h | None \<Rightarrow> Silence pcm)" for j
  have "map g [Suc k..<k'] = replicate (k' - k - 1) (Silence pcm)"
    using none by (intro replicate_eqI) (auto simp: g_def)
  moreover have "map g [k'..<Suc ?l] = timeline pcm ?ps"
    unfolding timeline_def using same by (auto intro!: map_cong simp: g_def simp del: upt_Suc)
  moreover have "g k = Encoded h" by (simp add: g_def)
  moreover have "timeline pcm ((k, h) # ?ps) = map g [k..<Suc ?l]"
    unfolding timeline_def g_def by (simp del: upt_Suc)
  ultimately show ?thesis unfolding up by simp
qed

lemma filler_run_follows:
  assumes "stream_ok (sf_rtp_spf f) (sf_max_gap f) ((k, h) # ps)" "follows h f" "0 < sf_rtp_spf f"
    "sf_max_gap f * sf_rtp_spf f < 2 ^ 32"
  shows "\<exists>f'. filler_run (map snd ps) f = Some (tl (timeline (sf_pcm_spf f) ((k, h) # ps)), f')"
  using assms
proof (induction ps arbitrary: k h f)
  case Nil
  then show ?case by (simp add: timeline_def)
next
  case (Cons p ps)
  obtain k' h' where p: "p = (k', h')" by (cases p)
  have d: "int (k' - k) = int (Suc (k' - k - 1))" using Cons.prems(1) by (simp add: p)
  obtain f1 where f1: "filler_HandleRTP (\<lambda>_. None) None h' f =
        Some ((replicate (k' - k - 1) (Silence (sf_pcm_spf f)) @ [Encoded h'], None), f1)"
      "follows h' f1" "sf_rtp_spf f1 = sf_rtp_spf f" "sf_pcm_spf f1 = sf_pcm_spf f" "sf_max_gap f1 = sf_max_gap f"
    using filler_gap [OF Cons.prems(2-4), of h' "k' - k - 1"] Cons.prems(1) by (auto simp: p d)
  have "\<exists>f'. filler_run (map snd ps) f1 = Some (tl (timeline (sf_pcm_spf f1) ((k', h') # ps)), f')"
    using Cons.prems f1 by (intro Cons.IH) (simp_all add: p)
  then show ?case
    using Cons.prems(1) f1 timeline_step [of "sf_rtp_spf f" "sf_max_gap f" k h k' h' ps "sf_pcm_spf f"]
      timeline_hd [of "sf_rtp_spf f" "sf_max_gap f" k' h' ps "sf_pcm_spf f"]
    by (auto simp: p)
qed

lemma filler_run_timeline:
  assumes "stream_ok (sf_rtp_spf f) (sf_max_gap f) ps" "0 < sf_rtp_spf f" "sf_max_gap f * sf_rtp_spf f < 2 ^ 32"
    "sf_packets f = 0"
  shows "\<exists>f'. filler_run (map snd ps) f = Some (timeline (sf_pcm_spf f) ps, f')"
proof (cases ps)
  case Nil
  then show ?thesis by (simp add: timeline_def)
next
  case (Cons p qs)
  obtain k h where p: "p = (k, h)" by (cases p)
  let ?f1 = "f\<lparr>sf_packets := 1, sf_last_seq := ucast (rh_seq h), sf_last_ts := ucast (rh_ts h)\<rparr>"
  have first: "filler_HandleRTP (\<lambda>_. None) None h f = Some (([Encoded h], None), ?f1)"
    using assms(4) by (simp add: filler_HandleRTP_def isSilenceSuppression_def Let_def)
  have "\<exists>f'. filler_run (map snd qs) ?f1 = Some (tl (timeline (sf_pcm_spf ?f1) ((k, h) # qs)), f')"
    using assms by (intro filler_run_follows) (simp_all add: Cons p follows_def)
  then show ?thesis
    using first timeline_hd [of "sf_rtp_spf f" "sf_max_gap f" k h qs] assms(1) by (auto simp: Cons p)
qed

text \<open>
  C16: The silence filler restores the time line of a stream without loss.  For packets with consecutive
  sequence numbers and gaps of at most \<open>maxGapSize\<close> frames between their timestamps, the decoder and the
  sink together get exactly one frame per slot from the first packet to the last, each packet in its
  slot and silence in every slot that has none; both counters may wrap around on the way.
\<close>

theorem silence_filler_timeline:
  assumes "stream_ok (sf_rtp_spf f) (sf_max_gap f) ps" "0 < sf_rtp_spf f" "sf_max_gap f * sf_rtp_spf f < 2 ^ 32"
    "sf_packets f = 0"
  shows "\<exists>f'. filler_run (map snd ps) f = Some (timeline (sf_pcm_spf f) ps, f')"
  using assms by (rule filler_run_timeline)

theorem silence_filler_timeline_witness:
  "\<exists>f'. filler_run
       [\<lparr>rh_seq = 65535, rh_ts = 4294967200, rh_pt = 0\<rparr>, \<lparr>rh_seq = 0, rh_ts = 384, rh_pt = 0\<rparr>]
       (newSilenceFiller 50 8000 16000 []) =
     Some ([Encoded \<lparr>rh_seq = 65535, rh_ts = 4294967200, rh_pt = 0\<rparr>, Silence 320, Silence 320,
            Encoded \<lparr>rh_seq = 0, rh_ts = 384, rh_pt = 0\<rparr>], f')"
proof -
  let ?ps = "[(7, \<lparr>rh_seq = 65535, rh_ts = 4294967200, rh_pt = 0\<rparr>), (10, \<lparr>rh_seq = 0, rh_ts = 384, rh_pt = 0\<rparr>)]
      :: (nat \<times> rtp_header) list"
  have "timeline 320 ?ps = [Encoded \<lparr>rh_seq = 65535, rh_ts = 4294967200, rh_pt = 0\<rparr>, Silence 320, Silence 320,
            Encoded \<lparr>rh_seq = 0, rh_ts = 384, rh_pt = 0\<rparr>]"
    by (simp add: timeline_def upt_rec)
  then show ?thesis
    using silence_filler_timeline [of "newSilenceFiller 50 8000 16000 []" ?ps]
    by (simp add: newSilenceFiller_def)
qed

section \<open>Stream statistics\<close>

lemma unat_scast_nonneg: "0 \<le> sint (d :: 16 word) \<Longrightarrow> unat (scast d :: u64) = nat (sint d)"
proof -
  assume d: "0 \<le> sint d"
  have "sint d < 2 ^ 15" using sint_lt [of d] by simp
  then have "uint (scast d :: u64) = sint d"
    using d unfolding scast_eq uint_word_of_int_eq by (simp add: take_bit_int_eq_self)
  then show ?thesis by (simp only: unat_eq_nat_uint)
qed

lemma sint_minus: "sint (d :: 16 word) \<noteq> - (2 ^ 15) \<Longrightarrow> sint (- d) = - sint d"
proof -
  assume d: "sint d \<noteq> - (2 ^ 15)"
  have b: "- (2 ^ 15) \<le> sint d" "sint d < 2 ^ 15" using sint_ge [of d] sint_lt [of d] by simp_all
  have "sint (- d) = signed_take_bit 15 (- sint d)"
    using sint_word_minus [of d] by simp
  then show ?thesis using b d by (simp add: signed_take_bit_int_eq_self)
qed

definition counting_inv :: "int \<Rightarrow> stream_stats \<Rightarrow> bool" where
  "counting_inv fps s \<longleftrightarrow>
     (let c = ss_stats s in
      rc_packets c = ss_packets s \<and>
      rc_resets c + rc_late c + rc_gaps c \<le> ss_packets s - 1 \<and> rc_rapid c + rc_delayed c \<le> ss_packets s - 1 \<and>
      rc_late c \<le> rc_late_sum c \<and> int (rc_late_sum c) \<le> 5 * fps * int (rc_late c) \<and>
      2 * rc_gaps c \<le> rc_gaps_sum c \<and> int (rc_gaps_sum c) \<le> 30 * fps * int (rc_gaps c))"

text \<open>The constants of the thresholds are 16-bit values.\<close>

definition fps_ok :: "int \<Rightarrow> bool" where
  "fps_ok fps \<longleftrightarrow> 0 < fps \<and> 30 * fps < 2 ^ 15"

lemma late_amount:
  fixes d :: "16 word"
  assumes "fps_ok fps" "sint d < 0" "\<not> sint d < maxNegativeSeqDiff fps"
  shows "1 \<le> unat (scast (- d) :: u64) \<and> int (unat (scast (- d) :: u64)) \<le> 5 * fps"
proof -
  have m: "sint (- d) = - sint d"
    using assms by (intro sint_minus) (auto simp: fps_ok_def maxNegativeSeqDiff_def)
  then have "unat (scast (- d) :: u64) = nat (- sint d)" using assms(2) by (simp add: unat_scast_nonneg del: unat_eq_nat_uint)
  then show ?thesis using assms by (simp add: maxNegativeSeqDiff_def)
qed

lemma gap_amount:
  fixes d :: "16 word"
  assumes "\<not> sint d > maxPositiveSeqDiff fps" "sint d > 1"
  shows "2 \<le> unat (scast d :: u64) \<and> int (unat (scast d :: u64)) \<le> 30 * fps"
proof -
  have "unat (scast d :: u64) = nat (sint d)" using assms(2) by (simp add: unat_scast_nonneg)
  then show ?thesis using assms by (simp add: maxPositiveSeqDiff_def)
qed

definition seq_inv :: "int \<Rightarrow> nat \<Rightarrow> rtp_counting \<Rightarrow> bool" where
  "seq_inv fps n c \<longleftrightarrow> rc_resets c + rc_late c + rc_gaps c \<le> n \<and>
      rc_late c \<le> rc_late_sum c \<and> int (rc_late_sum c) \<le> 5 * fps * int (rc_late c) \<and>
      2 * rc_gaps c \<le> rc_gaps_sum c \<and> int (rc_gaps_sum c) \<le> 30 * fps * int (rc_gaps c)"

lemma count_seq_inv:
  assumes "fps_ok fps" "seq_inv fps n c"
  shows "seq_inv fps (Suc n) (count_seq fps d c)"
proof -
  consider (reset) "sint d > maxPositiveSeqDiff fps \<or> sint d < maxNegativeSeqDiff fps"
    | (late) "\<not> (sint d > maxPositiveSeqDiff fps \<or> sint d < maxNegativeSeqDiff fps)" "sint d < 0"
    | (gap) "\<not> (sint d > maxPositiveSeqDiff fps \<or> sint d < maxNegativeSeqDiff fps)" "sint d > 1"
    | (ok) "\<not> (sint d > maxPositiveSeqDiff fps \<or> sint d < maxNegativeSeqDiff fps)" "\<not> sint d < 0" "\<not> sint d > 1"
    by blast
  then show ?thesis
  proof cases
    case reset
    then show ?thesis using assms(2) by (simp add: count_seq_def seq_inv_def)
  next
    case late
    then have "1 \<le> unat (scast (- d) :: u64) \<and> int (unat (scast (- d) :: u64)) \<le> 5 * fps"
      using late_amount [OF assms(1)] by blast
    then show ?thesis using assms(2) late by (simp add: count_seq_def seq_inv_def algebra_simps del: unat_eq_nat_uint)
  next
    case gap
    then have "2 \<le> unat (scast d :: u64) \<and> int (unat (scast d :: u64)) \<le> 30 * fps" using gap_amount by blast
    then show ?thesis using assms(2) gap by (simp add: count_seq_def seq_inv_def algebra_simps)
  next
    case ok
    then show ?thesis using assms(2) by (simp add: count_seq_def seq_inv_def)
  qed
qed

lemma count_other [simp]:
  "rc_packets (count_seq fps d c) = rc_packets c" "rc_packets (count_delay fps n c) = rc_packets c"
  "rc_rapid (count_seq fps d c) = rc_rapid c" "rc_delayed (count_seq fps d c) = rc_delayed c"
  "seq_inv fps m (count_delay fps n c) = seq_inv fps m c"
  "rc_rapid (count_delay fps n c) + rc_delayed (count_delay fps n c) \<le> Suc (rc_rapid c + rc_delayed c)"
  by (simp_all add: count_seq_def count_delay_def seq_inv_def)

lemma counting_inv_eq:
  "counting_inv fps s \<longleftrightarrow> rc_packets (ss_stats s) = ss_packets s \<and> seq_inv fps (ss_packets s - 1) (ss_stats s) \<and>
     rc_rapid (ss_stats s) + rc_delayed (ss_stats s) \<le> ss_packets s - 1"
  by (auto simp: counting_inv_def seq_inv_def Let_def)

lemma counting_step:
  assumes "counting_inv fps s" "fps_ok fps"
  shows "counting_inv fps (stats_HandleRTP fps now pkt s)"
proof -
  obtain hdr len where p: "pkt = (hdr, len)" by (cases pkt)
  define c0 where "c0 = (ss_stats s)\<lparr>rc_packets := rc_packets (ss_stats s) + 1, rc_bytes := rc_bytes (ss_stats s) + len\<rparr>"
  have c0: "rc_packets c0 = Suc (ss_packets s)" "seq_inv fps (ss_packets s - 1) c0"
      "rc_rapid c0 + rc_delayed c0 \<le> ss_packets s - 1"
    using assms(1) by (simp_all add: counting_inv_eq c0_def seq_inv_def)
  show ?thesis
  proof (cases "ss_packets s = 0")
    case True
    then have "stats_HandleRTP fps now pkt s = \<lparr>ss_packets = 1, ss_last_seq = ucast (rh_seq hdr), ss_last_packet = now, ss_stats = c0\<rparr>"
      by (simp add: stats_HandleRTP_def p c0_def Let_def)
    then show ?thesis using c0 True by (simp add: counting_inv_eq)
  next
    case False
    let ?c1 = "count_seq fps (Diff16 (rh_seq hdr) (ucast (ss_last_seq s))) c0"
    have "seq_inv fps (Suc (ss_packets s - 1)) ?c1" by (rule count_seq_inv [OF assms(2) c0(2)])
    moreover have "rc_rapid (count_delay fps (now - ss_last_packet s) ?c1) + rc_delayed (count_delay fps (now - ss_last_packet s) ?c1)
        \<le> Suc (ss_packets s - 1)"
      using count_other(6) [of fps "now - ss_last_packet s" ?c1] c0(3) by simp
    moreover have "stats_HandleRTP fps now pkt s = \<lparr>ss_packets = Suc (ss_packets s), ss_last_seq = ucast (rh_seq hdr),
        ss_last_packet = now, ss_stats = count_delay fps (now - ss_last_packet s) ?c1\<rparr>"
      using False by (simp add: stats_HandleRTP_def p c0_def Let_def)
    ultimately show ?thesis using False c0 by (simp add: counting_inv_eq)
  qed
qed

interpretation stream_counts: machine "\<lambda>e. stats_HandleRTP fps (fst e) (snd e)" "\<lambda>_. True" "\<lambda>s. fps_ok fps \<and> counting_inv fps s"
  for fps :: int
  by unfold_locales (simp add: counting_step)

definition stats_zero :: stream_stats where
  "stats_zero = \<lparr>ss_packets = 0, ss_last_seq = 0, ss_last_packet = 0,
     ss_stats = \<lparr>rc_packets = 0, rc_bytes = 0, rc_resets = 0, rc_gaps = 0, rc_gaps_sum = 0, rc_late = 0, rc_late_sum = 0,
                 rc_delayed = 0, rc_delayed_sum = 0, rc_rapid = 0\<rparr>\<rparr>"

text \<open>
  Whatever packets arrive at whatever times, the statistics of a stream are consistent: every packet is
  counted; every packet but the first is at most one of reset, late or gap and at most one of rapid or
  delayed; a gap adds between 2 and 30 seconds worth of frames, and a late packet between 1 and 5 seconds worth, so
  the conversion of a negative 16-bit difference to an unsigned 64-bit number never wraps.
\<close>

theorem stream_stats_consistent:
  assumes "fps_ok fps"
  shows "counting_inv fps (fold (\<lambda>e. stats_HandleRTP fps (fst e) (snd e)) es stats_zero) \<and>
         ss_packets (fold (\<lambda>e. stats_HandleRTP fps (fst e) (snd e)) es stats_zero) = length es"
proof
  have "fps_ok fps \<and> counting_inv fps stats_zero" using assms by (simp add: counting_inv_def stats_zero_def)
  then show "counting_inv fps (fold (\<lambda>e. stats_HandleRTP fps (fst e) (snd e)) es stats_zero)"
    using stream_counts.inv_run [of fps stats_zero es] by (simp add: list_all_iff)
  have "ss_packets (fold (\<lambda>e. stats_HandleRTP fps (fst e) (snd e)) es s) = ss_packets s + length es" for s
    by (induction es arbitrary: s) (simp_all add: stats_HandleRTP_def Let_def split: prod.splits)
  then show "ss_packets (fold (\<lambda>e. stats_HandleRTP fps (fst e) (snd e)) es stats_zero) = length es"
    by (simp add: stats_zero_def)
qed

theorem stream_stats_consistent_witness:
  "counting_inv 50 (fold (\<lambda>e. stats_HandleRTP 50 (fst e) (snd e))
     [(0, \<lparr>rh_seq = 65535, rh_ts = 0, rh_pt = 0\<rparr>, 160), (20, \<lparr>rh_seq = 4, rh_ts = 0, rh_pt = 0\<rparr>, 160)] stats_zero)"
  using stream_stats_consistent [of 50 "[(0, \<lparr>rh_seq = 65535, rh_ts = 0, rh_pt = 0\<rparr>, 160), (20, \<lparr>rh_seq = 4, rh_ts = 0, rh_pt = 0\<rparr>, 160)]"]
  by (simp add: fps_ok_def)

section \<open>Latency\<close>

definition begun :: "(u64 \<times> record_pc) list \<Rightarrow> nat" where
  "begun xs = length (filter (\<lambda>t. snd t \<noteq> AtCount) xs)"

definition latency_inv :: "latency_sys \<Rightarrow> bool" where
  "latency_inv s \<longleftrightarrow>
     (\<forall>ns. (ns, AtDone) \<in> set (ls_threads s) \<longrightarrow> ns \<le> la_max (ls_stats s)) \<and>
     (la_max (ls_stats s) = 0 \<or> (la_max (ls_stats s), AtDone) \<in> set (ls_threads s)) \<and>
     (\<forall>ns old. (ns, AtCas old) \<in> set (ls_threads s) \<longrightarrow> old < ns) \<and>
     la_count (ls_stats s) = word_of_nat (begun (ls_threads s))"

lemma move_sel [simp]: "ls_stats (move i pc s) = ls_stats s"
  "ls_threads (move i pc s) = (ls_threads s)[i := (fst (ls_threads s ! i), pc)]"
  by (simp_all add: move_def)

lemma begun_update:
  "i < length xs \<Longrightarrow> pc' \<noteq> AtCount \<Longrightarrow>
     begun (xs[i := (n, pc')]) = (if snd (xs ! i) = AtCount then Suc (begun xs) else begun xs)"
proof (induction xs arbitrary: i)
  case (Cons x xs)
  then show ?case by (cases i) (simp_all add: begun_def)
qed simp

lemma set_move:
  assumes "i < length xs" "xs ! i = (n, pc)" "x \<in> set (xs[i := (n, pc')])"
  shows "x = (n, pc') \<or> x \<in> set xs"
  using assms by (meson insertE set_update_subset_insert subsetD)

lemma set_move_keep:
  assumes "i < length xs" "xs ! i = (n, pc)" "x \<in> set xs" "x \<noteq> (n, pc)"
  shows "x \<in> set (xs[i := (n, pc')])"
  using assms by (metis in_set_conv_nth length_list_update nth_list_update_neq)

lemma set_move_new: "i < length xs \<Longrightarrow> (n, pc') \<in> set (xs[i := (n, pc')])"
  by (metis set_update_memI)

lemma latency_step_inv: "latency_step s t \<Longrightarrow> latency_inv s \<Longrightarrow> latency_inv t"
proof (induction rule: latency_step.induct)
  case (add_count i s ns)
  then show ?case
    by (auto simp: latency_inv_def not_le begun_update dest: set_move [OF add_count(1,2)] intro: set_move_keep [OF add_count(1,2)])
next
  case (add_sum i s ns)
  then show ?case
    by (auto simp: latency_inv_def not_le begun_update dest: set_move [OF add_sum(1,2)] intro: set_move_keep [OF add_sum(1,2)])
next
  case (load_small i s ns)
  then show ?case
    by (auto simp: latency_inv_def not_le begun_update dest: set_move [OF load_small(1,2)] intro: set_move_keep [OF load_small(1,2)])
next
  case (load_large i s ns)
  then show ?case
    by (auto simp: latency_inv_def not_le begun_update dest: set_move [OF load_large(1,2)] intro: set_move_keep [OF load_large(1,2)])
next
  case (cas_ok i s ns old)
  have "(ns, AtCas old) \<in> set (ls_threads s)" using cas_ok by (metis nth_mem)
  then have "la_max (ls_stats s) < ns" using cas_ok by (auto simp: latency_inv_def)
  then show ?case using cas_ok
    by (auto simp: latency_inv_def set_move_new begun_update dest!: set_move [OF cas_ok(1,2)])
next
  case (cas_retry i s ns old)
  then show ?case
    by (auto simp: latency_inv_def begun_update dest: set_move [OF cas_retry(1,2)] intro: set_move_keep [OF cas_retry(1,2)])
qed

interpretation latency: step_system latency_init latency_step latency_inv
proof unfold_locales
  fix s :: latency_sys
  assume "latency_init s"
  moreover from this have "begun (ls_threads s) = 0"
    by (simp add: latency_init_def begun_def filter_empty_conv)
  ultimately show "latency_inv s" by (auto simp: latency_init_def latency_inv_def)
qed (rule latency_step_inv)

text \<open>
  C35: The lock-free latency accumulator loses no maximum.  However the atomic accesses of concurrent calls of
  \<open>Record\<close> interleave, the maximum is at least every latency whose call has returned and is itself one of them
  (or still zero), so once all calls have returned it is their maximum, and the count is their number
  modulo the width of the counter.
\<close>

theorem latency_max_exact:
  assumes "reach latency_init latency_step s" "\<forall>t \<in> set (ls_threads s). snd t = AtDone" "ls_threads s \<noteq> []"
  shows "la_max (ls_stats s) = Max (fst ` set (ls_threads s)) \<and> la_count (ls_stats s) = word_of_nat (length (ls_threads s))"
proof
  have inv: "latency_inv s" by (rule latency.reach_inv [OF assms(1)])
  have done_iff: "(ns, AtDone) \<in> set (ls_threads s) \<longleftrightarrow> ns \<in> fst ` set (ls_threads s)" for ns
    using assms(2) by force
  have ge: "ns \<le> la_max (ls_stats s)" if "ns \<in> fst ` set (ls_threads s)" for ns
    using inv that by (auto simp: latency_inv_def done_iff)
  have "la_max (ls_stats s) \<in> fst ` set (ls_threads s)"
  proof (cases "la_max (ls_stats s) = 0")
    case True
    obtain t where "t \<in> set (ls_threads s)" using assms(3) by (meson list.set_sel(1))
    then have "fst t = 0" using ge [of "fst t"] True by simp
    then show ?thesis using True \<open>t \<in> set (ls_threads s)\<close> by (metis imageI)
  qed (use inv in \<open>auto simp: latency_inv_def done_iff\<close>)
  then show "la_max (ls_stats s) = Max (fst ` set (ls_threads s))" using ge by (intro Max_eqI [symmetric]) auto
  have "begun (ls_threads s) = length (ls_threads s)"
    using assms(2) unfolding begun_def by (subst filter_True) auto
  then show "la_count (ls_stats s) = word_of_nat (length (ls_threads s))" using inv by (simp add: latency_inv_def)
qed

definition demo_latency :: latency_sys where
  "demo_latency = \<lparr>ls_stats = \<lparr>la_count = 1, la_sum = 7, la_max = 7\<rparr>, ls_threads = [(7, AtDone)]\<rparr>"

lemma demo_latency_reach: "reach latency_init latency_step demo_latency"
proof -
  let ?s = "\<lambda>c m x pc. \<lparr>ls_stats = \<lparr>la_count = c, la_sum = m, la_max = x\<rparr>, ls_threads = [(7, pc)]\<rparr>"
  have 1: "latency_step (?s 0 0 0 AtCount) (?s 1 0 0 AtSum)"
    using latency_step.add_count [of 0 "?s 0 0 0 AtCount" 7] by (simp add: move_def)
  have 2: "latency_step (?s 1 0 0 AtSum) (?s 1 7 0 AtLoad)"
    using latency_step.add_sum [of 0 "?s 1 0 0 AtSum" 7] by (simp add: move_def)
  have 3: "latency_step (?s 1 7 0 AtLoad) (?s 1 7 0 (AtCas 0))"
    using latency_step.load_large [of 0 "?s 1 7 0 AtLoad" 7] by (simp add: move_def)
  have 4: "latency_step (?s 1 7 0 (AtCas 0)) demo_latency"
    using latency_step.cas_ok [of 0 "?s 1 7 0 (AtCas 0)" 7 0] by (simp add: move_def demo_latency_def)
  have "reach latency_init latency_step (?s 0 0 0 AtCount)"
    by (rule reach.reach_init) (simp add: latency_init_def)
  note this [THEN reach.reach_step, OF 1]
  note this [THEN reach.reach_step, OF 2]
  note this [THEN reach.reach_step, OF 3]
  note this [THEN reach.reach_step, OF 4]
  then show ?thesis .
qed

theorem latency_max_exact_witness: "la_max (ls_stats demo_latency) = Max {7}"
  using latency_max_exact [OF demo_latency_reach] by (simp add: demo_latency_def)

section \<open>Digits\<close>

lemma event_id_code: "ucast (dtmf_event_id ts code) = code"
  by (rule bit_word_eqI) (auto simp: dtmf_event_id_def bit_simps)

lemma event_id_ts: "ucast (drop_bit 8 (dtmf_event_id ts code)) = ts"
  by (rule bit_word_eqI) (auto simp: dtmf_event_id_def bit_simps dest: bit_imp_le_length)

lemma event_id_inj: "dtmf_event_id ts c = dtmf_event_id ts' c' \<longleftrightarrow> ts = ts' \<and> c = c'"
  by (metis event_id_code event_id_ts)

lemma event_id_not_initial: "dtmf_event_id ts c \<noteq> - 1"
proof
  assume "dtmf_event_id ts c = - 1"
  then have "bit (dtmf_event_id ts c) 63" by simp
  then show False by (auto simp: dtmf_event_id_def bit_simps dest: bit_imp_le_length)
qed

lemma remdups_adj_tl: "remdups_adj (x # xs) = x # tl (remdups_adj (x # xs))"
  using hd_remdups_adj [of "x # xs"] by (cases "remdups_adj (x # xs)") simp_all

lemma dtmf_run:
  assumes "dt_handler s" "dt_last s = dtmf_event_id ts0 c0"
  shows "dt_events (fold dtmfHandler (map (\<lambda>(ts, c). (ts, Some c)) ps) s) =
           dt_events s @ map snd (tl (remdups_adj ((ts0, c0) # ps)))"
  using assms
proof (induction ps arbitrary: s ts0 c0)
  case (Cons p ps)
  obtain ts c where p: "p = (ts, c)" by (cases p)
  show ?case
  proof (cases "(ts, c) = (ts0, c0)")
    case True
    then show ?thesis using Cons by (simp add: p dtmfHandler_def Let_def)
  next
    case False
    let ?s = "s\<lparr>dt_last := dtmf_event_id ts c, dt_events := dt_events s @ [c]\<rparr>"
    define r where "r = tl (remdups_adj ((ts, c) # ps))"
    have "dtmfHandler (ts, Some c) s = ?s" using Cons.prems False by (simp add: dtmfHandler_def Let_def event_id_inj)
    moreover have "dt_events (fold dtmfHandler (map (\<lambda>(ts, c). (ts, Some c)) ps) ?s) =
        dt_events ?s @ map snd r"
      unfolding r_def using Cons.prems by (intro Cons.IH) simp_all
    moreover have "remdups_adj ((ts0, c0) # p # ps) = (ts0, c0) # (ts, c) # r"
      using False remdups_adj_tl [of "(ts, c)" ps] by (auto simp: p r_def)
    ultimately show ?thesis by (simp add: p)
  qed
qed simp

lemma dtmf_run_dedup:
  "dt_events (fold dtmfHandler (map (\<lambda>(ts, c). (ts, Some c)) ps) dtmf_initial) = map snd (remdups_adj ps)"
proof (cases ps)
  case (Cons p qs)
  obtain ts c where p: "p = (ts, c)" by (cases p)
  let ?s = "dtmf_initial\<lparr>dt_last := dtmf_event_id ts c, dt_events := [c]\<rparr>"
  define r where "r = tl (remdups_adj ((ts, c) # qs))"
  have "dtmfHandler (ts, Some c) dtmf_initial = ?s"
    using event_id_not_initial [of ts c] by (simp add: dtmfHandler_def dtmf_initial_def Let_def)
  moreover have "dt_events (fold dtmfHandler (map (\<lambda>(ts, c). (ts, Some c)) qs) ?s) = dt_events ?s @ map snd r"
    unfolding r_def by (rule dtmf_run) (simp_all add: dtmf_initial_def)
  moreover have "remdups_adj ps = (ts, c) # r" using remdups_adj_tl [of "(ts, c)" qs] by (simp add: Cons p r_def)
  ultimately show ?thesis by (simp add: Cons p)
qed (simp add: dtmf_initial_def)

text \<open>
  Digits are delivered once each.  The packets of one digit share a timestamp and an event code, and
  what the handler is given is exactly the sequence of received events with adjacent repetitions of the same
  timestamp and code removed: a repeated code with a new timestamp and a new code with the old timestamp
  both count, and the packing of the two into one word never confuses them.
\<close>

theorem dtmf_deduplicated:
  "dt_events (fold dtmfHandler (map (\<lambda>(ts, c). (ts, Some c)) ps) dtmf_initial) = map snd (remdups_adj ps)"
  by (rule dtmf_run_dedup)

section \<open>Read loop\<close>

definition read_balanced :: "read_stats \<Rightarrow> bool" where
  "read_balanced st \<longleftrightarrow> rd_packets st = rd_ignored st + rd_failed st + rd_input st"

lemma rtpReadLoop_balanced: "read_balanced st \<Longrightarrow> read_balanced (snd (rtpReadLoop mtu n rs st))"
  by (induction mtu n rs st rule: rtpReadLoop.induct) (auto simp: read_balanced_def Let_def split: option.splits)

fun is_failure :: "int \<Rightarrow> rtp_read \<Rightarrow> bool" where
  "is_failure mtu (ReadPacket n hnd (Some e)) = (n \<le> mtu \<and> hnd)"
| "is_failure mtu _ = False"

fun is_input :: "int \<Rightarrow> rtp_read \<Rightarrow> bool" where
  "is_input mtu (ReadPacket n hnd None) = (n \<le> mtu \<and> hnd)"
| "is_input mtu _ = False"

lemma rtpReadLoop_killed:
  assumes "fst (rtpReadLoop mtu n rs st) = TooManyErrors" "n < 50"
  shows "(\<exists>bad post. rs = bad @ post \<and> length (filter (is_failure mtu) bad) = 50 - n \<and> list_all (\<lambda>r. \<not> is_input mtu r) bad) \<or>
         (\<exists>pre bad post. rs = pre @ bad @ post \<and> length (filter (is_failure mtu) bad) = 50 \<and> list_all (\<lambda>r. \<not> is_input mtu r) bad)"
  using assms
proof (induction mtu n rs st rule: rtpReadLoop.induct)
  case (4 mtu n sz hnd err rs st)
  let ?r = "ReadPacket sz hnd err"
  consider (ignored) "sz > mtu \<or> \<not> hnd" | (failed) e where "\<not> (sz > mtu \<or> \<not> hnd)" "err = Some e"
    | (input) "\<not> (sz > mtu \<or> \<not> hnd)" "err = None" by blast
  then show ?case
  proof cases
    case ignored
    have r: "\<not> is_failure mtu ?r" "\<not> is_input mtu ?r" using ignored by (cases err; auto)+
    from ignored have "(\<exists>bad post. rs = bad @ post \<and> length (filter (is_failure mtu) bad) = 50 - n \<and> list_all (\<lambda>r. \<not> is_input mtu r) bad) \<or>
         (\<exists>pre bad post. rs = pre @ bad @ post \<and> length (filter (is_failure mtu) bad) = 50 \<and> list_all (\<lambda>r. \<not> is_input mtu r) bad)"
      using 4 by (simp add: Let_def)
    then show ?thesis
    proof (elim disjE exE conjE)
      fix bad post
      assume "rs = bad @ post" "length (filter (is_failure mtu) bad) = 50 - n" "list_all (\<lambda>r. \<not> is_input mtu r) bad"
      then show ?thesis using r by (intro disjI1) (rule exI [of _ "?r # bad"], simp)
    qed (metis append_Cons)
  next
    case failed
    have f: "is_failure mtu ?r" "\<not> is_input mtu ?r" using failed by auto
    show ?thesis
    proof (cases "n + 1 \<ge> 50")
      case True
      then have "n = 49" using 4 by simp
      then show ?thesis using f by (intro disjI1) (rule exI [of _ "[?r]"], simp)
    next
      case False
      then have "(\<exists>bad post. rs = bad @ post \<and> length (filter (is_failure mtu) bad) = 50 - (n + 1) \<and> list_all (\<lambda>r. \<not> is_input mtu r) bad) \<or>
         (\<exists>pre bad post. rs = pre @ bad @ post \<and> length (filter (is_failure mtu) bad) = 50 \<and> list_all (\<lambda>r. \<not> is_input mtu r) bad)"
        using 4 failed by (simp add: Let_def)
      then show ?thesis
      proof (elim disjE exE conjE)
        fix bad post
        assume "rs = bad @ post" "length (filter (is_failure mtu) bad) = 50 - (n + 1)" "list_all (\<lambda>r. \<not> is_input mtu r) bad"
        then show ?thesis using f False by (intro disjI1) (rule exI [of _ "?r # bad"], simp)
      qed (metis append_Cons)
    qed
  next
    case input
    then have "(\<exists>bad post. rs = bad @ post \<and> length (filter (is_failure mtu) bad) = 50 - 0 \<and> list_all (\<lambda>r. \<not> is_input mtu r) bad) \<or>
         (\<exists>pre bad post. rs = pre @ bad @ post \<and> length (filter (is_failure mtu) bad) = 50 \<and> list_all (\<lambda>r. \<not> is_input mtu r) bad)"
      using 4 by (simp add: Let_def)
    then show ?thesis by simp (metis append_Cons append_Nil)
  qed
qed simp_all

text \<open>
  The read loop accounts for every packet (ignored, failed or passed on), and it gives up on a stream
  only after 50 packets the pipeline rejected with no accepted packet between them, never because
  of oversized packets or a pipeline that is not there yet.
\<close>

theorem read_loop_accounts:
  assumes "read_balanced st"
  shows "read_balanced (snd (rtpReadLoop mtu 0 rs st)) \<and>
         (fst (rtpReadLoop mtu 0 rs st) = TooManyErrors \<longrightarrow>
            (\<exists>pre bad post. rs = pre @ bad @ post \<and> length (filter (is_failure mtu) bad) = 50 \<and>
               list_all (\<lambda>r. \<not> is_input mtu r) bad))"
  using rtpReadLoop_balanced [OF assms] rtpReadLoop_killed [of mtu 0 rs st] by simp (metis append_Nil)

theorem read_loop_accounts_witness:
  "read_balanced (snd (rtpReadLoop 1500 0 [ReadPacket 100 True None, ReadPacket 9000 True None, ReadEOF]
     \<lparr>rd_packets = 0, rd_ignored = 0, rd_failed = 0, rd_input = 0\<rparr>))"
  using read_loop_accounts [of "\<lparr>rd_packets = 0, rd_ignored = 0, rd_failed = 0, rd_input = 0\<rparr>" 1500
      "[ReadPacket 100 True None, ReadPacket 9000 True None, ReadEOF]"]
  by (simp add: read_balanced_def)

end
