(* ===== verification/MediaPort.thy ===== *)
theory MediaPort
  imports GoErrors
begin

text \<open>
  \<open>pkg/sip/media_port.go\<close> and \<open>SetConfig\<close> of \<open>pkg/sip/media_pipeline.go\<close>: the UDP connection with
  symmetric RTP, the media timeout with its loop, the configuration of a port and its teardown.  Times are
  nanoseconds; a timer that is due fires at its time.  The sessions and writers of the media library are
  represented by what is opened and closed.
\<close>

unbundle bit_operations_syntax

section \<open>Addresses (net/netip)\<close>

datatype ip_addr = IPv4 u8 u8 u8 u8 | IPv6 u16 u16 u16 u16 u16 u16 u16 u16

datatype netip_addr_port = NoAddr | AddrPort ip_addr u16

definition ap_IsValid :: "netip_addr_port \<Rightarrow> bool" where
  "ap_IsValid a = (a \<noteq> NoAddr)"

fun Unmap :: "ip_addr \<Rightarrow> ip_addr" where
  "Unmap (IPv4 a b c d) = IPv4 a b c d"
| "Unmap (IPv6 a b c d e f g h) =
     (if a = 0 \<and> b = 0 \<and> c = 0 \<and> d = 0 \<and> e = 0 \<and> f = 0xFFFF
      then IPv4 (ucast (drop_bit 8 g)) (ucast g) (ucast (drop_bit 8 h)) (ucast h)
      else IPv6 a b c d e f g h)"

definition IsPrivate :: "ip_addr \<Rightarrow> bool" where
  "IsPrivate ip =
     (case Unmap ip of
        IPv4 a b c d \<Rightarrow> a = 10 \<or> a = 172 \<and> b AND 0xF0 = 16 \<or> a = 192 \<and> b = 168
      | IPv6 a _ _ _ _ _ _ _ \<Rightarrow> a AND 0xFE00 = 0xFC00)"

definition IsUnspecified :: "ip_addr \<Rightarrow> bool" where
  "IsUnspecified ip = (ip = IPv4 0 0 0 0 \<or> ip = IPv6 0 0 0 0 0 0 0 0)"

section \<open>The UDP connection\<close>

record udp_conn =
  uc_closed :: bool
  uc_symmetric :: bool
  uc_src :: "netip_addr_port option"
  uc_dst :: "netip_addr_port option"
  uc_src_changes :: nat
  uc_dst_changes :: nat
  uc_last_src_print :: nanos
  uc_last_dst_print :: nanos
  uc_discarding :: bool

definition changePrintInterval :: nanos where
  "changePrintInterval = 10 * 1000 * 1000 * 1000"

definition newUDPConn :: "bool \<Rightarrow> udp_conn" where
  "newUDPConn symmetric =
     \<lparr>uc_closed = False, uc_symmetric = symmetric, uc_src = None, uc_dst = None, uc_src_changes = 0, uc_dst_changes = 0,
      uc_last_src_print = 0, uc_last_dst_print = 0, uc_discarding = False\<rparr>"

definition SetSymmetric :: "bool \<Rightarrow> udp_conn \<Rightarrow> udp_conn" where
  "SetSymmetric enabled c = c\<lparr>uc_symmetric := enabled\<rparr>"

definition GetSrc :: "udp_conn \<Rightarrow> netip_addr_port \<times> bool" where
  "GetSrc c = (case uc_src c of None \<Rightarrow> (NoAddr, False) | Some a \<Rightarrow> (a, ap_IsValid a))"

definition differs :: "netip_addr_port option \<Rightarrow> netip_addr_port \<Rightarrow> bool" where
  "differs prev addr = (case prev of None \<Rightarrow> False | Some p \<Rightarrow> ap_IsValid p \<and> p \<noteq> addr)"

definition SetDst :: "nanos \<Rightarrow> netip_addr_port \<Rightarrow> udp_conn \<Rightarrow> udp_conn" where
  "SetDst now addr c =
     (if \<not> ap_IsValid addr then c
      else
        let prev = uc_dst c; c1 = c\<lparr>uc_dst := Some addr\<rparr> in
        if differs prev addr then
          let c2 = c1\<lparr>uc_dst_changes := uc_dst_changes c1 + 1\<rparr> in
          if now - uc_last_dst_print c2 > changePrintInterval then c2\<lparr>uc_last_dst_print := now\<rparr> else c2
        else c1)"

text \<open>
  \<open>Read\<close> with the result of \<open>ReadFromUDPAddrPort\<close>: the address, and whether the read ended with a
  deadline error after the connection was closed.  \<open>True\<close> in the result is the end of the stream.
\<close>

definition udp_Read :: "nanos \<Rightarrow> netip_addr_port \<Rightarrow> bool \<Rightarrow> udp_conn \<Rightarrow> bool \<times> udp_conn" where
  "udp_Read now addr deadlineAfterClose c =
     (if uc_closed c then (True, c)
      else if deadlineAfterClose then (True, c\<lparr>uc_closed := True\<rparr>)
      else
        let prev = uc_src c; c1 = c\<lparr>uc_src := Some addr\<rparr>;
            c2 = (if differs prev addr then
                    let d = c1\<lparr>uc_src_changes := uc_src_changes c1 + 1\<rparr> in
                    if now - uc_last_src_print d > changePrintInterval
                    then d\<lparr>uc_last_src_print := now, uc_src_changes := uc_src_changes d + 1\<rparr> else d
                  else c1);
            c3 = (if uc_symmetric c2 \<and> uc_dst c2 \<noteq> Some addr then SetDst now addr c2 else c2)
        in (False, c3))"

text \<open>The address a packet is sent to; \<open>None\<close>: it is dropped without an error.\<close>

definition udp_Write :: "udp_conn \<Rightarrow> netip_addr_port option" where
  "udp_Write c = uc_dst c"

definition stopDiscarding :: "udp_conn \<Rightarrow> udp_conn" where
  "stopDiscarding c = c\<lparr>uc_discarding := False\<rparr>"

definition udp_Close :: "udp_conn \<Rightarrow> udp_conn" where
  "udp_Close c = (stopDiscarding c)\<lparr>uc_closed := True\<rparr>"

datatype conn_event = RxFrom nanos netip_addr_port | SetRemote nanos netip_addr_port | SymmetricRTP bool

fun conn_step :: "conn_event \<Rightarrow> udp_conn \<Rightarrow> udp_conn" where
  "conn_step (RxFrom now a) c = snd (udp_Read now a False c)"
| "conn_step (SetRemote now a) c = SetDst now a c"
| "conn_step (SymmetricRTP b) c = SetSymmetric b c"

section \<open>Media timeout\<close>

definition defaultMediaTimeout :: nanos where
  "defaultMediaTimeout = 15 * second"

definition defaultMediaTimeoutInitial :: nanos where
  "defaultMediaTimeoutInitial = 30 * second"

record media_timeout =
  mt_opt_initial :: nanos
  mt_opt_general :: nanos
  mt_start :: "nanos option"
  mt_initial :: "nanos option"
  mt_general :: "nanos option"
  mt_last_packet :: nanos

text \<open>The fields \<open>NewMediaPortWith\<close> sets, from its options.\<close>

definition new_timeout :: "nanos \<Rightarrow> nanos \<Rightarrow> media_timeout" where
  "new_timeout optInitial optGeneral =
     (let i = (if optInitial \<le> 0 then defaultMediaTimeoutInitial else optInitial);
          g = (if optGeneral \<le> 0 then defaultMediaTimeout else optGeneral)
      in \<lparr>mt_opt_initial = i, mt_opt_general = g, mt_start = None, mt_initial = Some i, mt_general = Some g,
          mt_last_packet = 0\<rparr>)"

definition disableTimeout :: "media_timeout \<Rightarrow> media_timeout" where
  "disableTimeout p = p\<lparr>mt_start := None\<rparr>"

definition enableTimeout :: "nanos \<Rightarrow> nanos \<Rightarrow> nanos \<Rightarrow> media_timeout \<Rightarrow> media_timeout" where
  "enableTimeout now initial general p =
     p\<lparr>mt_initial := Some (if initial \<le> 0 then defaultMediaTimeoutInitial else initial),
       mt_general := Some (if general \<le> 0 then defaultMediaTimeout else general),
       mt_start := Some now\<rparr>"

definition EnableTimeout :: "nanos \<Rightarrow> bool \<Rightarrow> media_timeout \<Rightarrow> media_timeout" where
  "EnableTimeout now enabled p =
     (if \<not> enabled then disableTimeout p else enableTimeout now (mt_opt_initial p) (mt_opt_general p) p)"

definition SetTimeout :: "nanos \<Rightarrow> nanos \<Rightarrow> nanos \<Rightarrow> media_timeout \<Rightarrow> media_timeout" where
  "SetTimeout now initial general p = enableTimeout now initial general p"

definition general_of :: "media_timeout \<Rightarrow> nanos" where
  "general_of p = (case mt_general p of Some g \<Rightarrow> g | None \<Rightarrow> mt_opt_general p)"

definition initial_of :: "media_timeout \<Rightarrow> nanos" where
  "initial_of p = (case mt_initial p of Some i \<Rightarrow> i | None \<Rightarrow> mt_opt_initial p)"

text \<open>One iteration of the loop: what it does with its timer, or that it triggers the timeout and returns.\<close>

datatype loop_action = ResetTimer nanos | TriggerTimeout

definition disabledPark :: nanos where
  "disabledPark = 3600 * second"

definition timeout_iteration :: "nanos \<Rightarrow> media_timeout \<Rightarrow> loop_action" where
  "timeout_iteration now p =
     (case mt_start p of
        None \<Rightarrow> ResetTimer disabledPark
      | Some startTime \<Rightarrow>
          let isInitial = (mt_last_packet p \<le> 0);
              deadline = (if isInitial then startTime + initial_of p else mt_last_packet p + general_of p);
              remaining = deadline - now
          in if remaining \<le> 0 then TriggerTimeout else ResetTimer (min remaining (general_of p)))"

text \<open>The loop: the time its timer is due and the time it triggered the timeout.\<close>

record timeout_sys =
  ts_port :: media_timeout
  ts_timer :: nanos
  ts_fired :: "nanos option"

definition loop_wake :: "nanos \<Rightarrow> timeout_sys \<Rightarrow> timeout_sys" where
  "loop_wake now s =
     (case timeout_iteration now (ts_port s) of
        ResetTimer d \<Rightarrow> s\<lparr>ts_timer := now + d\<rparr>
      | TriggerTimeout \<Rightarrow> s\<lparr>ts_fired := Some now\<rparr>)"

text \<open>The iterations caused by the timer up to time \<open>t\<close>; \<open>None\<close> if there is no end to them.\<close>

partial_function (option) timeoutLoop :: "nanos \<Rightarrow> timeout_sys \<Rightarrow> timeout_sys option" where
  "timeoutLoop t s =
     (if ts_fired s \<noteq> None \<or> ts_timer s > t then Some s else timeoutLoop t (loop_wake (ts_timer s) s))"

declare timeoutLoop.simps [code]

datatype timeout_event = TePacket | TeSet nanos nanos | TeEnable bool | TeTick

text \<open>
  An event at time \<open>t\<close>: a packet stores its time, a change of the settings kicks the loop, which then
  iterates at once.  Nothing happens once the loop has returned.
\<close>

definition timeout_apply :: "nanos \<Rightarrow> timeout_event \<Rightarrow> timeout_sys \<Rightarrow> timeout_sys" where
  "timeout_apply t e s =
     (if ts_fired s \<noteq> None then s
      else case e of
        TePacket \<Rightarrow> s\<lparr>ts_port := (ts_port s)\<lparr>mt_last_packet := t\<rparr>\<rparr>
      | TeSet i g \<Rightarrow> loop_wake t (s\<lparr>ts_port := SetTimeout t i g (ts_port s)\<rparr>)
      | TeEnable b \<Rightarrow> loop_wake t (s\<lparr>ts_port := EnableTimeout t b (ts_port s)\<rparr>)
      | TeTick \<Rightarrow> s)"

fun timeout_run :: "(nanos \<times> timeout_event) list \<Rightarrow> timeout_sys \<Rightarrow> timeout_sys option" where
  "timeout_run [] s = Some s"
| "timeout_run ((t, e) # es) s =
     (case timeoutLoop t s of None \<Rightarrow> None | Some s1 \<Rightarrow> timeout_run es (timeout_apply t e s1))"

definition new_timeout_sys :: "nanos \<Rightarrow> nanos \<Rightarrow> nanos \<Rightarrow> timeout_sys" where
  "new_timeout_sys now optInitial optGeneral =
     \<lparr>ts_port = new_timeout optInitial optGeneral, ts_timer = now + disabledPark, ts_fired = None\<rparr>"

section \<open>Configuration and teardown\<close>

record media_opts =
  mo_symmetric :: bool
  mo_ignore_local :: bool
  mo_ignore_preanswer :: bool
  mo_no_resample :: bool

datatype session_kind = DTLSSession | SRTPSession | PlainSession

record media_conf =
  mc_remote :: netip_addr_port
  mc_crypto :: bool
  mc_dtls :: bool
  mc_dtmf_type :: u8

datatype port_part = AudioOut | AudioIn | DtmfAudio | Sess session_kind | Conn | Handler

record media_port =
  mp_opts :: media_opts
  mp_conn :: udp_conn
  mp_conf :: "media_conf option"
  mp_open :: "port_part list"
  mp_closed :: bool
  mp_dtmf_audio :: bool
  mp_log :: "port_part list"

text \<open>
  \<open>mp_open\<close> are the parts the port holds, \<open>mp_log\<close> the parts that were closed.  A writer that is swapped out
  is closed, every other part is replaced without.
\<close>

definition store_part :: "port_part \<Rightarrow> media_port \<Rightarrow> media_port" where
  "store_part x p = p\<lparr>mp_open := filter (\<lambda>y. y \<noteq> x) (mp_open p) @ [x]\<rparr>"

definition swap_part :: "port_part \<Rightarrow> media_port \<Rightarrow> media_port" where
  "swap_part x p = store_part x (if x \<in> set (mp_open p) then p\<lparr>mp_log := mp_log p @ [x]\<rparr> else p)"

definition WriteAudioTo :: "media_port \<Rightarrow> media_port" where
  "WriteAudioTo p = swap_part AudioIn p"

definition session_of :: "media_conf \<Rightarrow> session_kind" where
  "session_of c = (if mc_dtls c then DTLSSession else if mc_crypto c then SRTPSession else PlainSession)"

definition is_symmetric :: "media_opts \<Rightarrow> media_conf \<Rightarrow> bool" where
  "is_symmetric o' c =
     (mo_symmetric o' \<or> mo_ignore_local o' \<and> (case mc_remote c of AddrPort ip _ \<Rightarrow> IsPrivate ip | NoAddr \<Rightarrow> False))"

text \<open>
  \<open>serr\<close> is the error of creating an SRTP session, \<open>oerr\<close> the one of opening its write stream or of the
  mixer for audible digits.
\<close>

definition SetConfig ::
  "nanos \<Rightarrow> go_error option \<Rightarrow> go_error option \<Rightarrow> media_conf \<Rightarrow> media_port \<Rightarrow> go_error option \<times> media_port" where
  "SetConfig now serr oerr c p =
     (if mp_closed p then (Some (Plain ''media is already closed''), p)
      else
        let conn1 = SetDst now (mc_remote c) (mp_conn p);
            conn2 = (if is_symmetric (mp_opts p) c then SetSymmetric True conn1 else conn1);
            conn3 = (if mo_ignore_preanswer (mp_opts p) then stopDiscarding conn2 else conn2);
            p1 = p\<lparr>mp_conn := conn3\<rparr>
        in case (if session_of c = SRTPSession then serr else None) of
             Some e \<Rightarrow> (Some e, p1)
           | None \<Rightarrow>
               let p2 = p1\<lparr>mp_conf := Some c,
                           mp_open := filter (\<lambda>x. case x of Sess _ \<Rightarrow> False | _ \<Rightarrow> True) (mp_open p1) @ [Sess (session_of c)]\<rparr>
               in case oerr of
                    Some e \<Rightarrow> (Some e, p2)
                  | None \<Rightarrow>
                      let p3 = (if mc_dtmf_type c \<noteq> 0 \<and> mp_dtmf_audio p2 then store_part DtmfAudio p2 else p2)
                      in (None, store_part Handler (swap_part AudioOut p3)))"

text \<open>\<open>UpdateRemote\<close> ignores an unusable address.\<close>

definition UpdateRemote :: "nanos \<Rightarrow> netip_addr_port \<Rightarrow> udp_conn \<Rightarrow> udp_conn" where
  "UpdateRemote now addr c =
     (case addr of NoAddr \<Rightarrow> c | AddrPort ip _ \<Rightarrow> if IsUnspecified ip then c else SetDst now addr c)"

text \<open>\<open>Close\<close> runs once: writers, session, connection, handler, each if it is there.\<close>

definition close_order :: "port_part \<Rightarrow> nat" where
  "close_order x =
     (case x of AudioOut \<Rightarrow> 0 | AudioIn \<Rightarrow> 1 | DtmfAudio \<Rightarrow> 2 | Sess _ \<Rightarrow> 3 | Conn \<Rightarrow> 4 | Handler \<Rightarrow> 5)"

definition media_Close :: "media_port \<Rightarrow> media_port" where
  "media_Close p =
     (if mp_closed p then p
      else p\<lparr>mp_closed := True, mp_conn := udp_Close (mp_conn p), mp_open := [],
             mp_log := mp_log p @ sort_key close_order (mp_open p)\<rparr>)"

end
