(* ===== verification/MediaPortProps.thy ===== *)
theory MediaPortProps
  imports MediaPort
begin

text \<open>
  Properties of a media port: where packets are sent under symmetric RTP, that the media timeout fires
  exactly at its deadline, and that closing a port closes each of its parts once.
\<close>

section \<open>Media timeout\<close>

definition deadline :: "media_timeout \<Rightarrow> nanos option" where
  "deadline p =
     (case mt_start p of
        None \<Rightarrow> None
      | Some st \<Rightarrow> Some (if mt_last_packet p \<le> 0 then st + initial_of p else mt_last_packet p + general_of p))"

definition timeouts_positive :: "media_timeout \<Rightarrow> bool" where
  "timeouts_positive p \<longleftrightarrow> 0 < initial_of p \<and> 0 < general_of p \<and> 0 < mt_opt_initial p \<and> 0 < mt_opt_general p"

text \<open>
  Between two events the loop sleeps: its timer is due in the future, not later than the deadline, and not
  later than one general timeout from now.  After it fired, it did so at the deadline, or at the moment
  the timeout was re-armed if that was past the deadline already.
\<close>

definition timeout_inv :: "nanos \<Rightarrow> timeout_sys \<Rightarrow> bool" where
  "timeout_inv now s \<longleftrightarrow>
     timeouts_positive (ts_port s) \<and>
     (\<forall>st. mt_start (ts_port s) = Some st \<longrightarrow> st \<le> now) \<and>
     (case ts_fired s of
        None \<Rightarrow> (\<forall>d. deadline (ts_port s) = Some d \<longrightarrow> ts_timer s \<le> d \<and> ts_timer s \<le> now + general_of (ts_port s))
      | Some f \<Rightarrow> f \<le> now \<and> (\<exists>d st. deadline (ts_port s) = Some d \<and> mt_start (ts_port s) = Some st \<and> f = max d st))"

lemma iteration_deadline:
  "timeout_iteration now p =
     (case deadline p of
        None \<Rightarrow> ResetTimer disabledPark
      | Some d \<Rightarrow> if d \<le> now then TriggerTimeout else ResetTimer (min (d - now) (general_of p)))"
  by (auto simp: timeout_iteration_def deadline_def Let_def split: option.splits)

lemma wake_sel [simp]:
  "ts_port (loop_wake w s) = ts_port s"
  by (simp add: loop_wake_def split: loop_action.splits)

lemma wake_inv:
  assumes "timeouts_positive (ts_port s)" "ts_fired s = None"
    "\<forall>d st. deadline (ts_port s) = Some d \<longrightarrow> mt_start (ts_port s) = Some st \<longrightarrow> st \<le> w \<and> w \<le> max d st"
  shows "timeout_inv w (loop_wake w s)" "ts_fired (loop_wake w s) = None \<Longrightarrow> w < ts_timer (loop_wake w s)"
proof -
  have "timeout_inv w (loop_wake w s) \<and> (ts_fired (loop_wake w s) = None \<longrightarrow> w < ts_timer (loop_wake w s))"
  proof (cases "mt_start (ts_port s)")
    case None
    then show ?thesis using assms
      by (simp add: loop_wake_def iteration_deadline timeout_inv_def disabledPark_def deadline_def)
  next
    case (Some st)
    then obtain d where "deadline (ts_port s) = Some d" by (simp add: deadline_def)
    then show ?thesis using assms Some
      by (auto simp: loop_wake_def iteration_deadline timeout_inv_def timeouts_positive_def max_def split: if_splits)
  qed
  then show "timeout_inv w (loop_wake w s)" "ts_fired (loop_wake w s) = None \<Longrightarrow> w < ts_timer (loop_wake w s)" by auto
qed

lemma timeout_inv_later: "timeout_inv n s \<Longrightarrow> n \<le> m \<Longrightarrow> timeout_inv m s"
  by (fastforce simp: timeout_inv_def split: option.splits)

text \<open>The loop always comes back to waiting or returns, and it keeps the invariant.\<close>

lemma timeoutLoop_returns:
  assumes "timeout_inv n s" "n \<le> t" "ts_fired s = None \<Longrightarrow> n \<le> ts_timer s"
  shows "\<exists>s'. timeoutLoop t s = Some s' \<and> timeout_inv t s' \<and> (ts_fired s' = None \<longrightarrow> t < ts_timer s')"
  using assms
proof (induction "nat (t + 1 - ts_timer s)" arbitrary: s n rule: less_induct)
  case less
  show ?case
  proof (cases "ts_fired s \<noteq> None \<or> ts_timer s > t")
    case True
    then show ?thesis using less.prems timeout_inv_later by (subst timeoutLoop.simps) auto
  next
    case False
    let ?w = "ts_timer s" and ?s = "loop_wake (ts_timer s) s"
    have w: "n \<le> ?w" "?w \<le> t" "ts_fired s = None" using False less.prems by auto
    have "timeouts_positive (ts_port s)" using less.prems(1) by (simp add: timeout_inv_def)
    moreover have "\<forall>d st. deadline (ts_port s) = Some d \<longrightarrow> mt_start (ts_port s) = Some st \<longrightarrow> st \<le> ?w \<and> ?w \<le> max d st"
      using less.prems(1) w by (auto simp: timeout_inv_def)
    ultimately have i: "timeout_inv ?w ?s" "ts_fired ?s = None \<Longrightarrow> ?w < ts_timer ?s" using wake_inv [of s ?w] w by auto
    have "\<exists>s'. timeoutLoop t ?s = Some s' \<and> timeout_inv t s' \<and> (ts_fired s' = None \<longrightarrow> t < ts_timer s')"
    proof (cases "ts_fired ?s = None")
      case True
      then show ?thesis using i w by (intro less.hyps [of ?s ?w]) auto
    next
      case fired: False
      then show ?thesis using i(1) w timeout_inv_later by (subst timeoutLoop.simps) auto
    qed
    then show ?thesis using False by (subst timeoutLoop.simps) simp
  qed
qed

lemma set_port_facts:
  assumes "timeouts_positive p"
  shows "timeouts_positive (SetTimeout t i g p)" "timeouts_positive (EnableTimeout t b p)"
    "mt_start (SetTimeout t i g p) = Some t" "mt_start (EnableTimeout t b p) = (if b then Some t else None)"
  using assms
  by (simp_all add: timeouts_positive_def SetTimeout_def EnableTimeout_def enableTimeout_def disableTimeout_def
      initial_of_def general_of_def defaultMediaTimeout_def defaultMediaTimeoutInitial_def split: option.splits)

lemma timeout_apply_inv:
  assumes "timeout_inv t s" "ts_fired s = None \<Longrightarrow> t < ts_timer s" "0 < t"
  shows "timeout_inv t (timeout_apply t e s) \<and> (ts_fired (timeout_apply t e s) = None \<longrightarrow> t \<le> ts_timer (timeout_apply t e s))"
proof (cases "ts_fired s")
  case None
  have pos: "timeouts_positive (ts_port s)" using assms(1) by (simp add: timeout_inv_def)
  have kick: "timeout_inv t (loop_wake t (s\<lparr>ts_port := p\<rparr>)) \<and>
      (ts_fired (loop_wake t (s\<lparr>ts_port := p\<rparr>)) = None \<longrightarrow> t \<le> ts_timer (loop_wake t (s\<lparr>ts_port := p\<rparr>)))"
    if "timeouts_positive p" "mt_start p = None \<or> mt_start p = Some t" for p
    using wake_inv [of "s\<lparr>ts_port := p\<rparr>" t] that None by (auto simp: less_imp_le)
  show ?thesis
  proof (cases e)
    case TePacket
    then show ?thesis using assms None
      by (auto simp: timeout_apply_def timeout_inv_def deadline_def timeouts_positive_def initial_of_def general_of_def
          split: option.splits if_splits)
  next
    case (TeSet i g)
    then show ?thesis using kick set_port_facts [OF pos] None by (simp add: timeout_apply_def)
  next
    case (TeEnable b)
    then show ?thesis using kick set_port_facts [OF pos] None by (simp add: timeout_apply_def)
  next
    case TeTick
    then show ?thesis using assms None by (simp add: timeout_apply_def less_imp_le)
  qed
next
  case (Some f)
  then show ?thesis using assms by (simp add: timeout_apply_def)
qed

fun times_ok :: "nanos \<Rightarrow> (nanos \<times> timeout_event) list \<Rightarrow> bool" where
  "times_ok n [] = True"
| "times_ok n ((t, e) # es) = (0 < t \<and> n \<le> t \<and> times_ok t es)"

lemma timeout_run_returns:
  assumes "timeout_inv n s" "ts_fired s = None \<Longrightarrow> n \<le> ts_timer s" "times_ok n es"
  shows "\<exists>s'. timeout_run es s = Some s' \<and> (\<exists>m. m = (if es = [] then n else fst (last es)) \<and> timeout_inv m s' \<and>
           (ts_fired s' = None \<longrightarrow> m \<le> ts_timer s'))"
  using assms
proof (induction es arbitrary: n s)
  case (Cons x es)
  obtain t e where x: "x = (t, e)" by (cases x)
  obtain s1 where s1: "timeoutLoop t s = Some s1" "timeout_inv t s1" "ts_fired s1 = None \<longrightarrow> t < ts_timer s1"
    using timeoutLoop_returns [OF Cons.prems(1), of t] Cons.prems by (auto simp: x)
  have "timeout_inv t (timeout_apply t e s1) \<and> (ts_fired (timeout_apply t e s1) = None \<longrightarrow> t \<le> ts_timer (timeout_apply t e s1))"
    using s1 Cons.prems(3) by (intro timeout_apply_inv) (auto simp: x)
  then show ?case using Cons.IH [of t "timeout_apply t e s1"] Cons.prems(3) s1 by (auto simp: x)
qed simp

lemma times_ok_append:
  "times_ok n (es @ [(t, e)]) \<longleftrightarrow> times_ok n es \<and> 0 < t \<and> (if es = [] then n else fst (last es)) \<le> t"
  by (induction n es rule: times_ok.induct) auto

lemma timeout_run_snoc:
  "timeout_run (es @ [(t, e)]) s =
     (case timeout_run es s of None \<Rightarrow> None
      | Some s1 \<Rightarrow> map_option (timeout_apply t e) (timeoutLoop t s1))"
  by (induction es s rule: timeout_run.induct) (auto split: option.splits)

lemma new_timeout_sys_inv: "timeout_inv now (new_timeout_sys now oi og) \<and> now \<le> ts_timer (new_timeout_sys now oi og)"
  by (simp add: timeout_inv_def new_timeout_sys_def new_timeout_def timeouts_positive_def initial_of_def general_of_def
      deadline_def defaultMediaTimeout_def defaultMediaTimeoutInitial_def disabledPark_def Let_def)

text \<open>
  C15: The media timeout is exact.  After any sequence of packets, changes of the timeouts and pauses, the
  loop is still there and the deadline (the start of the watch plus the initial timeout before the first
  packet, the last packet plus the general timeout afterwards) lies ahead; or it fired, and did so
  exactly at the deadline, or at the change of the settings that moved the deadline into the past.
  It never fires while the watch is disabled.
\<close>

theorem media_timeout_exact:
  assumes "times_ok now (es @ [(t, TeTick)])"
  shows "\<exists>s. timeout_run (es @ [(t, TeTick)]) (new_timeout_sys now oi og) = Some s \<and>
     (case ts_fired s of
        None \<Rightarrow> (\<forall>d. deadline (ts_port s) = Some d \<longrightarrow> t < d)
      | Some f \<Rightarrow> f \<le> t \<and> (\<exists>d st. deadline (ts_port s) = Some d \<and> mt_start (ts_port s) = Some st \<and> f = max d st))"
proof -
  let ?m = "if es = [] then now else fst (last es)"
  have ok: "times_ok now es" "?m \<le> t" using assms by (auto simp: times_ok_append)
  obtain s1 where s1: "timeout_run es (new_timeout_sys now oi og) = Some s1" "timeout_inv ?m s1"
      "ts_fired s1 = None \<longrightarrow> ?m \<le> ts_timer s1"
    using timeout_run_returns [of now "new_timeout_sys now oi og" es] new_timeout_sys_inv ok by auto
  obtain s2 where s2: "timeoutLoop t s1 = Some s2" "timeout_inv t s2" "ts_fired s2 = None \<longrightarrow> t < ts_timer s2"
    using timeoutLoop_returns [OF s1(2) ok(2)] s1(3) by auto
  have "timeout_run (es @ [(t, TeTick)]) (new_timeout_sys now oi og) = Some s2"
    using s1 s2 by (simp add: timeout_run_snoc timeout_apply_def split: option.splits)
  then show ?thesis using s2 by (auto simp: timeout_inv_def split: option.splits)
qed

theorem media_timeout_exact_witness:
  "\<exists>s. timeout_run ([(1, TeEnable True), (5 * second, TePacket)] @ [(30 * second, TeTick)]) (new_timeout_sys 1 0 0) = Some s \<and>
     ts_fired s = Some (20 * second)"
proof -
  have "map_option ts_fired (timeout_run ([(1, TeEnable True), (5 * second, TePacket)] @ [(30 * second, TeTick)])
      (new_timeout_sys 1 0 0)) = Some (Some (20 * second))"
    by code_simp
  then show ?thesis
    using media_timeout_exact [of 1 "[(1, TeEnable True), (5 * second, TePacket)]" "30 * second" 0 0] by auto
qed

section \<open>Where packets are sent\<close>

lemma SetDst_dst: "uc_dst (SetDst now a c) = (if ap_IsValid a then Some a else uc_dst c)"
  by (simp add: SetDst_def Let_def)

lemma SetDst_other [simp]:
  "uc_closed (SetDst now a c) = uc_closed c" "uc_symmetric (SetDst now a c) = uc_symmetric c"
  "uc_src (SetDst now a c) = uc_src c" "uc_src_changes (SetDst now a c) = uc_src_changes c"
  by (simp_all add: SetDst_def Let_def)

lemma Read_open:
  assumes "\<not> uc_closed c"
  shows "uc_closed (snd (udp_Read now a False c)) = False"
    "uc_symmetric (snd (udp_Read now a False c)) = uc_symmetric c"
    "uc_src (snd (udp_Read now a False c)) = Some a"
    "uc_dst (snd (udp_Read now a False c)) = (if uc_symmetric c \<and> ap_IsValid a then Some a else uc_dst c)"
  using assms by (auto simp: udp_Read_def SetDst_dst Let_def)

text \<open>
  The destination as a function of the history: the address set or, while symmetric RTP is on, received
  from last; \<open>b\<close> is the symmetric flag at the start.
\<close>

fun last_target :: "bool \<Rightarrow> netip_addr_port option \<Rightarrow> conn_event list \<Rightarrow> netip_addr_port option" where
  "last_target b d [] = d"
| "last_target b d (RxFrom t a # es) = last_target b (if b \<and> ap_IsValid a then Some a else d) es"
| "last_target b d (SetRemote t a # es) = last_target b (if ap_IsValid a then Some a else d) es"
| "last_target b d (SymmetricRTP b' # es) = last_target b' d es"

text \<open>
  Media is sent to the address that was negotiated last, or, with symmetric RTP, to the address the last
  valid packet came from; invalid addresses and packets received while symmetric RTP is off
  never redirect it, and nothing is sent before there is a destination.
\<close>

theorem media_destination:
  assumes "\<not> uc_closed c"
  shows "udp_Write (fold conn_step es c) = last_target (uc_symmetric c) (uc_dst c) es"
  using assms
proof (induction es arbitrary: c)
  case (Cons e es)
  have "\<not> uc_closed (conn_step e c)" using Cons.prems by (cases e) (simp_all add: Read_open SetSymmetric_def)
  then show ?case using Cons by (cases e) (simp_all add: Read_open SetDst_dst SetSymmetric_def)
qed (simp add: udp_Write_def)

theorem media_destination_witness:
  "udp_Write (fold conn_step [SetRemote 1 (AddrPort (IPv4 10 0 0 1) 4000), RxFrom 2 (AddrPort (IPv4 1 2 3 4) 5000)] (newUDPConn True))
     = Some (AddrPort (IPv4 1 2 3 4) 5000)"
  using media_destination [of "newUDPConn True" "[SetRemote 1 (AddrPort (IPv4 10 0 0 1) 4000), RxFrom 2 (AddrPort (IPv4 1 2 3 4) 5000)]"]
  by (simp add: newUDPConn_def ap_IsValid_def)

text \<open>
  A change of the source is counted twice whenever it is also logged, so the counter over-reports.
\<close>

lemma source_change_counted_twice:
  assumes "\<not> uc_closed c" "uc_src c = Some p" "ap_IsValid p" "p \<noteq> a" "now - uc_last_src_print c > changePrintInterval"
  shows "uc_src_changes (snd (udp_Read now a False c)) = uc_src_changes c + 2"
  using assms by (simp add: udp_Read_def differs_def Let_def)

section \<open>Teardown\<close>

interpretation media_close: once_op "\<lambda>p. True" mp_closed "\<lambda>_ :: unit. media_Close"
  by unfold_locales (simp_all add: media_Close_def)

datatype port_event = PoConfig nanos "go_error option" "go_error option" media_conf | PoAudio | PoClose

fun port_step :: "port_event \<Rightarrow> media_port \<Rightarrow> media_port" where
  "port_step (PoConfig now serr oerr c) p = snd (SetConfig now serr oerr c p)"
| "port_step PoAudio p = (if mp_closed p then p else WriteAudioTo p)"
| "port_step PoClose p = media_Close p"

lemma port_closed_final: "mp_closed p \<Longrightarrow> port_step e p = p"
  by (cases e) (simp_all add: SetConfig_def media_Close_def)

text \<open>
  Closing a port closes every part it holds, the writers before the session, the session before the connection
  and the handler last; whatever is called on it afterwards changes nothing, so no part is closed twice.
\<close>

lemma closed_port_final:
  "fold port_step es (media_Close p) = media_Close p \<and>
   (\<not> mp_closed p \<longrightarrow> (\<exists>cs. mp_log (media_Close p) = mp_log p @ cs \<and> set cs = set (mp_open p) \<and> length cs = length (mp_open p) \<and>
      sorted (map close_order cs)))"
proof
  have "mp_closed (media_Close p)" by (rule media_close.shut_closes) simp
  then show "fold port_step es (media_Close p) = media_Close p"
    by (induction es) (simp_all add: port_closed_final)
qed (auto simp: media_Close_def)

end
