(* ===== verification/DtlsSdp.thy ===== *)
theory DtlsSdp
  imports MediaPort
begin

text \<open>
  \<open>pkg/sip/dtls_sdp.go\<close>: reading a DTLS-SRTP offer (fingerprint, role, ICE credentials and candidate) and adding
  the matching attributes to the answer.  The SDP parser and printer are outside the repository, so a
  session description is the record they produce; \<open>None\<close> stands for their error.  The random ICE credentials
  are arguments.  \<open>v6\<close> reads the text forms \<open>netip.ParseAddr\<close> accepts beside dotted IPv4.
\<close>

section \<open>Text of addresses and bytes\<close>

definition hex_char :: "nat \<Rightarrow> char" where
  "hex_char n = (if n < 10 then char_of (48 + n) else char_of (55 + n))"

definition hex_byte :: "u8 \<Rightarrow> string" where
  "hex_byte b = [hex_char (unat b div 16), hex_char (unat b mod 16)]"

definition is_hex :: "char \<Rightarrow> bool" where
  "is_hex c = (let n = (of_char c :: nat) in 48 \<le> n \<and> n \<le> 57 \<or> 65 \<le> n \<and> n \<le> 70 \<or> 97 \<le> n \<and> n \<le> 102)"

text \<open>\<open>hex.DecodeString\<close>: the number of bytes, or an error for an odd length or a character that is no digit.\<close>

definition hex_decoded_len :: "string \<Rightarrow> nat option" where
  "hex_decoded_len s = (if list_all is_hex s \<and> even (length s) then Some (length s div 2) else None)"

fun join :: "string \<Rightarrow> string list \<Rightarrow> string" where
  "join sep [] = []"
| "join sep [w] = w"
| "join sep (w # ws) = w @ sep @ join sep ws"

definition parse_octet :: "string \<Rightarrow> u8 option" where
  "parse_octet s =
     (if s = [] \<or> \<not> list_all is_digit s \<or> length s > 1 \<and> hd s = CHR ''0'' \<or> digits_val s > 255 then None
      else Some (word_of_nat (digits_val s)))"

definition parse_ipv4 :: "string \<Rightarrow> ip_addr option" where
  "parse_ipv4 s =
     (case map parse_octet (split_on CHR ''.'' s) of
        [Some a, Some b, Some c, Some d] \<Rightarrow> Some (IPv4 a b c d)
      | _ \<Rightarrow> None)"

definition ParseAddr :: "(string \<Rightarrow> ip_addr option) \<Rightarrow> string \<Rightarrow> ip_addr option" where
  "ParseAddr v6 s = (case parse_ipv4 s of Some ip \<Rightarrow> Some ip | None \<Rightarrow> v6 s)"

definition octet_text :: "u8 \<Rightarrow> string" where
  "octet_text a = itoa_nat (unat a)"

text \<open>\<open>p6\<close> prints the other addresses.\<close>

fun Addr_String :: "(ip_addr \<Rightarrow> string) \<Rightarrow> ip_addr \<Rightarrow> string" where
  "Addr_String p6 (IPv4 a b c d) = join ''.'' [octet_text a, octet_text b, octet_text c, octet_text d]"
| "Addr_String p6 ip = p6 ip"

text \<open>\<open>fmt.Sscanf\<close> with \<open>%d\<close> into a \<open>uint16\<close>: the leading digits, which must be there and fit.\<close>

definition sscanf_u16 :: "string \<Rightarrow> u16 option" where
  "sscanf_u16 s =
     (let ds = takeWhile is_digit s in
      if ds = [] \<or> digits_val ds \<ge> 65536 then None else Some (word_of_nat (digits_val ds)))"

section \<open>Session descriptions\<close>

type_synonym attr = "string \<times> string"

record media_desc =
  md_media :: string
  md_protos :: "string list"
  md_port :: int
  md_attrs :: "attr list"

record session_desc =
  sd_attrs :: "attr list"
  sd_conn :: "string option"
  sd_media :: "media_desc list"

record dtls_ice =
  ice_remote_ufrag :: string
  ice_remote_pwd :: string
  ice_remote :: netip_addr_port
  ice_local_ufrag :: string
  ice_local_pwd :: string
  ice_local :: netip_addr_port

record dtls_conf =
  dc_remote_fp :: string
  dc_local_setup :: string
  dc_is_client :: bool
  dc_cert :: string
  dc_ice :: "dtls_ice option"

definition mediaAttribute :: "media_desc \<Rightarrow> string \<Rightarrow> string option" where
  "mediaAttribute m key = map_of (md_attrs m) key"

definition sessionAttribute :: "session_desc \<Rightarrow> string \<Rightarrow> string option" where
  "sessionAttribute s key = map_of (sd_attrs s) key"

definition dtls_error :: "string \<Rightarrow> go_error" where
  "dtls_error t = Wrapped t (Sentinel ErrDTLSSDP)"

text \<open>The fingerprint of the certificate \<open>newDTLSCertificate\<close> makes, from its SHA-256 digest.\<close>

definition cert_fingerprint :: "u8 list \<Rightarrow> string" where
  "cert_fingerprint digest = join '':'' (map hex_byte digest)"

definition candidate_addr :: "string \<Rightarrow> netip_addr_port option" where
  "candidate_addr v =
     (let f = str_fields v in
      if length f < 6 \<or> \<not> equal_fold (f ! 2) ''udp'' then None
      else case parse_ipv4 (f ! 4) of
        None \<Rightarrow> None
      | Some ip \<Rightarrow>
          (case sscanf_u16 (f ! 5) of None \<Rightarrow> None | Some port \<Rightarrow> if port = 0 then None else Some (AddrPort ip port)))"

fun iceRemoteCandidate :: "attr list \<Rightarrow> netip_addr_port option" where
  "iceRemoteCandidate [] = None"
| "iceRemoteCandidate ((k, v) # as) =
     (if k \<noteq> ''candidate'' then iceRemoteCandidate as
      else case candidate_addr v of Some a \<Rightarrow> Some a | None \<Rightarrow> iceRemoteCandidate as)"

section \<open>The offer\<close>

definition is_dtls_audio :: "media_desc \<Rightarrow> bool" where
  "is_dtls_audio m = (md_media m = ''audio'' \<and> equal_fold (join ''/'' (md_protos m)) ''UDP/TLS/RTP/SAVPF'')"

definition fingerprint_ok :: "string \<Rightarrow> go_error + string" where
  "fingerprint_ok fp =
     (case str_fields fp of
        [alg, v] \<Rightarrow>
          if \<not> equal_fold alg ''sha-256'' then Inl (dtls_error ''SHA-256 fingerprint required'')
          else if hex_decoded_len (filter (\<lambda>c. c \<noteq> CHR '':'') v) \<noteq> Some 32 then Inl (dtls_error ''malformed fingerprint'')
          else Inr v
      | _ \<Rightarrow> Inl (dtls_error ''SHA-256 fingerprint required''))"

definition offer_ice :: "go_error + string \<Rightarrow> go_error + string \<Rightarrow> media_desc \<Rightarrow> go_error + dtls_ice option" where
  "offer_ice lu lp m =
     (case mediaAttribute m ''ice-ufrag'' of
        None \<Rightarrow> Inr None
      | Some ufrag \<Rightarrow>
          (case mediaAttribute m ''ice-pwd'' of
             None \<Rightarrow> Inl (dtls_error ''incomplete ICE credentials'')
           | Some pwd \<Rightarrow>
               if ufrag = [] \<or> pwd = [] then Inl (dtls_error ''incomplete ICE credentials'')
               else (case iceRemoteCandidate (md_attrs m) of
                       None \<Rightarrow> Inl (dtls_error ''ICE candidate missing'')
                     | Some remote \<Rightarrow>
                         (case (lu, lp) of
                            (Inr u, Inr p) \<Rightarrow>
                              Inr (Some \<lparr>ice_remote_ufrag = ufrag, ice_remote_pwd = pwd, ice_remote = remote,
                                         ice_local_ufrag = u, ice_local_pwd = p, ice_local = NoAddr\<rparr>)
                          | (Inl e, _) \<Rightarrow> Inl e
                          | (_, Inl e) \<Rightarrow> Inl e))))"

definition setup_role :: "string \<Rightarrow> (string \<times> bool) option" where
  "setup_role setup =
     (let s = to_lower setup in
      if s = ''actpass'' \<or> s = ''active'' then Some (''passive'', False)
      else if s = ''passive'' then Some (''active'', True)
      else None)"

definition or_session :: "string option \<Rightarrow> string option \<Rightarrow> string option" where
  "or_session a b = (case a of Some x \<Rightarrow> Some x | None \<Rightarrow> b)"

definition dtls_audio_offer ::
  "go_error + string \<Rightarrow> go_error + string \<Rightarrow> string option \<Rightarrow> session_desc \<Rightarrow> media_desc \<Rightarrow> go_error + dtls_conf" where
  "dtls_audio_offer lu lp cert s m =
     (case cert of
        None \<Rightarrow> Inl (dtls_error ''DTLS-SRTP is not configured'')
      | Some ct \<Rightarrow>
     (case or_session (mediaAttribute m ''fingerprint'') (sessionAttribute s ''fingerprint'') of
        None \<Rightarrow> Inl (dtls_error ''fingerprint missing'')
      | Some fp \<Rightarrow>
     (case fingerprint_ok fp of
        Inl e \<Rightarrow> Inl e
      | Inr v \<Rightarrow>
     (case or_session (mediaAttribute m ''setup'') (sessionAttribute s ''setup'') of
        None \<Rightarrow> Inl (dtls_error ''setup missing'')
      | Some setup \<Rightarrow>
          if mediaAttribute m ''rtcp-mux'' = None then Inl (dtls_error ''rtcp-mux required'')
          else (case offer_ice lu lp m of
                  Inl e \<Rightarrow> Inl e
                | Inr ice \<Rightarrow>
                    (case setup_role setup of
                       None \<Rightarrow> Inl (dtls_error ''unsupported setup role'')
                     | Some (loc, cl) \<Rightarrow>
                         Inr \<lparr>dc_remote_fp = to_upper v, dc_local_setup = loc, dc_is_client = cl, dc_cert = ct, dc_ice = ice\<rparr>))))))"

definition parseDTLSOffer ::
  "go_error + string \<Rightarrow> go_error + string \<Rightarrow> session_desc option \<Rightarrow> string option \<Rightarrow> go_error + dtls_conf option" where
  "parseDTLSOffer lu lp raw cert =
     (case raw of
        None \<Rightarrow> Inl (dtls_error ''sdp'')
      | Some s \<Rightarrow>
          (case find is_dtls_audio (sd_media s) of
             None \<Rightarrow> Inr None
           | Some m \<Rightarrow> (case dtls_audio_offer lu lp cert s m of Inl e \<Rightarrow> Inl e | Inr c \<Rightarrow> Inr (Some c))))"

section \<open>The answer\<close>

definition candidate_text :: "(ip_addr \<Rightarrow> string) \<Rightarrow> ip_addr \<Rightarrow> u16 \<Rightarrow> string" where
  "candidate_text p6 ip port =
     join '' '' [''1'', ''1'', ''udp'', ''2130706431'', Addr_String p6 ip, itoa_nat (unat port), ''typ'', ''host'']"

definition dtls_answer_attrs :: "dtls_conf \<Rightarrow> attr list \<Rightarrow> attr list" where
  "dtls_answer_attrs d as =
     filter (\<lambda>a. fst a \<noteq> ''crypto'' \<and> fst a \<noteq> ''fingerprint'' \<and> fst a \<noteq> ''setup'' \<and> fst a \<noteq> ''rtcp-mux'') as @
     [(''fingerprint'', ''sha-256 '' @ dc_cert d), (''setup'', dc_local_setup d), (''rtcp-mux'', [])]"

definition answer_media ::
  "(string \<Rightarrow> ip_addr option) \<Rightarrow> (ip_addr \<Rightarrow> string) \<Rightarrow> string option \<Rightarrow> dtls_conf \<Rightarrow> media_desc
    \<Rightarrow> go_error + (media_desc \<times> dtls_conf)" where
  "answer_media v6 p6 conn d m =
     (let m1 = m\<lparr>md_protos := [''UDP'', ''TLS'', ''RTP'', ''SAVPF''], md_attrs := dtls_answer_attrs d (md_attrs m)\<rparr> in
      case dc_ice d of
        None \<Rightarrow> Inr (m1, d)
      | Some ice \<Rightarrow>
          (case conn of
             None \<Rightarrow> Inl (dtls_error ''answer has no connection address'')
           | Some t \<Rightarrow>
               (case ParseAddr v6 t of
                  None \<Rightarrow> Inl (dtls_error ''invalid answer address'')
                | Some ip \<Rightarrow>
                    let port = (word_of_int (md_port m1) :: u16) in
                    Inr (m1\<lparr>md_attrs := md_attrs m1 @
                              [(''ice-ufrag'', ice_local_ufrag ice), (''ice-pwd'', ice_local_pwd ice),
                               (''candidate'', candidate_text p6 ip port)]\<rparr>,
                         d\<lparr>dc_ice := Some (ice\<lparr>ice_local := AddrPort ip port\<rparr>)\<rparr>))))"

fun addDTLSAnswer_media ::
  "(string \<Rightarrow> ip_addr option) \<Rightarrow> (ip_addr \<Rightarrow> string) \<Rightarrow> string option \<Rightarrow> dtls_conf \<Rightarrow> media_desc list
    \<Rightarrow> go_error + (media_desc list \<times> dtls_conf)" where
  "addDTLSAnswer_media v6 p6 conn d [] = Inl (dtls_error ''answer has no audio media'')"
| "addDTLSAnswer_media v6 p6 conn d (m # ms) =
     (if md_media m \<noteq> ''audio'' then
        (case addDTLSAnswer_media v6 p6 conn d ms of Inl e \<Rightarrow> Inl e | Inr (ms', d') \<Rightarrow> Inr (m # ms', d'))
      else (case answer_media v6 p6 conn d m of Inl e \<Rightarrow> Inl e | Inr (m', d') \<Rightarrow> Inr (m' # ms, d')))"

definition addDTLSAnswer ::
  "(string \<Rightarrow> ip_addr option) \<Rightarrow> (ip_addr \<Rightarrow> string) \<Rightarrow> session_desc \<Rightarrow> dtls_conf \<Rightarrow> go_error + (session_desc \<times> dtls_conf)" where
  "addDTLSAnswer v6 p6 s d =
     (case addDTLSAnswer_media v6 p6 (sd_conn s) d (sd_media s) of
        Inl e \<Rightarrow> Inl e
      | Inr (ms, d') \<Rightarrow> Inr (s\<lparr>sd_media := ms\<rparr>, d'))"

end
