(* ===== verification/DtlsSdpProps.thy ===== *)
theory DtlsSdpProps
  imports DtlsSdp
begin

text \<open>
  What the answer to a DTLS-SRTP offer says, read back the way the bridge reads an offer: the fingerprint, the
  complementary role and the ICE candidate all survive.  With it the failures of \<open>parseDTLSOffer\<close>.
\<close>

section \<open>Words of a line\<close>

definition is_word :: "string \<Rightarrow> bool" where
  "is_word w = (w \<noteq> [] \<and> list_all (\<lambda>c. \<not> is_space c) w)"

lemma fields_acc_word: "list_all (\<lambda>c. \<not> is_space c) w \<Longrightarrow> fields_acc acc (w @ rest) = fields_acc (rev w @ acc) rest"
  by (induction w arbitrary: acc) simp_all

lemma fields_acc_join:
  "list_all is_word ws \<Longrightarrow> ws \<noteq> [] \<Longrightarrow> fields_acc [] (join '' '' ws) = ws"
proof (induction "'' ''" ws rule: join.induct)
  case (2 w)
  then show ?case using fields_acc_word [of w "[]" "[]"] by (simp add: is_word_def)
next
  case (3 w v ws)
  have sp: "is_space CHR '' ''" by (simp add: is_space_def)
  have "fields_acc [] (join '' '' (w # v # ws)) = fields_acc (rev w) (CHR '' '' # join '' '' (v # ws))"
    using 3 fields_acc_word [of w "[]"] by (simp add: is_word_def)
  also have "\<dots> = w # fields_acc [] (join '' '' (v # ws))" using 3 sp by (auto simp: is_word_def)
  also have "\<dots> = w # v # ws" using 3 by simp
  finally show ?case .
qed simp

lemma str_fields_join: "list_all is_word ws \<Longrightarrow> ws \<noteq> [] \<Longrightarrow> str_fields (join '' '' ws) = ws"
  by (simp add: str_fields_def fields_acc_join)

lemma digits_word: "is_word (itoa_nat n)"
proof -
  have "\<not> is_space c" if "is_digit c" for c using that by (auto simp: is_digit_def is_space_def)
  then show ?thesis using itoa_nat_set by (auto simp: is_word_def list_all_iff)
qed

lemma join_all: "list_all (list_all P) ws \<Longrightarrow> list_all P sep \<Longrightarrow> list_all P (join sep ws)"
  by (induction sep ws rule: join.induct) auto

section \<open>Fingerprints\<close>

lemma hex_char_facts:
  assumes "n < 16"
  shows "is_hex (hex_char n)" "hex_char n \<noteq> CHR '':''" "\<not> is_space (hex_char n)" "upper_char (hex_char n) = hex_char n"
  using assms
  by (auto simp: hex_char_def is_hex_def is_space_def upper_char_def Let_def char_of_eq_iff take_bit_eq_mod)

lemma unat_octet: "unat (b :: u8) < 256"
  using unsigned_less [of b] by simp

lemma hex_byte_facts:
  "list_all is_hex (hex_byte b)" "CHR '':'' \<notin> set (hex_byte b)" "list_all (\<lambda>c. \<not> is_space c) (hex_byte b)"
  "to_upper (hex_byte b) = hex_byte b" "length (hex_byte b) = 2"
proof -
  have "unat b < 256" by (rule unat_octet)
  then have n: "unat b div 16 < 16" "unat b mod 16 < 16" by auto
  show "list_all is_hex (hex_byte b)" "CHR '':'' \<notin> set (hex_byte b)" "list_all (\<lambda>c. \<not> is_space c) (hex_byte b)"
    "to_upper (hex_byte b) = hex_byte b" "length (hex_byte b) = 2"
    unfolding hex_byte_def using hex_char_facts [OF n(1)] hex_char_facts [OF n(2)] by (auto simp: to_upper_def)
qed

lemma fingerprint_hex:
  "filter (\<lambda>c. c \<noteq> CHR '':'') (cert_fingerprint ds) = concat (map hex_byte ds)"
proof -
  have "filter (\<lambda>c. c \<noteq> CHR '':'') (join '':'' ws) = concat ws" if "\<forall>w \<in> set ws. CHR '':'' \<notin> set w" for ws
    using that by (induction "'':''" ws rule: join.induct) (auto simp: filter_id_conv)
  then show ?thesis using hex_byte_facts(2) by (simp add: cert_fingerprint_def)
qed

lemma fingerprint_decodes: "hex_decoded_len (filter (\<lambda>c. c \<noteq> CHR '':'') (cert_fingerprint ds)) = Some (length ds)"
proof -
  have "length (concat (map hex_byte ds)) = 2 * length ds" "list_all is_hex (concat (map hex_byte ds))"
    using hex_byte_facts(1,5) by (induction ds) auto
  then show ?thesis by (simp add: fingerprint_hex hex_decoded_len_def)
qed

lemma fingerprint_word: "ds \<noteq> [] \<Longrightarrow> is_word (cert_fingerprint ds)"
proof -
  assume ds: "ds \<noteq> []"
  have "list_all (\<lambda>c. \<not> is_space c) (cert_fingerprint ds)"
    unfolding cert_fingerprint_def using hex_byte_facts(3) by (intro join_all) (auto simp: list_all_iff is_space_def)
  moreover have "cert_fingerprint ds \<noteq> []"
    using ds hex_byte_facts(5) fingerprint_hex [of ds] by (cases ds) (auto simp: cert_fingerprint_def hex_byte_def)
  ultimately show ?thesis by (simp add: is_word_def)
qed

lemma fingerprint_upper: "to_upper (cert_fingerprint ds) = cert_fingerprint ds"
proof -
  have "to_upper (join '':'' ws) = join '':'' ws" if "\<forall>w \<in> set ws. to_upper w = w" for ws
    using that by (induction "'':''" ws rule: join.induct) (auto simp: to_upper_def upper_char_def)
  then show ?thesis using hex_byte_facts(4) by (simp add: cert_fingerprint_def)
qed

lemma sha_word: "is_word ''sha-256''"
  by (simp add: is_word_def is_space_def)

lemma fingerprint_accepted:
  assumes "length ds = 32"
  shows "fingerprint_ok (''sha-256 '' @ cert_fingerprint ds) = Inr (cert_fingerprint ds)"
proof -
  have "''sha-256 '' @ cert_fingerprint ds = join '' '' [''sha-256'', cert_fingerprint ds]" by simp
  moreover have "ds \<noteq> []" using assms by auto
  ultimately have "str_fields (''sha-256 '' @ cert_fingerprint ds) = [''sha-256'', cert_fingerprint ds]"
    using fingerprint_word [of ds] by (simp only: str_fields_join list.pred_inject list.distinct sha_word simp_thms)
  then show ?thesis using assms fingerprint_decodes by (simp add: fingerprint_ok_def equal_fold_def)
qed

section \<open>Addresses\<close>

lemma itoa_nat_leading: "0 < n \<Longrightarrow> hd (itoa_nat n) \<noteq> CHR ''0''"
proof (induction n rule: itoa_nat.induct)
  case (1 n)
  show ?case
  proof (cases "n < 10")
    case True
    then have "char_of (48 + n) \<noteq> CHR ''0''" using 1(2) by (simp add: char_of_eq_iff take_bit_eq_mod)
    then show ?thesis using True by (subst itoa_nat.simps) simp
  next
    case False
    then show ?thesis using 1 by (subst itoa_nat.simps) (simp add: hd_append)
  qed
qed

lemma octet_parse: "parse_octet (octet_text a) = Some a"
proof -
  have lead: "length (itoa_nat (unat a)) > 1 \<Longrightarrow> hd (itoa_nat (unat a)) \<noteq> CHR ''0''"
  proof -
    assume l: "length (itoa_nat (unat a)) > 1"
    have "unat a \<noteq> 0"
    proof
      assume "unat a = 0"
      then show False using l by (subst (asm) itoa_nat.simps) simp
    qed
    then show ?thesis by (intro itoa_nat_leading) simp
  qed
  then show ?thesis using unat_octet [of a] by (auto simp: parse_octet_def octet_text_def)
qed

lemma octet_text_chars: "CHR ''.'' \<notin> set (octet_text a)" "is_word (octet_text a)"
  using itoa_nat_set [of "CHR ''.''" "unat a"] digits_word by (auto simp: octet_text_def is_digit_def)

lemma ipv4_round_trip: "parse_ipv4 (Addr_String p6 (IPv4 a b c d)) = Some (IPv4 a b c d)"
proof -
  have "split_on CHR ''.'' (Addr_String p6 (IPv4 a b c d)) = [octet_text a, octet_text b, octet_text c, octet_text d]"
    using octet_text_chars(1) by (simp add: split_on_append split_on_absent)
  then show ?thesis by (simp add: parse_ipv4_def octet_parse)
qed

lemma ipv4_word: "is_word (Addr_String p6 (IPv4 a b c d))"
proof -
  have "list_all (\<lambda>ch. \<not> is_space ch) (Addr_String p6 (IPv4 a b c d))"
    unfolding Addr_String.simps using octet_text_chars(2)
    by (intro join_all) (auto simp: is_word_def is_space_def)
  moreover have "Addr_String p6 (IPv4 a b c d) \<noteq> []" using octet_text_chars(2) [of a] by (simp add: is_word_def)
  ultimately show ?thesis by (simp add: is_word_def)
qed

lemma port_scan: "sscanf_u16 (itoa_nat (unat port)) = Some port"
proof -
  have lt: "unat port < 65536" using unsigned_less [of port] by simp
  have tw: "takeWhile is_digit (itoa_nat (unat port)) = itoa_nat (unat port)"
    using itoa_nat_set by (intro takeWhile_eq_all_conv [THEN iffD2]) auto
  show ?thesis unfolding sscanf_u16_def Let_def tw using lt by simp
qed

lemma candidate_round_trip:
  assumes "port \<noteq> 0"
  shows "candidate_addr (candidate_text p6 (IPv4 a b c d) port) = Some (AddrPort (IPv4 a b c d) port)"
proof -
  have "list_all is_word [''1'', ''1'', ''udp'', ''2130706431'', Addr_String p6 (IPv4 a b c d), itoa_nat (unat port), ''typ'', ''host'']"
    using ipv4_word digits_word by (simp add: is_word_def is_space_def del: Addr_String.simps)
  then have "str_fields (candidate_text p6 (IPv4 a b c d) port) =
      [''1'', ''1'', ''udp'', ''2130706431'', Addr_String p6 (IPv4 a b c d), itoa_nat (unat port), ''typ'', ''host'']"
    unfolding candidate_text_def by (intro str_fields_join) simp_all
  then show ?thesis
    using assms by (simp add: candidate_addr_def Let_def ipv4_round_trip port_scan equal_fold_def del: Addr_String.simps)
qed

section \<open>The answer read back\<close>

lemma find_answer:
  assumes "addDTLSAnswer_media v6 p6 conn d ms = Inr (ms', d')" "list_all (\<lambda>m. \<not> is_dtls_audio m) ms"
  shows "\<exists>m m'. m \<in> set ms \<and> md_media m = ''audio'' \<and> answer_media v6 p6 conn d m = Inr (m', d') \<and> find is_dtls_audio ms' = Some m'"
  using assms
proof (induction v6 p6 conn d ms arbitrary: ms' d' rule: addDTLSAnswer_media.induct)
  case (2 v6 p6 conn d m ms)
  show ?case
  proof (cases "md_media m = ''audio''")
    case True
    then obtain m' where m': "answer_media v6 p6 conn d m = Inr (m', d')" "ms' = m' # ms"
      using 2(2) by (auto split: sum.splits)
    have "is_dtls_audio m'"
      using m'(1) True
      by (auto simp: answer_media_def is_dtls_audio_def equal_fold_def Let_def split: option.splits)
    then show ?thesis using m' True by auto
  next
    case False
    then obtain ms1 where "addDTLSAnswer_media v6 p6 conn d ms = Inr (ms1, d')" "ms' = m # ms1"
      using 2(2) by (auto split: sum.splits)
    then show ?thesis using 2(1) [OF False] 2(3) by fastforce
  qed
qed simp

lemma answer_attrs_lookup:
  "map_of (dtls_answer_attrs d as @ rest) ''fingerprint'' = Some (''sha-256 '' @ dc_cert d)"
  "map_of (dtls_answer_attrs d as @ rest) ''setup'' = Some (dc_local_setup d)"
  "map_of (dtls_answer_attrs d as @ rest) ''rtcp-mux'' = Some []"
  by (simp_all add: dtls_answer_attrs_def map_add_def map_of_eq_None_iff [THEN iffD2] split: option.splits)
     (auto dest!: map_of_SomeD)

text \<open>An answer the SDP library produced: no DTLS transport and no ICE attributes in it yet.\<close>

definition plain_answer :: "session_desc \<Rightarrow> bool" where
  "plain_answer s \<longleftrightarrow>
     list_all (\<lambda>m. \<not> is_dtls_audio m \<and>
        list_all (\<lambda>a. fst a \<notin> {''ice-ufrag'', ''ice-pwd'', ''candidate''}) (md_attrs m)) (sd_media s)"

definition usable_ice :: "dtls_conf \<Rightarrow> bool" where
  "usable_ice d \<longleftrightarrow>
     (case dc_ice d of
        None \<Rightarrow> True
      | Some i \<Rightarrow> ice_local_ufrag i \<noteq> [] \<and> ice_local_pwd i \<noteq> [] \<and>
          (\<exists>a b c e port. ice_local i = AddrPort (IPv4 a b c e) port \<and> port \<noteq> 0))"

definition same_ice :: "dtls_ice option \<Rightarrow> dtls_ice option \<Rightarrow> bool" where
  "same_ice ours theirs \<longleftrightarrow>
     (case (ours, theirs) of
        (None, None) \<Rightarrow> True
      | (Some i, Some j) \<Rightarrow> ice_remote j = ice_local i \<and> ice_remote_ufrag j = ice_local_ufrag i \<and> ice_remote_pwd j = ice_local_pwd i
      | _ \<Rightarrow> False)"

lemma no_ice_lookup:
  assumes "list_all (\<lambda>a. fst a \<notin> {''ice-ufrag'', ''ice-pwd'', ''candidate''}) as" "k \<in> {''ice-ufrag'', ''ice-pwd'', ''candidate''}"
  shows "map_of (dtls_answer_attrs d as @ rest) k = map_of rest k"
    and "iceRemoteCandidate (dtls_answer_attrs d as @ rest) = iceRemoteCandidate rest"
proof -
  have n: "list_all (\<lambda>a. fst a \<notin> {''ice-ufrag'', ''ice-pwd'', ''candidate''}) (dtls_answer_attrs d as)"
    using assms(1) by (auto simp: dtls_answer_attrs_def list_all_iff)
  have "k \<notin> fst ` set (dtls_answer_attrs d as)" using n assms(2) by (auto simp: list_all_iff)
  then show "map_of (dtls_answer_attrs d as @ rest) k = map_of rest k"
    by (simp add: map_add_def map_of_eq_None_iff split: option.splits) (metis fst_conv imageI map_of_SomeD)
  have "list_all (\<lambda>a. fst a \<notin> {''ice-ufrag'', ''ice-pwd'', ''candidate''}) xs \<Longrightarrow>
      iceRemoteCandidate (xs @ rest) = iceRemoteCandidate rest" for xs
    by (induction xs rule: iceRemoteCandidate.induct) auto
  then show "iceRemoteCandidate (dtls_answer_attrs d as @ rest) = iceRemoteCandidate rest" using n by blast
qed

lemma answer_ice:
  assumes "answer_media v6 p6 conn d m = Inr (m', d')" "usable_ice d'"
    "list_all (\<lambda>a. fst a \<notin> {''ice-ufrag'', ''ice-pwd'', ''candidate''}) (md_attrs m)"
  shows "\<exists>j. offer_ice (Inr u) (Inr p) m' = Inr j \<and> same_ice (dc_ice d') j"
proof (cases "dc_ice d")
  case None
  then have "md_attrs m' = dtls_answer_attrs d (md_attrs m) @ []" "d' = d"
    using assms(1) by (auto simp: answer_media_def Let_def)
  then show ?thesis using None assms(3)
    by (simp add: offer_ice_def mediaAttribute_def no_ice_lookup [where rest = "[]", simplified] same_ice_def)
next
  case (Some ice)
  then obtain ip port where a: "md_attrs m' = dtls_answer_attrs d (md_attrs m) @
        [(''ice-ufrag'', ice_local_ufrag ice), (''ice-pwd'', ice_local_pwd ice), (''candidate'', candidate_text p6 ip port)]"
      "dc_ice d' = Some (ice\<lparr>ice_local := AddrPort ip port\<rparr>)"
    using assms(1) by (auto simp: answer_media_def Let_def split: option.splits)
  obtain w x y z where ip: "ip = IPv4 w x y z" "port \<noteq> 0" "ice_local_ufrag ice \<noteq> []" "ice_local_pwd ice \<noteq> []"
    using assms(2) a(2) by (auto simp: usable_ice_def)
  have "mediaAttribute m' ''ice-ufrag'' = Some (ice_local_ufrag ice)" "mediaAttribute m' ''ice-pwd'' = Some (ice_local_pwd ice)"
    unfolding mediaAttribute_def a(1) by (simp_all only: no_ice_lookup(1) [OF assms(3)] insertI1 insertI2) simp_all
  moreover have "iceRemoteCandidate (md_attrs m') = Some (AddrPort ip port)"
    unfolding a(1) no_ice_lookup(2) [OF assms(3) insertI1] using candidate_round_trip [OF ip(2), of p6 w x y z] ip(1) by simp
  ultimately show ?thesis using a(2) ip by (simp add: offer_ice_def same_ice_def)
qed

lemma setup_role_opposite:
  assumes "setup_role offered = Some (loc, cl)"
  shows "\<exists>loc'. setup_role loc = Some (loc', \<not> cl)"
proof -
  have "loc = ''passive'' \<and> \<not> cl \<or> loc = ''active'' \<and> cl"
    using assms by (auto simp: setup_role_def Let_def split: if_splits)
  moreover have "setup_role ''passive'' = Some (''active'', True)" "setup_role ''active'' = Some (''passive'', False)"
    by code_simp+
  ultimately show ?thesis by auto
qed

text \<open>
  C26: The answer to a DTLS-SRTP offer means what it should.  Read back the way an offer is read, it yields the
  fingerprint of our certificate, the opposite DTLS role (exactly one side is the client) and, where ICE was
  offered, our credentials and our address as the remote candidate.
\<close>

theorem dtls_answer_round_trip:
  assumes "addDTLSAnswer v6 p6 s d = Inr (s', d')" "plain_answer s" "usable_ice d'"
    "dc_cert d = cert_fingerprint digest" "length digest = 32"
    "setup_role offered = Some (dc_local_setup d, dc_is_client d)"
  shows "\<exists>c. parseDTLSOffer (Inr u) (Inr p) (Some s') (Some theirs) = Inr (Some c) \<and>
           dc_remote_fp c = dc_cert d \<and> dc_is_client c = (\<not> dc_is_client d) \<and> same_ice (dc_ice d') (dc_ice c)"
proof -
  obtain ms' where ms': "addDTLSAnswer_media v6 p6 (sd_conn s) d (sd_media s) = Inr (ms', d')" "s' = s\<lparr>sd_media := ms'\<rparr>"
    using assms(1) by (auto simp: addDTLSAnswer_def split: sum.splits)
  have "list_all (\<lambda>m. \<not> is_dtls_audio m) (sd_media s)" using assms(2) by (simp add: plain_answer_def list_all_iff)
  then obtain m m' where m: "m \<in> set (sd_media s)" "answer_media v6 p6 (sd_conn s) d m = Inr (m', d')"
      "find is_dtls_audio ms' = Some m'"
    using find_answer [OF ms'(1)] by blast
  have na: "list_all (\<lambda>a. fst a \<notin> {''ice-ufrag'', ''ice-pwd'', ''candidate''}) (md_attrs m)"
    using assms(2) m(1) by (simp add: plain_answer_def list_all_iff)
  obtain rest where r: "md_attrs m' = dtls_answer_attrs d (md_attrs m) @ rest"
    using m(2) by (auto simp: answer_media_def Let_def split: option.splits)
  obtain j where j: "offer_ice (Inr u) (Inr p) m' = Inr j" "same_ice (dc_ice d') j" using answer_ice [OF m(2) assms(3) na] by blast
  obtain loc where role: "setup_role (dc_local_setup d) = Some (loc, \<not> dc_is_client d)"
    using setup_role_opposite [OF assms(6)] by blast
  have "mediaAttribute m' ''fingerprint'' = Some (''sha-256 '' @ cert_fingerprint digest)"
      "mediaAttribute m' ''setup'' = Some (dc_local_setup d)" "mediaAttribute m' ''rtcp-mux'' \<noteq> None"
    unfolding mediaAttribute_def r answer_attrs_lookup using assms(4) by simp_all
  then have "dtls_audio_offer (Inr u) (Inr p) (Some theirs) s' m' =
      Inr \<lparr>dc_remote_fp = cert_fingerprint digest, dc_local_setup = loc, dc_is_client = (\<not> dc_is_client d), dc_cert = theirs, dc_ice = j\<rparr>"
    using fingerprint_accepted [OF assms(5)] j(1) role
    by (simp add: dtls_audio_offer_def or_session_def fingerprint_upper)
  then show ?thesis using m(3) ms'(2) j(2) assms(4) by (simp add: parseDTLSOffer_def)
qed

theorem dtls_answer_round_trip_witness:
  "\<exists>c. parseDTLSOffer (Inr ''uu'') (Inr ''pp'')
      (Some \<lparr>sd_attrs = [], sd_conn = Some ''10.0.0.7'',
             sd_media = [\<lparr>md_media = ''audio'', md_protos = [''UDP'', ''TLS'', ''RTP'', ''SAVPF''], md_port = 4000,
               md_attrs = [(''ptime'', ''20''), (''fingerprint'', ''sha-256 '' @ cert_fingerprint (replicate 32 171)), (''setup'', ''passive''),
                 (''rtcp-mux'', []), (''ice-ufrag'', ''lu''), (''ice-pwd'', ''lp''),
                 (''candidate'', candidate_text (\<lambda>_. []) (IPv4 10 0 0 7) 4000)]\<rparr>]\<rparr>) (Some ''AA'') = Inr (Some c) \<and>
     dc_remote_fp c = cert_fingerprint (replicate 32 171) \<and> dc_is_client c"
proof -
  let ?d = "\<lparr>dc_remote_fp = ''BB'', dc_local_setup = ''passive'', dc_is_client = False, dc_cert = cert_fingerprint (replicate 32 171),
     dc_ice = Some \<lparr>ice_remote_ufrag = ''ru'', ice_remote_pwd = ''rp'', ice_remote = NoAddr, ice_local_ufrag = ''lu'',
       ice_local_pwd = ''lp'', ice_local = NoAddr\<rparr>\<rparr>"
  let ?m = "\<lparr>md_media = ''audio'', md_protos = [''RTP'', ''AVP''], md_port = 4000, md_attrs = [(''ptime'', ''20'')]\<rparr>"
  let ?s = "\<lparr>sd_attrs = [], sd_conn = Some ''10.0.0.7'', sd_media = [?m]\<rparr>"
  have ip: "parse_ipv4 ''10.0.0.7'' = Some (IPv4 10 0 0 7)" by code_simp
  have r: "setup_role ''actpass'' = Some (dc_local_setup ?d, dc_is_client ?d)" by code_simp
  have pl: "plain_answer ?s" by code_simp
  obtain s' d' where a: "addDTLSAnswer (\<lambda>_. None) (\<lambda>_. []) ?s ?d = Inr (s', d')"
    by (simp add: addDTLSAnswer_def answer_media_def ParseAddr_def ip Let_def)
  then have us: "usable_ice d'" and s': "s' = \<lparr>sd_attrs = [], sd_conn = Some ''10.0.0.7'',
             sd_media = [\<lparr>md_media = ''audio'', md_protos = [''UDP'', ''TLS'', ''RTP'', ''SAVPF''], md_port = 4000,
               md_attrs = [(''ptime'', ''20''), (''fingerprint'', ''sha-256 '' @ cert_fingerprint (replicate 32 171)), (''setup'', ''passive''),
                 (''rtcp-mux'', []), (''ice-ufrag'', ''lu''), (''ice-pwd'', ''lp''),
                 (''candidate'', candidate_text (\<lambda>_. []) (IPv4 10 0 0 7) 4000)]\<rparr>]\<rparr>"
    by (auto simp: addDTLSAnswer_def answer_media_def ParseAddr_def ip Let_def usable_ice_def dtls_answer_attrs_def)
  show ?thesis using dtls_answer_round_trip [OF a pl us _ _ r, of "replicate 32 171" "''uu''" "''pp''" "''AA''"] unfolding s' by auto
qed

end
