(* ===== verification/DtlsTransport.thy ===== *)
theory DtlsTransport
  imports DtlsSdpProps "HOL-Library.Sublist"
begin

text \<open>
  The DTLS-SRTP transport of a media port (\<open>pkg/sip/dtls_srtp.go\<close>): the check of the peer's certificate, the
  start of a session, its shutdown, and the demultiplexer that shares one socket between DTLS, SRTP and SRTCP.
  DTLS, ICE and SRTP themselves are the Pion libraries: their results are arguments.  The
  handshake is a function of the callback that checks the certificate.  The demultiplexer is a step relation over its
  channels, since its reader and the readers of its endpoints run concurrently.
\<close>

section \<open>The peer's certificate\<close>

text \<open>\<open>sha\<close> is SHA-256; \<open>raw\<close> is the chain of certificates the peer sent.\<close>

definition verify_peer :: "(u8 list \<Rightarrow> u8 list) \<Rightarrow> dtls_conf \<Rightarrow> u8 list list \<Rightarrow> go_error option" where
  "verify_peer sha conf raw =
     (case raw of
        [] \<Rightarrow> Some (Plain ''DTLS peer sent no certificate'')
      | cert # _ \<Rightarrow>
          if \<not> equal_fold (cert_fingerprint (sha cert)) (dc_remote_fp conf) then Some (Plain ''DTLS peer fingerprint mismatch'')
          else None)"

section \<open>The session\<close>

datatype srtp_profile = SRTP_AEAD_AES_128_GCM | SRTP_AES128_CM_HMAC_SHA1_80 | OtherProfile int

datatype session_part = IceAgent | Mux | SrtpSession | SrtcpSession | DtlsConn

record start_env =
  se_agent :: "go_error option"
  se_gather :: "go_error option"
  se_gathered :: "go_error option"
  se_remote :: "go_error option"
  se_add :: "go_error option"
  se_dial :: "go_error option"
  se_conn :: "bool \<Rightarrow> go_error option"
  se_handshake :: "(u8 list list \<Rightarrow> go_error option) \<Rightarrow> go_error option"
  se_profile :: "srtp_profile option"
  se_state :: bool
  se_keys :: "go_error option"
  se_srtp :: "go_error option"
  se_srtcp :: "go_error option"

record dtls_session =
  ds_parts :: "session_part list"
  ds_ready :: bool
  ds_err :: "go_error option"
  ds_shut :: bool
  ds_closes :: "session_part list"

definition newDTLSSRTPSession :: "dtls_conf \<Rightarrow> dtls_session" where
  "newDTLSSRTPSession conf =
     \<lparr>ds_parts = (if dc_ice conf = None then [Mux] else []), ds_ready = False, ds_err = None, ds_shut = False, ds_closes = []\<rparr>"

definition with_part :: "session_part \<Rightarrow> dtls_session \<Rightarrow> dtls_session" where
  "with_part p s = s\<lparr>ds_parts := ds_parts s @ [p]\<rparr>"

text \<open>
  \<open>connectICE\<close>: the errors of creating the agent, gathering, waiting for the candidates, the remote candidate,
  adding it and dialling.  An error before dialling closes the agent.
\<close>

definition first_error :: "go_error option list \<Rightarrow> go_error option" where
  "first_error es = (case find (\<lambda>e. e \<noteq> None) es of Some e \<Rightarrow> e | None \<Rightarrow> None)"

definition connectICE :: "start_env \<Rightarrow> dtls_session \<Rightarrow> go_error option \<times> dtls_session" where
  "connectICE V s =
     (case se_agent V of
        Some e \<Rightarrow> (Some e, s)
      | None \<Rightarrow>
          let s1 = with_part IceAgent s in
          case first_error [se_gather V, se_gathered V, se_remote V, se_add V] of
            Some e \<Rightarrow> (Some e, s1\<lparr>ds_closes := ds_closes s1 @ [IceAgent]\<rparr>)
          | None \<Rightarrow> (se_dial V, s1))"

text \<open>The protection profile and the keys, once the handshake succeeded.\<close>

definition start_srtp :: "start_env \<Rightarrow> dtls_session \<Rightarrow> go_error option \<times> dtls_session" where
  "start_srtp V s =
     (case se_profile V of
        None \<Rightarrow> (Some (Plain ''DTLS did not negotiate an SRTP profile''), s)
      | Some (OtherProfile n) \<Rightarrow> (Some (Plain ''unsupported DTLS-SRTP profile''), s)
      | Some _ \<Rightarrow>
          if \<not> se_state V then (Some (Plain ''DTLS connection state unavailable''), s)
          else case se_keys V of
            Some e \<Rightarrow> (Some e, s)
          | None \<Rightarrow>
              (case se_srtp V of
                 Some e \<Rightarrow> (Some e, s)
               | None \<Rightarrow>
                   let s1 = with_part SrtpSession s in
                   (case se_srtcp V of
                      Some e \<Rightarrow> (Some e, s1)
                    | None \<Rightarrow> (None, with_part SrtcpSession s1))))"

definition start_dtls :: "(u8 list \<Rightarrow> u8 list) \<Rightarrow> start_env \<Rightarrow> dtls_conf \<Rightarrow> dtls_session \<Rightarrow> dtls_session" where
  "start_dtls sha V conf s =
     (case se_conn V (dc_is_client conf) of
        Some e \<Rightarrow> s\<lparr>ds_err := Some e\<rparr>
      | None \<Rightarrow>
          let (err, s1) = (case se_handshake V (verify_peer sha conf) of Some e \<Rightarrow> (Some e, s) | None \<Rightarrow> start_srtp V s)
          in (with_part DtlsConn s1)\<lparr>ds_err := err\<rparr>)"

definition session_start :: "(u8 list \<Rightarrow> u8 list) \<Rightarrow> start_env \<Rightarrow> dtls_conf \<Rightarrow> dtls_session \<Rightarrow> dtls_session" where
  "session_start sha V conf s =
     (let s' = (if dc_ice conf \<noteq> None then
                  (case connectICE V s of
                     (Some e, s1) \<Rightarrow> s1\<lparr>ds_err := Some e\<rparr>
                   | (None, s1) \<Rightarrow> start_dtls sha V conf (with_part Mux s1))
                else start_dtls sha V conf s)
      in s'\<lparr>ds_ready := True\<rparr>)"

text \<open>\<open>wait\<close> blocks (\<open>None\<close>) until the start is over.\<close>

definition session_wait :: "dtls_session \<Rightarrow> (go_error + unit) option" where
  "session_wait s =
     (if \<not> ds_ready s then None
      else case ds_err s of
        Some e \<Rightarrow> Some (Inl e)
      | None \<Rightarrow> if SrtpSession \<notin> set (ds_parts s) then Some (Inl (Plain ''EOF'')) else Some (Inr ()))"

definition AcceptStream :: "(go_error + 'r) \<Rightarrow> dtls_session \<Rightarrow> (go_error + 'r) option" where
  "AcceptStream acc s = (case session_wait s of None \<Rightarrow> None | Some (Inl e) \<Rightarrow> Some (Inl e) | Some (Inr _) \<Rightarrow> Some acc)"

text \<open>
  The streams of a session.  A writer opens the stream of the SRTP session for each packet; a reader gets decrypted data in the caller's buffer of
  \<open>cap\<close> bytes, parses it and moves the payload to the front.
\<close>

definition dtls_WriteRTP :: "(go_error + 'out) \<Rightarrow> ('out \<Rightarrow> go_error + nat) \<Rightarrow> dtls_session \<Rightarrow> (go_error + nat) option" where
  "dtls_WriteRTP opened send s =
     (case session_wait s of
        None \<Rightarrow> None
      | Some (Inl e) \<Rightarrow> Some (Inl e)
      | Some (Inr _) \<Rightarrow> Some (case opened of Inl e \<Rightarrow> Inl e | Inr out \<Rightarrow> send out))"

definition dtls_ReadRTP ::
  "nat \<Rightarrow> (go_error + u8 list) \<Rightarrow> (u8 list \<Rightarrow> go_error + 'h \<times> u8 list) \<Rightarrow> go_error + 'h \<times> u8 list" where
  "dtls_ReadRTP cap r unmarshal =
     (case r of
        Inl e \<Rightarrow> Inl e
      | Inr data \<Rightarrow> (case unmarshal data of Inl e \<Rightarrow> Inl e | Inr (h, payload) \<Rightarrow> Inr (h, take cap payload)))"

text \<open>The socket as ICE uses it: \<open>None\<close> stands for a destination that is no UDP address.\<close>

definition ice_WriteTo :: "('a \<Rightarrow> u8 list \<Rightarrow> go_error + nat) \<Rightarrow> u8 list \<Rightarrow> 'a option \<Rightarrow> go_error + nat" where
  "ice_WriteTo send b addr = (case addr of None \<Rightarrow> Inl (Plain ''ICE destination is not UDP'') | Some a \<Rightarrow> send a b)"

definition session_Close :: "dtls_session \<Rightarrow> dtls_session" where
  "session_Close s =
     (if ds_shut s then s
      else s\<lparr>ds_shut := True,
             ds_closes := ds_closes s @ filter (\<lambda>p. p \<in> set (ds_parts s)) [IceAgent, Mux, SrtpSession, SrtcpSession, DtlsConn]\<rparr>)"

section \<open>The demultiplexer\<close>

datatype endpoint = EpDtls | EpSrtp | EpSrtcp

text \<open>The endpoint of a packet that is not empty; \<open>None\<close>: it is dropped.\<close>

definition mux_class :: "u8 list \<Rightarrow> endpoint option" where
  "mux_class b =
     (if 20 \<le> b ! 0 \<and> b ! 0 \<le> 63 then Some EpDtls
      else if 128 \<le> b ! 0 \<and> b ! 0 \<le> 191 then
        (if length b > 1 \<and> 192 \<le> b ! 1 \<and> b ! 1 \<le> 223 then Some EpSrtcp else Some EpSrtp)
      else None)"

record dtls_mux =
  mx_closed :: bool
  mx_running :: bool
  mx_hold :: "(endpoint \<times> u8 list) option"
  mx_queue :: "endpoint \<Rightarrow> u8 list list"
  mx_ep_closed :: "endpoint \<Rightarrow> bool"
  mx_read :: "u8 list list"
  mx_taken :: "endpoint \<Rightarrow> u8 list list"

text \<open>The packet channels have room for 128 packets.  \<open>mx_read\<close> and \<open>mx_taken\<close> record what was read and handed out.\<close>

definition endpointBuffer :: nat where
  "endpointBuffer = 128"

definition newDTLSMux :: dtls_mux where
  "newDTLSMux = \<lparr>mx_closed = False, mx_running = True, mx_hold = None, mx_queue = (\<lambda>_. []), mx_ep_closed = (\<lambda>_. False),
     mx_read = [], mx_taken = (\<lambda>_. [])\<rparr>"

definition mux_init :: "dtls_mux \<Rightarrow> bool" where
  "mux_init m \<longleftrightarrow> m = newDTLSMux"

definition mux_Close :: "dtls_mux \<Rightarrow> dtls_mux" where
  "mux_Close m = (if mx_closed m then m else m\<lparr>mx_closed := True, mx_ep_closed := (\<lambda>_. True)\<rparr>)"

definition endpoint_Close :: "endpoint \<Rightarrow> dtls_mux \<Rightarrow> dtls_mux" where
  "endpoint_Close e m = m\<lparr>mx_ep_closed := (mx_ep_closed m)(e := True)\<rparr>"

text \<open>One read of the loop: an error, or a packet.\<close>

definition loop_read :: "u8 list option \<Rightarrow> dtls_mux \<Rightarrow> dtls_mux" where
  "loop_read r m =
     (case r of
        None \<Rightarrow> (mux_Close m)\<lparr>mx_running := False\<rparr>
      | Some b \<Rightarrow>
          let m1 = m\<lparr>mx_read := mx_read m @ [b]\<rparr> in
          if b = [] then m1
          else case mux_class b of None \<Rightarrow> m1 | Some e \<Rightarrow> m1\<lparr>mx_hold := Some (e, b)\<rparr>)"

definition loop_put :: "endpoint \<Rightarrow> u8 list \<Rightarrow> dtls_mux \<Rightarrow> dtls_mux" where
  "loop_put e b m = m\<lparr>mx_hold := None, mx_queue := (mx_queue m)(e := mx_queue m e @ [b])\<rparr>"

definition endpoint_take :: "endpoint \<Rightarrow> u8 list \<Rightarrow> u8 list list \<Rightarrow> dtls_mux \<Rightarrow> dtls_mux" where
  "endpoint_take e b bs m = m\<lparr>mx_queue := (mx_queue m)(e := bs), mx_taken := (mx_taken m)(e := mx_taken m e @ [b])\<rparr>"

text \<open>
  \<open>put\<close>, \<open>skip\<close> and \<open>stop\<close> are the branches of the select in \<open>readLoop\<close>, \<open>take\<close> is the branch of the select in
  \<open>ReadFrom\<close> that returns a packet.
\<close>

inductive mux_step :: "dtls_mux \<Rightarrow> dtls_mux \<Rightarrow> bool" where
  read: "mx_running m \<Longrightarrow> mx_hold m = None \<Longrightarrow> mux_step m (loop_read r m)"
| put: "mx_running m \<Longrightarrow> mx_hold m = Some (e, b) \<Longrightarrow> length (mx_queue m e) < endpointBuffer \<Longrightarrow> mux_step m (loop_put e b m)"
| skip: "mx_running m \<Longrightarrow> mx_hold m = Some (e, b) \<Longrightarrow> mx_ep_closed m e \<Longrightarrow> mux_step m (m\<lparr>mx_hold := None\<rparr>)"
| stop: "mx_running m \<Longrightarrow> mx_hold m = Some (e, b) \<Longrightarrow> mx_closed m \<Longrightarrow> mux_step m (m\<lparr>mx_hold := None, mx_running := False\<rparr>)"
| take: "mx_queue m e = b # bs \<Longrightarrow> mux_step m (endpoint_take e b bs m)"
| shut: "mux_step m (mux_Close m)"
| shut_endpoint: "mux_step m (endpoint_Close e m)"

text \<open>Writes of all endpoints go to the shared connection, whose result is \<open>w\<close>, until the endpoint is closed.\<close>

definition endpoint_WriteTo :: "(go_error + nat) \<Rightarrow> endpoint \<Rightarrow> dtls_mux \<Rightarrow> go_error + nat" where
  "endpoint_WriteTo w e m = (if mx_ep_closed m e then Inl (Plain ''EOF'') else w)"

section \<open>Fingerprints\<close>

lemma hex_char_inj:
  assumes "i < 16" "j < 16" "hex_char i = hex_char j"
  shows "i = j"
proof -
  have v: "(of_char (hex_char n) :: nat) = (if n < 10 then 48 + n else 55 + n)" if "n < 16" for n
    using that by (simp add: hex_char_def)
  have "(if i < 10 then 48 + i else 55 + i) = (if j < 10 then 48 + j else 55 + j)"
    using v [OF assms(1)] v [OF assms(2)] assms(3) by simp
  then show ?thesis by (simp split: if_splits)
qed

lemma hex_byte_inj: "hex_byte a = hex_byte b \<Longrightarrow> a = b"
proof -
  assume h: "hex_byte a = hex_byte b"
  have "unat a div 16 < 16" "unat b div 16 < 16" using unat_octet [of a] unat_octet [of b] by auto
  then have "unat a div 16 = unat b div 16" "unat a mod 16 = unat b mod 16"
    using h hex_char_inj by (auto simp: hex_byte_def)
  then have "unat a = unat b" by (metis div_mult_mod_eq)
  then show ?thesis by (rule unsigned_word_eqI)
qed

lemma hex_bytes_inj: "concat (map hex_byte a) = concat (map hex_byte b) \<Longrightarrow> a = b"
proof (induction a arbitrary: b)
  case Nil
  then show ?case using hex_byte_facts(5) by (cases b) (auto simp: hex_byte_def)
next
  case (Cons x a)
  then obtain y c where b: "b = y # c" using hex_byte_facts(5) [of x] by (cases b) (auto simp: hex_byte_def)
  then have "hex_byte x = hex_byte y" "concat (map hex_byte a) = concat (map hex_byte c)"
    using Cons.prems hex_byte_facts(5) [of x] hex_byte_facts(5) [of y] by (auto simp: append_eq_append_conv)
  then show ?case using Cons.IH b hex_byte_inj by blast
qed

lemma upper_lower: "to_upper (to_lower s) = to_upper s"
proof -
  have "upper_char (lower_char c) = upper_char c" for c
    by (auto simp: upper_char_def lower_char_def Let_def)
  then show ?thesis by (simp add: to_upper_def to_lower_def)
qed

text \<open>Two digests with the same fingerprint, up to the case of its letters, are the same.\<close>

lemma fingerprint_inj: "equal_fold (cert_fingerprint a) (cert_fingerprint b) \<Longrightarrow> a = b"
proof -
  assume "equal_fold (cert_fingerprint a) (cert_fingerprint b)"
  then have "to_upper (cert_fingerprint a) = to_upper (cert_fingerprint b)"
    unfolding equal_fold_def using upper_lower by metis
  then have "cert_fingerprint a = cert_fingerprint b" by (simp add: fingerprint_upper)
  then show ?thesis using fingerprint_hex hex_bytes_inj by metis
qed

section \<open>Lemmas on the demultiplexer\<close>

definition of_class :: "endpoint \<Rightarrow> u8 list list \<Rightarrow> u8 list list" where
  "of_class e bs = filter (\<lambda>b. b \<noteq> [] \<and> mux_class b = Some e) bs"

definition held :: "endpoint \<Rightarrow> dtls_mux \<Rightarrow> u8 list list" where
  "held e m = (case mx_hold m of Some (e', b) \<Rightarrow> if e' = e then [b] else [] | None \<Rightarrow> [])"

definition passed :: "endpoint \<Rightarrow> dtls_mux \<Rightarrow> u8 list list" where
  "passed e m = mx_taken m e @ mx_queue m e @ held e m"

definition mux_inv :: "dtls_mux \<Rightarrow> bool" where
  "mux_inv m \<longleftrightarrow>
     (\<forall>e. length (mx_queue m e) \<le> endpointBuffer \<and> subseq (passed e m) (of_class e (mx_read m)) \<and>
          (\<not> mx_ep_closed m e \<longrightarrow> passed e m = of_class e (mx_read m))) \<and>
     (mx_closed m \<longrightarrow> (\<forall>e. mx_ep_closed m e))"

lemma mux_Close_sel [simp]:
  "mx_queue (mux_Close m) = mx_queue m" "mx_taken (mux_Close m) = mx_taken m" "mx_hold (mux_Close m) = mx_hold m"
  "mx_read (mux_Close m) = mx_read m" "mx_closed (mux_Close m)" "mx_running (mux_Close m) = mx_running m"
  by (simp_all add: mux_Close_def)

lemma mux_Close_eps: "(\<not> mx_ep_closed (mux_Close m) e) \<Longrightarrow> mux_inv m \<Longrightarrow> False"
  by (auto simp: mux_Close_def mux_inv_def split: if_splits)

lemma mux_inv_Close: "mux_inv m \<Longrightarrow> mux_inv (mux_Close m)"
  using mux_Close_eps [of m] by (auto simp: mux_inv_def passed_def held_def)

lemma mux_inv_read:
  assumes "mux_inv m" "mx_hold m = None"
  shows "mux_inv (loop_read r m)"
proof (cases r)
  case None
  then show ?thesis using mux_inv_Close [OF assms(1)] by (simp add: loop_read_def mux_inv_def passed_def held_def)
next
  case (Some b)
  have p: "passed e (loop_read r m) = passed e m @ of_class e [b]" "of_class e (mx_read (loop_read r m)) = of_class e (mx_read m) @ of_class e [b]"
    for e using Some assms(2) by (simp_all add: loop_read_def passed_def held_def of_class_def Let_def split: option.split)
  have q: "mx_queue (loop_read r m) = mx_queue m" "mx_ep_closed (loop_read r m) = mx_ep_closed m" "mx_closed (loop_read r m) = mx_closed m"
    using Some by (simp_all add: loop_read_def Let_def split: option.split)
  show ?thesis using assms(1) unfolding mux_inv_def p q by (auto simp: list_emb_append_mono)
qed

lemma mux_inv_hold:
  assumes "mux_inv m" "mx_hold m = Some (e, b)" "mx_ep_closed m e"
  shows "mux_inv (m\<lparr>mx_hold := None\<rparr>)"
proof -
  have p: "passed x m = passed x (m\<lparr>mx_hold := None\<rparr>) @ (if x = e then [b] else [])" for x
    using assms(2) by (simp add: passed_def held_def)
  have "subseq (passed x (m\<lparr>mx_hold := None\<rparr>)) (passed x m)" for x unfolding p [of x] by (rule prefix_imp_subseq) simp
  then have "subseq (passed x (m\<lparr>mx_hold := None\<rparr>)) (of_class x (mx_read m))" for x
    using assms(1) subseq_order.order_trans unfolding mux_inv_def by blast
  moreover have "passed x (m\<lparr>mx_hold := None\<rparr>) = of_class x (mx_read m)" if "\<not> mx_ep_closed m x" for x
    using p [of x] that assms by (auto simp: mux_inv_def)
  ultimately show ?thesis using assms(1) by (simp add: mux_inv_def)
qed

lemma mux_step_inv: "mux_step m m' \<Longrightarrow> mux_inv m \<Longrightarrow> mux_inv m'"
proof (induction rule: mux_step.induct)
  case (read m r)
  then show ?case by (simp add: mux_inv_read)
next
  case (put m e b)
  have "passed x (loop_put e b m) = passed x m" for x using put by (simp add: passed_def loop_put_def held_def)
  then show ?case using put by (auto simp: mux_inv_def loop_put_def)
next
  case (skip m e b)
  then show ?case by (simp add: mux_inv_hold)
next
  case (stop m e b)
  then have "mx_ep_closed m e" by (simp add: mux_inv_def)
  then show ?case using mux_inv_hold [OF stop(4) stop(2)] by (simp add: mux_inv_def passed_def held_def)
next
  case (take m e b bs)
  have "passed x (endpoint_take e b bs m) = passed x m" for x using take by (simp add: passed_def endpoint_take_def held_def)
  moreover have "Suc (length bs) \<le> endpointBuffer" using take by (metis length_Cons mux_inv_def)
  ultimately show ?case using take by (auto simp: mux_inv_def endpoint_take_def)
next
  case (shut m)
  then show ?case by (rule mux_inv_Close)
next
  case (shut_endpoint m e)
  then show ?case by (auto simp: mux_inv_def endpoint_Close_def passed_def held_def)
qed

interpretation mux: step_system mux_init mux_step mux_inv
proof (unfold_locales)
  show "mux_init s \<Longrightarrow> mux_inv s" for s
    by (simp add: mux_init_def newDTLSMux_def mux_inv_def passed_def held_def of_class_def)
qed (rule mux_step_inv)

section \<open>Properties\<close>

text \<open>
  C13: Media flows only to the peer of the signalling.  If the offer names the digest of a certificate and the session
  comes up, the first certificate of the peer has exactly that digest, and one of the two supported
  protection profiles was negotiated.  The handshake is only assumed to fail if the check of the certificate does.
\<close>

theorem dtls_peer_authenticated:
  assumes handshake: "\<And>check. se_handshake V check = None \<Longrightarrow> check certs = None"
    and offer: "dtls_audio_offer lu lp (Some cert) s m = Inr conf"
    and fp: "or_session (mediaAttribute m ''fingerprint'') (sessionAttribute s ''fingerprint'') = Some (''sha-256 '' @ cert_fingerprint digest)"
    and len: "length digest = 32"
    and up: "session_wait (session_start sha V conf (newDTLSSRTPSession conf)) = Some (Inr ())"
  shows "(\<exists>leaf rest. certs = leaf # rest \<and> sha leaf = digest) \<and>
         (se_profile V = Some SRTP_AEAD_AES_128_GCM \<or> se_profile V = Some SRTP_AES128_CM_HMAC_SHA1_80)"
proof -
  let ?s = "session_start sha V conf (newDTLSSRTPSession conf)"
  have "ds_err ?s = None" "SrtpSession \<in> set (ds_parts ?s)"
    using up by (auto simp: session_wait_def split: if_splits option.splits)
  then have hs: "se_handshake V (verify_peer sha conf) = None"
    and pr: "se_profile V = Some SRTP_AEAD_AES_128_GCM \<or> se_profile V = Some SRTP_AES128_CM_HMAC_SHA1_80"
    by (auto simp: session_start_def start_dtls_def start_srtp_def connectICE_def newDTLSSRTPSession_def with_part_def Let_def
        split: if_splits option.splits srtp_profile.splits)
  have "dc_remote_fp conf = cert_fingerprint digest"
    using offer fp fingerprint_accepted [OF len]
    by (auto simp: dtls_audio_offer_def fingerprint_upper split: option.splits sum.splits if_splits)
  then have "\<exists>leaf rest. certs = leaf # rest \<and> sha leaf = digest"
    using handshake [OF hs] fingerprint_inj by (auto simp: verify_peer_def split: list.splits if_splits)
  with pr show ?thesis by blast
qed

text \<open>
  C17: The demultiplexer keeps the protocols apart.  Whatever is received and however the goroutines interleave, an
  endpoint hands out only packets of its own class, in the order they arrived; while it is open none is lost, and
  at most 129 packets (a full channel and the one the reader holds) are on their way to it.
\<close>

theorem mux_demultiplexes:
  assumes "reach mux_init mux_step m"
  shows "subseq (mx_taken m e) (of_class e (mx_read m)) \<and>
         (\<not> mx_ep_closed m e \<longrightarrow> (\<exists>rest. of_class e (mx_read m) = mx_taken m e @ rest \<and> length rest \<le> 129))"
proof -
  have inv: "mux_inv m" using mux.reach_inv [OF assms] .
  have "subseq (mx_taken m e) (passed e m)" unfolding passed_def by (rule prefix_imp_subseq) simp
  then have "subseq (mx_taken m e) (of_class e (mx_read m))"
    using inv subseq_order.order_trans unfolding mux_inv_def by blast
  moreover have "of_class e (mx_read m) = mx_taken m e @ (mx_queue m e @ held e m)" if "\<not> mx_ep_closed m e"
    using inv that by (auto simp: mux_inv_def passed_def)
  moreover have "length (mx_queue m e @ held e m) \<le> 129"
  proof -
    have "length (mx_queue m e) \<le> 128" using inv by (simp add: mux_inv_def endpointBuffer_def)
    then show ?thesis by (auto simp: held_def split: option.split)
  qed
  ultimately show ?thesis by blast
qed

definition demo_mux :: dtls_mux where
  "demo_mux = endpoint_take EpDtls [22, 254] [] (loop_put EpDtls [22, 254] (loop_read (Some [22, 254]) newDTLSMux))"

lemma demo_mux_reach: "reach mux_init mux_step demo_mux"
proof -
  let ?a = "loop_read (Some [22, 254]) newDTLSMux" and ?b = "loop_put EpDtls [22, 254] (loop_read (Some [22, 254]) newDTLSMux)"
  have "reach mux_init mux_step newDTLSMux" by (simp add: reach_init mux_init_def)
  then have "reach mux_init mux_step ?a" by (rule reach_step) (rule mux_step.read, simp_all add: newDTLSMux_def)
  moreover have "mx_running ?a" "mx_hold ?a = Some (EpDtls, [22, 254])" "mx_queue ?a EpDtls = []"
    by (simp_all add: loop_read_def newDTLSMux_def mux_class_def Let_def)
  ultimately have "reach mux_init mux_step ?b" by (metis reach_step mux_step.put endpointBuffer_def list.size(3) zero_less_numeral)
  moreover have "mx_queue ?b EpDtls = [[22, 254]]" using \<open>mx_queue ?a EpDtls = []\<close> by (simp add: loop_put_def)
  ultimately show ?thesis unfolding demo_mux_def by (metis reach_step mux_step.take)
qed

theorem mux_demultiplexes_witness:
  "subseq (mx_taken demo_mux EpDtls) (of_class EpDtls (mx_read demo_mux)) \<and> mx_taken demo_mux EpDtls = [[22, 254]] \<and>
   \<not> mx_ep_closed demo_mux EpDtls"
  using mux_demultiplexes [OF demo_mux_reach, of EpDtls]
  by (simp add: demo_mux_def endpoint_take_def loop_put_def loop_read_def newDTLSMux_def mux_class_def Let_def)

definition demo_start :: "u8 list \<Rightarrow> start_env" where
  "demo_start c =
     \<lparr>se_agent = None, se_gather = None, se_gathered = None, se_remote = None, se_add = None, se_dial = None, se_conn = (\<lambda>_. None),
      se_handshake = (\<lambda>check. check [c]), se_profile = Some SRTP_AEAD_AES_128_GCM, se_state = True, se_keys = None,
      se_srtp = None, se_srtcp = None\<rparr>"

definition demo_offer :: media_desc where
  "demo_offer = \<lparr>md_media = ''audio'', md_protos = [''UDP'', ''TLS'', ''RTP'', ''SAVPF''], md_port = 4000,
     md_attrs = [(''fingerprint'', ''sha-256 '' @ cert_fingerprint (replicate 32 171)), (''setup'', ''actpass''), (''rtcp-mux'', [])]\<rparr>"

definition demo_dtls_conf :: dtls_conf where
  "demo_dtls_conf = \<lparr>dc_remote_fp = cert_fingerprint (replicate 32 171), dc_local_setup = ''passive'', dc_is_client = False,
     dc_cert = ''AA'', dc_ice = None\<rparr>"

theorem dtls_peer_authenticated_witness:
  "session_wait (session_start (\<lambda>_. replicate 32 171) (demo_start [1, 2]) demo_dtls_conf (newDTLSSRTPSession demo_dtls_conf)) = Some (Inr ()) \<and>
   (\<exists>leaf rest. [[1, 2]] = leaf # rest \<and> (\<lambda>_. replicate 32 171) leaf = (replicate 32 171 :: u8 list))"
proof -
  have up: "session_wait (session_start (\<lambda>_. replicate 32 171) (demo_start [1, 2]) demo_dtls_conf (newDTLSSRTPSession demo_dtls_conf)) = Some (Inr ())"
    by (simp add: session_start_def start_dtls_def start_srtp_def newDTLSSRTPSession_def with_part_def session_wait_def demo_start_def
        demo_dtls_conf_def verify_peer_def equal_fold_def Let_def)
  have "dtls_audio_offer (Inr []) (Inr []) (Some ''AA'') \<lparr>sd_attrs = [], sd_conn = None, sd_media = [demo_offer]\<rparr> demo_offer = Inr demo_dtls_conf"
    using fingerprint_accepted [of "replicate 32 171"]
    by (simp add: dtls_audio_offer_def demo_offer_def demo_dtls_conf_def mediaAttribute_def or_session_def offer_ice_def fingerprint_upper
        setup_role_def to_lower_def lower_char_def Let_def)
  then show ?thesis
    using up dtls_peer_authenticated [of "demo_start [1, 2]" "[[1, 2]]" "Inr []" "Inr []" "''AA''"
        "\<lparr>sd_attrs = [], sd_conn = None, sd_media = [demo_offer]\<rparr>" demo_offer demo_dtls_conf "replicate 32 171" "\<lambda>_. replicate 32 171"]
    by (simp add: demo_start_def demo_offer_def mediaAttribute_def or_session_def)
qed

text \<open>
  Media that arrives before the handshake is over can stop it: nobody reads the SRTP endpoint then, so once its channel
  is full and the reader holds one packet more, the reader waits and no further packet, DTLS or not,
  is read until the session is closed.
\<close>

definition srtp_unread :: "dtls_mux \<Rightarrow> dtls_mux \<Rightarrow> bool" where
  "srtp_unread m m' \<longleftrightarrow> mux_step m m' \<and> mx_taken m' EpSrtp = mx_taken m EpSrtp \<and> \<not> mx_closed m' \<and> \<not> mx_ep_closed m' EpSrtp"

definition reader_stuck :: "dtls_mux \<Rightarrow> bool" where
  "reader_stuck m \<longleftrightarrow> length (mx_queue m EpSrtp) = endpointBuffer \<and> (\<exists>b. mx_hold m = Some (EpSrtp, b)) \<and>
     \<not> mx_closed m \<and> \<not> mx_ep_closed m EpSrtp"

lemma reader_stuck_step:
  assumes "srtp_unread m m'" "reader_stuck m"
  shows "reader_stuck m' \<and> mx_read m' = mx_read m"
proof -
  have u: "mux_step m m'" "mx_taken m' EpSrtp = mx_taken m EpSrtp" "\<not> mx_closed m'" "\<not> mx_ep_closed m' EpSrtp"
    using assms(1) by (auto simp: srtp_unread_def)
  from u(1) show ?thesis
  proof cases
    case (take e b bs)
    then show ?thesis using assms(2) u by (cases "e = EpSrtp") (auto simp: endpoint_take_def reader_stuck_def)
  qed (use assms(2) u in \<open>auto simp: reader_stuck_def mux_Close_def endpoint_Close_def loop_put_def split: if_splits\<close>)
qed

lemma early_media_blocks_handshake:
  assumes "srtp_unread\<^sup>*\<^sup>* m m'" "reader_stuck m"
  shows "mx_read m' = mx_read m \<and> reader_stuck m'"
  using assms by (induction rule: rtranclp_induct) (auto dest: reader_stuck_step)

text \<open>
  A fingerprint without colons passes the check of the offer, but no certificate ever matches it, since
  the comparison is with the text with colons.
\<close>

lemma colonless_fingerprint_never_verifies:
  assumes "fingerprint_ok fp = Inr v" "CHR '':'' \<notin> set v" "dc_remote_fp conf = to_upper v" "\<And>c. length (sha c) = 32"
  shows "verify_peer sha conf certs \<noteq> None"
proof (cases certs)
  case (Cons c cs)
  have colon: "CHR '':'' \<in> set (to_upper w) \<longleftrightarrow> CHR '':'' \<in> set w" for w
  proof -
    have "upper_char x = CHR '':'' \<longleftrightarrow> x = CHR '':''" for x
    proof -
      have "take_bit 8 (of_char x - 32 :: nat) \<noteq> 58" if "97 \<le> (of_char x :: nat)" "(of_char x :: nat) \<le> 122"
        using that take_bit_nat_eq_self [of "of_char x - 32" 8] by simp
      then show ?thesis by (auto simp: upper_char_def Let_def char_of_eq_iff)
    qed
    then show ?thesis unfolding to_upper_def set_map image_iff by metis
  qed
  have "length (sha c) = Suc (Suc 30)" using assms(4) [of c] by simp
  then obtain a b ds where "sha c = a # b # ds" unfolding length_Suc_conv by blast
  then have "CHR '':'' \<in> set (cert_fingerprint (sha c))" by (simp add: cert_fingerprint_def)
  then have "CHR '':'' \<in> set (to_upper (cert_fingerprint (sha c)))" by (simp only: colon)
  moreover have "CHR '':'' \<notin> set (to_upper (to_upper v))" using assms(2) by (simp only: colon simp_thms)
  ultimately have "to_upper (cert_fingerprint (sha c)) \<noteq> to_upper (to_upper v)" by auto
  then have "\<not> equal_fold (cert_fingerprint (sha c)) (to_upper v)" using upper_lower by (metis equal_fold_def)
  then show ?thesis using Cons assms(3) by (simp add: verify_peer_def)
qed (simp add: verify_peer_def)

text \<open>
  No packet leaves through the stream of a session before the session is up: nothing is sent while the handshake runs, and after a failed one a
  write returns its error.
\<close>

lemma dtls_write_after_handshake:
  assumes "dtls_WriteRTP opened send s = Some (Inr n)"
  shows "session_wait s = Some (Inr ()) \<and> (\<exists>out. opened = Inr out \<and> send out = Inr n)"
  using assms by (auto simp: dtls_WriteRTP_def split: option.splits sum.splits)

lemma dtls_write_failed: "ds_ready s \<Longrightarrow> ds_err s = Some e \<Longrightarrow> dtls_WriteRTP opened send s = Some (Inl e)"
  by (simp add: dtls_WriteRTP_def session_wait_def)

end
