(* ===== verification/RoomSession.thy ===== *)
theory RoomSession
  imports CallTermination
begin

text \<open>
  The LiveKit room of a call (\<open>pkg/sip/room.go\<close>).  The room object of the LiveKit SDK is an argument: the
  session it joins, the participants it lists and the errors of its calls.  \<open>rm_room\<close> tells whether the
  pointer to it is set and \<open>rm_sdk\<close> is its present content, which the SDK changes between the callbacks.
  Requests to the SDK and to the writers of the call are collected in \<open>rm_log\<close>.  The goroutine that
  subscribes again after a reconnect is counted in \<open>rm_tasks\<close> and runs as a step of its own.
\<close>

section \<open>State\<close>

record remote_pub =
  pb_track :: string
  pb_audio :: bool
  pb_remote :: bool

record remote_part =
  rt_identity :: string
  rt_sip :: bool
  rt_pubs :: "remote_pub list"

record sdk_room =
  sk_sid :: string
  sk_identity :: string
  sk_reason :: disconnect_reason
  sk_parts :: "remote_part list"

record participant_info =
  pi_id :: string
  pi_room :: string
  pi_identity :: string
  pi_name :: string

record reconnect_state =
  rs_started :: nanos
  rs_sid :: string

datatype room_event =
    SubscribeReq string
  | DisconnectReq disconnect_reason
  | DtmfWritten nat string
  | OutputClosed nat
  | DataPublished string
  | TrackPublished string
  | AttributesSet smap
  | RpcRegistered string

record room =
  rm_room :: bool
  rm_sdk :: sdk_room
  rm_mixing :: bool
  rm_out :: "nat option"
  rm_dtmf :: "nat option"
  rm_p :: "participant_info option"
  rm_reconnect :: "reconnect_state option"
  rm_ready :: bool
  rm_subscribe :: bool
  rm_subscribed :: bool
  rm_stopped :: bool
  rm_closed :: bool
  rm_track_subscribes :: nat
  rm_resumes :: nat
  rm_reconnects :: nat
  rm_recovering :: bool
  rm_data_packets :: nat
  rm_stats_closed :: bool
  rm_tasks :: nat
  rm_log :: "room_event list"

definition no_sdk :: sdk_room where
  "no_sdk = \<lparr>sk_sid = [], sk_identity = [], sk_reason = UNKNOWN_REASON, sk_parts = []\<rparr>"

definition no_participant :: participant_info where
  "no_participant = \<lparr>pi_id = [], pi_room = [], pi_identity = [], pi_name = []\<rparr>"

definition NewRoom :: room where
  "NewRoom =
     \<lparr>rm_room = False, rm_sdk = no_sdk, rm_mixing = True, rm_out = None, rm_dtmf = None, rm_p = None, rm_reconnect = None,
      rm_ready = False, rm_subscribe = False, rm_subscribed = False, rm_stopped = False, rm_closed = False,
      rm_track_subscribes = 0, rm_resumes = 0, rm_reconnects = 0, rm_recovering = False, rm_data_packets = 0,
      rm_stats_closed = False, rm_tasks = 0, rm_log = []\<rparr>"

definition emit_room :: "room_event \<Rightarrow> room \<Rightarrow> room" where
  "emit_room e r = r\<lparr>rm_log := rm_log r @ [e]\<rparr>"

definition ClosedReason :: "room option \<Rightarrow> disconnect_reason" where
  "ClosedReason r = (case r of None \<Rightarrow> UNKNOWN_REASON | Some r \<Rightarrow> if rm_room r then sk_reason (rm_sdk r) else UNKNOWN_REASON)"

definition room_Participant :: "room option \<Rightarrow> participant_info" where
  "room_Participant r =
     (case r of
        None \<Rightarrow> no_participant
      | Some r \<Rightarrow> (case rm_p r of Some p \<Rightarrow> p | None \<Rightarrow> no_participant))"

section \<open>Subscriptions\<close>

text \<open>\<open>serr\<close> gives the error of \<open>SetSubscribed\<close> for a track.\<close>

definition participantJoin :: "remote_part \<Rightarrow> room \<Rightarrow> room" where
  "participantJoin rp r = (if rt_sip rp then r\<lparr>rm_subscribed := True\<rparr> else r)"

definition subscribeTo :: "(string \<Rightarrow> go_error option) \<Rightarrow> remote_pub \<Rightarrow> room \<Rightarrow> room" where
  "subscribeTo serr pub r =
     (if \<not> pb_audio pub then r
      else
        let r1 = emit_room (SubscribeReq (pb_track pub)) (r\<lparr>rm_track_subscribes := rm_track_subscribes r + 1\<rparr>) in
        if serr (pb_track pub) \<noteq> None then r1 else r1\<lparr>rm_subscribed := True\<rparr>)"

definition subscribe_pub :: "(string \<Rightarrow> go_error option) \<Rightarrow> remote_pub \<Rightarrow> room \<Rightarrow> room" where
  "subscribe_pub serr pub r = (if pb_remote pub then subscribeTo serr pub r else r)"

definition subscribe_part :: "(string \<Rightarrow> go_error option) \<Rightarrow> remote_part \<Rightarrow> room \<Rightarrow> room" where
  "subscribe_part serr rp r = fold (subscribe_pub serr) (rt_pubs rp) (participantJoin rp r)"

definition subscribeAll :: "(string \<Rightarrow> go_error option) \<Rightarrow> room \<Rightarrow> room" where
  "subscribeAll serr r = fold (subscribe_part serr) (sk_parts (rm_sdk r)) r"

definition Subscribe :: "(string \<Rightarrow> go_error option) \<Rightarrow> room \<Rightarrow> room" where
  "Subscribe serr r = (if \<not> rm_room r then r else subscribeAll serr (r\<lparr>rm_subscribe := True\<rparr>))"

section \<open>Connecting\<close>

record room_config =
  rcf_ws :: string
  rcf_token :: string
  rcf_room :: string
  rcf_identity :: string
  rcf_name :: string
  rcf_metadata :: string
  rcf_attrs :: smap
  rcf_preset :: string

text \<open>Of the attributes only those with one of five keys, constants of the protocol package, go into the token.\<close>

definition token_attrs :: "string list \<Rightarrow> smap \<Rightarrow> smap" where
  "token_attrs keys attrs = concat (map (\<lambda>k. case map_of attrs k of Some v \<Rightarrow> [(k, v)] | None \<Rightarrow> []) keys)"

definition setParticipantFromRoom :: "room \<Rightarrow> room" where
  "setParticipantFromRoom r =
     (if \<not> rm_room r then r
      else
        let p = (case rm_p r of Some p \<Rightarrow> p | None \<Rightarrow> no_participant)
        in r\<lparr>rm_p := Some (p\<lparr>pi_id := sk_sid (rm_sdk r), pi_identity := sk_identity (rm_sdk r)\<rparr>)\<rparr>)"

text \<open>\<open>build\<close> signs a token for the given attributes, \<open>join\<close> joins the room with address and token.\<close>

definition Connect ::
  "string list \<Rightarrow> (room_config \<Rightarrow> smap \<Rightarrow> go_error + string) \<Rightarrow> (string \<Rightarrow> string \<Rightarrow> smap \<Rightarrow> go_error + sdk_room) \<Rightarrow> string
    \<Rightarrow> room_config \<Rightarrow> room \<Rightarrow> go_error option \<times> room" where
  "Connect keys build join ws rconf r =
     (let url = (if rcf_ws rconf = [] then ws else rcf_ws rconf);
          r1 = r\<lparr>rm_p := Some \<lparr>pi_id = [], pi_room = rcf_room rconf, pi_identity = rcf_identity rconf, pi_name = rcf_name rconf\<rparr>\<rparr>
      in case (if rcf_token rconf = [] then build rconf (token_attrs keys (rcf_attrs rconf)) else Inr (rcf_token rconf)) of
           Inl e \<Rightarrow> (Some e, r1)
         | Inr token \<Rightarrow>
             (case join url token (rcf_attrs rconf) of
                Inl e \<Rightarrow> (Some e, r1)
              | Inr sk \<Rightarrow>
                  let r2 = setParticipantFromRoom (r1\<lparr>rm_room := True, rm_sdk := sk\<rparr>);
                      r3 = emit_room (AttributesSet (rcf_attrs rconf)) r2
                  in (None, r3\<lparr>rm_ready := True, rm_subscribe := False\<rparr>)))"

section \<open>Callbacks of the SDK\<close>

definition OnParticipantConnected :: "remote_part \<Rightarrow> room \<Rightarrow> room" where
  "OnParticipantConnected rp r = (if \<not> rm_subscribe r then r else participantJoin rp r)"

definition OnTrackPublished :: "(string \<Rightarrow> go_error option) \<Rightarrow> remote_pub \<Rightarrow> room \<Rightarrow> room" where
  "OnTrackPublished serr pub r = (if \<not> rm_subscribe r then r else subscribeTo serr pub r)"

datatype track_outcome = NotReady | RoomGone | DecoderFailed | UnsupportedCodec | Decoding string

text \<open>
  The setup of a subscribed track, up to the choice of its decoder: \<open>derr\<close> is the error of creating the
  Opus decoder.
\<close>

definition OnTrackSubscribed :: "go_error option \<Rightarrow> string \<Rightarrow> room \<Rightarrow> track_outcome" where
  "OnTrackSubscribed derr mime r =
     (if \<not> rm_ready r then NotReady
      else if \<not> rm_mixing r then RoomGone
      else
        let name = to_lower (if has_prefix mime ''audio/'' then drop 6 mime else mime) in
        if name = ''opus'' then (if derr \<noteq> None then DecoderFailed else Decoding ''opus'')
        else if name = ''pcmu'' then Decoding ''pcmu''
        else if name = ''pcma'' then Decoding ''pcma''
        else UnsupportedCodec)"

definition sendDTMF :: "string \<Rightarrow> room \<Rightarrow> room" where
  "sendDTMF digit r = (case rm_dtmf r of None \<Rightarrow> r | Some w \<Rightarrow> emit_room (DtmfWritten w digit) r)"

definition OnDataPacket :: "string \<Rightarrow> room \<Rightarrow> room" where
  "OnDataPacket digit r = sendDTMF digit (r\<lparr>rm_data_packets := rm_data_packets r + 1\<rparr>)"

definition OnDisconnected :: "room \<Rightarrow> room" where
  "OnDisconnected r = r\<lparr>rm_stopped := True\<rparr>"

definition onReconnecting :: "nanos \<Rightarrow> room \<Rightarrow> room" where
  "onReconnecting now r =
     (let sid = (if rm_room r then sk_sid (rm_sdk r) else [])
      in r\<lparr>rm_reconnect := Some \<lparr>rs_started = now, rs_sid = sid\<rparr>, rm_recovering := True\<rparr>)"

definition recoveryKind :: "bool \<Rightarrow> string" where
  "recoveryKind resumed = (if resumed then ''resume'' else ''reconnect'')"

definition onReconnected :: "room \<Rightarrow> room" where
  "onReconnected r =
     (let prev = rm_reconnect r; r1 = r\<lparr>rm_reconnect := None, rm_recovering := False\<rparr> in
      if \<not> rm_room r1 then r1
      else
        let resumed = (case prev of None \<Rightarrow> False | Some p \<Rightarrow> rs_sid p = sk_sid (rm_sdk r1));
            r2 = (if resumed then r1\<lparr>rm_resumes := rm_resumes r1 + 1\<rparr> else r1\<lparr>rm_reconnects := rm_reconnects r1 + 1\<rparr>);
            r3 = setParticipantFromRoom r2
        in if resumed \<or> \<not> rm_subscribe r3 then r3 else r3\<lparr>rm_tasks := rm_tasks r3 + 1\<rparr>)"

text \<open>The goroutine that \<open>onReconnected\<close> starts.\<close>

definition resubscribeAfterReconnect :: "(string \<Rightarrow> go_error option) \<Rightarrow> room \<Rightarrow> room" where
  "resubscribeAfterReconnect serr r =
     (if rm_tasks r = 0 then r
      else
        let r1 = r\<lparr>rm_tasks := rm_tasks r - 1\<rparr> in
        if rm_closed r1 \<or> rm_stopped r1 then r1 else subscribeAll serr r1)"

section \<open>Output, data and closing\<close>

definition room_SwapOutput :: "nat option \<Rightarrow> room \<Rightarrow> nat option \<times> room" where
  "room_SwapOutput w r = (rm_out r, r\<lparr>rm_out := w\<rparr>)"

definition CloseOutput :: "(nat \<Rightarrow> go_error option) \<Rightarrow> room \<Rightarrow> go_error option \<times> room" where
  "CloseOutput cerr r =
     (case room_SwapOutput None r of
        (None, r1) \<Rightarrow> (None, r1)
      | (Some w, r1) \<Rightarrow> (cerr w, emit_room (OutputClosed w) r1))"

definition SetDTMFOutput :: "nat option \<Rightarrow> room \<Rightarrow> room" where
  "SetDTMFOutput w r = r\<lparr>rm_dtmf := w\<rparr>"

definition RegisterRpcCtxMethod :: "(string \<Rightarrow> go_error option) \<Rightarrow> string \<Rightarrow> room \<Rightarrow> go_error option \<times> room" where
  "RegisterRpcCtxMethod rerr method r =
     (if \<not> rm_room r then (Some (Plain ''room is closed''), r)
      else (rerr method, emit_room (RpcRegistered method) r))"

text \<open>\<open>terr\<close>, \<open>perr\<close> and \<open>oerr\<close> are the errors of creating the track, publishing it and creating the encoder.\<close>

definition NewParticipantTrack ::
  "go_error option \<Rightarrow> go_error option \<Rightarrow> go_error option \<Rightarrow> room \<Rightarrow> go_error option \<times> room" where
  "NewParticipantTrack terr perr oerr r =
     (case terr of
        Some e \<Rightarrow> (Some e, r)
      | None \<Rightarrow>
          if \<not> rm_room r then (Some (Plain ''room is closed''), r)
          else case perr of
            Some e \<Rightarrow> (Some e, r)
          | None \<Rightarrow> (oerr, emit_room (TrackPublished (sk_identity (rm_sdk r))) r))"

definition SendData :: "go_error option \<Rightarrow> string \<Rightarrow> room option \<Rightarrow> go_error option \<times> room option" where
  "SendData derr d ro =
     (case ro of
        None \<Rightarrow> (None, None)
      | Some r \<Rightarrow>
          if \<not> rm_ready r \<or> rm_closed r \<or> \<not> rm_room r then (None, Some r)
          else (derr, Some (emit_room (DataPublished d) r)))"

definition CloseWithReason :: "(nat \<Rightarrow> go_error option) \<Rightarrow> disconnect_reason \<Rightarrow> room \<Rightarrow> go_error option \<times> room" where
  "CloseWithReason cerr reason r =
     (if rm_closed r then (None, r)
      else
        let (err, r1) = CloseOutput cerr (r\<lparr>rm_closed := True, rm_subscribe := False\<rparr>);
            r2 = SetDTMFOutput None r1;
            r3 = (if rm_room r2 then emit_room (DisconnectReq reason) (r2\<lparr>rm_room := False\<rparr>) else r2)
        in (err, r3\<lparr>rm_mixing := False, rm_stats_closed := True\<rparr>))"

section \<open>Runs\<close>

text \<open>The SDK changes its room, calls back, the call uses the room, in any order.\<close>

datatype room_op =
    SdkChange sdk_room
  | EvJoined remote_part
  | EvPublished remote_pub
  | EvData string
  | EvReconnecting nanos
  | EvReconnected
  | EvResubscribe
  | EvDisconnected
  | OpSubscribe
  | OpSwapOutput "nat option"
  | OpSetDTMF "nat option"
  | OpSendData string
  | OpClose disconnect_reason

record room_env =
  re_sub :: "string \<Rightarrow> go_error option"
  re_close :: "nat \<Rightarrow> go_error option"
  re_data :: "go_error option"

fun room_step :: "room_env \<Rightarrow> room_op \<Rightarrow> room \<Rightarrow> room" where
  "room_step V (SdkChange sk) r = r\<lparr>rm_sdk := sk\<rparr>"
| "room_step V (EvJoined rp) r = OnParticipantConnected rp r"
| "room_step V (EvPublished pub) r = OnTrackPublished (re_sub V) pub r"
| "room_step V (EvData d) r = OnDataPacket d r"
| "room_step V (EvReconnecting now) r = onReconnecting now r"
| "room_step V EvReconnected r = onReconnected r"
| "room_step V EvResubscribe r = resubscribeAfterReconnect (re_sub V) r"
| "room_step V EvDisconnected r = OnDisconnected r"
| "room_step V OpSubscribe r = Subscribe (re_sub V) r"
| "room_step V (OpSwapOutput w) r = snd (room_SwapOutput w r)"
| "room_step V (OpSetDTMF w) r = SetDTMFOutput w r"
| "room_step V (OpSendData d) r = the (snd (SendData (re_data V) d (Some r)))"
| "room_step V (OpClose reason) r = snd (CloseWithReason (re_close V) reason r)"

definition room_run :: "room_env \<Rightarrow> room_op list \<Rightarrow> room \<Rightarrow> room" where
  "room_run V es r = fold (room_step V) es r"

section \<open>Lemmas\<close>

definition subs :: "room_event list \<Rightarrow> string list" where
  "subs l = concat (map (\<lambda>e. case e of SubscribeReq t \<Rightarrow> [t] | _ \<Rightarrow> []) l)"

definition discs :: "room_event list \<Rightarrow> disconnect_reason list" where
  "discs l = concat (map (\<lambda>e. case e of DisconnectReq d \<Rightarrow> [d] | _ \<Rightarrow> []) l)"

lemma subs_simps [simp]:
  "subs [] = []" "subs (l @ [e]) = subs l @ (case e of SubscribeReq t \<Rightarrow> [t] | _ \<Rightarrow> [])"
  "subs (l @ map SubscribeReq ts) = subs l @ ts"
  by (simp_all add: subs_def comp_def)

lemma discs_simps [simp]:
  "discs [] = []" "discs (l @ [e]) = discs l @ (case e of DisconnectReq d \<Rightarrow> [d] | _ \<Rightarrow> [])"
  "discs (l @ map SubscribeReq ts) = discs l"
  by (simp_all add: discs_def comp_def)

definition audio_tracks :: "sdk_room \<Rightarrow> string list" where
  "audio_tracks sk = concat (map (\<lambda>rp. map pb_track (filter (\<lambda>p. pb_remote p \<and> pb_audio p) (rt_pubs rp))) (sk_parts sk))"

text \<open>A round of subscriptions makes these requests and leaves the rest of the state alone.\<close>

definition subscribing :: "string list \<Rightarrow> room \<Rightarrow> room \<Rightarrow> bool" where
  "subscribing ts r s \<longleftrightarrow>
     rm_log s = rm_log r @ map SubscribeReq ts \<and> rm_sdk s = rm_sdk r \<and> rm_room s = rm_room r \<and> rm_subscribe s = rm_subscribe r \<and>
     rm_closed s = rm_closed r \<and> rm_stopped s = rm_stopped r \<and> rm_tasks s = rm_tasks r \<and> rm_p s = rm_p r \<and>
     rm_resumes s = rm_resumes r \<and> rm_reconnects s = rm_reconnects r \<and> rm_recovering s = rm_recovering r"

lemma subscribing_trans: "subscribing ts r s \<Longrightarrow> subscribing us s t \<Longrightarrow> subscribing (ts @ us) r t"
  by (simp add: subscribing_def)

lemma subscribing_refl: "subscribing [] r r"
  by (simp add: subscribing_def)

lemma participantJoin_subscribing: "subscribing [] r (participantJoin rp r)"
  by (simp add: subscribing_def participantJoin_def)

lemma subscribeTo_subscribing: "subscribing (if pb_audio pub then [pb_track pub] else []) r (subscribeTo serr pub r)"
  by (simp add: subscribing_def subscribeTo_def emit_room_def Let_def)

lemma pubs_subscribing:
  "subscribing (map pb_track (filter (\<lambda>p. pb_remote p \<and> pb_audio p) ps)) r (fold (subscribe_pub serr) ps r)"
proof (induction ps arbitrary: r)
  case Nil
  show ?case by (simp add: subscribing_refl)
next
  case (Cons p ps)
  have "subscribing (if pb_remote p \<and> pb_audio p then [pb_track p] else []) r (subscribe_pub serr p r)"
    using subscribeTo_subscribing [of p r serr] subscribing_refl [of r] by (auto simp: subscribe_pub_def)
  from subscribing_trans [OF this Cons.IH [of "subscribe_pub serr p r"]] show ?case by (auto split: if_splits)
qed

lemma parts_subscribing:
  "subscribing (concat (map (\<lambda>rp. map pb_track (filter (\<lambda>p. pb_remote p \<and> pb_audio p) (rt_pubs rp))) ps)) r
     (fold (subscribe_part serr) ps r)"
proof (induction ps arbitrary: r)
  case Nil
  then show ?case using pubs_subscribing [of "[]" r] by simp
next
  case (Cons p ps)
  have "subscribing (map pb_track (filter (\<lambda>p. pb_remote p \<and> pb_audio p) (rt_pubs p))) r (subscribe_part serr p r)"
    using subscribing_trans [OF participantJoin_subscribing pubs_subscribing] by (fastforce simp: subscribe_part_def)
  from subscribing_trans [OF this Cons.IH] show ?case by simp
qed

lemma subscribeAll_subscribing: "subscribing (audio_tracks (rm_sdk r)) r (subscribeAll serr r)"
  unfolding subscribeAll_def audio_tracks_def by (rule parts_subscribing)

lemmas room_ops = OnParticipantConnected_def OnTrackPublished_def OnDataPacket_def sendDTMF_def
  onReconnecting_def onReconnected_def setParticipantFromRoom_def OnDisconnected_def room_SwapOutput_def SetDTMFOutput_def
  SendData_def emit_room_def Let_def

lemma CloseOutput_sel:
  "rm_closed (snd (CloseOutput cerr r)) = rm_closed r" "rm_subscribe (snd (CloseOutput cerr r)) = rm_subscribe r"
  "rm_room (snd (CloseOutput cerr r)) = rm_room r" "subs (rm_log (snd (CloseOutput cerr r))) = subs (rm_log r)"
  "discs (rm_log (snd (CloseOutput cerr r))) = discs (rm_log r)"
  by (cases "rm_out r"; simp add: CloseOutput_def room_SwapOutput_def emit_room_def)+

lemma Close_sel:
  assumes "\<not> rm_closed r"
  shows "rm_closed (snd (CloseWithReason cerr d r))" "\<not> rm_subscribe (snd (CloseWithReason cerr d r))"
    "\<not> rm_room (snd (CloseWithReason cerr d r))" "subs (rm_log (snd (CloseWithReason cerr d r))) = subs (rm_log r)"
    "discs (rm_log (snd (CloseWithReason cerr d r))) = discs (rm_log r) @ (if rm_room r then [d] else [])"
  using assms
  by (simp_all add: CloseWithReason_def case_prod_unfold Let_def CloseOutput_sel SetDTMFOutput_def emit_room_def del: split_paired_All)

interpretation room_close: once_op "\<lambda>_. True" rm_closed "\<lambda>d r. snd (CloseWithReason cerr d r)" for cerr
proof (unfold_locales)
  show "rm_closed (snd (CloseWithReason cerr a s))" for a s
    by (cases "rm_closed s") (simp add: CloseWithReason_def, rule Close_sel)
  show "rm_closed s \<Longrightarrow> snd (CloseWithReason cerr a s) = s" for a s by (simp add: CloseWithReason_def)
qed

section \<open>Properties\<close>

text \<open>No audio has been requested, and none can be before \<open>Subscribe\<close> is called.\<close>

definition unanswered :: "room \<Rightarrow> bool" where
  "unanswered r \<longleftrightarrow> \<not> rm_subscribe r \<and> rm_tasks r = 0 \<and> subs (rm_log r) = []"

definition joined :: "room \<Rightarrow> bool" where
  "joined r \<longleftrightarrow> rm_room r \<and> \<not> rm_closed r \<and> discs (rm_log r) = []"

definition gone :: "string list \<Rightarrow> disconnect_reason list \<Rightarrow> room \<Rightarrow> bool" where
  "gone ts ds r \<longleftrightarrow> rm_closed r \<and> \<not> rm_subscribe r \<and> \<not> rm_room r \<and> subs (rm_log r) = ts \<and> discs (rm_log r) = ds"

lemma unanswered_step: "unanswered r \<Longrightarrow> e \<noteq> OpSubscribe \<Longrightarrow> unanswered (room_step V e r)"
proof (cases e)
  case (OpClose d)
  then show "unanswered r \<Longrightarrow> ?thesis"
    by (cases "rm_closed r") (simp_all add: unanswered_def CloseWithReason_def case_prod_unfold Let_def CloseOutput_def
        room_SwapOutput_def SetDTMFOutput_def emit_room_def split: option.split)
qed (auto simp: unanswered_def room_ops resubscribeAfterReconnect_def participantJoin_def split: option.split)

lemma subscribeAll_sel:
  "rm_room (subscribeAll serr r) = rm_room r" "rm_closed (subscribeAll serr r) = rm_closed r"
  "discs (rm_log (subscribeAll serr r)) = discs (rm_log r)"
  using subscribeAll_subscribing [of r serr] by (simp_all add: subscribing_def)

lemma subscribeTo_sel:
  "rm_room (subscribeTo serr p r) = rm_room r" "rm_closed (subscribeTo serr p r) = rm_closed r"
  "discs (rm_log (subscribeTo serr p r)) = discs (rm_log r)"
  using subscribeTo_subscribing [of p r serr] by (simp_all add: subscribing_def split: if_splits)

lemma joined_step: "joined r \<Longrightarrow> (\<And>d. e \<noteq> OpClose d) \<Longrightarrow> joined (room_step V e r)"
  by (cases e) (auto simp: joined_def room_ops resubscribeAfterReconnect_def participantJoin_def Subscribe_def
      subscribeAll_sel subscribeTo_sel split: option.split)

lemma gone_step: "gone ts ds r \<Longrightarrow> gone ts ds (room_step V e r)"
  by (cases e) (auto simp: gone_def room_ops resubscribeAfterReconnect_def participantJoin_def Subscribe_def
      CloseWithReason_def split: option.split)

interpretation room_unanswered: machine "room_step V" "\<lambda>e. e \<noteq> OpSubscribe" unanswered for V
  by unfold_locales (rule unanswered_step)

interpretation room_joined: machine "room_step V" "\<lambda>e. \<forall>d. e \<noteq> OpClose d" joined for V
  by unfold_locales (simp add: joined_step)

interpretation room_gone: machine "room_step V" "\<lambda>_. True" "gone ts ds" for V ts ds
  by unfold_locales (rule gone_step)

lemma Connect_fresh:
  assumes "Connect keys build join ws rconf NewRoom = (None, r0)"
  shows "unanswered r0" "joined r0"
  using assms
  by (auto simp: Connect_def NewRoom_def setParticipantFromRoom_def emit_room_def unanswered_def joined_def
      subs_def discs_def Let_def split: sum.splits)

definition demo_sdk :: "string \<Rightarrow> sdk_room" where
  "demo_sdk sid =
     \<lparr>sk_sid = sid, sk_identity = ''sip'', sk_reason = UNKNOWN_REASON,
      sk_parts = [\<lparr>rt_identity = ''agent'', rt_sip = False,
        rt_pubs = [\<lparr>pb_track = ''mic'', pb_audio = True, pb_remote = True\<rparr>, \<lparr>pb_track = ''cam'', pb_audio = False, pb_remote = True\<rparr>]\<rparr>]\<rparr>"

definition demo_config :: room_config where
  "demo_config = \<lparr>rcf_ws = [], rcf_token = ''t'', rcf_room = ''room'', rcf_identity = ''sip'', rcf_name = ''Caller'',
     rcf_metadata = [], rcf_attrs = [], rcf_preset = []\<rparr>"

definition demo_room :: room where
  "demo_room = snd (Connect [] (\<lambda>_ _. Inr ''t'') (\<lambda>_ _ _. Inr (demo_sdk ''PA_1'')) ''ws'' demo_config NewRoom)"

definition demo_room_env :: room_env where
  "demo_room_env = \<lparr>re_sub = (\<lambda>_. None), re_close = (\<lambda>_. None), re_data = None\<rparr>"

lemma demo_room_connected:
  "Connect [] (\<lambda>_ _. Inr ''t'') (\<lambda>_ _ _. Inr (demo_sdk ''PA_1'')) ''ws'' demo_config NewRoom = (None, demo_room)"
  by (simp add: demo_room_def Connect_def demo_config_def Let_def)



text \<open>
  C18: A lost connection is recovered without losing the audio of the call.  If the session comes back under a new
  identity, exactly the audio tracks the room then has are requested again once the call was answered,
  none before; if it resumes, nothing is requested.  Either way the participant the call reports is the present one.
\<close>

theorem reconnect_restores_audio:
  assumes "rm_room r" "\<not> rm_closed r" "\<not> rm_stopped r" "rm_tasks r = 0"
    and "r' = resubscribeAfterReconnect serr (onReconnected ((onReconnecting now r)\<lparr>rm_sdk := sk\<rparr>))"
  shows "rm_log r' = rm_log r @ (if rm_subscribe r \<and> sk_sid sk \<noteq> sk_sid (rm_sdk r) then map SubscribeReq (audio_tracks sk) else []) \<and>
         rm_resumes r' + rm_reconnects r' = rm_resumes r + rm_reconnects r + 1 \<and>
         (rm_resumes r' = rm_resumes r \<longleftrightarrow> sk_sid sk \<noteq> sk_sid (rm_sdk r)) \<and>
         pi_id (room_Participant (Some r')) = sk_sid sk \<and> \<not> rm_recovering r' \<and> rm_tasks r' = 0"
proof -
  let ?m = "onReconnected ((onReconnecting now r)\<lparr>rm_sdk := sk\<rparr>)"
  have m: "rm_log ?m = rm_log r" "rm_sdk ?m = sk" "\<not> rm_closed ?m" "\<not> rm_stopped ?m" "\<not> rm_recovering ?m"
    "rm_resumes ?m + rm_reconnects ?m = rm_resumes r + rm_reconnects r + 1"
    "rm_resumes ?m = rm_resumes r \<longleftrightarrow> sk_sid sk \<noteq> sk_sid (rm_sdk r)"
    "pi_id (room_Participant (Some ?m)) = sk_sid sk"
    "rm_tasks ?m = (if rm_subscribe r \<and> sk_sid sk \<noteq> sk_sid (rm_sdk r) then 1 else 0)"
    using assms(1-4)
    by (simp_all add: onReconnected_def onReconnecting_def setParticipantFromRoom_def room_Participant_def Let_def)
  show ?thesis
  proof (cases "rm_tasks ?m = 0")
    case True
    then show ?thesis using m assms(5) by (auto simp: resubscribeAfterReconnect_def split: if_splits)
  next
    case False
    then have r': "r' = subscribeAll serr (?m\<lparr>rm_tasks := 0\<rparr>)" and c: "rm_subscribe r \<and> sk_sid sk \<noteq> sk_sid (rm_sdk r)"
      using m assms(5) by (simp_all add: resubscribeAfterReconnect_def split: if_splits)
    have "subscribing (audio_tracks sk) (?m\<lparr>rm_tasks := 0\<rparr>) r'"
      using subscribeAll_subscribing [of "?m\<lparr>rm_tasks := 0\<rparr>" serr] m(2) r' by simp
    then show ?thesis using m c by (simp add: subscribing_def room_Participant_def)
  qed
qed

theorem reconnect_restores_audio_witness:
  "rm_log (resubscribeAfterReconnect (\<lambda>_. None)
     (onReconnected ((onReconnecting 7 (room_run demo_room_env [OpSubscribe] demo_room))\<lparr>rm_sdk := demo_sdk ''PA_2''\<rparr>))) =
   [AttributesSet [], SubscribeReq ''mic'', SubscribeReq ''mic'']"
proof -
  let ?r = "room_run demo_room_env [OpSubscribe] demo_room"
  have "rm_room ?r" "\<not> rm_closed ?r" "\<not> rm_stopped ?r" "rm_tasks ?r = 0" by code_simp+
  from reconnect_restores_audio [OF this refl, where serr = "\<lambda>_. None" and now = 7 and sk = "demo_sdk ''PA_2''"]
  have "rm_log (resubscribeAfterReconnect (\<lambda>_. None) (onReconnected ((onReconnecting 7 ?r)\<lparr>rm_sdk := demo_sdk ''PA_2''\<rparr>))) =
    rm_log ?r @ (if rm_subscribe ?r \<and> sk_sid (demo_sdk ''PA_2'') \<noteq> sk_sid (rm_sdk ?r) then map SubscribeReq (audio_tracks (demo_sdk ''PA_2'')) else [])"
    by blast
  also have "\<dots> = [AttributesSet [], SubscribeReq ''mic'', SubscribeReq ''mic'']" by code_simp
  finally show ?thesis .
qed

text \<open>
  A close that overtakes the join is lost: the room stays closed, so that no later close has an effect, and the
  session that was joined afterwards is never ended.
\<close>

lemma join_after_close_leaks:
  assumes "Connect keys build join ws rconf (snd (CloseWithReason cerr d NewRoom)) = (None, r1)"
  shows "rm_room r1 \<and> discs (rm_log r1) = [] \<and> snd (CloseWithReason cerr' d' r1) = r1"
proof -
  let ?c = "snd (CloseWithReason cerr d NewRoom)"
  have c: "rm_closed ?c" "discs (rm_log ?c) = []"
    using Close_sel [of NewRoom cerr d] by (simp_all add: NewRoom_def)
  then have "rm_room r1" "rm_closed r1" "discs (rm_log r1) = []"
    using assms by (auto simp: Connect_def setParticipantFromRoom_def emit_room_def Let_def split: sum.splits)
  then show ?thesis by (simp add: CloseWithReason_def)
qed

end
