(* ===== verification/RequestRouting.thy ===== *)
theory RequestRouting
  imports InboundCall OutboundCall ReferProtocol
begin

text \<open>
  Requests within dialogs: the handlers \<open>onOptions\<close>, \<open>onAck\<close>, \<open>onBye\<close>, \<open>onNotify\<close> and \<open>OnNoRoute\<close> of the server
  (\<open>pkg/sip/inbound.go\<close>, \<open>pkg/sip/server.go\<close>), the client's \<open>OnRequest\<close> they fall back to (\<open>pkg/sip/client.go\<close>),
  the wrapping of handlers by interceptors, and stopping both sides.  A node has the table of
  inbound calls and the table of outbound calls, each by local tag.  An INVITE is \<open>processInvite\<close>.
\<close>

section \<open>Requests\<close>

datatype req_method = M_OPTIONS | M_ACK | M_BYE | M_NOTIFY | M_OTHER string

text \<open>\<open>dr_to\<close>: the To header, with its tag if it has one.\<close>

record dialog_req =
  dr_method :: req_method
  dr_to :: "string option option"
  dr_reason :: "string option"
  dr_notify :: notify_req

record node =
  nd_in :: "(string \<times> inbound_call) list"
  nd_out :: "(string \<times> outbound_call) list"

definition GetLocalTagUAS :: "dialog_req \<Rightarrow> go_error + string" where
  "GetLocalTagUAS r =
     (case dr_to r of
        None \<Rightarrow> Inl (Plain ''no To on Request'')
      | Some None \<Rightarrow> Inl (Plain ''no tag in To on Request'')
      | Some (Some tag) \<Rightarrow> Inr tag)"

text \<open>
  What a handler does: the node afterwards, the responses sent on the transaction, and the transfer result
  handed to the call that waits for one, with the local tag of that call.
\<close>

record handled =
  hd_node :: node
  hd_answers :: "(int \<times> string) list"
  hd_refer :: "(string \<times> go_error option) option"

definition only_answer :: "int \<Rightarrow> string \<Rightarrow> node \<Rightarrow> handled" where
  "only_answer code reason n = \<lparr>hd_node = n, hd_answers = [(code, reason)], hd_refer = None\<rparr>"

section \<open>The client\<close>

definition tag_or_empty :: "dialog_req \<Rightarrow> string" where
  "tag_or_empty r = (case GetLocalTagUAS r of Inl _ \<Rightarrow> [] | Inr t \<Rightarrow> t)"

definition client_onBye :: "dial_env \<Rightarrow> dialog_req \<Rightarrow> node \<Rightarrow> handled option" where
  "client_onBye V r n =
     (let tag = tag_or_empty r in
      case map_of (nd_out n) tag of
        None \<Rightarrow> None
      | Some call \<Rightarrow>
          Some \<lparr>hd_node = n\<lparr>nd_out := mput tag (onBye_out V call) (nd_out n)\<rparr>, hd_answers = [(200, ''OK'')], hd_refer = None\<rparr>)"

text \<open>The result a NOTIFY offers to a waiting transfer of the dialog with the REFER number \<open>cseq\<close>.\<close>

definition notify_refer :: "(sip_status \<Rightarrow> psrpc_code) \<Rightarrow> nat \<Rightarrow> string \<Rightarrow> notify_req \<Rightarrow> (string \<times> go_error option) option" where
  "notify_refer grpc cseq tag req =
     (case handleNotify req of
        Inl _ \<Rightarrow> None
      | Inr info \<Rightarrow>
          (case ni_method info of
             NotifyREFER \<Rightarrow> map_option (Pair tag) (handleReferNotify grpc info cseq)
           | NotifyOther \<Rightarrow> None))"

definition client_onNotify ::
  "(sip_status \<Rightarrow> psrpc_code) \<Rightarrow> (go_error \<Rightarrow> string) \<Rightarrow> dialog_req \<Rightarrow> node \<Rightarrow> handled option" where
  "client_onNotify grpc text r n =
     (let tag = tag_or_empty r in
      case map_of (nd_out n) tag of
        None \<Rightarrow> None
      | Some call \<Rightarrow>
          Some \<lparr>hd_node = n, hd_answers = [notify_answer text (dr_notify r)],
                hd_refer = notify_refer grpc (unat (so_refer_cseq (oc_cc call))) tag (dr_notify r)\<rparr>)"

text \<open>\<open>OnRequest\<close>: \<open>None\<close> if the client does not handle the request.\<close>

definition OnRequest ::
  "dial_env \<Rightarrow> (sip_status \<Rightarrow> psrpc_code) \<Rightarrow> (go_error \<Rightarrow> string) \<Rightarrow> dialog_req \<Rightarrow> node \<Rightarrow> handled option" where
  "OnRequest V grpc text r n =
     (case dr_method r of
        M_BYE \<Rightarrow> client_onBye V r n
      | M_NOTIFY \<Rightarrow> client_onNotify grpc text r n
      | _ \<Rightarrow> None)"

section \<open>The server\<close>

definition onOptions :: "node \<Rightarrow> handled" where
  "onOptions n = only_answer 200 ''OK'' n"

definition onAck :: "dialog_req \<Rightarrow> node \<Rightarrow> handled" where
  "onAck r n =
     \<lparr>hd_node =
        (case GetLocalTagUAS r of
           Inl _ \<Rightarrow> n
         | Inr tag \<Rightarrow>
             (case map_of (nd_in n) tag of
                None \<Rightarrow> n
              | Some c \<Rightarrow> n\<lparr>nd_in := mput tag (on_cc AcceptAck c) (nd_in n)\<rparr>)),
      hd_answers = [], hd_refer = None\<rparr>"

definition does_not_exist :: "node \<Rightarrow> handled" where
  "does_not_exist n = only_answer 481 ''Call does not exist'' n"

definition or_unhandled :: "handled option \<Rightarrow> node \<Rightarrow> handled" where
  "or_unhandled h n = (case h of Some x \<Rightarrow> x | None \<Rightarrow> does_not_exist n)"

text \<open>The Reason header of a BYE; one that does not parse counts as none.\<close>

definition bye_reason :: "dialog_req \<Rightarrow> reason_header" where
  "bye_reason r = (case dr_reason r of None \<Rightarrow> no_reason | Some h \<Rightarrow> (case ParseReasonHeader h of Inl _ \<Rightarrow> no_reason | Inr x \<Rightarrow> x))"

definition onBye ::
  "dial_env \<Rightarrow> (sip_status \<Rightarrow> psrpc_code) \<Rightarrow> (go_error \<Rightarrow> string) \<Rightarrow> dialog_req \<Rightarrow> node \<Rightarrow> handled" where
  "onBye V grpc text r n =
     (case GetLocalTagUAS r of
        Inl _ \<Rightarrow> only_answer 400 [] n
      | Inr tag \<Rightarrow>
          (case map_of (nd_in n) tag of
             Some c \<Rightarrow>
               \<lparr>hd_node = n\<lparr>nd_in := mput tag (Bye (bye_reason r) (on_cc AcceptBye c)) (nd_in n)\<rparr>,
                hd_answers = [(200, ''OK'')], hd_refer = None\<rparr>
           | None \<Rightarrow> or_unhandled (OnRequest V grpc text r n) n))"

definition onNotify ::
  "dial_env \<Rightarrow> (sip_status \<Rightarrow> psrpc_code) \<Rightarrow> (go_error \<Rightarrow> string) \<Rightarrow> dialog_req \<Rightarrow> node \<Rightarrow> handled" where
  "onNotify V grpc text r n =
     (case GetLocalTagUAS r of
        Inl _ \<Rightarrow> only_answer 400 [] n
      | Inr tag \<Rightarrow>
          (case map_of (nd_in n) tag of
             Some c \<Rightarrow>
               \<lparr>hd_node = n, hd_answers = [notify_answer text (dr_notify r)],
                hd_refer = notify_refer grpc (unat (si_refer_cseq (ib_cc c))) tag (dr_notify r)\<rparr>
           | None \<Rightarrow> or_unhandled (OnRequest V grpc text r n) n))"

definition OnNoRoute :: "node \<Rightarrow> handled" where
  "OnNoRoute n = only_answer 405 ''Method Not Allowed'' n"

text \<open>The handlers \<open>Start\<close> installs.\<close>

definition serve ::
  "dial_env \<Rightarrow> (sip_status \<Rightarrow> psrpc_code) \<Rightarrow> (go_error \<Rightarrow> string) \<Rightarrow> dialog_req \<Rightarrow> node \<Rightarrow> handled" where
  "serve V grpc text r n =
     (case dr_method r of
        M_OPTIONS \<Rightarrow> onOptions n
      | M_ACK \<Rightarrow> onAck r n
      | M_BYE \<Rightarrow> onBye V grpc text r n
      | M_NOTIFY \<Rightarrow> onNotify V grpc text r n
      | M_OTHER _ \<Rightarrow> OnNoRoute n)"

text \<open>\<open>wrapHandler\<close>: the interceptors are applied from the last to the first.\<close>

definition wrapHandler :: "('h \<Rightarrow> 'h) list \<Rightarrow> 'h \<Rightarrow> 'h" where
  "wrapHandler interceptors handler = fold (\<lambda>i ret. i ret) (rev interceptors) handler"

section \<open>Stop\<close>

text \<open>The tables are emptied first; the calls taken out of them are closed.\<close>

definition Server_Stop :: "close_env \<Rightarrow> node \<Rightarrow> node \<times> inbound_call list" where
  "Server_Stop E n = (n\<lparr>nd_in := []\<rparr>, map (\<lambda>kv. Shutdown E (snd kv)) (nd_in n))"

definition Client_Stop :: "dial_env \<Rightarrow> node \<Rightarrow> node \<times> outbound_call list" where
  "Client_Stop V n = (n\<lparr>nd_out := []\<rparr>, map (\<lambda>kv. Close_call V (snd kv)) (nd_out n))"

definition Service_Stop :: "close_env \<Rightarrow> dial_env \<Rightarrow> node \<Rightarrow> node \<times> outbound_call list \<times> inbound_call list" where
  "Service_Stop E V n =
     (let (n1, outs) = Client_Stop V n; (n2, ins) = Server_Stop E n1 in (n2, outs, ins))"

section \<open>Properties\<close>

lemma OnRequest_answers: "OnRequest V grpc text r n = Some h \<Longrightarrow> length (hd_answers h) = 1"
  by (auto simp: OnRequest_def client_onBye_def client_onNotify_def Let_def split: req_method.splits option.splits)

lemma OnRequest_others:
  assumes "OnRequest V grpc text r n = Some h" "t \<noteq> tag_or_empty r"
  shows "map_of (nd_in (hd_node h)) t = map_of (nd_in n) t" "map_of (nd_out (hd_node h)) t = map_of (nd_out n) t"
  using assms
  by (auto simp: OnRequest_def client_onBye_def client_onNotify_def Let_def split: req_method.splits option.splits)

lemma serve_answers: "length (hd_answers (serve V grpc text r n)) = (if dr_method r = M_ACK then 0 else 1)"
  by (auto simp: serve_def onOptions_def onAck_def onBye_def onNotify_def OnNoRoute_def only_answer_def or_unhandled_def
      does_not_exist_def OnRequest_answers split: req_method.splits sum.splits option.splits)

lemma serve_others:
  assumes "GetLocalTagUAS r \<noteq> Inr t"
  shows "map_of (nd_in (hd_node (serve V grpc text r n))) t = map_of (nd_in n) t"
    "map_of (nd_out (hd_node (serve V grpc text r n))) t = map_of (nd_out n) t"
proof -
  have "map_of (nd_in (hd_node (serve V grpc text r n))) t = map_of (nd_in n) t \<and>
        map_of (nd_out (hd_node (serve V grpc text r n))) t = map_of (nd_out n) t"
  proof (cases "GetLocalTagUAS r")
    case (Inl e)
    then show ?thesis
      by (simp add: serve_def onOptions_def onAck_def onBye_def onNotify_def OnNoRoute_def only_answer_def split: req_method.splits)
  next
    case (Inr tag)
    then have "t \<noteq> tag_or_empty r" "t \<noteq> tag" using assms by (auto simp: tag_or_empty_def)
    then show ?thesis using Inr OnRequest_others
      by (auto simp: serve_def onOptions_def onAck_def onBye_def onNotify_def OnNoRoute_def only_answer_def or_unhandled_def
          does_not_exist_def split: req_method.splits option.splits)
  qed
  then show "map_of (nd_in (hd_node (serve V grpc text r n))) t = map_of (nd_in n) t"
    "map_of (nd_out (hd_node (serve V grpc text r n))) t = map_of (nd_out n) t" by auto
qed

definition known :: "string \<Rightarrow> node \<Rightarrow> bool" where
  "known t n \<longleftrightarrow> t \<in> fst ` set (nd_in n) \<or> t \<in> fst ` set (nd_out n)"

lemma known_iff: "known t n \<longleftrightarrow> map_of (nd_in n) t \<noteq> None \<or> map_of (nd_out n) t \<noteq> None"
  by (auto simp: known_def map_of_eq_None_iff)

lemma bye_answer:
  assumes "dr_method r = M_BYE"
  shows "map fst (hd_answers (serve V grpc text r n)) =
           [case GetLocalTagUAS r of Inl _ \<Rightarrow> 400 | Inr t \<Rightarrow> if known t n then 200 else 481]"
  using assms
  by (auto simp: serve_def onBye_def only_answer_def or_unhandled_def does_not_exist_def OnRequest_def client_onBye_def
      tag_or_empty_def known_iff Let_def split: sum.splits option.splits)

text \<open>
  C25: Every request within a dialog except ACK is answered exactly once, whichever side of the bridge the call
  belongs to.  It touches no call but the one whose local tag its To header carries.  A BYE is
  answered 200 if that call exists on either side, 481 if not and 400 if there is no tag, and it ends the call.
\<close>

theorem dialog_request_routed:
  "length (hd_answers (serve V grpc text r n)) = (if dr_method r = M_ACK then 0 else 1) \<and>
   (\<forall>t. GetLocalTagUAS r \<noteq> Inr t \<longrightarrow>
      map_of (nd_in (hd_node (serve V grpc text r n))) t = map_of (nd_in n) t \<and>
      map_of (nd_out (hd_node (serve V grpc text r n))) t = map_of (nd_out n) t) \<and>
   (dr_method r = M_BYE \<longrightarrow>
      map fst (hd_answers (serve V grpc text r n)) =
        [case GetLocalTagUAS r of Inl _ \<Rightarrow> 400 | Inr t \<Rightarrow> if known t n then 200 else 481] \<and>
      (\<forall>t c. GetLocalTagUAS r = Inr t \<longrightarrow> map_of (nd_in n) t = Some c \<longrightarrow>
         (\<exists>c'. map_of (nd_in (hd_node (serve V grpc text r n))) t = Some c' \<and> ib_ctx_done c' \<and>
            si_invite (ib_cc c') = None \<and> \<not> si_tx (ib_cc c'))))"
proof (intro conjI impI allI)
  show "length (hd_answers (serve V grpc text r n)) = (if dr_method r = M_ACK then 0 else 1)" by (rule serve_answers)
next
  fix t c
  assume "dr_method r = M_BYE" "GetLocalTagUAS r = Inr t" "map_of (nd_in n) t = Some c"
  then show "\<exists>c'. map_of (nd_in (hd_node (serve V grpc text r n))) t = Some c' \<and> ib_ctx_done c' \<and> si_invite (ib_cc c') = None \<and> \<not> si_tx (ib_cc c')"
    by (simp add: serve_def onBye_def Bye_def on_cc_def AcceptBye_def drop_dialog_def emit_def Let_def)
qed (auto simp: serve_others bye_answer)

theorem dialog_request_routed_witness:
  "\<forall>V. map fst (hd_answers (serve V (\<lambda>_. Internal) (\<lambda>_. []) \<lparr>dr_method = M_BYE, dr_to = Some (Some ''t''), dr_reason = None,
     dr_notify = \<lparr>nr_event = None, nr_event_short = None, nr_sub_state = None, nr_body = []\<rparr>\<rparr> \<lparr>nd_in = [], nd_out = []\<rparr>)) = [481]"
proof
  fix V
  let ?r = "\<lparr>dr_method = M_BYE, dr_to = Some (Some ''t''), dr_reason = None,
     dr_notify = \<lparr>nr_event = None, nr_event_short = None, nr_sub_state = None, nr_body = []\<rparr>\<rparr>"
  show "map fst (hd_answers (serve V (\<lambda>_. Internal) (\<lambda>_. []) ?r \<lparr>nd_in = [], nd_out = []\<rparr>)) = [481]"
    using dialog_request_routed [of V "\<lambda>_. Internal" "\<lambda>_. []" ?r "\<lparr>nd_in = [], nd_out = []\<rparr>"]
    by (simp add: GetLocalTagUAS_def known_def)
qed

text \<open>Stopping the service empties both tables and closes every call that was in them.\<close>

lemma Shutdown_done: "ib_done (Shutdown E c)"
  by (auto simp: Shutdown_def closeWithTerm_def call_close_def closeMedia_def on_cc_def on_mon_def setStatus_def Let_def
      split: prod.splits)

lemma stop_closes_all:
  "case Service_Stop E V n of (n', outs, ins) \<Rightarrow>
     nd_in n' = [] \<and> nd_out n' = [] \<and> length ins = length (nd_in n) \<and> length outs = length (nd_out n) \<and> list_all ib_done ins"
  by (simp add: Service_Stop_def Server_Stop_def Client_Stop_def Shutdown_done list_all_iff)

text \<open>The first interceptor is the outermost one.\<close>

lemma wrapHandler_order: "wrapHandler (i # is) h = i (wrapHandler is h)"
  by (simp add: wrapHandler_def)

end
