(* ===== verification/NodeConfig.thy ===== *)
theory NodeConfig
  imports Complex_Main HeaderAttrs MediaPort
begin

text \<open>
  The configuration of a node: the defaults of \<open>Config.Init\<close> (\<open>pkg/config/config.go\<close>), the checks of
  \<open>NewService\<close> and the TLS part of \<open>Service.Start\<close> (\<open>pkg/sip/service.go\<close>), the choice of addresses
  (\<open>pkg/sip/config.go\<close>), TLS names (\<open>pkg/sip/tls.go\<close>) and codecs (\<open>pkg/sip/media_codecs.go\<close>).  Files, interfaces, the
  STUN lookup, the cipher suites and the codecs of the media library are arguments.  The share of the
  CPU is a number of an ordered field.
\<close>

section \<open>Config.Init\<close>

record tls_section =
  tl_port :: int
  tl_listen :: int
  tl_certs :: "(string \<times> string) list"
  tl_min :: string
  tl_max :: string
  tl_ciphers :: "string list"
  tl_alpn :: "string list option"

record 'f node_conf =
  nc_sip_port :: int
  nc_sip_listen :: int
  nc_tls :: "tls_section option"
  nc_rtp_start :: int
  nc_rtp_end :: int
  nc_drain_idle :: nanos
  nc_drain_dur :: nanos
  nc_max_cpu :: 'f
  nc_dtls_timeout :: nanos
  nc_external_ip :: bool
  nc_nat_ip :: string
  nc_media_external_ip :: bool
  nc_media_nat_ip :: string
  nc_media_timeout :: nanos
  nc_media_initial :: nanos
  nc_hostname :: string
  nc_ringing :: nanos

definition or_default :: "'a \<Rightarrow> 'a \<Rightarrow> 'a \<Rightarrow> 'a" where
  "or_default zero d x = (if x = zero then d else x)"

definition init_tls :: "tls_section \<Rightarrow> tls_section" where
  "init_tls t =
     (let p = or_default 0 5061 (tl_port t) in t\<lparr>tl_port := p, tl_listen := or_default 0 p (tl_listen t)\<rparr>)"

definition drain_setting :: "nanos \<Rightarrow> nanos \<Rightarrow> nanos" where
  "drain_setting d x = (if x = 0 then d else if x < 0 then 0 else x)"

definition init_defaults :: "'f::linordered_field node_conf \<Rightarrow> 'f node_conf" where
  "init_defaults c =
     (let port = or_default 0 5060 (nc_sip_port c)
      in c\<lparr>nc_sip_port := port, nc_sip_listen := or_default 0 port (nc_sip_listen c),
           nc_tls := map_option init_tls (nc_tls c),
           nc_rtp_start := or_default 0 10000 (nc_rtp_start c), nc_rtp_end := or_default 0 20000 (nc_rtp_end c),
           nc_drain_idle := drain_setting (30 * second) (nc_drain_idle c),
           nc_drain_dur := drain_setting (600 * second) (nc_drain_dur c),
           nc_max_cpu := (if nc_max_cpu c \<le> 0 \<or> nc_max_cpu c > 1 then 9 / 10 else nc_max_cpu c),
           nc_dtls_timeout := (if nc_dtls_timeout c \<le> 0 then 10 * second else nc_dtls_timeout c)\<rparr>)"

text \<open>\<open>lerr\<close> is the error of setting up the logger.\<close>

definition Config_Init :: "go_error option \<Rightarrow> 'f::linordered_field node_conf \<Rightarrow> go_error option \<times> 'f node_conf" where
  "Config_Init lerr c =
     (let c1 = init_defaults c
      in case lerr of
           Some e \<Rightarrow> (Some e, c1)
         | None \<Rightarrow>
             if nc_external_ip c1 \<and> nc_nat_ip c1 \<noteq> [] then
               (Some (Plain ''use_external_ip and nat_1_to_1_ip can not both be set''), c1)
             else if nc_media_external_ip c1 \<and> nc_media_nat_ip c1 \<noteq> [] then
               (Some (Plain ''media_use_external_ip and media_nat_1_to_1_ip can not both be set''), c1)
             else (None, c1))"

section \<open>Addresses\<close>

record service_addrs =
  sa_signaling :: ip_addr
  sa_signaling_local :: ip_addr
  sa_media :: ip_addr

text \<open>\<open>getPublicIP\<close>: up to three attempts; an answer that is no address is an error at once.\<close>

fun getPublicIP :: "nat \<Rightarrow> (string \<Rightarrow> ip_addr option) \<Rightarrow> (go_error + string) list \<Rightarrow> go_error + ip_addr" where
  "getPublicIP 0 parse rs = Inl (Plain ''could not resolve external IP'')"
| "getPublicIP (Suc n) parse [] = Inl (Plain ''could not resolve external IP'')"
| "getPublicIP (Suc n) parse (Inl e # rs) = getPublicIP n parse rs"
| "getPublicIP (Suc n) parse (Inr t # rs) =
     (case parse t of Some ip \<Rightarrow> Inr ip | None \<Rightarrow> Inl (Plain ''ParseAddr''))"

text \<open>
  \<open>getLocalIP\<close>: the addresses of the interfaces in order, \<open>None\<close> for one that is not IPv4; \<open>net\<close> is the
  configured network, if any.
\<close>

definition is_loopback :: "ip_addr \<Rightarrow> bool" where
  "is_loopback ip = (case ip of IPv4 a _ _ _ \<Rightarrow> a = 127 | IPv6 a b c d e f g h \<Rightarrow> ip = IPv6 0 0 0 0 0 0 0 1)"

fun getLocalIP :: "(ip_addr \<Rightarrow> bool) option \<Rightarrow> ip_addr option list \<Rightarrow> go_error + ip_addr" where
  "getLocalIP net [] = Inl (Plain ''no local interface found'')"
| "getLocalIP net (None # as) = getLocalIP net as"
| "getLocalIP net (Some ip # as) =
     (if is_loopback ip then getLocalIP net as
      else case net of
        Some f \<Rightarrow> if f ip then Inr ip else getLocalIP net as
      | None \<Rightarrow> Inr ip)"

definition parse_or :: "(string \<Rightarrow> ip_addr option) \<Rightarrow> string \<Rightarrow> go_error + ip_addr" where
  "parse_or parse t = (case parse t of Some ip \<Rightarrow> Inr ip | None \<Rightarrow> Inl (Plain ''ParseAddr''))"

definition GetServiceConfig ::
  "(string \<Rightarrow> ip_addr option) \<Rightarrow> go_error + ip_addr \<Rightarrow> go_error + ip_addr \<Rightarrow> 'f node_conf \<Rightarrow> go_error + service_addrs" where
  "GetServiceConfig parse pub loc c =
     (case (if nc_external_ip c then
              (case pub of Inl e \<Rightarrow> Inl e | Inr ip \<Rightarrow> (case loc of Inl e \<Rightarrow> Inl e | Inr l \<Rightarrow> Inr (ip, l)))
            else if nc_nat_ip c \<noteq> [] then
              (case parse_or parse (nc_nat_ip c) of Inl e \<Rightarrow> Inl e | Inr ip \<Rightarrow> Inr (ip, ip))
            else (case loc of Inl e \<Rightarrow> Inl e | Inr ip \<Rightarrow> Inr (ip, ip))) of
        Inl e \<Rightarrow> Inl e
      | Inr (sig, sigLocal) \<Rightarrow>
          (case (if nc_media_external_ip c \<and> \<not> nc_external_ip c then pub
                 else if nc_media_nat_ip c \<noteq> [] \<and> nc_media_nat_ip c \<noteq> nc_nat_ip c then parse_or parse (nc_media_nat_ip c)
                 else Inr sig) of
             Inl e \<Rightarrow> Inl e
           | Inr media \<Rightarrow> Inr \<lparr>sa_signaling = sig, sa_signaling_local = sigLocal, sa_media = media\<rparr>))"

section \<open>NewService\<close>

text \<open>\<open>strings.ReplaceAll\<close> for a non-empty \<open>old\<close>.\<close>

function replace_all :: "string \<Rightarrow> string \<Rightarrow> string \<Rightarrow> string" where
  "replace_all old new s =
     (if old = [] \<or> s = [] then s
      else if has_prefix s old then new @ replace_all old new (drop (length old) s)
      else hd s # replace_all old new (tl s))"
  by pat_completeness auto
termination
  by (relation "measure (\<lambda>(old, new, s). length s)") auto

declare replace_all.simps [simp del]

definition ip_label_char :: "char \<Rightarrow> string" where
  "ip_label_char c =
     (if c = CHR ''.'' \<or> c = CHR '':'' then ''-'' else if c = CHR ''['' \<or> c = CHR '']'' then [] else [c])"

definition ip_label :: "string \<Rightarrow> string" where
  "ip_label t = concat (map ip_label_char t)"

definition hostname_placeholder :: string where
  "hostname_placeholder = ''${IP}''"

definition hostname_forbidden :: string where
  "hostname_forbidden = ''$%{}[]:/| ''"

definition expand_hostname :: "string \<Rightarrow> string \<Rightarrow> string" where
  "expand_hostname ip h =
     (if contains h hostname_placeholder then replace_all hostname_placeholder (ip_label ip) h else h)"

text \<open>
  \<open>addrs\<close> is the result of \<open>GetServiceConfig\<close>, \<open>ip_text\<close> prints the signaling address, \<open>cerr\<close> is the error of
  creating the DTLS certificate, if one is wanted.
\<close>

definition NewService ::
  "go_error option \<Rightarrow> go_error + service_addrs \<Rightarrow> (ip_addr \<Rightarrow> string) \<Rightarrow> 'f node_conf \<Rightarrow> go_error + ('f node_conf \<times> service_addrs)" where
  "NewService cerr addrs ip_text c =
     (let c1 = c\<lparr>nc_media_timeout := (if nc_media_timeout c \<le> 0 then defaultMediaTimeout else nc_media_timeout c),
                 nc_media_initial := (if nc_media_initial c \<le> 0 then defaultMediaTimeoutInitial else nc_media_initial c)\<rparr>
      in case cerr of
           Some e \<Rightarrow> Inl (Wrapped ''create DTLS-SRTP certificate'' e)
         | None \<Rightarrow>
             (case addrs of
                Inl e \<Rightarrow> Inl e
              | Inr a \<Rightarrow>
                  let host = expand_hostname (ip_text (sa_signaling a)) (nc_hostname c1) in
                  if contains_any host hostname_forbidden then Inl (Plain ''invalid hostname'')
                  else
                    let ring = (if nc_ringing c1 < 1 * second \<or> nc_ringing c1 > 60 * second then 1 * second else nc_ringing c1)
                    in Inr (c1\<lparr>nc_hostname := host, nc_ringing := ring\<rparr>, a)))"

section \<open>TLS\<close>

definition parseTLSVersion :: "string \<Rightarrow> go_error + u16" where
  "parseTLSVersion v =
     (if v = [] then Inr 0
      else if v = ''tls1.0'' \<or> v = ''TLS1.0'' then Inr 0x0301
      else if v = ''tls1.1'' \<or> v = ''TLS1.1'' then Inr 0x0302
      else if v = ''tls1.2'' \<or> v = ''TLS1.2'' then Inr 0x0303
      else if v = ''tls1.3'' \<or> v = ''TLS1.3'' then Inr 0x0304
      else Inl (Plain (''unknown TLS version: '' @ v)))"

definition tlsALPNProtocols :: "string list option \<Rightarrow> string list" where
  "tlsALPNProtocols alpn = (case alpn of None \<Rightarrow> [''sip''] | Some a \<Rightarrow> a)"

text \<open>\<open>secure\<close> and \<open>insecure\<close> are the suites of \<open>crypto/tls\<close> by name; the second result lists the warnings.\<close>

fun parse_suites ::
  "(string \<Rightarrow> u16 option) \<Rightarrow> (string \<Rightarrow> u16 option) \<Rightarrow> string list \<Rightarrow> go_error + u16 list \<times> string list" where
  "parse_suites secure insecure [] = Inr ([], [])"
| "parse_suites secure insecure (s # ss) =
     (case (case secure s of Some i \<Rightarrow> Some (i, []) | None \<Rightarrow> map_option (\<lambda>i. (i, [s])) (insecure s)) of
        None \<Rightarrow> Inl (Plain (''unknown cipher suite: '' @ s))
      | Some (i, w) \<Rightarrow>
          (case parse_suites secure insecure ss of
             Inl e \<Rightarrow> Inl e
           | Inr (is, ws) \<Rightarrow> Inr (i # is, w @ ws)))"

record tls_conf =
  tc_protos :: "string list"
  tc_ciphers :: "u16 list option"
  tc_min :: u16
  tc_max :: u16
  tc_certs :: nat

text \<open>The part of \<open>Start\<close> that builds the TLS configuration; \<open>load\<close> is the error of loading a key pair.\<close>

definition start_tls ::
  "(string \<Rightarrow> u16 option) \<Rightarrow> (string \<Rightarrow> u16 option) \<Rightarrow> (string \<times> string \<Rightarrow> go_error option) \<Rightarrow> go_error option
    \<Rightarrow> tls_section \<Rightarrow> go_error + tls_conf" where
  "start_tls secure insecure load keylog t =
     (if tl_certs t = [] then Inl (Plain ''TLS certificate required'')
      else case List.find (\<lambda>k. load k \<noteq> None) (tl_certs t) of
        Some k \<Rightarrow> Inl (the (load k))
      | None \<Rightarrow>
     (case keylog of
        Some e \<Rightarrow> Inl e
      | None \<Rightarrow>
     (case (if tl_ciphers t = [] then Inr None
            else case parse_suites secure insecure (tl_ciphers t) of Inl e \<Rightarrow> Inl e | Inr (is, _) \<Rightarrow> Inr (Some is)) of
        Inl e \<Rightarrow> Inl e
      | Inr ciphers \<Rightarrow>
     (case parseTLSVersion (tl_min t) of
        Inl e \<Rightarrow> Inl e
      | Inr mn \<Rightarrow>
     (case parseTLSVersion (tl_max t) of
        Inl e \<Rightarrow> Inl e
      | Inr mx \<Rightarrow>
          Inr \<lparr>tc_protos = tlsALPNProtocols (tl_alpn t), tc_ciphers = ciphers, tc_min = mn, tc_max = mx,
               tc_certs = length (tl_certs t)\<rparr>)))))"

section \<open>Codecs\<close>

text \<open>
  The codec names of the media library: those \<open>codecSet\<close> compares with, the digit codec and the SDP names of all
  registered codecs.  A codec set is the list of names that were enabled, over its base.
\<close>

record codec_lib =
  cd_alaw :: string
  cd_ulaw :: string
  cd_g722 :: string
  cd_amrwb :: string
  cd_dtmf :: string
  cd_registered :: "string list"

definition resolveSDPName :: "codec_lib \<Rightarrow> string \<Rightarrow> string" where
  "resolveSDPName L name =
     (let n = to_lower name in
      case List.find (\<lambda>c. to_lower c = n \<or> has_prefix (to_lower c) (n @ ''/'')) (cd_registered L) of
        None \<Rightarrow> []
      | Some c \<Rightarrow> if to_lower c = n then [] else c)"

definition default_rate :: "codec_lib \<Rightarrow> string \<Rightarrow> nat option" where
  "default_rate L name =
     (if name = cd_alaw L \<or> name = cd_ulaw L then Some 8000
      else if name = cd_g722 L then Some 8000
      else if name = cd_amrwb L then Some 16000
      else None)"

definition enabled_names :: "codec_lib \<Rightarrow> string \<times> nat \<Rightarrow> go_error + string list" where
  "enabled_names L codec =
     (case codec of (name, rate) \<Rightarrow>
        if name = [] then Inl (Plain ''no codec name specified'')
        else case (if rate = 0 then default_rate L name else Some rate) of
          None \<Rightarrow> Inl (Plain ''sample rate not specified for codec'')
        | Some r \<Rightarrow>
            let full = name @ ''/'' @ itoa_nat r; sdp = resolveSDPName L full
            in Inr (full # (if sdp \<noteq> [] then [sdp] else [])))"

fun codec_loop :: "codec_lib \<Rightarrow> (string \<times> nat) list \<Rightarrow> go_error + string list" where
  "codec_loop L [] = Inr []"
| "codec_loop L (c # cs) =
     (case enabled_names L c of
        Inl e \<Rightarrow> Inl e
      | Inr ns \<Rightarrow> (case codec_loop L cs of Inl e \<Rightarrow> Inl e | Inr ms \<Rightarrow> Inr (ns @ ms)))"

record codec_set =
  ks_inherits :: bool
  ks_enabled :: "string list"

definition codecSet :: "codec_lib \<Rightarrow> bool \<Rightarrow> (string \<times> nat) list \<Rightarrow> go_error + codec_set" where
  "codecSet L onlyListed codecs =
     (if onlyListed \<and> codecs = [] then Inl (Plain ''no codecs specified'')
      else case codec_loop L codecs of
        Inl e \<Rightarrow> Inl e
      | Inr ns \<Rightarrow> Inr \<lparr>ks_inherits = (\<not> onlyListed), ks_enabled = ns @ [cd_dtmf L]\<rparr>)"

text \<open>Whether a codec may be negotiated, given the defaults.\<close>

definition codec_enabled :: "(string \<Rightarrow> bool) \<Rightarrow> codec_set \<Rightarrow> string \<Rightarrow> bool" where
  "codec_enabled defaults s name = (name \<in> set (ks_enabled s) \<or> ks_inherits s \<and> defaults name)"

definition media_timeout_of :: "nanos option \<Rightarrow> nanos \<Rightarrow> nanos" where
  "media_timeout_of requested d = (case requested of Some t \<Rightarrow> if t > 0 then t else d | None \<Rightarrow> d)"

record media_setup =
  ms_encryption :: sdp_encryption
  ms_codecs :: codec_set
  ms_timeout :: nanos

definition newMediaConfig ::
  "codec_lib \<Rightarrow> media_encryption \<Rightarrow> bool \<Rightarrow> (string \<times> nat) list \<Rightarrow> nanos option \<Rightarrow> nanos \<Rightarrow> go_error + media_setup" where
  "newMediaConfig L enc onlyListed codecs timeout d =
     (case sdpEncryption enc of
        (_, Some e) \<Rightarrow> Inl e
      | (en, None) \<Rightarrow>
          (case codecSet L onlyListed codecs of
             Inl e \<Rightarrow> Inl e
           | Inr s \<Rightarrow> Inr \<lparr>ms_encryption = en, ms_codecs = s, ms_timeout = media_timeout_of timeout d\<rparr>))"

text \<open>\<open>peerCodecNames\<close>: the payload types of an offer, each with the name of its codec if it is known.\<close>

fun peer_names :: "u8 \<Rightarrow> (u8 \<times> string option) list \<Rightarrow> string list \<Rightarrow> string list" where
  "peer_names dt [] names = names"
| "peer_names dt ((pt, codec) # cs) names =
     (if dt \<noteq> 0 \<and> pt = dt then peer_names dt cs names
      else
        let name = (case codec of None \<Rightarrow> ''other'' | Some n \<Rightarrow> n) in
        peer_names dt cs (if name \<in> set names then names else names @ [name]))"

definition peerCodecNames :: "string \<Rightarrow> u8 \<Rightarrow> (u8 \<times> string option) list \<Rightarrow> string list" where
  "peerCodecNames dtmf_name dt cs =
     (let names = peer_names dt cs [] in if dt \<noteq> 0 then names @ [dtmf_name] else names)"

section \<open>Properties\<close>

definition conf_ok :: "'f::linordered_field node_conf \<Rightarrow> bool" where
  "conf_ok c \<longleftrightarrow>
     nc_sip_port c \<noteq> 0 \<and> nc_sip_listen c \<noteq> 0 \<and>
     (case nc_tls c of None \<Rightarrow> True | Some t \<Rightarrow> tl_port t \<noteq> 0 \<and> tl_listen t \<noteq> 0) \<and>
     nc_rtp_start c \<noteq> 0 \<and> nc_rtp_end c \<noteq> 0 \<and> 0 \<le> nc_drain_idle c \<and> 0 \<le> nc_drain_dur c \<and>
     0 < nc_max_cpu c \<and> nc_max_cpu c \<le> 1 \<and> 0 < nc_dtls_timeout c \<and>
     \<not> (nc_external_ip c \<and> nc_nat_ip c \<noteq> []) \<and> \<not> (nc_media_external_ip c \<and> nc_media_nat_ip c \<noteq> []) \<and>
     0 < nc_media_timeout c \<and> 0 < nc_media_initial c \<and>
     \<not> contains_any (nc_hostname c) hostname_forbidden \<and> 1 * second \<le> nc_ringing c \<and> nc_ringing c \<le> 60 * second"

lemma Init_state: "snd (Config_Init lerr c) = init_defaults c"
  by (simp add: Config_Init_def Let_def split: option.split)

lemma Init_accepted:
  assumes "Config_Init lerr c = (None, c1)"
  shows "c1 = init_defaults c"
    and "\<not> (nc_external_ip c1 \<and> nc_nat_ip c1 \<noteq> [])" and "\<not> (nc_media_external_ip c1 \<and> nc_media_nat_ip c1 \<noteq> [])"
  using assms by (auto simp: Config_Init_def Let_def split: option.splits if_splits)

lemma init_ports:
  "nc_sip_port (init_defaults c) \<noteq> 0" "nc_sip_listen (init_defaults c) \<noteq> 0"
  "nc_rtp_start (init_defaults c) \<noteq> 0" "nc_rtp_end (init_defaults c) \<noteq> 0"
  "case nc_tls (init_defaults c) of None \<Rightarrow> True | Some t \<Rightarrow> tl_port t \<noteq> 0 \<and> tl_listen t \<noteq> 0"
  by (simp_all add: init_defaults_def or_default_def init_tls_def Let_def split: option.split)

lemma init_limits:
  "0 \<le> nc_drain_idle (init_defaults c)" "0 \<le> nc_drain_dur (init_defaults c)"
  "0 < nc_max_cpu (init_defaults c)" "nc_max_cpu (init_defaults c) \<le> 1" "0 < nc_dtls_timeout (init_defaults c)"
  by (simp_all add: init_defaults_def drain_setting_def Let_def)

text \<open>What \<open>NewService\<close> keeps of the configuration and what it sets.\<close>

lemma NewService_fields:
  assumes "NewService cerr addrs ip_text c1 = Inr (c2, a)"
  shows "c2 = c1\<lparr>nc_media_timeout := nc_media_timeout c2, nc_media_initial := nc_media_initial c2,
                  nc_hostname := nc_hostname c2, nc_ringing := nc_ringing c2\<rparr>"
    and "0 < nc_media_timeout c2" and "0 < nc_media_initial c2"
    and "\<not> contains_any (nc_hostname c2) hostname_forbidden" and "1 * second \<le> nc_ringing c2" and "nc_ringing c2 \<le> 60 * second"
  using assms
  by (auto simp: NewService_def Let_def defaultMediaTimeout_def defaultMediaTimeoutInitial_def
      split: option.splits sum.splits if_split_asm)

lemma has_prefix_hd: "has_prefix (x # xs) (y # ys) \<Longrightarrow> x = y"
  by (simp add: has_prefix_def)

lemma replace_all_clean: "CHR ''$'' \<notin> set s \<Longrightarrow> replace_all hostname_placeholder n (s @ t) = s @ replace_all hostname_placeholder n t"
proof (induction s)
  case (Cons x s)
  have "\<not> has_prefix ((x # s) @ t) hostname_placeholder"
    using Cons.prems has_prefix_hd [of x "s @ t"] by (auto simp: hostname_placeholder_def)
  then show ?case using Cons by (subst replace_all.simps) (simp add: hostname_placeholder_def)
qed simp

lemma expand_placeholder:
  assumes "CHR ''$'' \<notin> set pre" "CHR ''$'' \<notin> set post"
  shows "expand_hostname ip (pre @ hostname_placeholder @ post) = pre @ ip_label ip @ post"
proof -
  have "contains (pre @ hostname_placeholder @ post) hostname_placeholder"
    by (induction pre) (simp_all add: hostname_placeholder_def has_prefix_def)
  moreover have "replace_all hostname_placeholder n [] = []" for n by (subst replace_all.simps) simp
  then have "replace_all hostname_placeholder n post = post" for n using replace_all_clean [OF assms(2), of n "[]"] by simp
  then have "replace_all hostname_placeholder n (hostname_placeholder @ post) = n @ post" for n
    by (subst replace_all.simps) (simp add: hostname_placeholder_def has_prefix_def)
  ultimately show ?thesis using replace_all_clean [OF assms(1)] by (simp add: expand_hostname_def)
qed

definition ip_text_char :: "char \<Rightarrow> bool" where
  "ip_text_char c \<longleftrightarrow> is_digit c \<or> c \<in> set ''abcdef.:''"

lemma ip_label_clean:
  assumes "list_all ip_text_char t"
  shows "\<not> contains_any (ip_label t) hostname_forbidden"
proof -
  have "\<forall>x \<in> set (ip_label_char c). x \<notin> set hostname_forbidden" if "ip_text_char c" for c
  proof -
    have "is_digit c \<Longrightarrow> c \<notin> set hostname_forbidden"
      by (rule notI) (auto simp: hostname_forbidden_def is_digit_def)
    moreover have "c \<in> set ''abcdef'' \<Longrightarrow> c \<notin> set hostname_forbidden"
      by (rule notI) (auto simp: hostname_forbidden_def)
    moreover have "CHR ''-'' \<notin> set hostname_forbidden" by (simp add: hostname_forbidden_def)
    moreover have "is_digit c \<or> c \<in> set ''abcdef'' \<or> c = CHR ''.'' \<or> c = CHR '':''"
      using that by (auto simp: ip_text_char_def)
    ultimately show ?thesis by (simp only: ip_label_char_def split: if_split) (elim disjE; simp)
  qed
  then show ?thesis using assms by (auto simp: ip_label_def contains_any_def list_ex_iff list_all_iff)
qed

text \<open>
  A service that starts has a usable configuration: every port is set, timeouts are positive, draining times
  are not negative, the CPU share lies in (0, 1], the ringing interval between one second and a minute,
  contradictory address settings are refused, and the host name has no character that would break a SIP URI.
  A host name with the address placeholder is always accepted if the text around it is, for IPv4 and IPv6.
\<close>

theorem service_config_well_formed:
  fixes c :: "'f::linordered_field node_conf"
  assumes "Config_Init lerr c = (None, c1)"
  shows "(NewService cerr addrs ip_text c1 = Inr (c2, a) \<longrightarrow> conf_ok c2) \<and>
         (nc_hostname c1 = pre @ hostname_placeholder @ post \<and>
          \<not> contains_any (pre @ post) hostname_forbidden \<and> list_all ip_text_char (ip_text (sa_signaling a)) \<longrightarrow>
            (\<exists>c3. NewService None (Inr a) ip_text c1 = Inr (c3, a)))"
proof (intro conjI impI)
  assume "NewService cerr addrs ip_text c1 = Inr (c2, a)"
  note new = NewService_fields [OF this]
  have "conf_ok (c1\<lparr>nc_media_timeout := mt, nc_media_initial := mi, nc_hostname := h, nc_ringing := r\<rparr>)"
    if "0 < mt" "0 < mi" "\<not> contains_any h hostname_forbidden" "1 * second \<le> r" "r \<le> 60 * second" for mt mi h r
    using that Init_accepted [OF assms] init_ports [of c] init_limits [of c] by (simp add: conf_ok_def)
  then show "conf_ok c2" using new(2-6) by (subst new(1))
next
  assume h: "nc_hostname c1 = pre @ hostname_placeholder @ post \<and>
      \<not> contains_any (pre @ post) hostname_forbidden \<and> list_all ip_text_char (ip_text (sa_signaling a))"
  then have "CHR ''$'' \<notin> set pre" "CHR ''$'' \<notin> set post" by (auto simp: contains_any_def hostname_forbidden_def list_ex_iff)
  then have "expand_hostname (ip_text (sa_signaling a)) (nc_hostname c1) = pre @ ip_label (ip_text (sa_signaling a)) @ post"
    using h expand_placeholder by simp
  moreover have "\<not> contains_any (pre @ ip_label (ip_text (sa_signaling a)) @ post) hostname_forbidden"
    using h ip_label_clean by (auto simp: contains_any_def)
  ultimately show "\<exists>c3. NewService None (Inr a) ip_text c1 = Inr (c3, a)" by (simp add: NewService_def Let_def)
qed

definition example_conf :: "rat node_conf" where
  "example_conf =
     \<lparr>nc_sip_port = 0, nc_sip_listen = 0, nc_tls = None, nc_rtp_start = 0, nc_rtp_end = 0, nc_drain_idle = -1,
      nc_drain_dur = 0, nc_max_cpu = 2, nc_dtls_timeout = 0, nc_external_ip = False, nc_nat_ip = [],
      nc_media_external_ip = False, nc_media_nat_ip = [], nc_media_timeout = 0, nc_media_initial = 0,
      nc_hostname = ''sip-${IP}.example'', nc_ringing = 0\<rparr>"

definition example_addrs :: service_addrs where
  "example_addrs = (let ip = IPv4 10 0 0 7 in \<lparr>sa_signaling = ip, sa_signaling_local = ip, sa_media = ip\<rparr>)"

lemma service_config_well_formed_witness:
  "Config_Init None example_conf = (None, init_defaults example_conf) \<and>
   nc_hostname (init_defaults example_conf) = ''sip-'' @ hostname_placeholder @ ''.example'' \<and>
   (\<exists>c3. NewService None (Inr example_addrs) (\<lambda>_. ''10.0.0.7'') (init_defaults example_conf) = Inr (c3, example_addrs) \<and> conf_ok c3)"
proof -
  have init: "Config_Init None example_conf = (None, init_defaults example_conf)"
    by (simp add: Config_Init_def init_defaults_def example_conf_def Let_def)
  have host: "nc_hostname (init_defaults example_conf) = ''sip-'' @ hostname_placeholder @ ''.example''"
    by (simp add: init_defaults_def example_conf_def hostname_placeholder_def Let_def)
  have "list_all ip_text_char ''10.0.0.7''" by code_simp
  moreover have "\<not> contains_any (''sip-'' @ ''.example'') hostname_forbidden" by code_simp
  ultimately show ?thesis
    using init host service_config_well_formed [OF init, of None "Inr example_addrs" "\<lambda>_. ''10.0.0.7''"] by metis
qed

text \<open>A start of the RTP range above 20000 with no end gives an empty range, which is not refused.\<close>

lemma lone_rtp_start_empties_range:
  assumes "nc_rtp_start c > 20000" "nc_rtp_end c = 0"
  shows "nc_rtp_start (snd (Config_Init lerr c)) > nc_rtp_end (snd (Config_Init lerr c))"
  using assms by (simp add: Init_state init_defaults_def or_default_def Let_def)

lemma codec_loop_names:
  "codec_loop L cs = Inr ns \<Longrightarrow> n \<in> set ns \<longleftrightarrow> (\<exists>c \<in> set cs. \<exists>ms. enabled_names L c = Inr ms \<and> n \<in> set ms)"
proof (induction cs arbitrary: ns)
  case (Cons c cs)
  from Cons.prems obtain ms ks where "enabled_names L c = Inr ms" "codec_loop L cs = Inr ks" "ns = ms @ ks"
    by (simp split: sum.splits)
  then show ?case using Cons.IH [of ks] by simp
qed simp

text \<open>
  Digits can always be negotiated; with only the listed codecs, nothing else is enabled beside the listed
  names and the registered name each stands for.
\<close>

lemma codecSet_exact:
  assumes "codecSet L only cs = Inr s"
  shows "codec_enabled defaults s (cd_dtmf L) \<and>
         (only \<longrightarrow> cs \<noteq> [] \<and> (codec_enabled defaults s n \<longleftrightarrow>
            n = cd_dtmf L \<or> (\<exists>c \<in> set cs. \<exists>ms. enabled_names L c = Inr ms \<and> n \<in> set ms)))"
proof -
  from assms obtain ns where "codec_loop L cs = Inr ns" "s = \<lparr>ks_inherits = (\<not> only), ks_enabled = ns @ [cd_dtmf L]\<rparr>"
    and "only \<longrightarrow> cs \<noteq> []"
    by (simp add: codecSet_def split: if_split_asm sum.split_asm)
  then show ?thesis using codec_loop_names [of L cs ns n] by (auto simp: codec_enabled_def simp del: codec_loop.simps)
qed

lemma peer_names_distinct: "distinct names \<Longrightarrow> distinct (peer_names dt cs names)"
  by (induction dt cs names rule: peer_names.induct) (auto simp: Let_def split: option.splits)

end
