(* ===== verification/DispatchRpc.thy ===== *)
theory DispatchRpc
  imports InboundServerProps InboundCallProps
begin

text \<open>
  The two RPCs behind an inbound call (\<open>pkg/service/psrpc.go\<close>): \<open>GetAuthCredentials\<close> asks which trunk an INVITE belongs to
  and \<open>DispatchCall\<close> which room it goes to.  The RPC client is an argument, a function from the request to an error or a response, and so
  is \<open>upgrade\<close>, the compatibility shim of the response.  The results feed \<open>processInvite\<close> and \<open>handleInvite\<close>.
\<close>

section \<open>GetAuthCredentials\<close>

datatype trunk_auth_error = TRUNK_AUTH_OK | TRUNK_AUTH_QUOTA_EXCEEDED | TRUNK_AUTH_NO_TRUNK_FOUND | TRUNK_AUTH_OTHER int

record trunk_auth_req =
  tq_call :: rpc_sip_call
  tq_call_id :: string
  tq_from :: string
  tq_from_host :: string
  tq_to :: string
  tq_to_host :: string
  tq_src :: string

record trunk_auth_resp =
  tr_error :: trunk_auth_error
  tr_drop :: bool
  tr_username :: string
  tr_password :: string
  tr_realm :: string
  tr_project :: string
  tr_trunk :: string
  tr_provider :: "provider_type \<times> string"

definition auth_request :: "rpc_sip_call \<Rightarrow> trunk_auth_req" where
  "auth_request call =
     \<lparr>tq_call = call, tq_call_id = rc_lk_call_id call, tq_from = lu_user (rc_from call), tq_from_host = lu_host (rc_from call),
      tq_to = lu_user (rc_to call), tq_to_host = lu_host (rc_to call), tq_src = rc_source_ip call\<rparr>"

definition no_auth :: inbound_auth where
  "no_auth = \<lparr>ia_username = [], ia_password = [], ia_realm = []\<rparr>"

definition auth_refusal :: "auth_result \<Rightarrow> trunk_auth_resp \<Rightarrow> auth_info" where
  "auth_refusal a resp =
     \<lparr>ai_result = a, ai_project = tr_project resp, ai_trunk = [], ai_auth = no_auth, ai_provider = tr_provider resp\<rparr>"

definition GetAuthCredentials :: "(trunk_auth_req \<Rightarrow> go_error + trunk_auth_resp) \<Rightarrow> rpc_sip_call \<Rightarrow> go_error + auth_info" where
  "GetAuthCredentials rpc call =
     (case rpc (auth_request call) of
        Inl e \<Rightarrow> Inl e
      | Inr resp \<Rightarrow>
          Inr (if tr_error resp = TRUNK_AUTH_QUOTA_EXCEEDED then auth_refusal AuthQuotaExceeded resp
               else if tr_error resp = TRUNK_AUTH_NO_TRUNK_FOUND then auth_refusal AuthNoTrunkFound resp
               else if tr_drop resp then auth_refusal AuthDrop resp
               else if tr_username resp \<noteq> [] \<and> tr_password resp \<noteq> [] then
                 \<lparr>ai_result = AuthPassword, ai_project = tr_project resp, ai_trunk = tr_trunk resp,
                  ai_auth = \<lparr>ia_username = tr_username resp, ia_password = tr_password resp, ia_realm = tr_realm resp\<rparr>,
                  ai_provider = tr_provider resp\<rparr>
               else
                 \<lparr>ai_result = AuthAccept, ai_project = tr_project resp, ai_trunk = tr_trunk resp, ai_auth = no_auth,
                  ai_provider = tr_provider resp\<rparr>))"

section \<open>DispatchCall\<close>

datatype dispatch_verdict = LEGACY_ACCEPT_OR_PIN | ACCEPT | REQUEST_PIN | REJECT | DROP | OTHER_VERDICT int

record dispatch_req =
  dq_trunk :: string
  dq_call :: rpc_sip_call
  dq_pin :: string
  dq_no_pin :: bool
  dq_call_id :: string
  dq_calling :: string
  dq_calling_host :: string
  dq_called :: string
  dq_called_host :: string
  dq_src :: string

record dispatch_resp =
  dx_result :: dispatch_verdict
  dx_request_pin :: bool
  dx_room :: string
  dx_identity :: string
  dx_attributes :: smap
  dx_project :: string
  dx_trunk :: string
  dx_rule :: string
  dx_headers :: smap
  dx_hdr_to_attr :: smap
  dx_include :: header_opts
  dx_attrs_to_headers :: smap
  dx_ringing :: nanos
  dx_max_duration :: nanos

definition dispatch_request :: "string \<Rightarrow> rpc_sip_call \<Rightarrow> string \<Rightarrow> bool \<Rightarrow> dispatch_req" where
  "dispatch_request trunk call pin noPin =
     \<lparr>dq_trunk = trunk, dq_call = call, dq_pin = pin, dq_no_pin = noPin, dq_call_id = rc_lk_call_id call,
      dq_calling = lu_user (rc_from call), dq_calling_host = lu_host (rc_from call), dq_called = lu_user (rc_to call),
      dq_called_host = lu_host (rc_to call), dq_src = rc_source_ip call\<rparr>"

text \<open>
  A dispatch that accepts carries the room and everything for the participant; the others only say whose call it
  was.  Both accepting branches of the code fill the same fields of \<open>CallDispatch\<close> but for the feature flags, which
  \<open>call_dispatch\<close> leaves out with the other fields the call hands through to the room.
\<close>

definition dispatch_accept :: "dispatch_resp \<Rightarrow> call_dispatch" where
  "dispatch_accept resp =
     \<lparr>dp_result = DispatchAccept, dp_room = dx_room resp, dp_identity = dx_identity resp, dp_attributes = dx_attributes resp,
      dp_project = dx_project resp, dp_trunk = dx_trunk resp, dp_rule = dx_rule resp, dp_headers = dx_headers resp,
      dp_hdr_to_attr = dx_hdr_to_attr resp, dp_include = dx_include resp, dp_attrs_to_headers = dx_attrs_to_headers resp,
      dp_ringing = dx_ringing resp, dp_max_duration = dx_max_duration resp\<rparr>"

definition dispatch_bare :: "dispatch_result \<Rightarrow> string \<Rightarrow> dispatch_resp \<Rightarrow> call_dispatch" where
  "dispatch_bare r rule resp = no_dispatch\<lparr>dp_result := r, dp_project := dx_project resp, dp_trunk := dx_trunk resp, dp_rule := rule\<rparr>"

definition DispatchCall ::
  "(dispatch_resp \<Rightarrow> dispatch_resp) \<Rightarrow> (dispatch_req \<Rightarrow> go_error + dispatch_resp) \<Rightarrow> string \<Rightarrow> rpc_sip_call \<Rightarrow> string \<Rightarrow> bool
    \<Rightarrow> call_dispatch" where
  "DispatchCall upgrade rpc trunk call pin noPin =
     (case rpc (dispatch_request trunk call pin noPin) of
        Inl e \<Rightarrow> no_dispatch\<lparr>dp_result := DispatchServiceUnavailable\<rparr>
      | Inr resp0 \<Rightarrow>
          let resp = upgrade resp0 in
          case dx_result resp of
            LEGACY_ACCEPT_OR_PIN \<Rightarrow>
              if dx_request_pin resp then dispatch_bare DispatchRequestPin (dx_rule resp) resp else dispatch_accept resp
          | ACCEPT \<Rightarrow> dispatch_accept resp
          | REQUEST_PIN \<Rightarrow> dispatch_bare DispatchRequestPin [] resp
          | REJECT \<Rightarrow> dispatch_bare DispatchNoRuleReject [] resp
          | DROP \<Rightarrow> dispatch_bare DispatchNoRuleDrop [] resp
          | OTHER_VERDICT _ \<Rightarrow> dispatch_bare DispatchNoRuleReject [] resp)"

section \<open>What the service's answers mean to the call\<close>

text \<open>The trunk lookups that let an INVITE become a call, and the credentials it is then checked against.\<close>

definition trunk_admits :: "trunk_auth_resp \<Rightarrow> bool" where
  "trunk_admits resp \<longleftrightarrow> tr_error resp \<noteq> TRUNK_AUTH_QUOTA_EXCEEDED \<and> tr_error resp \<noteq> TRUNK_AUTH_NO_TRUNK_FOUND \<and> \<not> tr_drop resp"

definition trunk_auth :: "trunk_auth_resp \<Rightarrow> inbound_auth" where
  "trunk_auth resp = \<lparr>ia_username = tr_username resp, ia_password = tr_password resp, ia_realm = tr_realm resp\<rparr>"

lemma GetAuthCredentials_result:
  assumes "GetAuthCredentials rpc call = Inr r" and "ai_result r = AuthAccept \<or> ai_result r = AuthPassword"
  shows "\<exists>resp. rpc (auth_request call) = Inr resp \<and> trunk_admits resp
    \<and> (if tr_username resp \<noteq> [] \<and> tr_password resp \<noteq> [] then ai_result r = AuthPassword \<and> ai_auth r = trunk_auth resp
       else ai_result r = AuthAccept)"
proof (cases "rpc (auth_request call)")
  case (Inr resp)
  then have r: "r = (if tr_error resp = TRUNK_AUTH_QUOTA_EXCEEDED then auth_refusal AuthQuotaExceeded resp
      else if tr_error resp = TRUNK_AUTH_NO_TRUNK_FOUND then auth_refusal AuthNoTrunkFound resp
      else if tr_drop resp then auth_refusal AuthDrop resp
      else if tr_username resp \<noteq> [] \<and> tr_password resp \<noteq> [] then
        \<lparr>ai_result = AuthPassword, ai_project = tr_project resp, ai_trunk = tr_trunk resp, ai_auth = trunk_auth resp, ai_provider = tr_provider resp\<rparr>
      else \<lparr>ai_result = AuthAccept, ai_project = tr_project resp, ai_trunk = tr_trunk resp, ai_auth = no_auth, ai_provider = tr_provider resp\<rparr>)"
    using assms(1) unfolding GetAuthCredentials_def trunk_auth_def by simp
  have "trunk_admits resp" using assms(2) unfolding r trunk_admits_def by (simp add: auth_refusal_def split: if_splits)
  then show ?thesis using Inr unfolding r trunk_admits_def by simp
qed (use assms(1) in \<open>simp add: GetAuthCredentials_def\<close>)

text \<open>The responses that give the caller a room.\<close>

definition verdict_accepts :: "dispatch_resp \<Rightarrow> bool" where
  "verdict_accepts resp \<longleftrightarrow> dx_result resp = ACCEPT \<or> dx_result resp = LEGACY_ACCEPT_OR_PIN \<and> \<not> dx_request_pin resp"

lemma DispatchCall_accepts:
  assumes "dp_result (DispatchCall upgrade rpc trunk call pin noPin) = DispatchAccept"
  shows "\<exists>resp. rpc (dispatch_request trunk call pin noPin) = Inr resp \<and> verdict_accepts (upgrade resp)
    \<and> DispatchCall upgrade rpc trunk call pin noPin = dispatch_accept (upgrade resp)"
  using assms
  by (auto simp: DispatchCall_def verdict_accepts_def dispatch_bare_def Let_def split: sum.splits dispatch_verdict.splits if_splits)

section \<open>Examples\<close>

definition sample_trunk :: trunk_auth_resp where
  "sample_trunk = \<lparr>tr_error = TRUNK_AUTH_OK, tr_drop = False, tr_username = ''alice'', tr_password = ''pw'', tr_realm = [],
     tr_project = [], tr_trunk = ''ST1'', tr_provider = (PROVIDER_UNKNOWN, [])\<rparr>"

definition sample_verdict :: dispatch_resp where
  "sample_verdict = \<lparr>dx_result = ACCEPT, dx_request_pin = False, dx_room = ''room'', dx_identity = ''id'', dx_attributes = [],
     dx_project = [], dx_trunk = ''ST1'', dx_rule = ''SDR1'', dx_headers = [], dx_hdr_to_attr = [], dx_include = SIP_NO_HEADERS,
     dx_attrs_to_headers = [], dx_ringing = 0, dx_max_duration = 0\<rparr>"

definition sample_rpc_call :: rpc_sip_call where
  "sample_rpc_call = call_info_of ''1.2.3.4'' sample_invite sample_dialog"

lemma GetAuthCredentials_sample: "GetAuthCredentials (\<lambda>_. Inr sample_trunk) = (\<lambda>_. Inr sample_auth)"
  by (rule ext) (simp add: GetAuthCredentials_def sample_trunk_def sample_auth_def)

section \<open>Properties\<close>

text \<open>
  C2: The trunk lookup decides who may call.  With the trunk service behind \<open>processInvite\<close>, an INVITE becomes a call only if the
  service answered the lookup for this very INVITE (its source address, caller and callee) with a trunk, did
  not report an exceeded quota or ask to drop the call, and, where the trunk has a user name and a
  password, the INVITE's digest response is the one for them and our stored challenge.
\<close>

theorem trunk_decision_enforced:
  assumes "table_ok sv"
    and "ir_finish (processInvite conf D (env\<lparr>ev_auth := GetAuthCredentials rpc\<rparr>) msg iv sv ms) = FinProceed r"
  shows "\<exists>ip addr cc resp. ev_src env = Some (ip, addr)
    \<and> newInbound conf (ev_ip env) (ev_fresh env) (map_of (sv_provisional sv)) iv = Inr cc
    \<and> rpc (auth_request (call_info_of ip iv cc)) = Inr resp \<and> trunk_admits resp
    \<and> (tr_username resp \<noteq> [] \<and> tr_password resp \<noteq> [] \<longrightarrow>
        (\<exists>cid. iv_call_id iv = Some cid \<and> digest_matches D (trunk_auth resp) (stored_challenge sv cid) iv))"
proof -
  obtain ip addr cc where src: "ev_src env = Some (ip, addr)"
    and cc: "newInbound conf (ev_ip env) (ev_fresh env) (map_of (sv_provisional sv)) iv = Inr cc"
    and au: "GetAuthCredentials rpc (call_info_of ip iv cc) = Inr r"
    and ok: "ai_result r = AuthAccept \<or> ai_result r = AuthPassword"
    and dig: "ai_result r = AuthPassword \<Longrightarrow> ia_username (ai_auth r) = [] \<or> ia_password (ai_auth r) = []
       \<or> (\<exists>cid. iv_call_id iv = Some cid \<and> digest_matches D (ai_auth r) (stored_challenge sv cid) iv)"
    using invite_authorized [OF assms] by auto
  obtain resp where resp: "rpc (auth_request (call_info_of ip iv cc)) = Inr resp" "trunk_admits resp"
    and c: "tr_username resp \<noteq> [] \<and> tr_password resp \<noteq> [] \<Longrightarrow> ai_result r = AuthPassword \<and> ai_auth r = trunk_auth resp"
    using GetAuthCredentials_result [OF au ok] by (auto split: if_splits)
  then show ?thesis using src cc dig by (fastforce simp: trunk_auth_def)
qed

theorem trunk_decision_enforced_witness:
  "trunk_admits sample_trunk
   \<and> (\<exists>cid. iv_call_id answered_invite = Some cid
        \<and> digest_matches sample_digest (trunk_auth sample_trunk) (stored_challenge challenged_server cid) answered_invite)"
proof -
  have e: "(sample_env sample_auth)\<lparr>ev_auth := GetAuthCredentials (\<lambda>_. Inr sample_trunk)\<rparr> = sample_env sample_auth"
    by (simp add: sample_env_def GetAuthCredentials_sample)
  have "table_ok challenged_server"
    by (simp add: challenged_server_def processInvite_table new_server_table)
  from trunk_decision_enforced [OF this, where env = "sample_env sample_auth" and rpc = "\<lambda>_. Inr sample_trunk"]
  show ?thesis using answered_proceeds e by (fastforce simp: sample_trunk_def)
qed

text \<open>
  C9: The PIN is judged by the dispatch service.  A caller passes the PIN prompt only if the service was asked
  about exactly the digits entered before the hash key, for this call and trunk, and accepted; the room and
  identity used from then on are those of its response.
\<close>

theorem pin_verdict_from_service:
  assumes "pinPrompt E mt (DispatchCall upgrade rpc trunk call) [] es c = Some (disp, True, e, c')"
  shows "\<exists>resp. rpc (dispatch_request trunk call (digits_before_hash es) (digits_before_hash es = [])) = Inr resp
    \<and> verdict_accepts (upgrade resp) \<and> disp = dispatch_accept (upgrade resp) \<and> dx_room (upgrade resp) \<noteq> []"
proof -
  have d: "disp = DispatchCall upgrade rpc trunk call (digits_before_hash es) (digits_before_hash es = [])"
    and "dp_result disp = DispatchAccept" "dp_room disp \<noteq> []"
    using pinPrompt_accepts [OF assms] unfolding Let_def append_Nil list.size by blast+
  then show ?thesis using DispatchCall_accepts [of upgrade rpc trunk call "digits_before_hash es" "digits_before_hash es = []"]
    by (auto simp: dispatch_accept_def)
qed

theorem pin_verdict_from_service_witness:
  "\<exists>resp. (if dq_pin (dispatch_request ''ST1'' sample_rpc_call ''12'' False) = ''12'' then Inr sample_verdict else Inl (Plain [])) = (Inr resp :: go_error + dispatch_resp)
    \<and> verdict_accepts resp \<and> dx_room resp = ''room''"
  using pin_verdict_from_service [of sample_close "[]" id "\<lambda>q. if dq_pin q = ''12'' then Inr sample_verdict else Inl (Plain [])"
      "''ST1''" sample_rpc_call "[PinDigit CHR ''1'', PinDigit CHR ''2'', PinDigit CHR 0x23]" sample_call "dispatch_accept sample_verdict"
      None sample_call]
  by (simp add: Let_def pinLimit_def DispatchCall_def dispatch_request_def sample_verdict_def dispatch_accept_def)

end
