(* ===== verification/NodeMonitor.thy ===== *)
theory NodeMonitor
  imports CallMonitor
begin

text \<open>
  The metrics of a node as a whole (\<open>pkg/stats/monitor.go\<close>): the collectors \<open>Monitor.Start\<close> declares with their label
  names, their registration, the duration histograms, and all updates of counters in one machine.  Prometheus
  panics when a metric is used with label names other than the declared ones, so the schema is a contract of
  every update.
\<close>

section \<open>Declarations\<close>

datatype hist = DurSession | DurCall | DurCheck | DurJoin | DurStage | SdpSize

datatype collector = GoCollector | CounterOf metric | HistogramOf hist | NodeAvailable | CpuLoad

fun metric_labels :: "metric \<Rightarrow> string list" where
  "metric_labels InviteReqRaw = []"
| "metric_labels InviteReqM = [''dir'']"
| "metric_labels InviteAcceptM = [''dir'', ''to'']"
| "metric_labels InviteErr = [''dir'', ''to'', ''reason'']"
| "metric_labels CallsActive = [''dir'', ''to'']"
| "metric_labels CallsTerminated = [''dir'', ''to'', ''result'', ''reason'']"
| "metric_labels CallsTerminationFailures = [''dir'']"
| "metric_labels PacketsRTP = [''dir'', ''to'', ''op'', ''payload'']"
| "metric_labels SdpParsed = [''dir'', ''provider'']"
| "metric_labels CodecOffered = [''dir'', ''provider'', ''codec'']"
| "metric_labels TransfersTotal = [''dir'']"
| "metric_labels TransfersSucceeded = [''dir'']"
| "metric_labels TransfersFailed = [''dir'', ''reason'']"
| "metric_labels TransfersActive = [''dir'']"

fun hist_labels :: "hist \<Rightarrow> string list" where
  "hist_labels DurSession = [''dir'']"
| "hist_labels DurCall = [''dir'']"
| "hist_labels DurCheck = [''dir'']"
| "hist_labels DurJoin = [''dir'']"
| "hist_labels DurStage = [''dir'', ''stage'']"
| "hist_labels SdpSize = [''type'']"

text \<open>The collectors in the order \<open>Start\<close> registers them.\<close>

definition start_collectors :: "collector list" where
  "start_collectors =
     [GoCollector, CounterOf InviteReqRaw, CounterOf InviteReqM, CounterOf InviteAcceptM, CounterOf InviteErr,
      CounterOf CallsActive, CounterOf CallsTerminated, CounterOf CallsTerminationFailures, CounterOf PacketsRTP,
      HistogramOf DurSession, HistogramOf DurCall, HistogramOf DurCheck, HistogramOf DurJoin, HistogramOf DurStage,
      HistogramOf SdpSize, CounterOf SdpParsed, CounterOf CodecOffered, NodeAvailable, CpuLoad,
      CounterOf TransfersTotal, CounterOf TransfersSucceeded, CounterOf TransfersFailed, CounterOf TransfersActive]"

section \<open>The monitor\<close>

record monitor =
  mn_metrics :: "collector list"
  mn_started :: bool
  mn_shutdown :: bool

definition NewMonitor :: monitor where
  "NewMonitor = \<lparr>mn_metrics = [], mn_started = False, mn_shutdown = False\<rparr>"

text \<open>The second component is the registry of the process; a collector that is there already is reused.\<close>

definition mustRegister :: "collector \<Rightarrow> monitor \<times> collector list \<Rightarrow> monitor \<times> collector list" where
  "mustRegister c s =
     (case s of (m, reg) \<Rightarrow> if c \<in> set reg then (m, reg) else (m\<lparr>mn_metrics := mn_metrics m @ [c]\<rparr>, reg @ [c]))"

definition Unregister :: "collector \<Rightarrow> collector list \<Rightarrow> collector list" where
  "Unregister c reg = filter (\<lambda>x. x \<noteq> c) reg"

definition Monitor_Start :: "monitor \<times> collector list \<Rightarrow> monitor \<times> collector list" where
  "Monitor_Start s =
     (case s of (m, reg) \<Rightarrow>
        let (m1, reg1) = fold mustRegister start_collectors (m, Unregister GoCollector reg)
        in (m1\<lparr>mn_started := True\<rparr>, reg1))"

definition Monitor_Shutdown :: "monitor \<Rightarrow> monitor" where
  "Monitor_Shutdown m = m\<lparr>mn_shutdown := True\<rparr>"

definition Monitor_Stop :: "monitor \<times> collector list \<Rightarrow> monitor \<times> collector list" where
  "Monitor_Stop s = (case s of (m, reg) \<Rightarrow> (m\<lparr>mn_metrics := []\<rparr>, fold Unregister (mn_metrics m) reg))"

definition Monitor_Health :: "'a::linordered_field \<Rightarrow> 'a \<Rightarrow> 'a \<Rightarrow> monitor \<Rightarrow> health_status" where
  "Monitor_Health idle cpus max_util m = Health (mn_started m) (mn_shutdown m) idle cpus max_util"

definition node_available :: "health_status \<Rightarrow> int" where
  "node_available h = (if h = HealthOK then 1 else 0)"

text \<open>The callback of the CPU statistics; \<open>None\<close> leaves the gauge alone.\<close>

definition cpu_load :: "monitor \<Rightarrow> 'a::linordered_field \<Rightarrow> 'a \<Rightarrow> 'a option" where
  "cpu_load m idle cpus = (if mn_started m then Some (1 - idle / cpus) else None)"

section \<open>Histograms\<close>

text \<open>What the function returned by each timer observes, in order, for a duration \<open>d\<close>.\<close>

definition StageDur :: "call_monitor \<Rightarrow> string \<Rightarrow> 'd \<Rightarrow> hist \<times> smap \<times> 'd" where
  "StageDur c stage d = (DurStage, labelsShort c [(''stage'', stage)], d)"

definition SessionDur :: "call_monitor \<Rightarrow> 'd \<Rightarrow> (hist \<times> smap \<times> 'd) list" where
  "SessionDur c d = [StageDur c ''session'' d, (DurSession, labelsShort c [], d)]"

definition CallDur :: "call_monitor \<Rightarrow> 'd \<Rightarrow> (hist \<times> smap \<times> 'd) list" where
  "CallDur c d = [StageDur c ''call'' d, (DurCall, labelsShort c [], d)]"

definition CheckDur :: "call_monitor \<Rightarrow> 'd \<Rightarrow> (hist \<times> smap \<times> 'd) list" where
  "CheckDur c d = [(DurCheck, labelsShort c [], d), StageDur c ''auth-check'' d]"

definition JoinDur :: "call_monitor \<Rightarrow> 'd \<Rightarrow> (hist \<times> smap \<times> 'd) list" where
  "JoinDur c d = [StageDur c ''invite-to-dispatch'' d, (DurJoin, labelsShort c [], d)]"

definition SDPSize :: "'d \<Rightarrow> bool \<Rightarrow> (hist \<times> smap \<times> 'd) list" where
  "SDPSize sz isOffer = [(SdpSize, [(''type'', if isOffer then ''offer'' else ''answer'')], sz)]"

section \<open>All updates\<close>

datatype mon_op =
    OpInviteReqRaw
  | OpInviteReq
  | OpInviteAccept
  | OpInviteErrorShort call_term
  | OpInviteError string
  | OpCallStart
  | OpCallEnd
  | OpCallTerminate call_term
  | OpTerminationFailure
  | OpRTPSend string
  | OpRTPRecv string
  | OpPeerSDP "string list"
  | OpSetProvider string
  | OpTransferStarted call_dir
  | OpTransferSucceeded call_dir
  | OpTransferFailed call_dir string bool

fun mon_apply :: "mon_op \<Rightarrow> call_monitor \<times> metrics \<Rightarrow> call_monitor \<times> metrics" where
  "mon_apply OpInviteReqRaw (c, ms) = (c, inc InviteReqRaw [] ms)"
| "mon_apply OpInviteReq (c, ms) = (c, InviteReq c ms)"
| "mon_apply OpInviteAccept (c, ms) = (c, InviteAccept c ms)"
| "mon_apply (OpInviteErrorShort t) (c, ms) = (c, InviteErrorShort c t ms)"
| "mon_apply (OpInviteError r) (c, ms) = (c, InviteError c r ms)"
| "mon_apply OpCallStart cm = CallStart cm"
| "mon_apply OpCallEnd cm = CallEnd cm"
| "mon_apply (OpCallTerminate t) cm = CallTerminate t cm"
| "mon_apply OpTerminationFailure (c, ms) = (c, CallTerminationFailure c ms)"
| "mon_apply (OpRTPSend pt) (c, ms) = (c, RTPPacketSend c pt ms)"
| "mon_apply (OpRTPRecv pt) (c, ms) = (c, RTPPacketRecv c pt ms)"
| "mon_apply (OpPeerSDP ns) (c, ms) = (c, PeerSDP c ns ms)"
| "mon_apply (OpSetProvider p) (c, ms) = (SetProvider p c, ms)"
| "mon_apply (OpTransferStarted d) (c, ms) = (c, TransferStarted d ms)"
| "mon_apply (OpTransferSucceeded d) (c, ms) = (c, TransferSucceeded d ms)"
| "mon_apply (OpTransferFailed d r b) (c, ms) = (c, TransferFailed d r b ms)"

section \<open>Lemmas\<close>

definition named :: "smap \<Rightarrow> string list \<Rightarrow> bool" where
  "named l names \<longleftrightarrow> distinct (map fst l) \<and> set (map fst l) = set names"

definition declared :: "metrics \<Rightarrow> bool" where
  "declared ms \<longleftrightarrow> (\<forall>m l. ms (m, l) \<noteq> 0 \<longrightarrow> named l (metric_labels m))"

lemma declared_inc: "declared ms \<Longrightarrow> named l (metric_labels m) \<Longrightarrow> declared (inc m l ms) \<and> declared (dec m l ms)"
  by (auto simp: declared_def inc_def dec_def)

lemma put_names:
  assumes "distinct (map fst l)"
  shows "distinct (map fst (fold (\<lambda>kv out. mput (fst kv) (snd kv) out) kvs l)) \<and>
         set (map fst (fold (\<lambda>kv out. mput (fst kv) (snd kv) out) kvs l)) = set (map fst l) \<union> set (map fst kvs)"
  using assms
proof (induction kvs arbitrary: l)
  case (Cons kv kvs)
  then show ?case
    using Cons.IH [of "mput (fst kv) (snd kv) l"] distinct_mput [of l "fst kv" "snd kv"] keys_mput [of "fst kv" "snd kv" l] by auto
qed simp

lemma named_labels:
  "named (labelsShort c kvs) (''dir'' # map fst kvs)" "named (labels c kvs) (''dir'' # ''to'' # map fst kvs)"
  using put_names [of "[(''dir'', dir_string (cm_dir c))]" kvs] put_names [of "[(''dir'', dir_string (cm_dir c)), (''to'', cm_to c)]" kvs]
  by (auto simp: named_def labelsShort_def labels_def)

lemma named_observed:
  "named (labelsShort c []) [''dir'']" "named (labelsShort c [(''stage'', s)]) [''dir'', ''stage'']" "named [(''type'', t)] [''type'']"
  using named_labels(1) [of c "[]"] named_labels(1) [of c "[(''stage'', s)]"] by (simp_all add: named_def)

lemma named_perm: "named l names \<Longrightarrow> set names = set names' \<Longrightarrow> named l names'"
  by (simp add: named_def)

lemma declared_codecs:
  "declared ms \<Longrightarrow> declared (fold (\<lambda>name. inc CodecOffered [(''dir'', d), (''provider'', p), (''codec'', name)]) ns ms)"
  by (induction ns arbitrary: ms) (simp_all add: declared_inc named_def)

lemma declared_apply: "declared (snd cm) \<Longrightarrow> declared (snd (mon_apply op cm))"
proof (cases cm)
  case (Pair c ms)
  assume d: "declared (snd cm)"
  note up = declared_inc [THEN conjunct1] declared_inc [THEN conjunct2] named_perm [OF named_labels(1)] named_perm [OF named_labels(2)]
  show ?thesis
    using d Pair
    by (cases op)
       (auto simp: InviteReq_def InviteAccept_def InviteErrorShort_def InviteError_def CallStart_def CallEnd_def CallTerminate_def
          CallTerminationFailure_def RTPPacketSend_def RTPPacketRecv_def PeerSDP_def TransferStarted_def TransferSucceeded_def
          TransferFailed_def Let_def named_def [of "[]"] named_def [of "_ # _"] intro!: declared_codecs up)
qed

interpretation metric_updates: machine mon_apply "\<lambda>_. True" "\<lambda>cm. declared (snd cm)"
  by unfold_locales (rule declared_apply)

lemma mustRegister_run:
  "fold mustRegister cs (m, reg) = (m', reg') \<Longrightarrow>
     set reg' = set reg \<union> set cs \<and> (\<exists>new. mn_metrics m' = mn_metrics m @ new \<and> set new = set cs - set reg)"
proof (induction cs arbitrary: m reg)
  case (Cons c cs)
  show ?case
  proof (cases "c \<in> set reg")
    case True
    then show ?thesis using Cons.IH [of m reg] Cons.prems by (auto simp: mustRegister_def)
  next
    case False
    then obtain new where "set reg' = set reg \<union> {c} \<union> set cs" "mn_metrics m' = (mn_metrics m @ [c]) @ new" "set new = set cs - (set reg \<union> {c})"
      using Cons.IH [of "m\<lparr>mn_metrics := mn_metrics m @ [c]\<rparr>" "reg @ [c]"] Cons.prems by (auto simp: mustRegister_def)
    then show ?thesis using False by (intro conjI exI [of _ "c # new"]) auto
  qed
qed simp

lemma Unregister_run: "set (fold Unregister cs reg) = set reg - set cs"
  by (induction cs arbitrary: reg) (auto simp: Unregister_def)

section \<open>Properties\<close>

text \<open>
  C38: No update of a metric can panic.  Whatever a node's calls and transfers report, in any order, only label sets with exactly the
  names \<open>Monitor.Start\<close> declares for the metric are touched, each name once; the same holds for every observation of
  a histogram.
\<close>

theorem metric_labels_declared:
  "(snd (fold mon_apply ops (c, \<lambda>_. 0)) (m, l) \<noteq> 0 \<longrightarrow> named l (metric_labels m)) \<and>
   ((h, k, d) \<in> set (SessionDur c d @ CallDur c d @ CheckDur c d @ JoinDur c d @ SDPSize d isOffer) \<longrightarrow> named k (hist_labels h))"
proof (intro conjI impI)
  have "declared (snd (fold mon_apply ops (c, \<lambda>_. 0)))"
    by (rule metric_updates.inv_run) (simp_all add: declared_def list_all_iff)
  then show "snd (fold mon_apply ops (c, \<lambda>_. 0)) (m, l) \<noteq> 0 \<Longrightarrow> named l (metric_labels m)" by (simp add: declared_def)
  assume "(h, k, d) \<in> set (SessionDur c d @ CallDur c d @ CheckDur c d @ JoinDur c d @ SDPSize d isOffer)"
  then show "named k (hist_labels h)"
    by (auto simp: SessionDur_def CallDur_def CheckDur_def JoinDur_def SDPSize_def StageDur_def named_observed)
qed

theorem metric_labels_declared_witness:
  "snd (fold mon_apply [OpInviteErrorShort (ServerError ''auth-error'')] (NewCall Inbound ''a'' ''b'', \<lambda>_. 0))
     (InviteErr, labelsShort (NewCall Inbound ''a'' ''b'') [(''reason'', ''auth-error''), (''to'', ''unknown'')]) \<noteq> 0 \<and>
   named (labelsShort (NewCall Inbound ''a'' ''b'') [(''reason'', ''auth-error''), (''to'', ''unknown'')]) (metric_labels InviteErr) \<and>
   named (labelsShort (NewCall Inbound ''a'' ''b'') []) (hist_labels DurSession)"
proof -
  have "snd (fold mon_apply [OpInviteErrorShort (ServerError ''auth-error'')] (NewCall Inbound ''a'' ''b'', \<lambda>_. 0))
     (InviteErr, labelsShort (NewCall Inbound ''a'' ''b'') [(''reason'', ''auth-error''), (''to'', ''unknown'')]) \<noteq> 0"
    by (simp add: InviteErrorShort_def ServerError_def inc_def)
  then show ?thesis
    using metric_labels_declared [of "[OpInviteErrorShort (ServerError ''auth-error'')]" "NewCall Inbound ''a'' ''b''" InviteErr
        "labelsShort (NewCall Inbound ''a'' ''b'') [(''reason'', ''auth-error''), (''to'', ''unknown'')]"
        DurSession "labelsShort (NewCall Inbound ''a'' ''b'') []" "0 :: nat" False]
    by (simp add: SessionDur_def)
qed

text \<open>
  A started monitor has every collector in the registry.  Stopping it takes out exactly the ones it put in: the Go collector
  of the process is lost, and a monitor started second leaves the collectors of the first in place.
\<close>

lemma monitor_registers:
  assumes "Monitor_Start (NewMonitor, reg) = (m, reg1)" "Monitor_Stop (m, reg1) = (m', reg2)"
  shows "set start_collectors \<subseteq> set reg1 \<and> mn_started m \<and> set reg2 = set reg - {GoCollector} - (set start_collectors - set reg)"
proof -
  obtain m1 where f: "fold mustRegister start_collectors (NewMonitor, Unregister GoCollector reg) = (m1, reg1)" "m = m1\<lparr>mn_started := True\<rparr>"
    using assms(1) by (auto simp: Monitor_Start_def Let_def split: prod.splits)
  have u: "set (Unregister GoCollector reg) = set reg - {GoCollector}" by (auto simp: Unregister_def)
  have r: "set reg1 = (set reg - {GoCollector}) \<union> set start_collectors" "set (mn_metrics m1) = set start_collectors - (set reg - {GoCollector})"
    using mustRegister_run [OF f(1)] u by (auto simp: NewMonitor_def)
  have "set reg2 = set reg1 - set (mn_metrics m)" using assms(2) by (auto simp: Monitor_Stop_def Unregister_run)
  moreover have "GoCollector \<in> set start_collectors" by (simp add: start_collectors_def)
  ultimately show ?thesis using r f(2) by auto
qed

end
