(* ===== verification/ServiceRun.thy ===== *)
theory ServiceRun
  imports NodeMonitor RequestRouting TransferService InboundCallProps OutboundCallProps
begin

text \<open>
  The process around the SIP node (\<open>pkg/service/service.go\<close>, \<open>cmd/livekit-sip/main.go\<close>): the HTTP listeners, the health
  page, the RPC topics, \<open>Run\<close> from start-up to the drained shutdown, \<open>Stop\<close>, and the signals that call it.

  \<open>Run\<close> shares the process with other goroutines.  What they do while it waits is a list of atomic actions: the three
  steps of \<open>Stop\<close>, a change of the calls, and the tick of the shutdown ticker.  A result \<open>None\<close> means that
  \<open>Run\<close> still waits when the list is used up.
\<close>

section \<open>State\<close>

datatype listener = PromServer | PProfServer | HealthServer

datatype act = Listen listener | CloseListener listener | RpcStart | RpcShutdown | RegisterCreate string | DeregisterCreate string
  | SipStop

record process =
  ps_mon :: monitor
  ps_registry :: "collector list"
  ps_servers :: "listener list"
  ps_cluster :: string
  ps_shutdown :: bool
  ps_killed :: bool
  ps_rpc :: bool
  ps_node :: node
  ps_closed :: "outbound_call list \<times> inbound_call list"
  ps_log :: "act list"

definition configured :: "int \<Rightarrow> listener \<Rightarrow> listener list" where
  "configured port l = (if port > 0 then [l] else [])"

definition service_New :: "int \<Rightarrow> int \<Rightarrow> int \<Rightarrow> string \<Rightarrow> monitor \<Rightarrow> collector list \<Rightarrow> node \<Rightarrow> process" where
  "service_New prom pprof health cluster mon reg n =
     \<lparr>ps_mon = mon, ps_registry = reg,
      ps_servers = configured prom PromServer @ configured pprof PProfServer @ configured health HealthServer,
      ps_cluster = cluster, ps_shutdown = False, ps_killed = False, ps_rpc = False, ps_node = n, ps_closed = ([], []), ps_log = []\<rparr>"

text \<open>The handler of the health listener: status code and body.\<close>

definition health_page :: "health_status \<Rightarrow> int \<times> string" where
  "health_page st = (if st = HealthOK then 200 else if st = HealthUnderLoad then 429 else 503, HealthStatus_String st)"

definition log_act :: "act \<Rightarrow> process \<Rightarrow> process" where
  "log_act a p = p\<lparr>ps_log := ps_log p @ [a]\<rparr>"

section \<open>Stop and the other goroutines\<close>

datatype action = StopMonitor | BreakShutdown | StoreKilled bool | CallsBecome node | ShutdownTick

fun perform :: "action \<Rightarrow> process \<Rightarrow> process" where
  "perform StopMonitor p = p\<lparr>ps_mon := Monitor_Shutdown (ps_mon p)\<rparr>"
| "perform BreakShutdown p = p\<lparr>ps_shutdown := True\<rparr>"
| "perform (StoreKilled k) p = p\<lparr>ps_killed := k\<rparr>"
| "perform (CallsBecome n) p = p\<lparr>ps_node := n\<rparr>"
| "perform ShutdownTick p = p"

definition service_Stop :: "bool \<Rightarrow> action list" where
  "service_Stop kill = [StopMonitor, BreakShutdown, StoreKilled kill]"

section \<open>Topics\<close>

definition RegisterCreateSIPParticipantTopic :: "go_error option \<Rightarrow> process \<Rightarrow> go_error option \<times> process" where
  "RegisterCreateSIPParticipantTopic err p =
     (if ps_rpc p then (case err of None \<Rightarrow> (None, log_act (RegisterCreate (ps_cluster p)) p) | Some e \<Rightarrow> (Some e, p)) else (None, p))"

definition DeregisterCreateSIPParticipantTopic :: "process \<Rightarrow> process" where
  "DeregisterCreateSIPParticipantTopic p = (if ps_rpc p then log_act (DeregisterCreate (ps_cluster p)) p else p)"

definition RegisterTransferSIPParticipantTopic ::
  "(string \<Rightarrow> string list \<Rightarrow> go_error option \<times> string list) \<Rightarrow> string \<Rightarrow> process \<Rightarrow> string list \<Rightarrow> go_error option \<times> string list" where
  "RegisterTransferSIPParticipantTopic register sid p topics =
     (if ps_rpc p then register sid topics else (Some (Psrpc Internal (Plain ''RPC server not started'')), topics))"

definition DeregisterTransferSIPParticipantTopic ::
  "(string \<Rightarrow> string list \<Rightarrow> string list) \<Rightarrow> string \<Rightarrow> process \<Rightarrow> string list \<Rightarrow> string list" where
  "DeregisterTransferSIPParticipantTopic deregister sid p topics = (if ps_rpc p then deregister sid topics else topics)"

section \<open>Run\<close>

text \<open>
  What the libraries answer: \<open>net.Listen\<close> per server, the RPC server, the registration of the topic.  The
  deferred calls of \<open>Run\<close> are a stack of actions.
\<close>

record run_env =
  rn_listen :: "listener \<Rightarrow> go_error option"
  rn_rpc :: "go_error option"
  rn_register :: "go_error option"
  rn_close :: close_env
  rn_dial :: dial_env

fun listen_all :: "run_env \<Rightarrow> listener list \<Rightarrow> act list \<Rightarrow> process \<Rightarrow> go_error option \<times> act list \<times> process" where
  "listen_all R [] defers p = (None, defers, p)"
| "listen_all R (l # ls) defers p =
     (case rn_listen R l of
        Some e \<Rightarrow> (Some e, defers, p)
      | None \<Rightarrow> listen_all R ls (CloseListener l # defers) (log_act (Listen l) p))"

definition run_defers :: "act list \<Rightarrow> process \<Rightarrow> process" where
  "run_defers defers p = fold log_act defers p"

text \<open>Start-up: an error with the process as \<open>Run\<close> leaves it, or the deferred calls so far.\<close>

definition run_start :: "run_env \<Rightarrow> process \<Rightarrow> (go_error \<times> process) + (act list \<times> process)" where
  "run_start R p =
     (case listen_all R (ps_servers p) [] p of
        (Some e, defers, p1) \<Rightarrow> Inl (e, run_defers defers p1)
      | (None, defers, p1) \<Rightarrow>
          (case rn_rpc R of
             Some e \<Rightarrow> Inl (e, run_defers defers p1)
           | None \<Rightarrow>
               let p2 = (log_act RpcStart p1)\<lparr>ps_rpc := True\<rparr>; defers2 = RpcShutdown # defers in
               case RegisterCreateSIPParticipantTopic (rn_register R) p2 of
                 (Some e, p3) \<Rightarrow> Inl (e, run_defers defers2 p3)
               | (None, p3) \<Rightarrow> Inr (defers2, p3)))"

fun await_shutdown :: "action list \<Rightarrow> process \<Rightarrow> (process \<times> action list) option" where
  "await_shutdown [] p = (if ps_shutdown p then Some (p, []) else None)"
| "await_shutdown (a # as) p = (if ps_shutdown p then Some (p, a # as) else await_shutdown as (perform a p))"

definition active_total :: "process \<Rightarrow> nat" where
  "active_total p = ActiveCalls_Total (ActiveCalls (map fst (nd_out (ps_node p))) (map fst (nd_in (ps_node p))))"

fun await_tick :: "action list \<Rightarrow> process \<Rightarrow> (process \<times> action list) option" where
  "await_tick [] p = None"
| "await_tick (a # as) p = (if a = ShutdownTick then Some (p, as) else await_tick as (perform a p))"

lemma await_tick_shorter: "await_tick as p = Some (p', as') \<Longrightarrow> length as' < length as"
  by (induction as arbitrary: p) (auto split: if_splits dest: less_trans)

function drain :: "action list \<Rightarrow> process \<Rightarrow> (process \<times> action list) option" where
  "drain as p =
     (if ps_killed p \<or> active_total p = 0 then Some (p, as)
      else case await_tick as p of None \<Rightarrow> None | Some (p', as') \<Rightarrow> drain as' p')"
  by auto
termination
  by (relation "measure (\<lambda>(as, p). length as)") (auto dest: await_tick_shorter)

declare drain.simps [simp del]

text \<open>\<open>sipServiceStop\<close> is \<open>Service.Stop\<close> of the SIP node: client, server and monitor.\<close>

definition sip_stop :: "run_env \<Rightarrow> process \<Rightarrow> process" where
  "sip_stop R p =
     (let (n', outs, ins) = Service_Stop (rn_close R) (rn_dial R) (ps_node p); (m', reg') = Monitor_Stop (ps_mon p, ps_registry p)
      in log_act SipStop (p\<lparr>ps_node := n', ps_closed := (outs, ins), ps_mon := m', ps_registry := reg'\<rparr>))"

definition Run :: "run_env \<Rightarrow> action list \<Rightarrow> process \<Rightarrow> (go_error option \<times> process) option" where
  "Run R as p =
     (case run_start R p of
        Inl (e, p') \<Rightarrow> Some (Some e, p')
      | Inr (defers, p1) \<Rightarrow>
          (case await_shutdown as p1 of
             None \<Rightarrow> None
           | Some (p2, as2) \<Rightarrow>
               (case drain as2 (DeregisterCreateSIPParticipantTopic p2) of
                  None \<Rightarrow> None
                | Some (p3, _) \<Rightarrow> Some (None, run_defers defers (sip_stop R p3)))))"

text \<open>
  The goroutine of \<open>main\<close> that waits for a signal: one \<open>select\<close>, not a loop, so it acts on one signal and
  ends.  The lists are what else happens before each signal.
\<close>

datatype signal = SIGTERM | SIGQUIT | SIGINT

fun signal_actions :: "(action list \<times> signal) list \<Rightarrow> action list \<Rightarrow> action list" where
  "signal_actions [] rest = rest"
| "signal_actions ((before, sig) # sigs) rest = before @ service_Stop (sig = SIGINT) @ concat (map fst sigs) @ rest"

section \<open>Lemmas\<close>

definition may_stop :: "process \<Rightarrow> bool" where
  "may_stop p \<longleftrightarrow> ps_killed p \<or> nd_in (ps_node p) = [] \<and> nd_out (ps_node p) = []"

lemma active_total_zero: "active_total p = 0 \<longleftrightarrow> nd_in (ps_node p) = [] \<and> nd_out (ps_node p) = []"
  by (auto simp: active_total_def ActiveCalls_Total_def ActiveCalls_def sampleMap_def)

lemma drain_step:
  "drain as p = (if may_stop p then Some (p, as) else case await_tick as p of None \<Rightarrow> None | Some (p', as') \<Rightarrow> drain as' p')"
  by (subst drain.simps) (simp add: may_stop_def active_total_zero)

lemma log_act_sel [simp]:
  "ps_log (log_act a p) = ps_log p @ [a]" "ps_rpc (log_act a p) = ps_rpc p" "ps_cluster (log_act a p) = ps_cluster p"
  "ps_node (log_act a p) = ps_node p" "ps_closed (log_act a p) = ps_closed p" "may_stop (log_act a p) = may_stop p"
  "ps_servers (log_act a p) = ps_servers p" "ps_killed (log_act a p) = ps_killed p"
  by (simp_all add: log_act_def may_stop_def)

lemma perform_keeps: "ps_log (perform a p) = ps_log p \<and> ps_rpc (perform a p) = ps_rpc p \<and> ps_cluster (perform a p) = ps_cluster p"
  by (cases a) simp_all

lemma perform_log_act: "perform a (log_act b p) = log_act b (perform a p)"
  by (cases a) (simp_all add: log_act_def)

lemma fold_perform_log_act: "fold perform as (log_act b p) = log_act b (fold perform as p)"
  by (induction as arbitrary: p) (simp_all add: perform_log_act)

lemma fold_keeps:
  "ps_log (fold perform as p) = ps_log p" "ps_rpc (fold perform as p) = ps_rpc p" "ps_cluster (fold perform as p) = ps_cluster p"
  by (induction as arbitrary: p) (simp_all add: perform_keeps)

lemma run_defers_sel [simp]:
  "ps_log (run_defers ds p) = ps_log p @ ds" "ps_closed (run_defers ds p) = ps_closed p" "ps_node (run_defers ds p) = ps_node p"
  "ps_killed (run_defers ds p) = ps_killed p"
  unfolding run_defers_def by (induction ds arbitrary: p) simp_all

lemma await_shutdown_split:
  "await_shutdown as p = Some (p', as') \<Longrightarrow> \<exists>us. as = us @ as' \<and> p' = fold perform us p \<and> ps_shutdown p'"
proof (induction as arbitrary: p)
  case (Cons a as)
  then show ?case
    by (cases "ps_shutdown p") (auto, metis append_Cons fold_simps(2))
qed (auto split: if_splits)

lemma await_shutdown_returns:
  "ps_shutdown (fold perform xs p) \<Longrightarrow>
   \<exists>us vs. xs = us @ vs \<and> await_shutdown (xs @ ys) p = Some (fold perform us p, vs @ ys)"
proof (induction xs arbitrary: p)
  case Nil
  then show ?case by (cases ys) auto
next
  case (Cons a xs)
  show ?case
  proof (cases "ps_shutdown p")
    case True
    then have "a # xs = [] @ (a # xs) \<and> await_shutdown ((a # xs) @ ys) p = Some (fold perform [] p, (a # xs) @ ys)" by simp
    then show ?thesis by blast
  next
    case False
    obtain us vs where "xs = us @ vs" "await_shutdown (xs @ ys) (perform a p) = Some (fold perform us (perform a p), vs @ ys)"
      using Cons.IH [of "perform a p"] Cons.prems by auto
    then have "a # xs = (a # us) @ vs \<and> await_shutdown ((a # xs) @ ys) p = Some (fold perform (a # us) p, vs @ ys)"
      using False by simp
    then show ?thesis by blast
  qed
qed

lemma await_tick_split:
  "await_tick as p = Some (p', as') \<Longrightarrow> \<exists>us. as = us @ ShutdownTick # as' \<and> p' = fold perform us p"
proof (induction as arbitrary: p)
  case (Cons a as)
  then show ?case
    by (cases "a = ShutdownTick") (auto, metis append_Cons fold_simps(2))
qed simp

lemma await_tick_first:
  "ShutdownTick \<notin> set us \<Longrightarrow> await_tick (us @ ShutdownTick # ys) p = Some (fold perform us p, ys)"
  by (induction us arbitrary: p) auto

lemma drain_split: "drain as p = Some (p', as') \<Longrightarrow> \<exists>us. p' = fold perform us p \<and> may_stop p'"
proof (induction as p rule: drain.induct)
  case (1 as p)
  show ?case
  proof (cases "may_stop p")
    case True
    then have "p' = fold perform [] p \<and> may_stop p'" using "1.prems" by (simp add: drain_step)
    then show ?thesis by blast
  next
    case False
    then obtain p1 as1 where t: "await_tick as p = Some (p1, as1)" and d: "drain as1 p1 = Some (p', as')"
      using "1.prems" by (auto simp: drain_step [of as p] split: option.splits)
    obtain us vs where "p1 = fold perform us p" "p' = fold perform vs p1" "may_stop p'"
      using "1.IH" [OF _ t refl d] False await_tick_split [OF t] by (auto simp: may_stop_def active_total_zero)
    then have "p' = fold perform (us @ vs) p" by simp
    with \<open>may_stop p'\<close> show ?thesis by blast
  qed
qed

text \<open>Draining ends at the latest at the first tick that finds the process killed or without calls.\<close>

lemma drain_ends: "may_stop (fold perform xs p) \<Longrightarrow> \<exists>r. drain (xs @ ShutdownTick # ys) p = Some r"
proof (induction "length xs" arbitrary: xs p rule: less_induct)
  case less
  show ?case
  proof (cases "may_stop p \<or> ShutdownTick \<notin> set xs")
    case True
    then show ?thesis using less.prems by (auto simp: drain_step [of "xs @ ShutdownTick # ys"] await_tick_first drain_step [of ys])
  next
    case False
    obtain us vs where xs: "xs = us @ ShutdownTick # vs" "ShutdownTick \<notin> set us"
      using False split_list_first [of ShutdownTick xs] by auto
    have "\<exists>r. drain (vs @ ShutdownTick # ys) (fold perform us p) = Some r"
      by (rule less.hyps) (use less.prems xs in simp_all)
    moreover have "drain (xs @ ShutdownTick # ys) p = drain (vs @ ShutdownTick # ys) (fold perform us p)"
      using False xs by (subst drain_step) (simp add: await_tick_first)
    ultimately show ?thesis by simp
  qed
qed

lemma listen_all_log:
  "listen_all R ls ds p = (e, ds', p') \<Longrightarrow>
   \<exists>us vs. ls = us @ vs \<and> (e = None \<longleftrightarrow> vs = []) \<and> ds' = rev (map CloseListener us) @ ds \<and> ps_log p' = ps_log p @ map Listen us
     \<and> ps_cluster p' = ps_cluster p \<and> ps_node p' = ps_node p"
proof (induction ls arbitrary: ds p)
  case (Cons l ls)
  show ?case
  proof (cases "rn_listen R l")
    case None
    then obtain us vs where "ls = us @ vs \<and> (e = None \<longleftrightarrow> vs = []) \<and> ds' = rev (map CloseListener us) @ CloseListener l # ds
        \<and> ps_log p' = (ps_log p @ [Listen l]) @ map Listen us \<and> ps_cluster p' = ps_cluster p \<and> ps_node p' = ps_node p"
      using Cons.IH [of "CloseListener l # ds" "log_act (Listen l) p"] Cons.prems by auto
    then have "l # ls = (l # us) @ vs \<and> (e = None \<longleftrightarrow> vs = []) \<and> ds' = rev (map CloseListener (l # us)) @ ds
        \<and> ps_log p' = ps_log p @ map Listen (l # us) \<and> ps_cluster p' = ps_cluster p \<and> ps_node p' = ps_node p" by simp
    then show ?thesis by blast
  next
    case (Some x)
    then have "l # ls = [] @ (l # ls) \<and> (e = None \<longleftrightarrow> l # ls = []) \<and> ds' = rev (map CloseListener []) @ ds
        \<and> ps_log p' = ps_log p @ map Listen [] \<and> ps_cluster p' = ps_cluster p \<and> ps_node p' = ps_node p"
      using Cons.prems by (simp add: Some) blast
    then show ?thesis by blast
  qed
qed auto

text \<open>How \<open>Run\<close> returns: early with an error, or after the drain.\<close>

lemma run_start_error:
  assumes "run_start R p = Inl (e, p')"
  shows "\<exists>us. ps_log p' = ps_log p @ map Listen us @ rev (map CloseListener us)
    \<or> ps_log p' = ps_log p @ map Listen us @ [RpcStart, RpcShutdown] @ rev (map CloseListener us)"
proof -
  obtain e1 ds p1 where l: "listen_all R (ps_servers p) [] p = (e1, ds, p1)" by (metis prod.exhaust)
  obtain us where "ds = rev (map CloseListener us)" "ps_log p1 = ps_log p @ map Listen us"
    using listen_all_log [OF l] by auto
  then show ?thesis
    using assms l
    by (auto simp: run_start_def RegisterCreateSIPParticipantTopic_def Let_def split: option.splits intro!: exI [of _ us])
qed

lemma run_start_ready:
  assumes "run_start R p = Inr (ds, p1)"
  shows "ds = RpcShutdown # rev (map CloseListener (ps_servers p))
    \<and> ps_log p1 = ps_log p @ map Listen (ps_servers p) @ [RpcStart, RegisterCreate (ps_cluster p)]
    \<and> ps_rpc p1 \<and> ps_cluster p1 = ps_cluster p \<and> ps_node p1 = ps_node p"
proof -
  obtain e1 ds1 p2 where l: "listen_all R (ps_servers p) [] p = (e1, ds1, p2)" by (metis prod.exhaust)
  have "e1 = None" using assms l by (auto simp: run_start_def split: option.splits)
  then have "ds1 = rev (map CloseListener (ps_servers p))" "ps_log p2 = ps_log p @ map Listen (ps_servers p)"
    "ps_cluster p2 = ps_cluster p" "ps_node p2 = ps_node p"
    using listen_all_log [OF l] by auto
  then show ?thesis
    using assms l \<open>e1 = None\<close>
    by (auto simp: run_start_def RegisterCreateSIPParticipantTopic_def Let_def split: option.splits)
qed

lemma Run_ok:
  assumes "Run R as p = Some (None, p')"
  shows "\<exists>p1 p3. run_start R p = Inr (RpcShutdown # rev (map CloseListener (ps_servers p)), p1) \<and> may_stop p3
    \<and> ps_log p3 = ps_log p1 @ [DeregisterCreate (ps_cluster p)]
    \<and> p' = run_defers (RpcShutdown # rev (map CloseListener (ps_servers p))) (sip_stop R p3)"
proof -
  obtain ds p1 p2 as2 p3 as3 where st: "run_start R p = Inr (ds, p1)" and aw: "await_shutdown as p1 = Some (p2, as2)"
    and dr: "drain as2 (DeregisterCreateSIPParticipantTopic p2) = Some (p3, as3)" and p': "p' = run_defers ds (sip_stop R p3)"
    using assms by (auto simp: Run_def split: sum.splits option.splits)
  note s = run_start_ready [OF st]
  obtain us where p2: "p2 = fold perform us p1" using await_shutdown_split [OF aw] by blast
  obtain vs where p3: "p3 = fold perform vs (DeregisterCreateSIPParticipantTopic p2)" "may_stop p3" using drain_split [OF dr] by blast
  have "ps_log p3 = ps_log p1 @ [DeregisterCreate (ps_cluster p)]"
    using s by (simp add: p2 p3(1) DeregisterCreateSIPParticipantTopic_def fold_keeps)
  then show ?thesis using s st p' p3(2) by blast
qed

lemma sip_stop_sel: "ps_log (sip_stop R p) = ps_log p @ [SipStop]" "nd_in (ps_node (sip_stop R p)) = []" "nd_out (ps_node (sip_stop R p)) = []"
  "ps_killed (sip_stop R p) = ps_killed p"
  by (simp_all add: sip_stop_def Service_Stop_def Client_Stop_def Server_Stop_def Monitor_Stop_def Let_def)

lemma sip_stop_closed:
  "nd_in (ps_node p) = [] \<Longrightarrow> nd_out (ps_node p) = [] \<Longrightarrow> ps_closed (sip_stop R p) = ([], [])"
  by (simp add: sip_stop_def Service_Stop_def Client_Stop_def Server_Stop_def Monitor_Stop_def Let_def)

section \<open>Properties\<close>

text \<open>
  C14: An orderly shutdown.  When \<open>Run\<close> returns without an error, it has opened its listeners, started the RPC server and
  registered the topic for outbound calls, then deregistered the topic, and only after that, when no call
  was left or the process was told to kill, stopped the SIP node; then the RPC server and last the listeners, in
  the reverse order they were opened in.  Unless the process was killed, the stop did not have to close any call.
  No call remains in the tables.
\<close>

theorem orderly_shutdown:
  assumes "Run R as p = Some (None, p')"
  shows "ps_log p' = ps_log p @ map Listen (ps_servers p) @ [RpcStart, RegisterCreate (ps_cluster p), DeregisterCreate (ps_cluster p),
      SipStop, RpcShutdown] @ rev (map CloseListener (ps_servers p))
    \<and> (ps_killed p' \<or> ps_closed p' = ([], []))
    \<and> nd_in (ps_node p') = [] \<and> nd_out (ps_node p') = []"
proof -
  obtain p1 p3 where st: "run_start R p = Inr (RpcShutdown # rev (map CloseListener (ps_servers p)), p1)" and m: "may_stop p3"
    and l: "ps_log p3 = ps_log p1 @ [DeregisterCreate (ps_cluster p)]"
    and p': "p' = run_defers (RpcShutdown # rev (map CloseListener (ps_servers p))) (sip_stop R p3)"
    using Run_ok [OF assms] by blast
  have "ps_killed p' \<or> ps_closed p' = ([], [])"
    using m by (auto simp: p' sip_stop_sel sip_stop_closed may_stop_def)
  then show ?thesis using run_start_ready [OF st] l by (simp add: p' sip_stop_sel)
qed

definition sample_run :: run_env where
  "sample_run = \<lparr>rn_listen = (\<lambda>_. None), rn_rpc = None, rn_register = None, rn_close = sample_close, rn_dial = sample_dial (Inr []) sample_txs\<rparr>"

definition sample_process :: process where
  "sample_process = service_New 0 0 8081 ''c1'' NewMonitor [] \<lparr>nd_in = [], nd_out = []\<rparr>"

lemma sample_run_returns:
  "\<exists>p'. Run sample_run (service_Stop False @ [] @ ShutdownTick # []) sample_process = Some (None, p')"
  by (simp add: Run_def run_start_def sample_run_def sample_process_def service_New_def configured_def service_Stop_def Let_def
      RegisterCreateSIPParticipantTopic_def DeregisterCreateSIPParticipantTopic_def log_act_def drain_step may_stop_def)

theorem orderly_shutdown_witness:
  "\<exists>p'. Run sample_run (service_Stop False @ [] @ ShutdownTick # []) sample_process = Some (None, p')
    \<and> ps_log p' = [Listen HealthServer, RpcStart, RegisterCreate ''c1'', DeregisterCreate ''c1'', SipStop, RpcShutdown, CloseListener HealthServer]"
  using sample_run_returns orderly_shutdown [of sample_run _ sample_process]
  by (fastforce simp: sample_process_def service_New_def configured_def)

text \<open>
  C30: Whatever fails while the process starts, nothing stays open: every listener opened is closed, the RPC server is shut down
  exactly if it was started, no topic stays registered, and the SIP node is stopped exactly if \<open>Run\<close> succeeds.
\<close>

theorem run_leaves_nothing_open:
  assumes "Run R as p = Some (e, p')" and "ps_log p = []"
  shows "(\<forall>l. count_list (ps_log p') (Listen l) = count_list (ps_log p') (CloseListener l))
    \<and> count_list (ps_log p') RpcStart = count_list (ps_log p') RpcShutdown
    \<and> (\<forall>c. count_list (ps_log p') (RegisterCreate c) = count_list (ps_log p') (DeregisterCreate c))
    \<and> (SipStop \<in> set (ps_log p') \<longleftrightarrow> e = None)"
proof -
  have cnt: "count_list (map Listen us) (Listen l) = count_list us l" "count_list (map CloseListener us) (CloseListener l) = count_list us l"
    "count_list (map Listen us) (CloseListener l) = 0" "count_list (map CloseListener us) (Listen l) = 0" for us l
    by (induction us) (auto simp: count_list_0_iff)
  have zero: "count_list (map Listen us) x = 0" "count_list (map CloseListener us) x = 0"
    if "\<And>l. x \<noteq> Listen l" "\<And>l. x \<noteq> CloseListener l" for us x
    using that by (auto simp: count_list_0_iff)
  show ?thesis
  proof (cases e)
    case None
    then obtain p1 p3 where st: "run_start R p = Inr (RpcShutdown # rev (map CloseListener (ps_servers p)), p1)"
      and l: "ps_log p3 = ps_log p1 @ [DeregisterCreate (ps_cluster p)]"
      and p': "p' = run_defers (RpcShutdown # rev (map CloseListener (ps_servers p))) (sip_stop R p3)"
      using Run_ok [of R as p p'] assms(1) by blast
    have "ps_log p' = map Listen (ps_servers p) @ [RpcStart, RegisterCreate (ps_cluster p), DeregisterCreate (ps_cluster p),
        SipStop, RpcShutdown] @ rev (map CloseListener (ps_servers p))"
      using run_start_ready [OF st] assms(2) by (simp add: p' sip_stop_sel l)
    then show ?thesis using None by (auto simp: cnt zero)
  next
    case (Some x)
    then have "run_start R p = Inl (x, p')" using assms(1) by (auto simp: Run_def split: sum.splits option.splits)
    then show ?thesis using run_start_error [of R p x p'] assms(2) Some by (auto simp: cnt zero)
  qed
qed

theorem run_leaves_nothing_open_witness:
  "\<exists>p'. Run (sample_run\<lparr>rn_rpc := Some (Plain ''no bus'')\<rparr>) [] sample_process = Some (Some (Plain ''no bus''), p')
    \<and> count_list (ps_log p') (Listen HealthServer) = count_list (ps_log p') (CloseListener HealthServer) \<and> SipStop \<notin> set (ps_log p')"
proof -
  let ?R = "sample_run\<lparr>rn_rpc := Some (Plain ''no bus'')\<rparr>"
  obtain p' where "Run ?R [] sample_process = Some (Some (Plain ''no bus''), p')"
    by (simp add: Run_def run_start_def sample_run_def sample_process_def service_New_def configured_def)
  then show ?thesis
    using run_leaves_nothing_open [of ?R "[]" sample_process "Some (Plain ''no bus'')" p']
    by (simp add: sample_process_def service_New_def)
qed

text \<open>
  C29: A requested shutdown completes.  Once \<open>Stop\<close> has been called, \<open>Run\<close> returns at the latest with the first tick of the
  shutdown ticker that finds the process killed or without calls, whatever else happens before and after.
\<close>

theorem shutdown_completes:
  assumes "run_start R p = Inr (ds, p1)" and "may_stop (fold perform (before @ service_Stop kill @ xs) p1)"
  shows "\<exists>p'. Run R (before @ service_Stop kill @ xs @ ShutdownTick # ys) p = Some (None, p')"
proof -
  let ?pre = "before @ [StopMonitor, BreakShutdown]"
  let ?post = "StoreKilled kill # xs @ ShutdownTick # ys"
  have "ps_shutdown (fold perform ?pre p1)" by simp
  then obtain us vs where uv: "?pre = us @ vs" and aw: "await_shutdown (?pre @ ?post) p1 = Some (fold perform us p1, vs @ ?post)"
    using await_shutdown_returns by blast
  let ?p2 = "DeregisterCreateSIPParticipantTopic (fold perform us p1)"
  have "fold perform (vs @ StoreKilled kill # xs) (fold perform us p1) = fold perform (before @ service_Stop kill @ xs) p1"
    using uv by (metis append.assoc append_Cons append_Nil fold_append o_apply service_Stop_def)
  then have "may_stop (fold perform (vs @ StoreKilled kill # xs) ?p2)"
    using assms(2) by (simp add: DeregisterCreateSIPParticipantTopic_def fold_perform_log_act del: fold_append)
  then obtain r where "drain ((vs @ StoreKilled kill # xs) @ ShutdownTick # ys) ?p2 = Some r" using drain_ends by blast
  then show ?thesis using assms(1) aw by (auto simp: Run_def service_Stop_def split: prod.splits)
qed

theorem shutdown_completes_witness:
  "\<exists>p'. Run sample_run ([] @ service_Stop True @ [CallsBecome \<lparr>nd_in = [(''t'', sample_call)], nd_out = []\<rparr>] @ ShutdownTick # []) sample_process =
     Some (None, p')"
proof -
  obtain ds p1 where "run_start sample_run sample_process = Inr (ds, p1)"
    by (simp add: run_start_def sample_run_def sample_process_def service_New_def configured_def Let_def
        RegisterCreateSIPParticipantTopic_def log_act_def)
  then show ?thesis by (rule shutdown_completes) (simp add: service_Stop_def may_stop_def)
qed

text \<open>
  A second signal is lost: the goroutine that waits for signals ends with the first, so after SIGTERM a SIGINT does not
  set the kill flag, and with a call that does not end \<open>Run\<close> never returns.
\<close>

lemma drain_stuck:
  assumes "\<not> may_stop p"
  shows "drain (replicate k ShutdownTick) p = None"
  using assms by (induction k) (simp_all add: drain_step [of "[]"] drain_step [of "_ # _"])

lemma second_signal_ignored:
  assumes "run_start R p = Inr (ds, p1)" and "\<not> ps_shutdown p1" and "\<not> ps_killed p1" and "nd_in n \<noteq> []"
  shows "Run R (signal_actions [([CallsBecome n], SIGTERM), ([], SIGINT)] (replicate k ShutdownTick)) p = None"
proof -
  define p2 where "p2 = DeregisterCreateSIPParticipantTopic
    (p1\<lparr>ps_node := n, ps_mon := Monitor_Shutdown (ps_mon p1), ps_shutdown := True\<rparr>)"
  have s: "\<not> may_stop p2" "\<not> may_stop (p2\<lparr>ps_killed := False\<rparr>)"
    using assms(3,4) by (simp_all add: p2_def may_stop_def DeregisterCreateSIPParticipantTopic_def log_act_def)
  have "drain (StoreKilled False # replicate k ShutdownTick) p2 = None"
    using s drain_stuck [OF s(2)] by (cases k) (simp_all add: drain_step [of "_ # _" p2])
  then show ?thesis using assms(1,2) by (simp add: Run_def service_Stop_def p2_def)
qed

end
