(* ===== verification/NodeStart.thy ===== *)
theory NodeStart
  imports NodeConfig NodeMonitor InboundServer
begin

text \<open>
  Bringing up the SIP node: \<open>NewServer\<close>, the listeners and \<open>Start\<close> of the server (\<open>pkg/sip/server.go\<close>), \<open>Start\<close> of the client
  (\<open>pkg/sip/client.go\<close>) and of the service (\<open>pkg/sip/service.go\<close>), and what \<open>Stop\<close> does with the sockets.  The results of the operating
  system and of the SIP library are inputs.
\<close>

section \<open>The server\<close>

datatype sip_proto = ProtoUDP | ProtoTCP | ProtoTLS

datatype handler_kind = HOptions | HInvite | HAck | HBye | HNotify | HNoRoute

type_synonym sip_listener = "sip_proto \<times> ip_addr \<times> u16"

record sip_server =
  ss_listeners :: "sip_listener list"
  ss_closed :: "sip_listener list"
  ss_handlers :: "handler_kind list"
  ss_unhandled :: bool
  ss_running :: bool
  ss_rejected_cache :: bool
  ss_interceptors :: nat

text \<open>\<open>NewServer\<close>: the replay cache for rejected INVITEs is there unless the configuration disables it; options run in order.\<close>

datatype server_option = WithInterceptors nat | OtherOption

fun apply_server_option :: "server_option \<Rightarrow> sip_server \<Rightarrow> sip_server" where
  "apply_server_option (WithInterceptors n) s = s\<lparr>ss_interceptors := n\<rparr>"
| "apply_server_option OtherOption s = s"

definition NewServer :: "bool \<Rightarrow> server_option list \<Rightarrow> sip_server" where
  "NewServer disableRejectedCache opts =
     fold apply_server_option opts
       \<lparr>ss_listeners = [], ss_closed = [], ss_handlers = [], ss_unhandled = False, ss_running = False,
        ss_rejected_cache = \<not> disableRejectedCache, ss_interceptors = 0\<rparr>"

definition proto_name :: "sip_proto \<Rightarrow> string" where
  "proto_name pr = (case pr of ProtoUDP \<Rightarrow> ''UDP'' | ProtoTCP \<Rightarrow> ''TCP'' | ProtoTLS \<Rightarrow> ''TLS'')"

definition listen_error :: "sip_proto \<Rightarrow> go_error \<Rightarrow> go_error" where
  "listen_error pr e = Wrapped (''cannot listen on the '' @ proto_name pr @ '' signaling port'') e"

text \<open>\<open>startUDP\<close>, \<open>startTCP\<close> and \<open>startTLS\<close>: open a socket and keep it.\<close>

definition start_listener :: "(sip_listener \<Rightarrow> go_error option) \<Rightarrow> sip_proto \<Rightarrow> ip_addr \<Rightarrow> u16 \<Rightarrow> sip_server \<Rightarrow> go_error option \<times> sip_server" where
  "start_listener listen pr ip port s =
     (case listen (pr, ip, port) of
        Some e \<Rightarrow> (Some (listen_error pr e), s)
      | None \<Rightarrow> (None, s\<lparr>ss_listeners := ss_listeners s @ [(pr, ip, port)]\<rparr>))"

text \<open>
  The goroutine of a listener when its \<open>Serve\<close> returns: whether it panics.  The argument is the error, with \<open>True\<close> for a closed
  socket.
\<close>

definition serve_panics :: "sip_proto \<Rightarrow> bool option \<Rightarrow> bool" where
  "serve_panics pr err = (case err of None \<Rightarrow> False | Some isClosed \<Rightarrow> pr = ProtoUDP \<or> \<not> isClosed)"

text \<open>
  The user agent: the one that was passed in or a new one.  \<open>se_ua\<close> is the error of making one, \<open>se_agent\<close> tells whether one
  was passed in.
\<close>

record node_env =
  se_agent :: bool
  se_ua :: "go_error option"
  se_client :: "go_error option"
  se_new_server :: "go_error option"
  se_parse_ip :: "string \<Rightarrow> ip_addr option"
  se_listen :: "sip_listener \<Rightarrow> go_error option"

definition agent_error :: "node_env \<Rightarrow> go_error option" where
  "agent_error B = (if se_agent B then None else se_ua B)"

definition start_handlers :: "handler_kind list" where
  "start_handlers = [HOptions, HInvite, HAck, HBye, HNotify, HNoRoute]"

definition Server_Start ::
  "node_env \<Rightarrow> string \<Rightarrow> int \<Rightarrow> int option \<Rightarrow> bool \<Rightarrow> sip_server \<Rightarrow> go_error option \<times> sip_server" where
  "Server_Start B listenIP port tlsPort hasTLS s =
     (case (case agent_error B of Some e \<Rightarrow> Some e | None \<Rightarrow> se_new_server B) of
        Some e \<Rightarrow> (Some e, s)
      | None \<Rightarrow>
          let s1 = s\<lparr>ss_handlers := start_handlers, ss_unhandled := True, ss_running := True\<rparr> in
          case se_parse_ip B (if listenIP = [] then ''0.0.0.0'' else listenIP) of
            None \<Rightarrow> (Some (Plain ''ParseAddr''), s1)
          | Some ip \<Rightarrow>
              (case start_listener (se_listen B) ProtoUDP ip (word_of_int port) s1 of
                 (Some e, s2) \<Rightarrow> (Some e, s2)
               | (None, s2) \<Rightarrow>
                   (case start_listener (se_listen B) ProtoTCP ip (word_of_int port) s2 of
                      (Some e, s3) \<Rightarrow> (Some e, s3)
                    | (None, s3) \<Rightarrow>
                        (case tlsPort of
                           Some tp \<Rightarrow> if hasTLS then start_listener (se_listen B) ProtoTLS ip (word_of_int tp) s3 else (None, s3)
                         | None \<Rightarrow> (None, s3)))))"

definition server_close_sockets :: "sip_server \<Rightarrow> sip_server" where
  "server_close_sockets s = s\<lparr>ss_running := False, ss_closed := ss_closed s @ ss_listeners s\<rparr>"

section \<open>The service\<close>

text \<open>What \<open>Service.Start\<close> has brought up, in the order it does.\<close>

datatype start_part = CodecsSet | OpusSet | MonitorStarted | ClientStarted | ServerStarted

record tls_env =
  tv_secure :: "string \<Rightarrow> u16 option"
  tv_insecure :: "string \<Rightarrow> u16 option"
  tv_load :: "string \<times> string \<Rightarrow> go_error option"
  tv_keylog :: "go_error option"

text \<open>The client: the error, and whether it now has a SIP client.\<close>

definition Client_Start :: "node_env \<Rightarrow> go_error option \<times> bool" where
  "Client_Start B =
     (case agent_error B of
        Some e \<Rightarrow> (Some e, False)
      | None \<Rightarrow> (case se_client B of Some e \<Rightarrow> (Some e, False) | None \<Rightarrow> (None, True)))"

definition tls_setup :: "tls_env \<Rightarrow> tls_section option \<Rightarrow> go_error + tls_conf option" where
  "tls_setup T tls =
     (case tls of
        None \<Rightarrow> Inr None
      | Some t \<Rightarrow> (case start_tls (tv_secure T) (tv_insecure T) (tv_load T) (tv_keylog T) t of Inl e \<Rightarrow> Inl e | Inr c \<Rightarrow> Inr (Some c)))"

text \<open>\<open>Service.Start\<close> makes the one user agent that client and server share.\<close>

definition Service_Start ::
  "tls_env \<Rightarrow> node_env \<Rightarrow> bool \<Rightarrow> string \<Rightarrow> int \<Rightarrow> tls_section option \<Rightarrow> monitor \<times> collector list \<Rightarrow> sip_server
    \<Rightarrow> go_error option \<times> start_part list \<times> (monitor \<times> collector list) \<times> sip_server" where
  "Service_Start T B opus listenIP port tls m s =
     (let parts = CodecsSet # (if opus then [OpusSet] else []) @ [MonitorStarted]; m1 = Monitor_Start m; B1 = B\<lparr>se_agent := True\<rparr> in
      case tls_setup T tls of
        Inl e \<Rightarrow> (Some e, parts, m1, s)
      | Inr tconf \<Rightarrow>
          (case se_ua B of
             Some e \<Rightarrow> (Some e, parts, m1, s)
           | None \<Rightarrow>
               (case fst (Client_Start B1) of
                  Some e \<Rightarrow> (Some e, parts, m1, s)
                | None \<Rightarrow>
                    (case Server_Start B1 listenIP port (map_option tl_listen tls) (tconf \<noteq> None) s of
                       (Some e, s') \<Rightarrow> (Some e, parts @ [ClientStarted], m1, s')
                     | (None, s') \<Rightarrow> (None, parts @ [ClientStarted, ServerStarted], m1, s')))))"

section \<open>Lemmas\<close>

lemma start_listener_sel:
  assumes "start_listener listen pr ip port s = (e, s')"
  shows "ss_listeners s' = ss_listeners s @ (if e = None then [(pr, ip, port)] else []) \<and> ss_closed s' = ss_closed s
    \<and> ss_handlers s' = ss_handlers s \<and> ss_running s' = ss_running s \<and> (e = None \<longleftrightarrow> listen (pr, ip, port) = None)"
  using assms by (auto simp: start_listener_def split: option.splits)

lemma Server_Start_listeners:
  assumes "Server_Start B listenIP port tlsPort hasTLS s = (None, s')"
  shows "\<exists>ip. se_parse_ip B (if listenIP = [] then ''0.0.0.0'' else listenIP) = Some ip \<and> ss_handlers s' = start_handlers
    \<and> ss_listeners s' = ss_listeners s @ [(ProtoUDP, ip, word_of_int port), (ProtoTCP, ip, word_of_int port)]
        @ (case tlsPort of Some tp \<Rightarrow> if hasTLS then [(ProtoTLS, ip, word_of_int tp)] else [] | None \<Rightarrow> [])"
  using assms
  by (auto simp: Server_Start_def Let_def split: option.splits prod.splits if_splits dest!: start_listener_sel)

text \<open>The sockets open after \<open>Start\<close>, whether it succeeds or not.\<close>

definition opened :: "sip_server \<Rightarrow> sip_listener list" where
  "opened s = filter (\<lambda>l. l \<notin> set (ss_closed s)) (ss_listeners s)"

lemma close_sockets_all: "opened (server_close_sockets s) = []"
  by (auto simp: opened_def server_close_sockets_def filter_empty_conv)

lemma NewServer_listeners: "ss_listeners (NewServer dis opts) = []"
proof -
  have "ss_listeners (fold apply_server_option opts s) = ss_listeners s" for s
  proof (induction opts arbitrary: s)
    case (Cons x xs)
    then show ?case by (cases x) simp_all
  qed simp
  then show ?thesis by (simp add: NewServer_def)
qed

lemma tls_setup_ok:
  assumes "tls_setup T tls = Inr tconf"
  shows "(tconf \<noteq> None \<longleftrightarrow> tls \<noteq> None) \<and> (\<forall>t. tls = Some t \<longrightarrow> tl_certs t \<noteq> [] \<and> (\<forall>k \<in> set (tl_certs t). tv_load T k = None))"
proof (cases tls)
  case None
  then show ?thesis using assms by (simp add: tls_setup_def)
next
  case (Some t)
  then obtain c where c: "start_tls (tv_secure T) (tv_insecure T) (tv_load T) (tv_keylog T) t = Inr c" "tconf = Some c"
    using assms by (auto simp: tls_setup_def split: sum.splits)
  then have "tl_certs t \<noteq> []" "List.find (\<lambda>k. tv_load T k \<noteq> None) (tl_certs t) = None"
    by (auto simp: start_tls_def split: if_splits option.splits)
  then show ?thesis using c(2) Some by (auto simp: find_None_iff)
qed

section \<open>Properties\<close>

text \<open>
  A node that starts listens where it should.  If \<open>Service.Start\<close> succeeds on a new server, the metrics are registered, all
  request handlers are installed, and the sockets are UDP and TCP on the signaling port and, exactly if TLS is configured, TLS on its own port, and then
  with at least one certificate loaded; a port of the configuration between 0 and 65535 is the one used.  \<open>Stop\<close> closes all of them.
\<close>

theorem node_listens:
  assumes "Service_Start T B opus listenIP port tls (NewMonitor, reg) (NewServer dis opts) = (None, parts, (m', reg'), s')"
    and "0 \<le> port" and "port < 65536"
  shows "mn_started m' \<and> set start_collectors \<subseteq> set reg' \<and> ss_handlers s' = start_handlers
    \<and> (\<exists>ip. map (\<lambda>(pr, a, p). (pr, a, uint p)) (ss_listeners s') =
        [(ProtoUDP, ip, port), (ProtoTCP, ip, port)] @ (case tls of Some t \<Rightarrow> [(ProtoTLS, ip, tl_listen t mod 65536)] | None \<Rightarrow> []))
    \<and> (\<forall>t. tls = Some t \<longrightarrow> tl_certs t \<noteq> [] \<and> (\<forall>k \<in> set (tl_certs t). tv_load T k = None))
    \<and> opened (server_close_sockets s') = []"
proof -
  obtain tconf where tc: "tls_setup T tls = Inr tconf" and m: "Monitor_Start (NewMonitor, reg) = (m', reg')"
    and st: "Server_Start (B\<lparr>se_agent := True\<rparr>) listenIP port (map_option tl_listen tls) (tconf \<noteq> None) (NewServer dis opts) = (None, s')"
    using assms(1) by (auto simp: Service_Start_def Let_def split: sum.splits option.splits prod.splits)
  note L = tls_setup_ok [OF tc]
  obtain ip where h: "ss_handlers s' = start_handlers"
    and l: "ss_listeners s' = [(ProtoUDP, ip, word_of_int port), (ProtoTCP, ip, word_of_int port)]
        @ (case map_option tl_listen tls of Some tp \<Rightarrow> if tconf \<noteq> None then [(ProtoTLS, ip, word_of_int tp)] else [] | None \<Rightarrow> [])"
    using Server_Start_listeners [OF st] NewServer_listeners [of dis opts] by auto
  have "map (\<lambda>(pr, a, p). (pr, a, uint p)) (ss_listeners s') =
      [(ProtoUDP, ip, port), (ProtoTCP, ip, port)] @ (case tls of Some t \<Rightarrow> [(ProtoTLS, ip, tl_listen t mod 65536)] | None \<Rightarrow> [])"
    unfolding l using assms(2,3) L by (auto simp: uint_word_of_int split: option.split)
  then show ?thesis
    using monitor_registers [OF m] h L close_sockets_all by (metis prod.exhaust)
qed

definition sample_node_env :: node_env where
  "sample_node_env = \<lparr>se_agent = False, se_ua = None, se_client = None, se_new_server = None, se_parse_ip = (\<lambda>_. Some (IPv4 0 0 0 0)),
     se_listen = (\<lambda>_. None)\<rparr>"

definition sample_tls_env :: tls_env where
  "sample_tls_env = \<lparr>tv_secure = (\<lambda>_. None), tv_insecure = (\<lambda>_. None), tv_load = (\<lambda>_. None), tv_keylog = None\<rparr>"

theorem node_listens_witness:
  "\<exists>parts m' reg' s'. Service_Start sample_tls_env sample_node_env True [] 5060 None (NewMonitor, []) (NewServer False []) = (None, parts, (m', reg'), s')
    \<and> ss_handlers s' = start_handlers"
proof -
  obtain m' reg' where m: "Monitor_Start (NewMonitor, []) = (m', reg')" by fastforce
  have "\<exists>parts s'. Service_Start sample_tls_env sample_node_env True [] 5060 None (NewMonitor, []) (NewServer False []) = (None, parts, (m', reg'), s')"
    by (simp add: Service_Start_def Server_Start_def sample_node_env_def tls_setup_def agent_error_def m start_listener_def Client_Start_def Let_def)
  then show ?thesis using node_listens by fastforce
qed

text \<open>
  A UDP listener that is closed is not told from one that failed: if \<open>ServeUDP\<close> returns the error of a closed socket, as \<open>ServeTCP\<close> and
  \<open>ServeTLS\<close> are expected to, the goroutine panics during \<open>Stop\<close>.
\<close>

lemma closed_udp_listener_panics:
  "serve_panics ProtoUDP (Some True)" "\<not> serve_panics ProtoTCP (Some True)" "\<not> serve_panics ProtoTLS (Some True)"
  by (simp_all add: serve_panics_def)

end
