(* ===== verification/SignalMonitor.thy ===== *)
theory SignalMonitor
  imports SipPrelude Complex_Main
begin

text \<open>
  The voice activity logger \<open>SignalLogger\<close> (\<open>pkg/sip/signal_logger.go\<close>), a writer in the audio path that tells speech from
  silence by the level of each frame, with hysteresis and a hangover, and hands every frame on.  Levels are real
  numbers: the rounding of \<open>float64\<close> is not modelled.  A sample is a 16-bit word read as signed.  The zero time of a logger that has
  heard nothing yet is \<open>None\<close>.
\<close>

section \<open>Options\<close>

definition minDBFS :: real where "minDBFS = -100"

record signal_logger =
  sl_hangover :: int
  sl_floor :: real
  sl_enter :: real
  sl_exit :: real
  sl_last_time :: "int option"
  sl_signal :: bool
  sl_frames :: "64 word"
  sl_changes :: "64 word"

datatype signal_option = WithNoiseFloor real | WithHangoverDuration int | WithEnterVoiceOffsetDB real | WithExitVoiceOffsetDB real

datatype option_error = FloorTooLow | HangoverNotPositive | EnterNotPositive | ExitNotPositive

fun apply_option :: "signal_option \<Rightarrow> signal_logger \<Rightarrow> option_error + signal_logger" where
  "apply_option (WithNoiseFloor db) s = (if db < minDBFS then Inl FloorTooLow else Inr (s\<lparr>sl_floor := db\<rparr>))"
| "apply_option (WithHangoverDuration d) s = (if d \<le> 0 then Inl HangoverNotPositive else Inr (s\<lparr>sl_hangover := d\<rparr>))"
| "apply_option (WithEnterVoiceOffsetDB db) s = (if db \<le> 0 then Inl EnterNotPositive else Inr (s\<lparr>sl_enter := db\<rparr>))"
| "apply_option (WithExitVoiceOffsetDB db) s = (if db \<le> 0 then Inl ExitNotPositive else Inr (s\<lparr>sl_exit := db\<rparr>))"

definition default_logger :: signal_logger where
  "default_logger = \<lparr>sl_hangover = 1000000000, sl_floor = -50, sl_enter = 10, sl_exit = 5, sl_last_time = None, sl_signal = False,
     sl_frames = 0, sl_changes = 0\<rparr>"

fun apply_options :: "signal_option list \<Rightarrow> signal_logger \<Rightarrow> option_error + signal_logger" where
  "apply_options [] s = Inr s"
| "apply_options (x # xs) s = (case apply_option x s of Inl e \<Rightarrow> Inl e | Inr s' \<Rightarrow> apply_options xs s')"

text \<open>On an error the code returns the next writer, without a logger before it.\<close>

definition NewSignalLogger :: "signal_option list \<Rightarrow> option_error + signal_logger" where
  "NewSignalLogger xs = apply_options xs default_logger"

section \<open>Levels\<close>

type_synonym pcm = "16 word list"

definition sum_sq :: "pcm \<Rightarrow> int" where
  "sum_sq sample = sum_list (map (\<lambda>v. sint v * sint v) sample)"

definition rmsToDBFS :: "pcm \<Rightarrow> real" where
  "rmsToDBFS sample =
     (if sample = [] then minDBFS
      else
        let meanSq = real_of_int (sum_sq sample) / real (length sample); refSq = 32767 * 32767 in
        if meanSq \<le> 0 then minDBFS
        else let db = 10 * log 10 (meanSq / refSq) in if db < minDBFS then minDBFS else db)"

section \<open>WriteSample\<close>

text \<open>\<open>now.Sub\<close> of the zero time is the largest duration.\<close>

definition since :: "int \<Rightarrow> int option \<Rightarrow> int" where
  "since now t = (case t of None \<Rightarrow> 2 ^ 63 - 1 | Some t0 \<Rightarrow> now - t0)"

definition observe_level :: "int \<Rightarrow> real \<Rightarrow> signal_logger \<Rightarrow> signal_logger" where
  "observe_level now db s0 =
     (let aboveEnter = db > sl_floor s0 + sl_enter s0;
          belowExit = db < sl_floor s0 + sl_exit s0;
          s1 = (if aboveEnter then s0\<lparr>sl_last_time := Some now\<rparr> else s0);
          s = s1\<lparr>sl_frames := sl_frames s1 + 1\<rparr>
      in if sl_frames s \<le> 10 then s\<lparr>sl_signal := aboveEnter\<rparr>
         else if aboveEnter \<and> \<not> sl_signal s then s\<lparr>sl_signal := True, sl_changes := sl_changes s + 1\<rparr>
         else if belowExit \<and> sl_signal s then
           (if since now (sl_last_time s) \<ge> sl_hangover s then s\<lparr>sl_signal := False, sl_changes := sl_changes s + 1\<rparr> else s)
         else s)"

definition SignalLogger_WriteSample :: "int \<Rightarrow> pcm \<Rightarrow> ('n \<Rightarrow> pcm \<Rightarrow> 'e \<times> 'n) \<Rightarrow> signal_logger \<times> 'n \<Rightarrow> 'e \<times> signal_logger \<times> 'n" where
  "SignalLogger_WriteSample now sample write_next st =
     (case st of (s, n) \<Rightarrow> let (e, n') = write_next n sample in (e, observe_level now (rmsToDBFS sample) s, n'))"

definition SignalLogger_Close :: "('n \<Rightarrow> 'e \<times> 'n) \<Rightarrow> signal_logger \<times> 'n \<Rightarrow> 'e \<times> signal_logger \<times> 'n" where
  "SignalLogger_Close close_next st = (case st of (s, n) \<Rightarrow> let (e, n') = close_next n in (e, s, n'))"

section \<open>Lemmas\<close>

text \<open>The logger after a sequence of frames, each with its time and level.\<close>

definition hear :: "(int \<times> real) list \<Rightarrow> signal_logger \<Rightarrow> signal_logger" where
  "hear fs s = fold (\<lambda>(t, db). observe_level t db) fs s"

definition loud :: "signal_logger \<Rightarrow> real \<Rightarrow> bool" where
  "loud s db \<longleftrightarrow> db > sl_floor s + sl_enter s"

definition hushed :: "signal_logger \<Rightarrow> real \<Rightarrow> bool" where
  "hushed s db \<longleftrightarrow> db < sl_floor s + sl_exit s"

lemma hear_snoc: "hear (us @ [(t, db)]) s = observe_level t db (hear us s)"
  by (simp add: hear_def)

lemma observe_level_sel:
  "sl_frames (observe_level t db s) = sl_frames s + 1"
  "sl_last_time (observe_level t db s) = (if loud s db then Some t else sl_last_time s)"
  "sl_hangover (observe_level t db s) = sl_hangover s" "sl_floor (observe_level t db s) = sl_floor s"
  "sl_enter (observe_level t db s) = sl_enter s" "sl_exit (observe_level t db s) = sl_exit s"
  by (simp_all add: observe_level_def loud_def Let_def)

lemma hear_config:
  "sl_hangover (hear us s) = sl_hangover s" "loud (hear us s) = loud s" "hushed (hear us s) = hushed s"
proof -
  have "sl_hangover (hear us s) = sl_hangover s \<and> sl_floor (hear us s) = sl_floor s \<and> sl_enter (hear us s) = sl_enter s \<and> sl_exit (hear us s) = sl_exit s"
    by (induction us rule: rev_induct) (auto simp: hear_def observe_level_sel)
  then show "sl_hangover (hear us s) = sl_hangover s" "loud (hear us s) = loud s" "hushed (hear us s) = hushed s"
    by (simp_all add: loud_def hushed_def fun_eq_iff)
qed

lemma hear_frames: "sl_frames (hear us s) = sl_frames s + of_nat (length us)"
  by (induction us rule: rev_induct) (auto simp: hear_def observe_level_sel)

text \<open>The stored time is that of the last loud frame.\<close>

lemma hear_last_time:
  "sl_last_time s = None \<Longrightarrow>
   sl_last_time (hear us s) = (case rev (filter (\<lambda>f. loud s (snd f)) us) of [] \<Rightarrow> None | f # _ \<Rightarrow> Some (fst f))"
proof (induction us rule: rev_induct)
  case (snoc f us)
  then show ?case by (cases f) (simp add: hear_snoc observe_level_sel hear_config)
qed (simp add: hear_def)

lemma observe_after_warmup:
  assumes "\<not> sl_frames s + 1 \<le> 10" and "0 < sl_hangover s"
  shows "sl_signal (observe_level t db s) \<longleftrightarrow>
    loud s db \<or> sl_signal s \<and> \<not> (hushed s db \<and> since t (sl_last_time s) \<ge> sl_hangover s)"
  using assms by (auto simp: observe_level_def loud_def hushed_def since_def Let_def)

lemma since_last:
  assumes "sorted (map fst us)" and "\<And>f. f \<in> set us \<Longrightarrow> fst f \<le> t" and "sl_last_time s = None" and "h \<le> 2 ^ 63 - 1"
  shows "since t (sl_last_time (hear us s)) \<ge> h \<longleftrightarrow> (\<forall>f \<in> set us. loud s (snd f) \<longrightarrow> t - fst f \<ge> h)"
proof (cases "rev (filter (\<lambda>f. loud s (snd f)) us)")
  case Nil
  then have "\<forall>f \<in> set us. \<not> loud s (snd f)" by (simp add: filter_empty_conv)
  with Nil show ?thesis using assms(3,4) by (auto simp: hear_last_time since_def)
next
  case (Cons f fs)
  then have fl: "filter (\<lambda>f. loud s (snd f)) us = rev fs @ [f]" by (metis rev.simps(2) rev_rev_ident)
  have "sorted (map fst (rev fs @ [f]))"
    using assms(1) sorted_filter [of fst us "\<lambda>f. loud s (snd f)"] by (simp add: fl)
  then have le: "\<forall>g \<in> set fs. fst g \<le> fst f" by (auto simp: sorted_append)
  have m: "g \<in> set us \<and> loud s (snd g) \<longleftrightarrow> g \<in> set fs \<or> g = f" for g
    using arg_cong [OF fl, of set] by auto
  have "since t (sl_last_time (hear us s)) = t - fst f" using Cons assms(3) by (simp add: hear_last_time since_def)
  moreover have "(\<forall>g \<in> set us. loud s (snd g) \<longrightarrow> t - fst g \<ge> h) \<longleftrightarrow> t - fst f \<ge> h"
  proof
    assume "\<forall>g \<in> set us. loud s (snd g) \<longrightarrow> t - fst g \<ge> h"
    then show "t - fst f \<ge> h" using m [of f] by blast
  next
    assume "t - fst f \<ge> h"
    moreover have "fst g \<le> fst f" if "g \<in> set us" "loud s (snd g)" for g using that m [of g] le by auto
    ultimately show "\<forall>g \<in> set us. loud s (snd g) \<longrightarrow> t - fst g \<ge> h" by (meson diff_left_mono order_trans)
  qed
  ultimately show ?thesis by simp
qed

lemma NewSignalLogger_ok:
  assumes "NewSignalLogger xs = Inr s"
  shows "0 < sl_hangover s \<and> 0 < sl_enter s \<and> 0 < sl_exit s \<and> minDBFS \<le> sl_floor s \<and> sl_last_time s = None \<and> sl_frames s = 0
    \<and> \<not> sl_signal s"
proof -
  define ok where "ok = (\<lambda>s :: signal_logger. 0 < sl_hangover s \<and> 0 < sl_enter s \<and> 0 < sl_exit s \<and> minDBFS \<le> sl_floor s \<and> sl_last_time s = None
    \<and> sl_frames s = 0 \<and> \<not> sl_signal s)"
  have one: "ok a \<Longrightarrow> apply_option x a = Inr b \<Longrightarrow> ok b" for x a b
    by (cases x) (auto simp: ok_def split: if_splits)
  have "ok a \<Longrightarrow> apply_options xs a = Inr b \<Longrightarrow> ok b" for a b
  proof (induction xs arbitrary: a)
    case (Cons x xs)
    then show ?case using one [of a x] by (cases "apply_option x a") simp_all
  qed simp
  moreover have "ok default_logger" by (simp add: ok_def default_logger_def minDBFS_def)
  ultimately have "ok s" using assms by (simp add: NewSignalLogger_def)
  then show ?thesis by (simp add: ok_def)
qed

lemma sum_sq_bounds: "0 \<le> sum_sq sample \<and> sum_sq sample \<le> 32768 * 32768 * int (length sample)"
proof (induction sample)
  case (Cons v vs)
  have b: "- 32768 \<le> sint v" "sint v \<le> 32768" using sint_ge [of v] sint_lt [of v] by simp_all
  have "\<bar>sint v\<bar> * \<bar>sint v\<bar> \<le> 32768 * 32768" by (rule mult_mono) (use b in auto)
  then have "sint v * sint v \<le> 32768 * 32768" "0 \<le> sint v * sint v" by simp_all
  then show ?case using Cons by (simp add: sum_sq_def algebra_simps)
qed (simp add: sum_sq_def)

section \<open>Properties\<close>

text \<open>
  When the logger says speech.  After the ten frames of warm-up the state after a frame is speech exactly if the frame is louder
  than the enter threshold, or the state before was speech and it is not yet time to fall silent; that
  time is a frame below the exit threshold with no loud frame within the hangover before it.  Holds for every accepted
  combination of options, also with an exit threshold above the enter threshold.
\<close>

theorem signal_hysteresis:
  assumes "NewSignalLogger xs = Inr s" and "sl_hangover s \<le> 2 ^ 63 - 1" and "10 \<le> length us" and "length us < 2 ^ 64 - 1"
    and "sorted (map fst (us @ [(t, db)]))"
  shows "sl_signal (hear (us @ [(t, db)]) s) \<longleftrightarrow>
    loud s db \<or> sl_signal (hear us s) \<and> \<not> (hushed s db \<and> (\<forall>f \<in> set us. loud s (snd f) \<longrightarrow> t - fst f \<ge> sl_hangover s))"
proof -
  note s = NewSignalLogger_ok [OF assms(1)]
  have "unat (of_nat (length us + 1) :: 64 word) = length us + 1"
    using assms(4) by (simp add: unat_of_nat del: of_nat_add of_nat_Suc)
  then have "unat (of_nat (length us) + 1 :: 64 word) = length us + 1" by (simp add: add.commute)
  then have w: "\<not> sl_frames (hear us s) + 1 \<le> 10"
    using s assms(3) by (simp add: hear_frames word_le_nat_alt)
  have "sorted (map fst us)" "\<And>f. f \<in> set us \<Longrightarrow> fst f \<le> t" using assms(5) by (auto simp: sorted_append)
  then have "since t (sl_last_time (hear us s)) \<ge> sl_hangover s \<longleftrightarrow> (\<forall>f \<in> set us. loud s (snd f) \<longrightarrow> t - fst f \<ge> sl_hangover s)"
    using s assms(2) by (intro since_last) auto
  then show ?thesis
    using observe_after_warmup [OF w, of t db] s by (simp add: hear_snoc hear_config)
qed

theorem signal_hysteresis_witness:
  "sl_signal (hear (replicate 10 (0, -90) @ [(5, 0)]) default_logger)"
  using signal_hysteresis [of "[]" default_logger "replicate 10 (0, -90)" 5 0]
  by (simp add: NewSignalLogger_def default_logger_def loud_def sorted_append)

text \<open>
  The level of a frame lies between the floor of -100 dB and that of a frame of the most negative samples; the latter is
  above zero, since the reference is 32767 and a sample can be -32768.
\<close>

theorem level_bounds:
  "minDBFS \<le> rmsToDBFS sample \<and> rmsToDBFS sample \<le> 10 * log 10 ((32768 * 32768) / (32767 * 32767))"
proof -
  have top: "0 \<le> 10 * log 10 ((32768 * 32768) / (32767 * 32767) :: real)" by simp
  define m where "m = real_of_int (sum_sq sample) / real (length sample)"
  have "m \<le> 32768 * 32768" if "sample \<noteq> []"
  proof -
    have "real_of_int (sum_sq sample) \<le> real_of_int (32768 * 32768 * int (length sample))"
      using sum_sq_bounds [of sample] by (intro of_int_le_iff [THEN iffD2]) simp
    then show ?thesis using that by (simp add: m_def divide_le_eq)
  qed
  then have "0 < m \<Longrightarrow> sample \<noteq> [] \<Longrightarrow> log 10 (m / (32767 * 32767)) \<le> log 10 ((32768 * 32768) / (32767 * 32767))"
    by (subst log_le_cancel_iff) (auto intro!: divide_right_mono)
  moreover have "- 10 \<le> log 10 ((32768 * 32768) / (32767 * 32767) :: real)" using top by linarith
  ultimately show ?thesis by (auto simp: rmsToDBFS_def Let_def m_def [symmetric] minDBFS_def)
qed

lemma loudest_level_positive: "0 < rmsToDBFS [0x8000]"
proof -
  have "0 < log 10 (1073741824 / 1073676289 :: real)" by simp
  moreover from this have "\<not> log 10 (1073741824 / 1073676289 :: real) < - 10" by linarith
  ultimately show ?thesis by (simp add: rmsToDBFS_def sum_sq_def Let_def minDBFS_def)
qed

end
