(* ===== verification/MediaNegotiation.thy ===== *)
theory MediaNegotiation
  imports DtlsSdpProps MediaPortProps NodeConfig NodeMonitor
begin

text \<open>
  Setting up the media of a call: \<open>NewMediaPortWith\<close>, \<open>NewOffer\<close>, \<open>SetOffer\<close>, \<open>SetAnswer\<close> of \<open>pkg/sip/media_port.go\<close>,
  \<open>runMediaConn\<close> of \<open>pkg/sip/inbound.go\<close>, and the media part of \<open>sipSignal\<close> of \<open>pkg/sip/outbound.go\<close>.  The SDP library is
  an argument: its parsers, the answer it makes to an offer, how it applies an answer, its printer.  The audio writer of the
  port is a switch of the media library, represented by whether it is on.
\<close>

section \<open>The SDP library\<close>

record 'o sdp_lib =
  sx_raw :: "string \<Rightarrow> session_desc option"
  sx_parse_offer :: "string \<Rightarrow> go_error + 'o"
  sx_peer_names :: "'o \<Rightarrow> string list"
  sx_answer :: "'o \<Rightarrow> sdp_encryption \<Rightarrow> go_error + (session_desc \<times> media_conf)"
  sx_new_offer :: "sdp_encryption \<Rightarrow> go_error + 'o"
  sx_parse_answer :: "string \<Rightarrow> go_error + session_desc"
  sx_apply :: "session_desc \<Rightarrow> 'o \<Rightarrow> sdp_encryption \<Rightarrow> go_error + (media_conf \<times> session_desc)"
  sx_print :: "session_desc \<Rightarrow> go_error + string"
  sx_v6 :: "string \<Rightarrow> ip_addr option"
  sx_p6 :: "ip_addr \<Rightarrow> string"

section \<open>The port\<close>

record port_env =
  pe_listen :: "go_error option"
  pe_opts :: media_opts
  pe_initial :: nanos
  pe_general :: nanos
  pe_dtls :: bool
  pe_cert :: "string option"
  pe_ufrag :: "go_error + string"
  pe_pwd :: "go_error + string"
  pe_out0 :: bool
  pe_session :: "go_error option"
  pe_output :: "go_error option"

record call_port =
  cp_port :: media_port
  cp_timeout :: media_timeout
  cp_out :: bool
  cp_dtmf_in :: bool

definition NewMediaPort :: "port_env \<Rightarrow> go_error + call_port" where
  "NewMediaPort N =
     (case pe_listen N of
        Some e \<Rightarrow> Inl e
      | None \<Rightarrow>
          Inr \<lparr>cp_port = \<lparr>mp_opts = pe_opts N,
                          mp_conn = (newUDPConn (mo_symmetric (pe_opts N)))\<lparr>uc_discarding := mo_ignore_preanswer (pe_opts N)\<rparr>,
                          mp_conf = None, mp_open = [Conn], mp_closed = False, mp_dtmf_audio = False, mp_log = []\<rparr>,
               cp_timeout = new_timeout (pe_initial N) (pe_general N), cp_out = pe_out0 N, cp_dtmf_in = False\<rparr>)"

definition port_SetOut :: "bool \<Rightarrow> call_port \<Rightarrow> call_port" where
  "port_SetOut b p = p\<lparr>cp_out := b\<rparr>"

definition port_EnableTimeout :: "nanos \<Rightarrow> bool \<Rightarrow> call_port \<Rightarrow> call_port" where
  "port_EnableTimeout now b p = p\<lparr>cp_timeout := EnableTimeout now b (cp_timeout p)\<rparr>"

definition SetDTMFAudio :: "bool \<Rightarrow> call_port \<Rightarrow> call_port" where
  "SetDTMFAudio b p = p\<lparr>cp_port := (cp_port p)\<lparr>mp_dtmf_audio := b\<rparr>\<rparr>"

definition HandleDTMF :: "bool \<Rightarrow> call_port \<Rightarrow> call_port" where
  "HandleDTMF b p = p\<lparr>cp_dtmf_in := b\<rparr>"

definition port_SetConfig :: "port_env \<Rightarrow> nanos \<Rightarrow> media_conf \<Rightarrow> call_port \<Rightarrow> go_error option \<times> call_port" where
  "port_SetConfig N now c p =
     (let (e, mp) = SetConfig now (pe_session N) (pe_output N) c (cp_port p) in (e, p\<lparr>cp_port := mp\<rparr>))"

definition RemoteAddr :: "call_port \<Rightarrow> netip_addr_port" where
  "RemoteAddr p = (case uc_dst (mp_conn (cp_port p)) of None \<Rightarrow> NoAddr | Some a \<Rightarrow> a)"

definition reportPeerCodecs :: "call_monitor option \<Rightarrow> string list \<Rightarrow> metrics \<Rightarrow> metrics" where
  "reportPeerCodecs mon names ms = (case mon of None \<Rightarrow> ms | Some c \<Rightarrow> PeerSDP c names ms)"

section \<open>Offer and answer\<close>

text \<open>\<open>SetOffer\<close>: the answer and the configuration, with the DTLS part of it, and the metrics.\<close>

definition SetOffer ::
  "'o sdp_lib \<Rightarrow> port_env \<Rightarrow> call_monitor option \<Rightarrow> string \<Rightarrow> sdp_encryption \<Rightarrow> metrics
    \<Rightarrow> (go_error + (session_desc \<times> media_conf \<times> dtls_conf option)) \<times> metrics" where
  "SetOffer S N mon offerData enc ms =
     (case parseDTLSOffer (pe_ufrag N) (pe_pwd N) (sx_raw S offerData) (pe_cert N) of
        Inl e \<Rightarrow> (Inl (SDPError e), ms)
      | Inr dtls \<Rightarrow>
          if dtls \<noteq> None \<and> \<not> pe_dtls N then (Inl (SDPError (dtls_error ''disabled'')), ms)
          else
            case sx_parse_offer S offerData of
              Inl e \<Rightarrow> (Inl (SDPError e), ms)
            | Inr offer \<Rightarrow>
                let ms1 = reportPeerCodecs mon (sx_peer_names S offer) ms in
                case sx_answer S offer (if dtls \<noteq> None then EncryptionNone else enc) of
                  Inl e \<Rightarrow> (Inl (SDPError e), ms1)
                | Inr (answer, mc) \<Rightarrow>
                    (case dtls of
                       None \<Rightarrow> (Inr (answer, mc\<lparr>mc_dtls := False\<rparr>, None), ms1)
                     | Some d \<Rightarrow>
                         (case addDTLSAnswer (sx_v6 S) (sx_p6 S) answer d of
                            Inl e \<Rightarrow> (Inl (SDPError e), ms1)
                          | Inr (answer', d') \<Rightarrow> (Inr (answer', mc\<lparr>mc_dtls := True\<rparr>, Some d'), ms1))))"

definition SetAnswer :: "'o sdp_lib \<Rightarrow> 'o \<Rightarrow> string \<Rightarrow> sdp_encryption \<Rightarrow> go_error + (media_conf \<times> string)" where
  "SetAnswer S offer answerData enc =
     (case sx_parse_answer S answerData of
        Inl e \<Rightarrow> Inl (SDPError e)
      | Inr answer \<Rightarrow>
          (case sx_apply S answer offer enc of
             Inl e \<Rightarrow> Inl (SDPError e)
           | Inr (mc, local) \<Rightarrow>
               (case sx_print S local of Inl e \<Rightarrow> Inl e | Inr bytes \<Rightarrow> Inr (mc\<lparr>mc_dtls := False\<rparr>, bytes))))"

section \<open>runMediaConn\<close>

text \<open>
  The port the call keeps (\<open>c.media\<close>, set before anything can fail after the socket is open) and the answer or the error,
  with the sizes of the descriptions as they are observed.
\<close>

record media_setup_result =
  sr_answer :: "go_error + string"
  sr_port :: "call_port option"
  sr_sizes :: "(hist \<times> smap \<times> nat) list"
  sr_metrics :: metrics
  sr_room_output :: bool
  sr_room_dtmf :: bool

definition runMediaConn ::
  "'o sdp_lib \<Rightarrow> port_env \<Rightarrow> nanos \<Rightarrow> call_monitor \<Rightarrow> string \<Rightarrow> sdp_encryption \<Rightarrow> bool \<Rightarrow> metrics \<Rightarrow> media_setup_result" where
  "runMediaConn S N now mon offerData enc audioDTMF ms =
     (let sizes = SDPSize (length offerData) True;
          failed = (\<lambda>e p szs ms'. \<lparr>sr_answer = Inl e, sr_port = p, sr_sizes = szs, sr_metrics = ms', sr_room_output = False, sr_room_dtmf = False\<rparr>)
      in case NewMediaPort N of
           Inl e \<Rightarrow> failed e None sizes ms
         | Inr p0 \<Rightarrow>
             let p1 = SetDTMFAudio audioDTMF (port_SetOut False (port_EnableTimeout now False p0)) in
             case SetOffer S N (Some mon) offerData enc ms of
               (Inl e, ms1) \<Rightarrow> failed e (Some p1) sizes ms1
             | (Inr (answer, mc, dtls), ms1) \<Rightarrow>
                 (case sx_print S answer of
                    Inl e \<Rightarrow> failed e (Some p1) sizes ms1
                  | Inr answerData \<Rightarrow>
                      let sizes2 = sizes @ SDPSize (length answerData) False in
                      case port_SetConfig N now mc p1 of
                        (Some e, p2) \<Rightarrow> failed e (Some p2) sizes2 ms1
                      | (None, p2) \<Rightarrow>
                          let d = (mc_dtmf_type mc \<noteq> 0) in
                          \<lparr>sr_answer = Inr answerData, sr_port = Some (if d then HandleDTMF True p2 else p2), sr_sizes = sizes2,
                           sr_metrics = ms1, sr_room_output = True, sr_room_dtmf = d\<rparr>))"

text \<open>The media part of an answered outbound call: apply the answer, configure, open the output and start the timeout.\<close>

definition outbound_media ::
  "'o sdp_lib \<Rightarrow> port_env \<Rightarrow> nanos \<Rightarrow> 'o \<Rightarrow> string \<Rightarrow> sdp_encryption \<Rightarrow> call_port \<Rightarrow> (go_error + string) \<times> call_port" where
  "outbound_media S N now offer sdpResp enc p =
     (case SetAnswer S offer sdpResp enc of
        Inl e \<Rightarrow> (Inl e, p)
      | Inr (mc, localSDP) \<Rightarrow>
          (case port_SetConfig N now mc p of
             (Some e, p1) \<Rightarrow> (Inl e, p1)
           | (None, p1) \<Rightarrow> (Inr localSDP, port_EnableTimeout now True (port_SetOut True p1))))"

text \<open>
  The media of a re-INVITE moves to the address its body names; \<open>parse\<close> is the SDP parser, \<open>None\<close> for the port a call without media.
\<close>

definition updateRemoteFromSDP :: "(string \<Rightarrow> netip_addr_port option) \<Rightarrow> nanos \<Rightarrow> string \<Rightarrow> call_port option \<Rightarrow> call_port option" where
  "updateRemoteFromSDP parse now body media =
     (case media of
        None \<Rightarrow> None
      | Some p \<Rightarrow>
          if body = [] then Some p
          else case parse body of
            None \<Rightarrow> Some p
          | Some addr \<Rightarrow> Some (p\<lparr>cp_port := (cp_port p)\<lparr>mp_conn := UpdateRemote now addr (mp_conn (cp_port p))\<rparr>\<rparr>))"

section \<open>Lemmas\<close>

text \<open>An unusable address in a re-INVITE leaves the media where it was.\<close>

lemma reinvite_moves_media:
  assumes "updateRemoteFromSDP parse now body (Some p) = Some p'"
  shows "RemoteAddr p' = (if body = [] then RemoteAddr p
    else case parse body of Some (AddrPort ip port) \<Rightarrow> if IsUnspecified ip then RemoteAddr p else AddrPort ip port | _ \<Rightarrow> RemoteAddr p)"
  using assms
  by (auto simp: updateRemoteFromSDP_def RemoteAddr_def UpdateRemote_def SetDst_dst ap_IsValid_def split: if_splits option.splits netip_addr_port.splits)

lemma store_part_session:
  "(\<And>k. x \<noteq> Sess k) \<Longrightarrow> Sess k \<in> set (mp_open (store_part x p)) \<longleftrightarrow> Sess k \<in> set (mp_open p)"
  "(\<And>k. x \<noteq> Sess k) \<Longrightarrow> Sess k \<in> set (mp_open (swap_part x p)) \<longleftrightarrow> Sess k \<in> set (mp_open p)"
  by (auto simp: store_part_def swap_part_def)

lemma SetConfig_session:
  "fst (SetConfig now se oe c p) = None \<Longrightarrow> Sess k \<in> set (mp_open (snd (SetConfig now se oe c p))) \<longleftrightarrow> k = session_of c"
  unfolding SetConfig_def Let_def by (auto simp: store_part_session split: option.splits if_splits)

lemma SetConfig_open: "mp_closed (snd (SetConfig now se oe c p)) = mp_closed p"
  by (simp add: SetConfig_def Let_def store_part_def swap_part_def split: option.splits)

lemma port_SetConfig_sel:
  assumes "port_SetConfig N now c p = (e, p')"
  shows "cp_out p' = cp_out p" "cp_timeout p' = cp_timeout p" "cp_dtmf_in p' = cp_dtmf_in p" "mp_closed (cp_port p') = mp_closed (cp_port p)"
    "e = None \<Longrightarrow> Sess k \<in> set (mp_open (cp_port p')) \<longleftrightarrow> k = session_of c"
proof -
  let ?s = "SetConfig now (pe_session N) (pe_output N) c (cp_port p)"
  have "e = fst ?s \<and> p' = p\<lparr>cp_port := snd ?s\<rparr>"
    using assms unfolding port_SetConfig_def by (cases ?s) (metis Pair_inject case_prod_conv fst_conv snd_conv)
  then show "cp_out p' = cp_out p" "cp_timeout p' = cp_timeout p" "cp_dtmf_in p' = cp_dtmf_in p" "mp_closed (cp_port p') = mp_closed (cp_port p)"
    "e = None \<Longrightarrow> Sess k \<in> set (mp_open (cp_port p')) \<longleftrightarrow> k = session_of c"
    using SetConfig_session [of now "pe_session N" "pe_output N" c "cp_port p"] SetConfig_open [of now "pe_session N" "pe_output N" c "cp_port p"]
    by simp_all
qed

text \<open>How \<open>SetOffer\<close> succeeds: with DTLS exactly if the offer has a DTLS audio section.\<close>

lemma SetOffer_ok:
  assumes "SetOffer S N mon offerData enc ms = (Inr (answer, mc, dtls), ms')"
  shows "\<exists>sd. sx_raw S offerData = Some sd \<and> (mc_dtls mc \<longleftrightarrow> list_ex is_dtls_audio (sd_media sd)) \<and> (mc_dtls mc \<longrightarrow> pe_dtls N)
    \<and> (\<not> mc_dtls mc \<longrightarrow> (\<exists>offer mc0. sx_parse_offer S offerData = Inr offer \<and> sx_answer S offer enc = Inr (answer, mc0)
         \<and> mc_crypto mc = mc_crypto mc0))"
proof -
  obtain d where d: "parseDTLSOffer (pe_ufrag N) (pe_pwd N) (sx_raw S offerData) (pe_cert N) = Inr d"
    using assms by (cases "parseDTLSOffer (pe_ufrag N) (pe_pwd N) (sx_raw S offerData) (pe_cert N)") (auto simp: SetOffer_def)
  then obtain sd where sd: "sx_raw S offerData = Some sd" "d \<noteq> None \<longleftrightarrow> list_ex is_dtls_audio (sd_media sd)"
    by (auto simp: parseDTLSOffer_def find_None_iff find_Some_iff list_ex_iff split: option.splits sum.splits) (metis nth_mem)
  have "mc_dtls mc \<longleftrightarrow> d \<noteq> None" "d \<noteq> None \<Longrightarrow> pe_dtls N"
    using assms d by (auto simp: SetOffer_def Let_def split: if_splits sum.splits option.splits prod.splits)
  moreover have "\<exists>offer mc0. sx_parse_offer S offerData = Inr offer \<and> sx_answer S offer enc = Inr (answer, mc0) \<and> mc_crypto mc = mc_crypto mc0"
    if "d = None"
    using assms d that by (auto simp: SetOffer_def Let_def split: if_splits sum.splits prod.splits)
  ultimately show ?thesis using sd by auto
qed

text \<open>The way of a successful \<open>runMediaConn\<close>.\<close>

lemma runMediaConn_ok:
  assumes "sr_answer (runMediaConn S N now mon offerData enc audioDTMF ms) = Inr answerData"
  shows "\<exists>answer mc dtls ms1 p0 p1 p2. SetOffer S N (Some mon) offerData enc ms = (Inr (answer, mc, dtls), ms1)
    \<and> sx_print S answer = Inr answerData \<and> NewMediaPort N = Inr p0
    \<and> p1 = SetDTMFAudio audioDTMF (port_SetOut False (port_EnableTimeout now False p0)) \<and> port_SetConfig N now mc p1 = (None, p2)
    \<and> sr_port (runMediaConn S N now mon offerData enc audioDTMF ms) = Some (if mc_dtmf_type mc \<noteq> 0 then HandleDTMF True p2 else p2)"
  using assms unfolding runMediaConn_def by (auto simp: Let_def split: sum.splits prod.splits option.splits)

definition encrypted :: "call_port \<Rightarrow> bool" where
  "encrypted p \<longleftrightarrow> Sess PlainSession \<notin> set (mp_open (cp_port p))
     \<and> (Sess DTLSSession \<in> set (mp_open (cp_port p)) \<or> Sess SRTPSession \<in> set (mp_open (cp_port p)))"

lemma encrypted_session:
  assumes "port_SetConfig N now c p = (None, p')" and "mc_dtls c \<or> mc_crypto c"
  shows "encrypted p'" and "mc_dtls c \<Longrightarrow> Sess k \<in> set (mp_open (cp_port p')) \<longleftrightarrow> k = DTLSSession"
  using port_SetConfig_sel(5) [OF assms(1) refl] assms(2) by (auto simp: encrypted_def session_of_def)

lemma encrypted_dtmf [simp]: "encrypted (HandleDTMF b p) = encrypted p" "cp_port (HandleDTMF b p) = cp_port p"
  by (simp_all add: encrypted_def HandleDTMF_def)

lemma encrypted_started [simp]: "encrypted (port_EnableTimeout now b (port_SetOut c p)) = encrypted p"
  by (simp add: encrypted_def port_EnableTimeout_def port_SetOut_def)

section \<open>Examples\<close>

definition sample_mc :: media_conf where
  "sample_mc = \<lparr>mc_remote = AddrPort (IPv4 10 0 0 7) 4000, mc_crypto = True, mc_dtls = False, mc_dtmf_type = 101\<rparr>"

definition sample_sd :: "string list \<Rightarrow> session_desc" where
  "sample_sd protos = \<lparr>sd_attrs = [], sd_conn = Some ''10.0.0.7'', sd_media = [\<lparr>md_media = ''audio'', md_protos = protos, md_port = 4000,
     md_attrs = [(''fingerprint'', ''sha-256 '' @ cert_fingerprint (replicate 32 171)), (''setup'', ''actpass''), (''rtcp-mux'', [])]\<rparr>]\<rparr>"

definition sample_sdp :: "string list \<Rightarrow> string sdp_lib" where
  "sample_sdp protos = \<lparr>sx_raw = (\<lambda>_. Some (sample_sd protos)), sx_parse_offer = Inr, sx_peer_names = (\<lambda>_. [''PCMU/8000'']),
     sx_answer = (\<lambda>_ _. Inr (sample_sd [''RTP'', ''SAVP''], sample_mc)), sx_new_offer = (\<lambda>_. Inr ''offer''),
     sx_parse_answer = (\<lambda>_. Inr (sample_sd [''RTP'', ''SAVP''])), sx_apply = (\<lambda>a _ _. Inr (sample_mc, a)), sx_print = (\<lambda>_. Inr ''sdp''),
     sx_v6 = (\<lambda>_. None), sx_p6 = (\<lambda>_. [])\<rparr>"

definition sample_port_env :: port_env where
  "sample_port_env = \<lparr>pe_listen = None, pe_opts = \<lparr>mo_symmetric = False, mo_ignore_local = False, mo_ignore_preanswer = False, mo_no_resample = True\<rparr>,
     pe_initial = 0, pe_general = 0, pe_dtls = True, pe_cert = Some ''AA'', pe_ufrag = Inr ''lu'', pe_pwd = Inr ''lp'', pe_out0 = True,
     pe_session = None, pe_output = None\<rparr>"

lemma sample_answered:
  "sr_answer (runMediaConn (sample_sdp [''RTP'', ''SAVP'']) sample_port_env 0 (NewCall Inbound [] []) ''offer'' EncryptionRequire False (\<lambda>_. 0)) = Inr ''sdp''"
  "sr_answer (runMediaConn (sample_sdp [''UDP'', ''TLS'', ''RTP'', ''SAVPF'']) sample_port_env 0 (NewCall Inbound [] []) ''offer'' EncryptionNone False (\<lambda>_. 0)) = Inr ''sdp''"
  by code_simp+

section \<open>Properties\<close>

text \<open>
  C10: Required encryption is not given up.  When a call requires encrypted media and the SDP library honours this (an answer or an applied
  answer under \<open>EncryptionRequire\<close> has a crypto profile), then an inbound call whose offer is answered and an outbound
  call whose answer is applied have an SRTP or a DTLS session and no plain one.
\<close>

theorem required_encryption_kept:
  assumes "\<And>offer answer mc. sx_answer S offer EncryptionRequire = Inr (answer, mc) \<Longrightarrow> mc_crypto mc"
    and "\<And>answer offer mc sd. sx_apply S answer offer EncryptionRequire = Inr (mc, sd) \<Longrightarrow> mc_crypto mc"
  shows "(sr_answer (runMediaConn S N now mon offerData EncryptionRequire audioDTMF ms) = Inr answerData \<longrightarrow>
      (\<exists>p. sr_port (runMediaConn S N now mon offerData EncryptionRequire audioDTMF ms) = Some p \<and> encrypted p))
    \<and> (outbound_media S N now offer sdpResp EncryptionRequire p0 = (Inr localSDP, p') \<longrightarrow> encrypted p')"
proof (intro conjI impI)
  assume a: "sr_answer (runMediaConn S N now mon offerData EncryptionRequire audioDTMF ms) = Inr answerData"
  obtain answer mc dtls ms1 p1 p2 where o: "SetOffer S N (Some mon) offerData EncryptionRequire ms = (Inr (answer, mc, dtls), ms1)"
    and c: "port_SetConfig N now mc p1 = (None, p2)"
    and r: "sr_port (runMediaConn S N now mon offerData EncryptionRequire audioDTMF ms) = Some (if mc_dtmf_type mc \<noteq> 0 then HandleDTMF True p2 else p2)"
    using runMediaConn_ok [OF a] by blast
  have "mc_dtls mc \<or> mc_crypto mc" using SetOffer_ok [OF o] assms(1) by blast
  from encrypted_session(1) [OF c this]
  show "\<exists>p. sr_port (runMediaConn S N now mon offerData EncryptionRequire audioDTMF ms) = Some p \<and> encrypted p" using r by auto
next
  assume "outbound_media S N now offer sdpResp EncryptionRequire p0 = (Inr localSDP, p')"
  then obtain mc answer sd p1 where "sx_apply S answer offer EncryptionRequire = Inr (mc, sd)"
    and c: "port_SetConfig N now (mc\<lparr>mc_dtls := False\<rparr>) p0 = (None, p1)" and p': "p' = port_EnableTimeout now True (port_SetOut True p1)"
    by (auto simp: outbound_media_def SetAnswer_def split: sum.splits prod.splits option.splits)
  then show "encrypted p'" using encrypted_session(1) [OF c] assms(2) by simp
qed

theorem required_encryption_kept_witness:
  "\<exists>p. sr_port (runMediaConn (sample_sdp [''RTP'', ''SAVP'']) sample_port_env 0 (NewCall Inbound [] []) ''offer'' EncryptionRequire False (\<lambda>_. 0)) = Some p
    \<and> encrypted p"
  using required_encryption_kept [of "sample_sdp [''RTP'', ''SAVP'']"] sample_answered(1)
  by (simp add: sample_sdp_def sample_mc_def)

text \<open>
  C19: An offer of DTLS-SRTP is answered with DTLS-SRTP or not at all, whatever the encryption setting: if the call is set up, its only session
  is the DTLS session, and a node with DTLS switched off refuses the offer.
\<close>

theorem dtls_offer_means_dtls:
  assumes "sx_raw S offerData = Some sd" and "list_ex is_dtls_audio (sd_media sd)"
    and "sr_answer (runMediaConn S N now mon offerData enc audioDTMF ms) = Inr answerData"
  shows "pe_dtls N \<and> (\<exists>p. sr_port (runMediaConn S N now mon offerData enc audioDTMF ms) = Some p
    \<and> (\<forall>k. Sess k \<in> set (mp_open (cp_port p)) \<longleftrightarrow> k = DTLSSession))"
proof -
  obtain answer mc dtls ms1 p1 p2 where o: "SetOffer S N (Some mon) offerData enc ms = (Inr (answer, mc, dtls), ms1)"
    and c: "port_SetConfig N now mc p1 = (None, p2)"
    and r: "sr_port (runMediaConn S N now mon offerData enc audioDTMF ms) = Some (if mc_dtmf_type mc \<noteq> 0 then HandleDTMF True p2 else p2)"
    using runMediaConn_ok [OF assms(3)] by blast
  have "mc_dtls mc \<and> pe_dtls N" using SetOffer_ok [OF o] assms(1,2) by auto
  then show ?thesis using encrypted_session(2) [OF c] r by auto
qed

theorem dtls_offer_means_dtls_witness:
  "\<exists>p. sr_port (runMediaConn (sample_sdp [''UDP'', ''TLS'', ''RTP'', ''SAVPF'']) sample_port_env 0 (NewCall Inbound [] []) ''offer'' EncryptionNone False (\<lambda>_. 0)) =
     Some p \<and> Sess DTLSSession \<in> set (mp_open (cp_port p)) \<and> Sess PlainSession \<notin> set (mp_open (cp_port p))"
proof -
  have "sx_raw (sample_sdp [''UDP'', ''TLS'', ''RTP'', ''SAVPF'']) ''offer'' = Some (sample_sd [''UDP'', ''TLS'', ''RTP'', ''SAVPF''])"
    by (simp add: sample_sdp_def)
  moreover have "list_ex is_dtls_audio (sd_media (sample_sd [''UDP'', ''TLS'', ''RTP'', ''SAVPF'']))" by code_simp
  ultimately show ?thesis using dtls_offer_means_dtls [OF _ _ sample_answered(2)] by fastforce
qed

text \<open>
  C31: Until a call is accepted its media port is silent and does not time out, and no port is lost: \<open>runMediaConn\<close> opens a socket exactly if
  it leaves a port in the call, whether it succeeds or fails later, and that port has its audio output off and its timeout disabled.
\<close>

theorem media_idle_until_accept:
  "case sr_port (runMediaConn S N now mon offerData enc audioDTMF ms) of
     None \<Rightarrow> pe_listen N \<noteq> None
   | Some p \<Rightarrow> pe_listen N = None \<and> \<not> cp_out p \<and> mt_start (cp_timeout p) = None \<and> \<not> mp_closed (cp_port p)"
proof (cases "pe_listen N")
  case (Some e)
  then show ?thesis by (simp add: runMediaConn_def NewMediaPort_def Let_def)
next
  case None
  define p1 where "p1 = SetDTMFAudio audioDTMF (port_SetOut False (port_EnableTimeout now False (projr (NewMediaPort N))))"
  define idle where "idle = (\<lambda>p :: call_port. \<not> cp_out p \<and> mt_start (cp_timeout p) = None \<and> \<not> mp_closed (cp_port p))"
  have i1: "idle p1"
    by (simp add: None idle_def p1_def NewMediaPort_def SetDTMFAudio_def port_SetOut_def port_EnableTimeout_def EnableTimeout_def disableTimeout_def)
  have i2: "idle (snd (port_SetConfig N now c p1))" for c
    using i1 port_SetConfig_sel [of N now c p1 "fst (port_SetConfig N now c p1)" "snd (port_SetConfig N now c p1)"] by (simp add: idle_def)
  have i3: "idle (HandleDTMF b p) = idle p" for b p by (simp add: idle_def HandleDTMF_def)
  have new: "NewMediaPort N = Inr (projr (NewMediaPort N))" by (simp add: None NewMediaPort_def)
  have "\<exists>p. sr_port (runMediaConn S N now mon offerData enc audioDTMF ms) = Some p \<and> idle p"
    unfolding runMediaConn_def Let_def
    by (subst new, unfold sum.case, fold p1_def) (use i1 i2 i3 in \<open>auto split: sum.splits prod.splits option.splits simp: prod_eq_iff\<close>)
  then show ?thesis using None by (auto simp: idle_def)
qed

end
