(* ===== verification/MediaStats.thy ===== *)
theory MediaStats
  imports MediaStream Complex_Main
begin

text \<open>
  The statistics of a call: \<open>PortStats\<close> (\<open>pkg/sip/media_port.go\<close>), \<open>RoomStats\<close> (\<open>pkg/sip/room.go\<close>), the counting wrappers and
  \<open>ratePPM\<close> (\<open>pkg/sip/media.go\<close>), the latency probes (\<open>pkg/sip/media_latency.go\<close>) and the signaling timestamps
  (\<open>pkg/sip/signaling_timestamps.go\<close>).  Counters are 64-bit words; rates are numbers of an ordered field, so the
  conversion to and from the bits of a \<open>float64\<close> is the identity.  A zero time is \<open>None\<close>.
\<close>

section \<open>Counting wrappers\<close>

record pair_count =
  pc_units :: u64
  pc_total :: u64

text \<open>
  \<open>mediaWriterCount\<close> counts frames and samples, \<open>rtpHandlerCount\<close> packets and payload bytes; both then call what they wrap, which is
  an argument together with its state.
\<close>

definition count_unit :: "nat \<Rightarrow> pair_count \<Rightarrow> pair_count" where
  "count_unit n c = c\<lparr>pc_units := pc_units c + 1, pc_total := pc_total c + of_nat n\<rparr>"

definition mediaWriterCount_WriteSample :: "('w \<Rightarrow> 'a list \<Rightarrow> 'e \<times> 'w) \<Rightarrow> 'a list \<Rightarrow> pair_count \<times> 'w \<Rightarrow> 'e \<times> pair_count \<times> 'w" where
  "mediaWriterCount_WriteSample write sample s =
     (case s of (c, w) \<Rightarrow> let (e, w') = write w sample in (e, count_unit (length sample) c, w'))"

definition rtpHandlerCount_HandleRTP ::
  "('w \<Rightarrow> 'h \<Rightarrow> 'a list \<Rightarrow> 'e \<times> 'w) \<Rightarrow> 'h \<Rightarrow> 'a list \<Rightarrow> pair_count \<times> 'w \<Rightarrow> 'e \<times> pair_count \<times> 'w" where
  "rtpHandlerCount_HandleRTP handle hdr payload s =
     (case s of (c, w) \<Rightarrow> let (e, w') = handle w hdr payload in (e, count_unit (length payload) c, w'))"

section \<open>Latency probes\<close>

text \<open>An entry stores the time before it calls what it wraps, an exit records after; the time cell is shared.\<close>

definition latency_entry :: "int \<Rightarrow> ('w \<Rightarrow> 'a \<Rightarrow> 'e \<times> 'w) \<Rightarrow> 'a \<Rightarrow> int \<times> 'w \<Rightarrow> 'e \<times> int \<times> 'w" where
  "latency_entry now inner x s = (case s of (_, w) \<Rightarrow> let (e, w') = inner w x in (e, now, w'))"

definition latency_exit_write ::
  "int \<Rightarrow> ('w \<Rightarrow> 'a \<Rightarrow> 'e \<times> 'w) \<Rightarrow> 'a \<Rightarrow> int \<times> latency_stats \<times> 'w \<Rightarrow> 'e \<times> int \<times> latency_stats \<times> 'w" where
  "latency_exit_write now inner x s =
     (case s of (t, st, w) \<Rightarrow> let (e, w') = inner w x in (e, t, latency_exit t now st, w'))"

section \<open>PortStats\<close>

record 'f port_stats =
  pt_streams :: u64
  pt_packets :: u64
  pt_ignored :: u64
  pt_input :: u64
  pt_failed :: u64
  pt_mux :: rtp_counting
  pt_audio :: pair_count
  pt_in :: pair_count
  pt_out :: pair_count
  pt_rx :: 'f
  pt_tx :: 'f
  pt_dtmf :: pair_count
  pt_jitter_lost :: u64
  pt_jitter_dropped :: u64
  pt_latency_in :: latency_stats
  pt_latency_out :: latency_stats
  pt_closed :: bool
  pt_last_time :: "nanos option"
  pt_last_in :: u64
  pt_last_out :: u64

record 'f port_snapshot =
  px_counts :: "u64 list"
  px_mux :: rtp_counting
  px_audio :: "u64 list"
  px_rates :: "'f \<times> 'f"
  px_dtmf :: "u64 list"
  px_jitter :: "u64 \<times> u64"
  px_latency :: "latency_stats \<times> latency_stats"
  px_closed :: bool

definition PortStats_Load :: "'f port_stats \<Rightarrow> 'f port_snapshot" where
  "PortStats_Load s =
     \<lparr>px_counts = [pt_streams s, pt_packets s, pt_ignored s, pt_input s, pt_failed s], px_mux = pt_mux s,
      px_audio = [pc_units (pt_audio s), pc_total (pt_audio s), pc_units (pt_in s), pc_total (pt_in s), pc_units (pt_out s), pc_total (pt_out s)],
      px_rates = (pt_rx s, pt_tx s), px_dtmf = [pc_units (pt_dtmf s), pc_total (pt_dtmf s)],
      px_jitter = (pt_jitter_lost s, pt_jitter_dropped s), px_latency = (latency_Load (pt_latency_in s), latency_Load (pt_latency_out s)),
      px_closed = pt_closed s\<rparr>"

definition seconds :: "nanos \<Rightarrow> 'f::linordered_field" where
  "seconds d = of_int d / 1000000000"

definition sample_rate :: "u64 \<Rightarrow> u64 \<Rightarrow> nanos \<Rightarrow> 'f::linordered_field" where
  "sample_rate cur prev dt = of_nat (unat (cur - prev)) / seconds dt"

definition PortStats_Update :: "nanos \<Rightarrow> 'f::linordered_field port_stats \<Rightarrow> 'f port_stats" where
  "PortStats_Update t s =
     (let lastTime = (case pt_last_time s of None \<Rightarrow> t | Some t0 \<Rightarrow> t0);
          dt = t - lastTime;
          cin = pc_total (pt_in s);
          cout = pc_total (pt_out s);
          s1 = (if (seconds dt :: 'f) > 0
                then s\<lparr>pt_rx := sample_rate cin (pt_last_in s) dt, pt_tx := sample_rate cout (pt_last_out s) dt\<rparr> else s)
      in s1\<lparr>pt_last_time := Some t, pt_last_in := cin, pt_last_out := cout\<rparr>)"

definition port_write_in :: "nat \<Rightarrow> 'f port_stats \<Rightarrow> 'f port_stats" where
  "port_write_in n s = s\<lparr>pt_in := count_unit n (pt_in s)\<rparr>"

definition port_write_out :: "nat \<Rightarrow> 'f port_stats \<Rightarrow> 'f port_stats" where
  "port_write_out n s = s\<lparr>pt_out := count_unit n (pt_out s)\<rparr>"

section \<open>RoomStats\<close>

record 'f room_stats =
  rt_published :: pair_count
  rt_publish_tx :: 'f
  rt_rtp :: rtp_counting
  rt_data :: u64
  rt_subscribes :: u64
  rt_resumes :: u64
  rt_reconnects :: u64
  rt_recovering :: bool
  rt_jitter_lost :: u64
  rt_jitter_dropped :: u64
  rt_latency :: latency_stats
  rt_closed :: bool
  rt_last_time :: "nanos option"
  rt_last_published :: u64

record 'f room_snapshot =
  rx_rtp :: rtp_counting
  rx_data :: u64
  rx_published :: "u64 \<times> u64 \<times> 'f"
  rx_jitter :: "u64 \<times> u64"
  rx_recovery :: "u64 \<times> u64 \<times> u64 \<times> bool"
  rx_latency :: latency_stats
  rx_closed :: bool

definition RoomStats_Load :: "'f room_stats \<Rightarrow> 'f room_snapshot" where
  "RoomStats_Load s =
     \<lparr>rx_rtp = rt_rtp s, rx_data = rt_data s, rx_published = (pc_units (rt_published s), pc_total (rt_published s), rt_publish_tx s),
      rx_jitter = (rt_jitter_lost s, rt_jitter_dropped s),
      rx_recovery = (rt_subscribes s, rt_resumes s, rt_reconnects s, rt_recovering s),
      rx_latency = latency_Load (rt_latency s), rx_closed = rt_closed s\<rparr>"

text \<open>There is no case for the zero time here: the difference to it is the largest duration.\<close>

definition maxDuration :: nanos where "maxDuration = 2 ^ 63 - 1"

definition RoomStats_Update :: "nanos \<Rightarrow> 'f::linordered_field room_stats \<Rightarrow> 'f room_stats" where
  "RoomStats_Update t s =
     (let dt = (case rt_last_time s of None \<Rightarrow> maxDuration | Some t0 \<Rightarrow> t - t0);
          cur = pc_total (rt_published s);
          s1 = (if (seconds dt :: 'f) > 0 then s\<lparr>rt_publish_tx := sample_rate cur (rt_last_published s) dt\<rparr> else s)
      in s1\<lparr>rt_last_time := Some t, rt_last_published := cur\<rparr>)"

definition room_write :: "nat \<Rightarrow> 'f room_stats \<Rightarrow> 'f room_stats" where
  "room_write n s = s\<lparr>rt_published := count_unit n (rt_published s)\<rparr>"

section \<open>Stats\<close>

record 'f call_stats =
  cs_port :: "'f port_stats"
  cs_room :: "'f room_stats"
  cs_closed :: bool

definition Stats_Update :: "nanos \<Rightarrow> nanos \<Rightarrow> 'f::linordered_field call_stats option \<Rightarrow> 'f call_stats option" where
  "Stats_Update t t' s =
     (case s of None \<Rightarrow> None | Some s \<Rightarrow> Some (s\<lparr>cs_port := PortStats_Update t (cs_port s), cs_room := RoomStats_Update t' (cs_room s)\<rparr>))"

definition ratePPM :: "'f::linordered_field \<Rightarrow> int \<Rightarrow> 'f" where
  "ratePPM rate expected = (if expected \<le> 0 then 0 else (rate - of_int expected) / of_int expected * 1000000)"

definition RoomSampleRate :: int where "RoomSampleRate = 48000"

definition Stats_Log :: "'f::linordered_field call_stats \<Rightarrow> (string \<times> 'f) list" where
  "Stats_Log s =
     (let p = PortStats_Load (cs_port s); r = RoomStats_Load (cs_room s) in
      [(''sip_rx_ppm'', ratePPM (fst (px_rates p)) RoomSampleRate), (''sip_tx_ppm'', ratePPM (snd (px_rates p)) RoomSampleRate),
       (''lk_publish_ppm'', ratePPM (snd (snd (rx_published r))) RoomSampleRate)])"

section \<open>Signaling timestamps\<close>

record signaling_timestamps =
  st_invite :: "nanos option"
  st_trying :: "nanos option"
  st_ringing :: "nanos option"
  st_accept :: "nanos option"
  st_api :: "nanos option"
  st_ack :: "nanos option"

text \<open>\<open>Milliseconds\<close> cuts off toward zero.\<close>

definition Milliseconds :: "nanos \<Rightarrow> int" where
  "Milliseconds d = (if 0 \<le> d then d div 1000000 else - ((- d) div 1000000))"

definition time_field :: "string \<Rightarrow> nanos option \<Rightarrow> nanos option \<Rightarrow> (string \<times> int) list" where
  "time_field name from to =
     (case (from, to) of (Some a, Some b) \<Rightarrow> [(name, Milliseconds (b - a))] | _ \<Rightarrow> [])"

definition Timestamps_Log :: "signaling_timestamps \<Rightarrow> (string \<times> int) list option" where
  "Timestamps_Log ts =
     (case st_invite ts of
        None \<Rightarrow> None
      | Some _ \<Rightarrow>
          Some (time_field ''apiToInviteMs'' (st_api ts) (st_invite ts) @ time_field ''inviteToTryingMs'' (st_invite ts) (st_trying ts)
            @ time_field ''inviteToRingingMs'' (st_invite ts) (st_ringing ts) @ time_field ''inviteToAcceptMs'' (st_invite ts) (st_accept ts)
            @ time_field ''acceptToAckMs'' (st_accept ts) (st_ack ts) @ time_field ''apiToAckMs'' (st_api ts) (st_ack ts)))"

section \<open>Lemmas\<close>

lemma count_units_total: "pc_total (fold count_unit ns c) = pc_total c + of_nat (sum_list ns)"
  by (induction ns arbitrary: c) (simp_all add: count_unit_def algebra_simps)

lemma port_writes: "fold port_write_in ns s = s\<lparr>pt_in := fold count_unit ns (pt_in s)\<rparr>" "fold port_write_out ns s = s\<lparr>pt_out := fold count_unit ns (pt_out s)\<rparr>"
  by (induction ns arbitrary: s) (simp_all add: port_write_in_def port_write_out_def)

lemma room_writes: "fold room_write ns s = s\<lparr>rt_published := fold count_unit ns (rt_published s)\<rparr>"
  by (induction ns arbitrary: s) (simp_all add: room_write_def)

lemma unsigned_of_nat_small: "n < 2 ^ 64 \<Longrightarrow> (unsigned (word_of_nat n :: u64) :: 'f::semiring_1) = of_nat n"
proof -
  assume "n < 2 ^ 64"
  then have "unat (word_of_nat n :: u64) = n" by (simp add: unat_of_nat)
  moreover have "of_nat (unat (word_of_nat n :: u64)) = (unsigned (word_of_nat n :: u64) :: 'f)" by (rule of_nat_unat)
  ultimately show ?thesis by simp
qed

lemma seconds_pos: "0 < d \<longleftrightarrow> (0 :: 'f::linordered_field) < seconds d"
  by (simp add: seconds_def)

section \<open>Properties\<close>

text \<open>
  The rates are exact.  Between two updates at different times, the rates reported are the samples received and sent between
  them divided by the time in seconds, even if the 64-bit counters wrap around in between; likewise for the
  samples published to the room.
\<close>

theorem sample_rates_exact:
  fixes p :: "'f::linordered_field port_stats" and r :: "'f room_stats"
  assumes "t < t'" and "sum_list ins < 2 ^ 64" and "sum_list outs < 2 ^ 64"
  shows "pt_rx (PortStats_Update t' (fold port_write_out outs (fold port_write_in ins (PortStats_Update t p)))) = of_nat (sum_list ins) / seconds (t' - t)
    \<and> pt_tx (PortStats_Update t' (fold port_write_out outs (fold port_write_in ins (PortStats_Update t p)))) = of_nat (sum_list outs) / seconds (t' - t)
    \<and> rt_publish_tx (RoomStats_Update t' (fold room_write ins (RoomStats_Update t r))) = of_nat (sum_list ins) / seconds (t' - t)"
proof -
  have "(0 :: 'f) < seconds (t' - t)" using assms(1) seconds_pos [of "t' - t", where 'f = 'f] by simp
  then show ?thesis
    using assms(2,3)
    by (simp add: PortStats_Update_def RoomStats_Update_def port_writes room_writes count_units_total sample_rate_def unsigned_of_nat_small Let_def)
qed

definition no_rtp :: rtp_counting where
  "no_rtp = \<lparr>rc_packets = 0, rc_bytes = 0, rc_resets = 0, rc_gaps = 0, rc_gaps_sum = 0, rc_late = 0, rc_late_sum = 0, rc_delayed = 0,
     rc_delayed_sum = 0, rc_rapid = 0\<rparr>"

definition new_room_stats :: "'f::linordered_field room_stats" where
  "new_room_stats = \<lparr>rt_published = \<lparr>pc_units = 0, pc_total = 0\<rparr>, rt_publish_tx = 0, rt_rtp = no_rtp, rt_data = 0, rt_subscribes = 0, rt_resumes = 0,
     rt_reconnects = 0, rt_recovering = False, rt_jitter_lost = 0, rt_jitter_dropped = 0, rt_latency = \<lparr>la_count = 0, la_sum = 0, la_max = 0\<rparr>,
     rt_closed = False, rt_last_time = None, rt_last_published = 0\<rparr>"

theorem sample_rates_exact_witness:
  "rt_publish_tx (RoomStats_Update (2 * second) (fold room_write [24000, 24000] (RoomStats_Update second (new_room_stats :: rat room_stats)))) = 48000"
  using sample_rates_exact [of second "2 * second" "[24000, 24000]" "[]" undefined "new_room_stats :: rat room_stats"]
  by (simp add: seconds_def)

text \<open>
  The first rate of a room is not one: before the first update the code takes the time since year one, cut to the largest duration, where
  a port takes no time at all and reports no rate.
\<close>

lemma room_first_rate_spurious:
  assumes "rt_last_time s = None" and "rt_last_published s = 0"
  shows "rt_publish_tx (RoomStats_Update t s) = of_nat (unat (pc_total (rt_published s))) / seconds maxDuration"
proof -
  have "(0 :: 'a) < seconds maxDuration" using seconds_pos [of maxDuration, where 'f = 'a] by (simp add: maxDuration_def)
  then show ?thesis using assms by (simp add: RoomStats_Update_def sample_rate_def Let_def)
qed

lemma port_first_rate_none: "pt_last_time s = None \<Longrightarrow> pt_rx (PortStats_Update t s) = pt_rx s"
  by (simp add: PortStats_Update_def seconds_def)

end
