(* ===== verification/MediaPipeline.thy ===== *)
theory MediaPipeline
  imports MediaStreamProps MediaStats
begin

text \<open>
  The chains of handlers a media port builds (\<open>setupInput\<close>, \<open>setupOutput\<close>, \<open>rtpLoop\<close>, \<open>WriteDTMF\<close> of \<open>pkg/sip/media_pipeline.go\<close>), composed
  of the parts of \<open>MediaStream\<close> and \<open>MediaStats\<close>.  A packet comes with what the media library makes of it: the result of decoding its
  payload and of writing the samples, the digit it encodes, the packets the jitter buffer releases for it.  The signal logger in both chains hands on every
  frame (\<open>SignalMonitor\<close>) and is left out here, as is the mixer of the media library for audible digits.
\<close>

section \<open>Input\<close>

record in_packet =
  ip_hdr :: rtp_header
  ip_len :: nat
  ip_digit :: "u8 option"
  ip_decoded :: "go_error + nat"
  ip_sink :: "nat \<Rightarrow> go_error option"
  ip_now :: int

record in_conf =
  ic_fps :: int
  ic_mon :: "call_monitor option"
  ic_audio_pt :: u8
  ic_dtmf_pt :: u8
  ic_audio_name :: string
  ic_dtmf_name :: string

record in_state =
  is_entry :: int
  is_stream :: stream_stats
  is_metrics :: metrics
  is_audio :: pair_count
  is_dtmf :: pair_count
  is_filler :: silence_filler
  is_digits :: dtmf_state
  is_frames :: "pcm_frame list"
  is_written :: pair_count
  is_latency :: latency_stats

text \<open>
  The samples the decoder and the filler write for one packet, frame by frame: a silent frame always, the packet's own only if it could be
  decoded.  The error of the packet is that of decoding it, or else of writing it.
\<close>

definition frame_sizes :: "in_packet \<Rightarrow> pcm_frame list \<Rightarrow> nat list" where
  "frame_sizes p fs =
     concat (map (\<lambda>f. case f of Silence n \<Rightarrow> [nat n] | Encoded _ \<Rightarrow> (case ip_decoded p of Inl _ \<Rightarrow> [] | Inr n \<Rightarrow> [n])) fs)"

definition packet_error :: "in_packet \<Rightarrow> go_error option" where
  "packet_error p = (case ip_decoded p of Inl e \<Rightarrow> Some e | Inr _ \<Rightarrow> ip_sink p 0)"

text \<open>\<open>audioWriter\<close>: count the frame, write it, record its latency.\<close>

definition write_frame :: "int \<Rightarrow> nat \<Rightarrow> in_state \<Rightarrow> in_state" where
  "write_frame now n s = s\<lparr>is_written := count_unit n (is_written s), is_latency := latency_exit (is_entry s) now (is_latency s)\<rparr>"

definition handle_audio :: "in_conf \<Rightarrow> in_packet \<Rightarrow> in_state \<Rightarrow> (go_error option \<times> in_state) option" where
  "handle_audio C p s0 =
     (let s = s0\<lparr>is_audio := count_unit (ip_len p) (is_audio s0),
                 is_metrics := statsHandler_HandleRTP (ic_mon C) (ic_audio_name C) (ip_hdr p) (is_metrics s0)\<rparr> in
      case filler_HandleRTP (\<lambda>i. ip_sink p (i + 1)) (packet_error p) (ip_hdr p) (is_filler s) of
        None \<Rightarrow> None
      | Some ((fs, e), f) \<Rightarrow>
          Some (e, fold (write_frame (ip_now p)) (frame_sizes p fs) (s\<lparr>is_filler := f, is_frames := is_frames s @ fs\<rparr>)))"

definition handle_digit :: "in_conf \<Rightarrow> in_packet \<Rightarrow> in_state \<Rightarrow> in_state" where
  "handle_digit C p s =
     s\<lparr>is_dtmf := count_unit (ip_len p) (is_dtmf s),
       is_metrics := statsHandler_HandleRTP (ic_mon C) (ic_dtmf_name C) (ip_hdr p) (is_metrics s),
       is_digits := dtmfHandler (rh_ts (ip_hdr p), ip_digit p) (is_digits s)\<rparr>"

text \<open>
  The multiplexer behind the stream statistics: the handler registered for the payload type (digits only if they were negotiated, and
  registered last), or the default one.
\<close>

definition mux_HandleRTP :: "in_conf \<Rightarrow> in_packet \<Rightarrow> in_state \<Rightarrow> (go_error option \<times> in_state) option" where
  "mux_HandleRTP C p s0 =
     (let s = s0\<lparr>is_stream := stats_HandleRTP (ic_fps C) (ip_now p div 1000000) (ip_hdr p, ip_len p) (is_stream s0)\<rparr>; pt = rh_pt (ip_hdr p) in
      if ic_dtmf_pt C \<noteq> 0 \<and> pt = ic_dtmf_pt C then Some (None, handle_digit C p s)
      else if pt = ic_audio_pt C then handle_audio C p s
      else Some (None, s\<lparr>is_metrics := statsHandler_HandleRTP (ic_mon C) [] (ip_hdr p) (is_metrics s)\<rparr>))"

text \<open>
  The whole handler for an arriving packet: it stores the time of entry, then the jitter buffer, if there is one, hands on what it releases;
  without one the packet itself.  The first error is returned, the others are dropped.
\<close>

fun handle_released :: "in_conf \<Rightarrow> in_packet list \<Rightarrow> in_state \<Rightarrow> (go_error option \<times> in_state) option" where
  "handle_released C [] s = Some (None, s)"
| "handle_released C (p # ps) s =
     (case mux_HandleRTP C p s of
        None \<Rightarrow> None
      | Some (e, s1) \<Rightarrow> (case handle_released C ps s1 of None \<Rightarrow> None | Some (e', s2) \<Rightarrow> Some (if e = None then e' else e, s2)))"

definition input_HandleRTP :: "('j \<Rightarrow> in_packet \<Rightarrow> in_packet list \<times> 'j) option \<Rightarrow> in_conf \<Rightarrow> in_packet \<Rightarrow> 'j \<times> in_state \<Rightarrow> (go_error option \<times> 'j \<times> in_state) option" where
  "input_HandleRTP jitter C p js =
     (case js of (j, s0) \<Rightarrow>
        let s = s0\<lparr>is_entry := ip_now p\<rparr>; (ps, j') = (case jitter of None \<Rightarrow> ([p], j) | Some f \<Rightarrow> f j p)
        in case handle_released C ps s of None \<Rightarrow> None | Some (e, s') \<Rightarrow> Some (e, j', s'))"

text \<open>A sequence of packets through the chain.\<close>

fun input_run :: "in_conf \<Rightarrow> in_packet list \<Rightarrow> in_state \<Rightarrow> in_state option" where
  "input_run C [] s = Some s"
| "input_run C (p # ps) s =
     (case input_HandleRTP None C p ((), s) of None \<Rightarrow> None | Some (_, _, s') \<Rightarrow> input_run C ps s')"

section \<open>Output\<close>

record out_state =
  os_entry :: int
  os_written :: pair_count
  os_metrics :: metrics
  os_latency :: latency_stats
  os_sent :: "(rtp_header \<times> nat) list"

text \<open>
  One frame of samples to the peer: store the time of entry, count it, encode it, and send each packet the encoder makes; a packet is counted before it is
  sent, its latency recorded after.  \<open>on\<close> is the switch of the port.
\<close>

definition send_packet :: "in_conf \<Rightarrow> int \<Rightarrow> rtp_header \<times> nat \<Rightarrow> out_state \<Rightarrow> out_state" where
  "send_packet C now pkt s =
     s\<lparr>os_metrics := statsWriter_WriteRTP (ic_mon C) (ic_audio_pt C) (ic_dtmf_pt C) (ic_audio_name C) (ic_dtmf_name C) (fst pkt) (os_metrics s),
       os_sent := os_sent s @ [pkt], os_latency := latency_exit (os_entry s) now (os_latency s)\<rparr>"

definition output_WriteSample :: "in_conf \<Rightarrow> bool \<Rightarrow> int \<Rightarrow> nat \<Rightarrow> (rtp_header \<times> nat) list \<Rightarrow> out_state \<Rightarrow> out_state" where
  "output_WriteSample C on now n encoded s =
     (if \<not> on then s
      else fold (send_packet C now) encoded (s\<lparr>os_entry := now, os_written := count_unit n (os_written s)\<rparr>))"

text \<open>\<open>rtpLoop\<close>: each stream accepted counts and marks the media as received, until the session ends.\<close>

fun rtpLoop :: "bool list \<Rightarrow> u64 \<times> bool \<Rightarrow> u64 \<times> bool" where
  "rtpLoop [] s = s"
| "rtpLoop (accepted # as) (n, received) = (if \<not> accepted then (n, received) else rtpLoop as (n + 1, True))"

text \<open>\<open>WriteDTMF\<close>: what the digit library is given, an audio writer, an RTP stream and its timestamp; \<open>None\<close> if nothing is sent.\<close>

definition WriteDTMF :: "string \<Rightarrow> bool \<Rightarrow> bool \<Rightarrow> bool \<Rightarrow> u32 option \<Rightarrow> (bool \<times> bool \<times> u32) option" where
  "WriteDTMF digits audioEnabled hasAudio hasRTP ts =
     (if digits = [] then None
      else let audio = (audioEnabled \<and> hasAudio) in
        if \<not> hasRTP \<and> \<not> audio then None else Some (audio, hasRTP, case ts of None \<Rightarrow> 0 | Some t \<Rightarrow> t))"

section \<open>Lemmas\<close>

definition is_digit_packet :: "in_conf \<Rightarrow> in_packet \<Rightarrow> bool" where
  "is_digit_packet C p \<longleftrightarrow> ic_dtmf_pt C \<noteq> 0 \<and> rh_pt (ip_hdr p) = ic_dtmf_pt C"

definition is_audio_packet :: "in_conf \<Rightarrow> in_packet \<Rightarrow> bool" where
  "is_audio_packet C p \<longleftrightarrow> \<not> is_digit_packet C p \<and> rh_pt (ip_hdr p) = ic_audio_pt C"

lemma write_frames_sel:
  "is_written (fold (write_frame now) ns s) = fold count_unit ns (is_written s)"
  "is_stream (fold (write_frame now) ns s) = is_stream s" "is_digits (fold (write_frame now) ns s) = is_digits s"
  "is_filler (fold (write_frame now) ns s) = is_filler s" "is_frames (fold (write_frame now) ns s) = is_frames s"
  "is_audio (fold (write_frame now) ns s) = is_audio s" "is_dtmf (fold (write_frame now) ns s) = is_dtmf s"
  by (induction ns arbitrary: s) (simp_all add: write_frame_def)

lemma input_run_cons:
  "input_run C (p # ps) s = (case mux_HandleRTP C p (s\<lparr>is_entry := ip_now p\<rparr>) of None \<Rightarrow> None | Some (_, s') \<Rightarrow> input_run C ps s')"
  by (simp add: input_HandleRTP_def Let_def split: option.split prod.split)

text \<open>The packets one arrives at: their headers, sizes and digits, by kind.\<close>

lemma mux_audio:
  assumes "is_audio_packet C p" and "filler_HandleRTP (\<lambda>i. ip_sink p (i + 1)) (packet_error p) (ip_hdr p) (is_filler s) = Some ((fs, e), f)"
  shows "\<exists>s'. mux_HandleRTP C p s = Some (e, s') \<and> is_filler s' = f \<and> is_frames s' = is_frames s @ fs \<and> is_digits s' = is_digits s
    \<and> is_audio s' = count_unit (ip_len p) (is_audio s) \<and> is_dtmf s' = is_dtmf s \<and> is_written s' = fold count_unit (frame_sizes p fs) (is_written s)"
  using assms
  by (auto simp: mux_HandleRTP_def handle_audio_def is_audio_packet_def is_digit_packet_def Let_def write_frames_sel)

lemma mux_other:
  assumes "\<not> is_audio_packet C p"
  shows "\<exists>s'. mux_HandleRTP C p s = Some (None, s') \<and> is_filler s' = is_filler s \<and> is_frames s' = is_frames s \<and> is_audio s' = is_audio s
    \<and> is_written s' = is_written s
    \<and> is_digits s' = (if is_digit_packet C p then dtmfHandler (rh_ts (ip_hdr p), ip_digit p) (is_digits s) else is_digits s)
    \<and> is_dtmf s' = (if is_digit_packet C p then count_unit (ip_len p) (is_dtmf s) else is_dtmf s)"
  using assms
  by (auto simp: mux_HandleRTP_def handle_digit_def is_audio_packet_def is_digit_packet_def Let_def)

text \<open>A packet the decoder and the sink take.\<close>

definition accepted_packet :: "in_packet \<Rightarrow> bool" where
  "accepted_packet p \<longleftrightarrow> (\<exists>n. ip_decoded p = Inr n) \<and> (\<forall>i. ip_sink p i = None)"

lemma accepted_error: "accepted_packet p \<Longrightarrow> packet_error p = None \<and> ip_sink p = (\<lambda>_. None)"
  by (auto simp: accepted_packet_def packet_error_def)

text \<open>The chain runs the filler on the audio packets and the digit handler on the digit packets, whatever lies between.\<close>

lemma input_run_splits:
  assumes "list_all accepted_packet (filter (is_audio_packet C) ps)"
    and "filler_run (map ip_hdr (filter (is_audio_packet C) ps)) (is_filler s) = Some (fs, f)"
  shows "\<exists>s'. input_run C ps s = Some s' \<and> is_filler s' = f \<and> is_frames s' = is_frames s @ fs
    \<and> is_digits s' = fold dtmfHandler (map (\<lambda>p. (rh_ts (ip_hdr p), ip_digit p)) (filter (is_digit_packet C) ps)) (is_digits s)
    \<and> is_audio s' = fold count_unit (map ip_len (filter (is_audio_packet C) ps)) (is_audio s)
    \<and> is_dtmf s' = fold count_unit (map ip_len (filter (is_digit_packet C) ps)) (is_dtmf s)"
  using assms
proof (induction ps arbitrary: s fs)
  case (Cons p ps)
  let ?s = "s\<lparr>is_entry := ip_now p\<rparr>"
  show ?case
  proof (cases "is_audio_packet C p")
    case True
    then have nd: "\<not> is_digit_packet C p" by (simp add: is_audio_packet_def)
    have acc: "accepted_packet p" "list_all accepted_packet (filter (is_audio_packet C) ps)" using Cons.prems(1) True by simp_all
    obtain gs f1 e hs where g: "filler_HandleRTP (\<lambda>_. None) None (ip_hdr p) (is_filler s) = Some ((gs, e), f1)"
      and r: "filler_run (map ip_hdr (filter (is_audio_packet C) ps)) f1 = Some (hs, f)" and fs: "fs = gs @ hs"
      using Cons.prems(2) True by (auto split: option.splits prod.splits)
    obtain s1 where s1: "mux_HandleRTP C p ?s = Some (e, s1)" "is_filler s1 = f1" "is_frames s1 = is_frames s @ gs" "is_digits s1 = is_digits s"
        "is_audio s1 = count_unit (ip_len p) (is_audio s)" "is_dtmf s1 = is_dtmf s"
      using mux_audio [of C p ?s gs e f1] True g accepted_error [OF acc(1)] by auto
    then show ?thesis using Cons.IH [OF acc(2), of s1 hs] r True nd fs by (auto simp: input_run_cons simp del: input_run.simps(2))
  next
    case False
    obtain s1 where s1: "mux_HandleRTP C p ?s = Some (None, s1)" "is_filler s1 = is_filler s" "is_frames s1 = is_frames s" "is_audio s1 = is_audio s"
        "is_digits s1 = (if is_digit_packet C p then dtmfHandler (rh_ts (ip_hdr p), ip_digit p) (is_digits s) else is_digits s)"
        "is_dtmf s1 = (if is_digit_packet C p then count_unit (ip_len p) (is_dtmf s) else is_dtmf s)"
      using mux_other [OF False, of ?s] by auto
    then show ?thesis using Cons.IH [of s1 fs] Cons.prems False by (auto simp: input_run_cons simp del: input_run.simps(2))
  qed
qed simp

section \<open>Properties\<close>


definition sample_packet :: "rtp_header \<Rightarrow> u8 option \<Rightarrow> in_packet" where
  "sample_packet h d = \<lparr>ip_hdr = h, ip_len = 160, ip_digit = d, ip_decoded = Inr 320, ip_sink = (\<lambda>_. None), ip_now = 1\<rparr>"

definition sample_in_conf :: in_conf where
  "sample_in_conf = \<lparr>ic_fps = 50, ic_mon = None, ic_audio_pt = 0, ic_dtmf_pt = 101, ic_audio_name = ''PCMU/8000'', ic_dtmf_name = ''telephone-event/8000''\<rparr>"

definition new_in_state :: in_state where
  "new_in_state = \<lparr>is_entry = 0, is_stream = \<lparr>ss_packets = 0, ss_last_seq = 0, ss_last_packet = 0, ss_stats = no_rtp\<rparr>, is_metrics = (\<lambda>_. 0),
     is_audio = \<lparr>pc_units = 0, pc_total = 0\<rparr>, is_dtmf = \<lparr>pc_units = 0, pc_total = 0\<rparr>, is_filler = newSilenceFiller 50 8000 16000 [],
     is_digits = dtmf_initial, is_frames = [], is_written = \<lparr>pc_units = 0, pc_total = 0\<rparr>, is_latency = \<lparr>la_count = 0, la_sum = 0, la_max = 0\<rparr>\<rparr>"


text \<open>
  A port whose output is switched off sends nothing and counts nothing; switched on, every packet of the encoder is sent once, in order, and counted.
\<close>

lemma output_switch:
  "os_sent (output_WriteSample C on now n encoded s) = os_sent s @ (if on then encoded else [])"
  "os_written (output_WriteSample C on now n encoded s) = (if on then count_unit n (os_written s) else os_written s)"
proof -
  have "os_sent (fold (send_packet C now) es t) = os_sent t @ es \<and> os_written (fold (send_packet C now) es t) = os_written t" for es t
    by (induction es arbitrary: t) (simp_all add: send_packet_def)
  then show "os_sent (output_WriteSample C on now n encoded s) = os_sent s @ (if on then encoded else [])"
    "os_written (output_WriteSample C on now n encoded s) = (if on then count_unit n (os_written s) else os_written s)"
    by (simp_all add: output_WriteSample_def)
qed

end
