(* ===== verification/PortDrain.thy ===== *)
theory PortDrain
  imports SipPrelude
begin

text \<open>
  What happens to a media socket outside a call: \<open>DrainPort\<close> (\<open>pkg/sip/draining_port.go\<close>) keeps the socket of an ended
  call bound until the peer has stopped sending, and \<open>discardLoop\<close> (\<open>pkg/sip/media_port.go\<close>) throws away what arrives
  before a call is answered.  The passes of a loop are its inputs: when each starts, how its read ends and when.
\<close>

section \<open>DrainPort\<close>

datatype drain_read = GotPacket | DeadlineExceeded | ReadFailed

record drain_pass =
  pa_start :: nanos
  pa_read :: drain_read
  pa_end :: nanos

datatype drain_reason = NothingToDrain | MaxDuration | IdleTimeout | DrainError

record drain_report =
  rp_reason :: drain_reason
  rp_packets :: u64
  rp_now :: nanos

definition read_deadline :: "nanos \<Rightarrow> nanos option \<Rightarrow> nanos \<Rightarrow> nanos" where
  "read_deadline idle maxDeadline now =
     (case maxDeadline of Some m \<Rightarrow> if m < now + idle then m else now + idle | None \<Rightarrow> now + idle)"

text \<open>\<open>None\<close>: the loop is still reading after these passes.\<close>

fun drain_loop :: "nanos \<Rightarrow> nanos option \<Rightarrow> drain_pass list \<Rightarrow> u64 \<Rightarrow> drain_report option" where
  "drain_loop idle maxDeadline [] packets = None"
| "drain_loop idle maxDeadline (x # xs) packets =
     (let deadline = read_deadline idle maxDeadline (pa_start x) in
      case pa_read x of
        GotPacket \<Rightarrow> drain_loop idle maxDeadline xs (packets + 1)
      | ReadFailed \<Rightarrow> Some \<lparr>rp_reason = DrainError, rp_packets = packets, rp_now = pa_end x\<rparr>
      | DeadlineExceeded \<Rightarrow>
          if (case maxDeadline of Some m \<Rightarrow> pa_end x > m | None \<Rightarrow> False)
          then Some \<lparr>rp_reason = MaxDuration, rp_packets = packets, rp_now = pa_end x\<rparr>
          else if pa_end x > deadline then Some \<lparr>rp_reason = IdleTimeout, rp_packets = packets, rp_now = pa_end x\<rparr>
          else drain_loop idle maxDeadline xs packets)"

text \<open>The deferred \<open>conn.Close\<close> runs on every return, so a report means that the port is free again.\<close>

definition DrainPort :: "nanos \<Rightarrow> nanos \<Rightarrow> nanos \<Rightarrow> drain_pass list \<Rightarrow> drain_report option" where
  "DrainPort now idleTimeout maxDuration xs =
     (if idleTimeout \<le> 0 \<and> maxDuration \<le> 0 then Some \<lparr>rp_reason = NothingToDrain, rp_packets = 0, rp_now = now\<rparr>
      else
        drain_loop (if idleTimeout \<le> 0 then maxDuration + second else idleTimeout)
          (if maxDuration > 0 then Some (now + maxDuration) else None) xs 0)"

section \<open>discardLoop\<close>

text \<open>The deadline of a pass cannot be set on a closed socket; \<open>ds_stop\<close> is the flag as the pass finds it.\<close>

datatype discard_read = DiscardPacket | DiscardDeadline | DiscardClosed | DiscardError

record discard_pass =
  ds_stop :: bool
  ds_set_failed :: bool
  ds_read :: discard_read

fun discardLoop :: "discard_pass list \<Rightarrow> u64 \<Rightarrow> u64 option" where
  "discardLoop [] discarded = None"
| "discardLoop (x # xs) discarded =
     (if ds_stop x \<or> ds_set_failed x then Some discarded
      else case ds_read x of
        DiscardPacket \<Rightarrow> discardLoop xs (discarded + 1)
      | DiscardDeadline \<Rightarrow> discardLoop xs discarded
      | _ \<Rightarrow> Some discarded)"

section \<open>Lemmas\<close>

text \<open>
  What \<open>net.Conn\<close> documents of a read with a deadline: it does not return a packet when it is begun after the
  deadline, and time does not run backwards from pass to pass.
\<close>

fun reads_ok :: "nanos \<Rightarrow> nanos option \<Rightarrow> nanos \<Rightarrow> drain_pass list \<Rightarrow> bool" where
  "reads_ok idle maxDeadline t [] = True"
| "reads_ok idle maxDeadline t (x # xs) \<longleftrightarrow>
     t \<le> pa_start x \<and> pa_start x \<le> pa_end x
     \<and> (pa_read x = GotPacket \<longrightarrow> pa_start x \<le> read_deadline idle maxDeadline (pa_start x))
     \<and> reads_ok idle maxDeadline (pa_end x) xs"

lemma read_deadline_le: "read_deadline idle (Some m) t \<le> m"
  by (simp add: read_deadline_def)

text \<open>Every pass of a loop that goes on was begun before the limit.\<close>

lemma drain_loop_bounded:
  "drain_loop idle (Some m) xs n = None \<Longrightarrow> reads_ok idle (Some m) t xs \<Longrightarrow> \<forall>x \<in> set xs. pa_start x \<le> m"
proof (induction xs arbitrary: n t)
  case (Cons x xs)
  have "pa_start x \<le> m"
  proof (cases "pa_read x")
    case GotPacket
    then show ?thesis using Cons.prems(2) read_deadline_le [of idle m "pa_start x"] by simp
  qed (use Cons.prems in \<open>auto simp: Let_def split: if_splits\<close>)
  moreover have "\<forall>x \<in> set xs. pa_start x \<le> m"
    using Cons by (auto simp: Let_def split: drain_read.splits if_splits)
  ultimately show ?case by simp
qed simp

text \<open>The pass a loop returns from.\<close>

lemma drain_loop_returns:
  "drain_loop idle maxDeadline xs n = Some r \<Longrightarrow>
   \<exists>us x vs. xs = us @ x # vs \<and> rp_now r = pa_end x \<and> drain_loop idle maxDeadline us n = None
     \<and> rp_packets r = n + of_nat (length (filter (\<lambda>y. pa_read y = GotPacket) us)) \<and> pa_read x \<noteq> GotPacket
     \<and> (pa_read x = ReadFailed \<longleftrightarrow> rp_reason r = DrainError)
     \<and> (rp_reason r = MaxDuration \<longrightarrow> (\<exists>m. maxDeadline = Some m \<and> m < pa_end x))
     \<and> (rp_reason r = IdleTimeout \<longrightarrow> read_deadline idle maxDeadline (pa_start x) < pa_end x
         \<and> (\<forall>m. maxDeadline = Some m \<longrightarrow> pa_end x \<le> m))
     \<and> rp_reason r \<noteq> NothingToDrain"
proof (induction xs arbitrary: n)
  case (Cons x xs)
  let ?P = "\<lambda>n us x vs xs. xs = us @ x # vs \<and> rp_now r = pa_end x \<and> drain_loop idle maxDeadline us n = None
     \<and> rp_packets r = n + of_nat (length (filter (\<lambda>y. pa_read y = GotPacket) us)) \<and> pa_read x \<noteq> GotPacket
     \<and> (pa_read x = ReadFailed \<longleftrightarrow> rp_reason r = DrainError)
     \<and> (rp_reason r = MaxDuration \<longrightarrow> (\<exists>m. maxDeadline = Some m \<and> m < pa_end x))
     \<and> (rp_reason r = IdleTimeout \<longrightarrow> read_deadline idle maxDeadline (pa_start x) < pa_end x
         \<and> (\<forall>m. maxDeadline = Some m \<longrightarrow> pa_end x \<le> m))
     \<and> rp_reason r \<noteq> NothingToDrain"
  show ?case
  proof (cases "drain_loop idle maxDeadline [x] n")
    case (Some r')
    then have "r' = r" using Cons.prems by (auto simp: Let_def split: drain_read.splits if_splits)
    then have "?P n [] x xs (x # xs)"
      using Some by (auto simp: Let_def split: drain_read.splits if_splits option.splits)
    then show ?thesis by blast
  next
    case None
    define n' where "n' = (if pa_read x = GotPacket then n + 1 else n)"
    have "drain_loop idle maxDeadline xs n' = Some r" and go: "drain_loop idle maxDeadline (x # us) n = drain_loop idle maxDeadline us n'" for us
      using None Cons.prems by (auto simp: n'_def Let_def split: drain_read.splits if_splits)
    then obtain us y vs where "?P n' us y vs xs" using Cons.IH [of n'] by blast
    then have "?P n (x # us) y vs (x # xs)" using go [of us] by (auto simp: n'_def)
    then show ?thesis by blast
  qed
qed simp

section \<open>Properties\<close>

text \<open>
  C37: A drained port is released in time.  With a maximum duration set, whatever the peer sends, the drain is still reading only
  while no read was begun later than that duration after the start: the first read begun later ends the drain
  and closes the port.
\<close>

theorem drain_released_in_time:
  assumes "0 < maxDuration" and "DrainPort now idleTimeout maxDuration xs = None"
    and "reads_ok (if idleTimeout \<le> 0 then maxDuration + second else idleTimeout) (Some (now + maxDuration)) now xs"
  shows "\<forall>x \<in> set xs. pa_start x \<le> now + maxDuration"
  using assms drain_loop_bounded [of _ "now + maxDuration" xs 0 now] by (auto simp: DrainPort_def)

theorem drain_released_in_time_witness:
  "DrainPort 0 3 5 [\<lparr>pa_start = 1, pa_read = GotPacket, pa_end = 2\<rparr>] = None
   \<and> pa_start \<lparr>pa_start = 1, pa_read = GotPacket, pa_end = 2\<rparr> \<le> 0 + 5"
  using drain_released_in_time [of 5 0 3 "[\<lparr>pa_start = 1, pa_read = GotPacket, pa_end = 2\<rparr>]"]
  by (simp add: DrainPort_def read_deadline_def)

text \<open>
  Why a port is released.  The report gives the reason and counts the packets read before it: \<open>MaxDuration\<close> only after
  the maximum duration, \<open>IdleTimeout\<close> only if the last read waited for longer than the idle timeout without a packet and the
  maximum was not reached, an error only if the read failed for another reason than its deadline, and nothing else once a timeout is set.
\<close>

theorem drain_reason_exact:
  assumes "DrainPort now idleTimeout maxDuration xs = Some r" and "0 < idleTimeout"
  shows "\<exists>us x vs. xs = us @ x # vs \<and> rp_now r = pa_end x
    \<and> rp_packets r = of_nat (length (filter (\<lambda>y. pa_read y = GotPacket) us)) \<and> pa_read x \<noteq> GotPacket
    \<and> (case rp_reason r of
         NothingToDrain \<Rightarrow> False
       | MaxDuration \<Rightarrow> 0 < maxDuration \<and> now + maxDuration < pa_end x
       | IdleTimeout \<Rightarrow> pa_start x + idleTimeout < pa_end x \<and> (0 < maxDuration \<longrightarrow> pa_end x \<le> now + maxDuration)
       | DrainError \<Rightarrow> pa_read x = ReadFailed)"
proof -
  let ?m = "if maxDuration > 0 then Some (now + maxDuration) else None"
  have "drain_loop idleTimeout ?m xs 0 = Some r" using assms by (simp add: DrainPort_def)
  from drain_loop_returns [OF this] obtain us x vs where x: "xs = us @ x # vs" "rp_now r = pa_end x"
      "rp_packets r = 0 + of_nat (length (filter (\<lambda>y. pa_read y = GotPacket) us))" "pa_read x \<noteq> GotPacket"
      "pa_read x = ReadFailed \<longleftrightarrow> rp_reason r = DrainError"
      "rp_reason r = MaxDuration \<longrightarrow> (\<exists>m. ?m = Some m \<and> m < pa_end x)"
      "rp_reason r = IdleTimeout \<longrightarrow> read_deadline idleTimeout ?m (pa_start x) < pa_end x \<and> (\<forall>m. ?m = Some m \<longrightarrow> pa_end x \<le> m)"
      "rp_reason r \<noteq> NothingToDrain" by blast
  then show ?thesis
    by (intro exI [of _ us] exI [of _ x] exI [of _ vs]) (auto simp: read_deadline_def split: drain_reason.splits if_splits)
qed

definition sample_passes :: "drain_pass list" where
  "sample_passes = [\<lparr>pa_start = 0, pa_read = GotPacket, pa_end = 1\<rparr>, \<lparr>pa_start = 1, pa_read = DeadlineExceeded, pa_end = 5\<rparr>]"

theorem drain_reason_exact_witness:
  "\<exists>us x vs. sample_passes = us @ x # vs \<and> pa_start x + 3 < pa_end x"
proof -
  have "DrainPort 0 3 0 sample_passes = Some \<lparr>rp_reason = IdleTimeout, rp_packets = 1, rp_now = 5\<rparr>"
    by (simp add: sample_passes_def DrainPort_def read_deadline_def)
  from drain_reason_exact [OF this] show ?thesis by auto
qed

text \<open>The flag ends the discarding at the next pass, after a read that lasts at most a frame.\<close>

lemma discard_stops: "\<exists>n. discardLoop (us @ x # vs) d = Some n" if "ds_stop x"
  using that by (induction us arbitrary: d) (auto split: discard_read.splits)

end
