(* ===== verification/RtpConn.thy ===== *)
theory RtpConn
  imports SipPrelude
begin

text \<open>
  The RTP connection of the test client, \<open>Conn\<close> of \<open>pkg/media/rtpconn/conn.go\<close>: its read loop, writes to the peer it heard last, and the
  media timeout on a ticker.  Addresses and packets are type variables; \<open>unmarshal\<close> is the RTP parser and \<open>mtu\<close> the
  limit of the RTP library.  A \<open>panic\<close> of the loop (closing the channel \<open>received\<close> again) cannot happen before the packet counter
  wraps around.
\<close>

section \<open>State\<close>

record 'a rtp_conn =
  cn_open :: bool
  cn_closed :: bool
  cn_packets :: u64
  cn_received :: bool
  cn_dest :: "'a option"
  cn_handler :: bool
  cn_timeout_start :: "nanos option"
  cn_timeout :: nanos
  cn_initial :: nanos

definition NewConnWith :: "bool \<Rightarrow> nanos \<Rightarrow> nanos \<Rightarrow> nanos option \<Rightarrow> 'a rtp_conn" where
  "NewConnWith given initial timeout callback_at =
     \<lparr>cn_open = given, cn_closed = False, cn_packets = 0, cn_received = False, cn_dest = None, cn_handler = False,
      cn_timeout_start = callback_at, cn_timeout = (if timeout \<le> 0 then 15 * second else timeout),
      cn_initial = (if initial \<le> 0 then 30 * second else initial)\<rparr>"

definition SetDestAddr :: "'a option \<Rightarrow> 'a rtp_conn \<Rightarrow> 'a rtp_conn" where
  "SetDestAddr addr c = c\<lparr>cn_dest := addr\<rparr>"

definition OnRTP :: "bool \<Rightarrow> 'a rtp_conn \<Rightarrow> 'a rtp_conn" where
  "OnRTP h c = c\<lparr>cn_handler := h\<rparr>"

text \<open>
  Closing again does not close the socket again: the second component counts the calls of \<open>conn.Close\<close>.  \<open>None\<close> is the panic of the
  first close of a connection without a socket.
\<close>

definition conn_Close :: "'a rtp_conn \<times> nat \<Rightarrow> ('a rtp_conn \<times> nat) option" where
  "conn_Close s =
     (case s of (c, n) \<Rightarrow>
        let c1 = OnRTP False c in
        if cn_closed c1 then Some (c1, n)
        else if \<not> cn_open c1 then None
        else Some (c1\<lparr>cn_closed := True\<rparr>, n + 1))"

text \<open>A failed attempt leaves what the library returned beside the error: a nil pointer of its own type makes the field non-nil.\<close>

definition conn_Listen :: "('e \<times> bool + unit) \<Rightarrow> 'a rtp_conn \<Rightarrow> 'e option \<times> 'a rtp_conn" where
  "conn_Listen res c =
     (if cn_open c then (None, c)
      else case res of Inl (e, typed) \<Rightarrow> (Some e, c\<lparr>cn_open := typed\<rparr>) | Inr _ \<Rightarrow> (None, c\<lparr>cn_open := True\<rparr>))"

definition conn_EnableTimeout :: "nanos \<Rightarrow> bool \<Rightarrow> 'a rtp_conn \<Rightarrow> 'a rtp_conn" where
  "conn_EnableTimeout now enabled c = c\<lparr>cn_timeout_start := (if enabled then Some now else None)\<rparr>"

section \<open>Reading and writing\<close>

type_synonym 'a datagram = "u8 list \<times> 'a"

text \<open>One read: the packet handed to the handler, if any.\<close>

definition read_one :: "nat \<Rightarrow> (u8 list \<Rightarrow> 'p option) \<Rightarrow> 'a datagram \<Rightarrow> 'a rtp_conn \<Rightarrow> 'p option \<times> 'a rtp_conn" where
  "read_one mtu unmarshal d c0 =
     (let c = c0\<lparr>cn_dest := Some (snd d)\<rparr> in
      if length (fst d) > mtu then (None, c)
      else case unmarshal (fst d) of
        None \<Rightarrow> (None, c)
      | Some p \<Rightarrow>
          let c1 = c\<lparr>cn_packets := cn_packets c + 1\<rparr>;
              c2 = (if cn_packets c1 = 1 then c1\<lparr>cn_received := True\<rparr> else c1)
          in (if cn_handler c2 then Some p else None, c2))"

text \<open>The loop over the reads up to the first error (\<open>None\<close>), with the packets handled in order.\<close>

fun readLoop :: "nat \<Rightarrow> (u8 list \<Rightarrow> 'p option) \<Rightarrow> 'a datagram option list \<Rightarrow> 'a rtp_conn \<Rightarrow> 'p list \<times> 'a rtp_conn" where
  "readLoop mtu unmarshal [] c = ([], c)"
| "readLoop mtu unmarshal (None # ds) c = ([], c)"
| "readLoop mtu unmarshal (Some d # ds) c =
     (let (p, c1) = read_one mtu unmarshal d c; (ps, c2) = readLoop mtu unmarshal ds c1
      in ((case p of None \<Rightarrow> ps | Some q \<Rightarrow> q # ps), c2))"

text \<open>What is sent where: \<open>Inr None\<close> if no address is known.\<close>

definition conn_WriteRTP :: "('p \<Rightarrow> 'e + u8 list) \<Rightarrow> 'p \<Rightarrow> 'a rtp_conn \<Rightarrow> 'e + (u8 list \<times> 'a) option" where
  "conn_WriteRTP marshal p c =
     (case cn_dest c of None \<Rightarrow> Inr None | Some a \<Rightarrow> (case marshal p of Inl e \<Rightarrow> Inl e | Inr b \<Rightarrow> Inr (Some (b, a))))"

definition ReadRTP :: "(u8 list \<Rightarrow> 'p option) \<Rightarrow> 'a datagram option \<Rightarrow> ('p option \<times> 'a) option" where
  "ReadRTP unmarshal r = map_option (\<lambda>d. (unmarshal (fst d), snd d)) r"

section \<open>Timeout\<close>

text \<open>What a tick of the ticker finds: whether the connection was closed, the time, the packet counter, the time the timeout was enabled.\<close>

record conn_tick =
  ct_closed :: bool
  ct_now :: nanos
  ct_packets :: u64
  ct_start :: "nanos option"

text \<open>Whether the callback runs; \<open>None\<close>: the loop still waits.\<close>

fun onTimeout :: "nanos \<Rightarrow> conn_tick list \<Rightarrow> u64 \<Rightarrow> bool option" where
  "onTimeout initial [] lastPackets = None"
| "onTimeout initial (x # xs) lastPackets =
     (if ct_closed x then Some False
      else if ct_packets x \<noteq> lastPackets then onTimeout initial xs (ct_packets x)
      else case ct_start x of
        None \<Rightarrow> onTimeout initial xs lastPackets
      | Some st \<Rightarrow> if lastPackets = 0 \<and> ct_now x - st < initial then onTimeout initial xs lastPackets else Some True)"

section \<open>Lemmas\<close>

lemma read_one_dest: "cn_dest (snd (read_one mtu u d c)) = Some (snd d)" "cn_handler (snd (read_one mtu u d c)) = cn_handler c"
  by (simp_all add: read_one_def Let_def split: option.splits)

lemma read_one_packet:
  "fst (read_one mtu u d c) = (if cn_handler c \<and> length (fst d) \<le> mtu then u (fst d) else None)"
  by (simp add: read_one_def Let_def split: option.splits)

lemma readLoop_cons:
  "readLoop mtu u (Some d # ds) c =
     (let r = readLoop mtu u ds (snd (read_one mtu u d c))
      in ((case fst (read_one mtu u d c) of None \<Rightarrow> fst r | Some q \<Rightarrow> q # fst r), snd r))"
  by (simp add: Let_def case_prod_beta)

lemma onTimeout_fires:
  "onTimeout initial xs l = Some True \<Longrightarrow>
   \<exists>us x vs st. xs = us @ x # vs \<and> \<not> ct_closed x \<and> ct_start x = Some st \<and> list_all (\<lambda>y. \<not> ct_closed y) us
     \<and> ct_packets x = last (l # map ct_packets us) \<and> (ct_packets x = 0 \<longrightarrow> initial \<le> ct_now x - st)"
proof (induction initial xs l rule: onTimeout.induct)
  case (2 initial x xs l)
  let ?P = "\<lambda>l us x vs st xs. xs = us @ x # vs \<and> \<not> ct_closed x \<and> ct_start x = Some st \<and> list_all (\<lambda>y. \<not> ct_closed y) us
     \<and> ct_packets x = last (l # map ct_packets us) \<and> (ct_packets x = 0 \<longrightarrow> initial \<le> ct_now x - st)"
  have c: "\<not> ct_closed x" using "2.prems" by auto
  show ?case
  proof (cases "onTimeout initial [x] l = Some True")
    case True
    then obtain st where "?P l [] x xs st (x # xs)" by (auto split: if_splits option.splits)
    then show ?thesis by blast
  next
    case False
    then have "onTimeout initial xs (ct_packets x) = Some True \<and> (\<exists>us y vs st. ?P (ct_packets x) us y vs st xs)"
      using 2 c by (auto split: if_splits option.splits)
    then obtain us y vs st where "?P (ct_packets x) us y vs st xs" by blast
    then have "?P l (x # us) y vs st (x # xs)" using c by simp
    then show ?thesis by blast
  qed
qed simp

section \<open>Properties\<close>

text \<open>
  What the loop delivers: with a handler set, exactly the datagrams within the limit that parse as RTP, in the order they came, up
  to the first read error; and replies go to the address of the last datagram read, whether it was RTP or not.
\<close>

theorem rtp_loop_delivers:
  assumes "cn_handler c"
  shows "fst (readLoop mtu unmarshal (map Some ds @ None # rest) c) =
      map the (filter (\<lambda>p. p \<noteq> None) (map (\<lambda>d. if length (fst d) \<le> mtu then unmarshal (fst d) else None) ds))
    \<and> cn_dest (snd (readLoop mtu unmarshal (map Some ds @ None # rest) c)) = (if ds = [] then cn_dest c else Some (snd (last ds)))"
  using assms
proof (induction ds arbitrary: c)
  case (Cons d ds)
  let ?c = "snd (read_one mtu unmarshal d c)"
  have "cn_handler ?c" using Cons.prems by (simp add: read_one_dest)
  note IH = Cons.IH [OF this]
  show ?case
    using IH Cons.prems by (simp add: readLoop_cons read_one_packet read_one_dest Let_def del: readLoop.simps(3) split: option.splits)
qed simp

theorem rtp_loop_delivers_witness:
  "fst (readLoop 4 (\<lambda>b. if b = [] then None else Some (hd b)) (map Some [([7], 1), ([], 2), ([1, 2, 3, 4, 5], 3), ([9, 9], 4 :: nat)] @ None # [])
     (OnRTP True (NewConnWith True 0 0 None))) = [7, 9]"
  using rtp_loop_delivers [of "OnRTP True (NewConnWith True 0 0 None)" 4 "\<lambda>b. if b = [] then None else Some (hd b)"
      "[([7], 1), ([], 2), ([1, 2, 3, 4, 5], 3), ([9, 9], 4 :: nat)]" "[]"]
  by (simp add: OnRTP_def)

text \<open>
  The callback runs only for silence: the connection is open, the timeout is enabled, the packet counter has not moved since the tick before,
  and if nothing was received at all, the initial timeout has passed since the timeout was enabled.
\<close>

lemma rtp_timeout_sound:
  assumes "onTimeout initial xs 0 = Some True"
  shows "\<exists>us x vs st. xs = us @ x # vs \<and> \<not> ct_closed x \<and> ct_start x = Some st \<and> ct_packets x = last (0 # map ct_packets us)
    \<and> (ct_packets x = 0 \<longrightarrow> initial \<le> ct_now x - st)"
  using onTimeout_fires [OF assms] by blast

end
