(* ===== verification/TestClient.thy ===== *)
theory TestClient
  imports RtpConn SipMessage ReferProtocol ReasonHeader
begin

text \<open>
  The SIP client the tests of the bridge use, \<open>pkg/siptest/client.go\<close>: its construction, the INVITE with authentication, BYE and NOTIFY, and
  the incoming digits.  What the SIP and SDP libraries, the digest and the network do is an argument.  A call that does not return is
  \<open>Blocked\<close>; a nil pointer, a failed type assertion and an explicit \<open>panic\<close> are \<open>Panicked\<close>.
\<close>

datatype 'x go_run = Panicked | Blocked | Ret 'x

section \<open>The client\<close>

record client_conf =
  cc_ip :: "string option"
  cc_port :: u16
  cc_number :: string
  cc_user :: string
  cc_pass :: string
  cc_codec :: string

record codec_info =
  ki_sdp_name :: string
  ki_type :: u8
  ki_static :: bool
  ki_clock_rate :: int
  ki_sample_rate :: int

record client_req =
  cq_recipient :: sip_uri
  cq_call_id :: "string option"
  cq_dest :: string
  cq_body :: string
  cq_headers :: smap
  cq_routes :: "sip_uri list"
  cq_cseq :: "u32 option"

record client_resp =
  vp_status :: int
  vp_auth :: "string option"
  vp_to :: "sip_uri option"
  vp_contact :: "sip_uri option"
  vp_record_routes :: "sip_uri list"
  vp_body :: string

datatype client_res = Absent | Running | Shut

datatype wire = WInvite client_req | WAck client_req | WBye u32 | WByeAck | WNotify sip_request string

record 'a test_client =
  tc_id :: string
  tc_conf :: client_conf
  tc_codec :: codec_info
  tc_audio_type :: u8
  tc_ack :: bool
  tc_conn :: "'a rtp_conn"
  tc_conn_closes :: nat
  tc_sip_client :: client_res
  tc_sip_server :: client_res
  tc_listener :: client_res
  tc_invite :: "(client_req \<times> client_resp) option"
  tc_recorder :: bool
  tc_cseq :: u32
  tc_closed :: bool
  tc_out :: "wire list"

definition client_sends :: "wire \<Rightarrow> 'a test_client \<Rightarrow> 'a test_client" where
  "client_sends m c = c\<lparr>tc_out := tc_out c @ [m]\<rparr>"

section \<open>Ending a call\<close>

text \<open>The branch of the select in \<open>sendBye\<close> that is taken.\<close>

datatype bye_wait = ByeAck | ByeTxDone | ByeResp int

definition client_sendBye :: "go_error option \<Rightarrow> bye_wait \<Rightarrow> 'a test_client \<Rightarrow> 'a test_client" where
  "client_sendBye txErr ev c =
     (let c1 = c\<lparr>tc_cseq := tc_cseq c + 1\<rparr> in
      case txErr of
        Some _ \<Rightarrow> c1
      | None \<Rightarrow>
          let c2 = client_sends (WBye (tc_cseq c1)) c1 in
          (case ev of
             ByeAck \<Rightarrow> c2\<lparr>tc_ack := False\<rparr>
           | ByeTxDone \<Rightarrow> c2
           | ByeResp status \<Rightarrow> if status = 200 then client_sends WByeAck c2 else c2))"

definition shut_res :: "client_res \<Rightarrow> client_res" where
  "shut_res r = (if r = Absent then Absent else Shut)"

text \<open>\<open>None\<close> is the panic of the media connection.  The fuse is set before the body runs.\<close>

definition client_Close :: "go_error option \<Rightarrow> bye_wait \<Rightarrow> 'a test_client \<Rightarrow> 'a test_client option" where
  "client_Close txErr ev c =
     (if tc_closed c then Some c
      else let c0 = c\<lparr>tc_closed := True\<rparr> in
        case conn_Close (tc_conn c0, tc_conn_closes c0) of
          None \<Rightarrow> None
        | Some (cn, n) \<Rightarrow>
            let c1 = c0\<lparr>tc_conn := cn, tc_conn_closes := n\<rparr>;
                c2 = (if tc_invite c1 \<noteq> None then (client_sendBye txErr ev c1)\<lparr>tc_invite := None\<rparr> else c1)
            in Some (c2\<lparr>tc_sip_client := shut_res (tc_sip_client c2), tc_sip_server := shut_res (tc_sip_server c2),
                     tc_listener := shut_res (tc_listener c2)\<rparr>))"

section \<open>Construction\<close>

text \<open>What the libraries and the network answer to the steps of \<open>NewClient\<close>.\<close>

record client_steps =
  cs_local_ip :: "go_error + string"
  cs_codec :: "string \<Rightarrow> codec_info option"
  cs_mixer :: "go_error option"
  cs_listen :: "go_error \<times> bool + unit"
  cs_ua :: "go_error option"
  cs_client :: "go_error option"
  cs_server :: "go_error option"
  cs_tcp :: "go_error + u16"

text \<open>An error of a later step closes the client that has been made so far.\<close>

definition client_abort :: "go_error \<Rightarrow> 'a test_client \<Rightarrow> (go_error option \<times> 'a test_client option) go_run" where
  "client_abort e c = (case client_Close None ByeTxDone c of None \<Rightarrow> Panicked | Some c' \<Rightarrow> Ret (Some e, Some c'))"

definition client_sip :: "client_steps \<Rightarrow> 'a test_client \<Rightarrow> (go_error option \<times> 'a test_client option) go_run" where
  "client_sip S c =
     (case cs_ua S of Some e \<Rightarrow> client_abort e c
      | None \<Rightarrow>
     (case cs_client S of Some e \<Rightarrow> client_abort e c
      | None \<Rightarrow>
          let c1 = c\<lparr>tc_sip_client := Running\<rparr> in
     (case cs_server S of Some e \<Rightarrow> client_abort e c1
      | None \<Rightarrow>
          let c2 = c1\<lparr>tc_sip_server := Running\<rparr> in
     (case cs_tcp S of Inl e \<Rightarrow> client_abort e c2
      | Inr port \<Rightarrow> Ret (None, Some (c2\<lparr>tc_conf := (tc_conf c2)\<lparr>cc_port := port\<rparr>, tc_listener := Running\<rparr>))))))"

definition client_value :: "nanos \<Rightarrow> string \<Rightarrow> client_conf \<Rightarrow> codec_info \<Rightarrow> 'a test_client" where
  "client_value now cid conf ki =
     \<lparr>tc_id = cid, tc_conf = conf, tc_codec = ki, tc_audio_type = (if ki_static ki then ki_type ki else 102),
      tc_ack = False, tc_conn = conn_EnableTimeout now False (NewConnWith False 0 0 (Some now)), tc_conn_closes = 0,
      tc_sip_client = Absent, tc_sip_server = Absent, tc_listener = Absent, tc_invite = None, tc_recorder = False, tc_cseq = 0,
      tc_closed = False, tc_out = []\<rparr>"

definition client_media :: "client_steps \<Rightarrow> 'a test_client \<Rightarrow> (go_error option \<times> 'a test_client option) go_run" where
  "client_media S c =
     (case cs_mixer S of Some e \<Rightarrow> client_abort e c
      | None \<Rightarrow>
     (case conn_Listen (cs_listen S) (OnRTP True (tc_conn c)) of
        (Some e, cn) \<Rightarrow> client_abort e (c\<lparr>tc_conn := cn\<rparr>)
      | (None, cn) \<Rightarrow> client_sip S (c\<lparr>tc_conn := cn\<rparr>)))"

definition test_NewClient ::
  "string \<Rightarrow> nanos \<Rightarrow> client_steps \<Rightarrow> string \<Rightarrow> client_conf \<Rightarrow> (go_error option \<times> 'a test_client option) go_run" where
  "test_NewClient ulaw now S cid conf0 =
     (case (case cc_ip conf0 of Some _ \<Rightarrow> Inr conf0
            | None \<Rightarrow> (case cs_local_ip S of Inl e \<Rightarrow> Inl e | Inr ip \<Rightarrow> Inr (conf0\<lparr>cc_ip := Some ip\<rparr>))) of
        Inl e \<Rightarrow> Ret (Some e, None)
      | Inr conf1 \<Rightarrow>
          let conf = conf1\<lparr>cc_number := (if cc_number conf1 = [] then ''1000'' else cc_number conf1),
                cc_codec := (if cc_codec conf1 = [] then ulaw else cc_codec conf1)\<rparr> in
          (case cs_codec S (cc_codec conf) of
             None \<Rightarrow> Panicked
           | Some ki \<Rightarrow> client_media S (client_value now cid conf ki)))"

text \<open>
  The handlers of requests: what each of them does, in order.  The flags say which callbacks the configuration has; the channel for ACKs holds
  one, and a further one is dropped.
\<close>

datatype client_call = InBye | InAck | InRefer

datatype handler_step = Answers int | CallsOnBye | CallsOnRefer

definition client_handle :: "bool \<Rightarrow> bool \<Rightarrow> client_call \<Rightarrow> 'a test_client \<Rightarrow> handler_step list \<times> 'a test_client" where
  "client_handle onBye onRefer r c =
     (case r of
        InBye \<Rightarrow> (Answers 200 # (if onBye then [CallsOnBye] else []), c)
      | InAck \<Rightarrow> ([], c\<lparr>tc_ack := True\<rparr>)
      | InRefer \<Rightarrow> ((if onRefer then [CallsOnRefer] else []) @ [Answers 202], c))"

section \<open>Dialling\<close>

datatype 'r client_tx = TxDone | TxResp 'r

text \<open>\<open>getResponse\<close> over the events of a transaction; \<open>Blocked\<close> while none of them decides.\<close>

fun getResponse :: "('r \<Rightarrow> int) \<Rightarrow> nat \<Rightarrow> 'r client_tx list \<Rightarrow> (go_error + 'r) go_run" where
  "getResponse status cnt [] = Blocked"
| "getResponse status cnt (TxDone # es) =
     Ret (Inl (Plain (''transaction failed to complete ('' @ itoa_nat cnt @ '' intermediate responses)'')))"
| "getResponse status cnt (TxResp r # es) =
     (if status r \<in> {100, 180, 183} then getResponse status (cnt + 1) es else Ret (Inr r))"

record client_dest =
  cd_ip :: string
  cd_host :: string
  cd_number :: string
  cd_headers :: smap

definition allow_methods :: string where
  "allow_methods = ''INVITE, ACK, CANCEL, BYE, NOTIFY, REFER, MESSAGE, OPTIONS, INFO, SUBSCRIBE''"

definition client_invite :: "string \<Rightarrow> client_dest \<Rightarrow> string \<Rightarrow> string \<Rightarrow> 'a test_client \<Rightarrow> client_req" where
  "client_invite offer dst authHeader callID c =
     \<lparr>cq_recipient = \<lparr>su_scheme = [], su_user = cd_number dst, su_host = cd_host dst, su_port = 0, su_params = [(''transport'', ''tcp'')]\<rparr>,
      cq_call_id = (if callID \<noteq> [] then Some callID else None), cq_dest = cd_ip dst, cq_body = offer,
      cq_headers = [(''Content-Type'', ''application/sdp''),
          (''Contact'', ''<sip:livekit@'' @ (case cc_ip (tc_conf c) of None \<Rightarrow> ''invalid IP'' | Some ip \<Rightarrow> ip) @ '':'' @
             itoa_nat (unat (cc_port (tc_conf c))) @ ''>''),
          (''Allow'', allow_methods)] @
        (if tc_id c \<noteq> [] then [(''X-Lk-Test-Id'', tc_id c)] else []) @
        (if authHeader \<noteq> [] then [(''Proxy-Authorization'', authHeader)] else []) @ cd_headers dst,
      cq_routes = [], cq_cseq = None\<rparr>"

text \<open>
  One attempt: the error of the transaction layer, which the client turns into a panic, or the events of the transaction.  \<open>fill\<close> adds the
  headers the library completes a request with.
\<close>

type_synonym attempt = "go_error + client_resp client_tx list"

definition client_attempt ::
  "(client_req \<Rightarrow> client_req) \<Rightarrow> client_req \<Rightarrow> attempt \<Rightarrow> (client_req \<times> (go_error + client_resp)) go_run" where
  "client_attempt fill req a =
     (case a of
        Inl _ \<Rightarrow> Panicked
      | Inr es \<Rightarrow> (case getResponse vp_status 0 es of Panicked \<Rightarrow> Panicked | Blocked \<Rightarrow> Blocked | Ret r \<Rightarrow> Ret (fill req, r)))"

text \<open>The answer to a challenge: the value of the next Proxy-Authorization header.\<close>

definition client_auth ::
  "(string \<Rightarrow> go_error + 'ch) \<Rightarrow> ('ch \<Rightarrow> string \<Rightarrow> sip_uri \<Rightarrow> string \<Rightarrow> string \<Rightarrow> string) \<Rightarrow> client_conf \<Rightarrow> client_resp \<Rightarrow>
   (go_error + string) go_run" where
  "client_auth parse digest conf resp =
     (if cc_user conf = [] \<or> cc_pass conf = [] then
        Ret (Inl (Plain ''server responded with 407, but no username or password was provided''))
      else case vp_auth resp of
        None \<Rightarrow> Panicked
      | Some h \<Rightarrow>
          (case parse h of
             Inl e \<Rightarrow> Ret (Inl e)
           | Inr challenge \<Rightarrow>
               (case vp_to resp of
                  None \<Rightarrow> Ret (Inl (Plain ''no To header on Request''))
                | Some to \<Rightarrow> Ret (Inr (digest challenge ''INVITE'' to (cc_user conf) (cc_pass conf))))))"

text \<open>The loop, with the requests sent and the final responses they got.\<close>

type_synonym dial_log = "(client_req \<times> client_resp option) list"

fun dial_loop ::
  "(client_req \<Rightarrow> client_req) \<Rightarrow> (client_resp \<Rightarrow> (go_error + string) go_run) \<Rightarrow> (string \<Rightarrow> string \<Rightarrow> client_req) \<Rightarrow> attempt list \<Rightarrow>
   string \<Rightarrow> string \<Rightarrow> (go_error + client_req \<times> client_resp) go_run \<times> dial_log" where
  "dial_loop fill auth mk [] authHeaderVal callID = (Blocked, [])"
| "dial_loop fill auth mk (a # as) authHeaderVal callID =
     (case client_attempt fill (mk authHeaderVal callID) a of
        Panicked \<Rightarrow> (Panicked, [])
      | Blocked \<Rightarrow> (Blocked, [])
      | Ret (req, Inl e) \<Rightarrow> (Ret (Inl e), [(req, None)])
      | Ret (req, Inr resp) \<Rightarrow>
          let callID1 = (if callID = [] then (case cq_call_id req of None \<Rightarrow> [] | Some i \<Rightarrow> i) else callID);
              logged = (\<lambda>(r, l). (r, (req, Some resp) # l))
          in if vp_status resp = 407 then
               (case auth resp of
                  Panicked \<Rightarrow> (Panicked, [(req, Some resp)])
                | Blocked \<Rightarrow> (Blocked, [(req, Some resp)])
                | Ret (Inl e) \<Rightarrow> (Ret (Inl e), [(req, Some resp)])
                | Ret (Inr v) \<Rightarrow> logged (dial_loop fill auth mk as v callID1))
             else if vp_status resp \<noteq> 200 then (Ret (Inl (Plain (''unexpected status from INVITE response '' @ itoa (vp_status resp)))), [(req, Some resp)])
             else (Ret (Inr (req, resp)), [(req, Some resp)]))"

text \<open>The route of the dialog as the client keeps it in the request: each Record-Route is put in front.\<close>

definition dialog_request :: "client_req \<Rightarrow> client_resp \<Rightarrow> client_req" where
  "dialog_request req resp =
     (let req1 = (case vp_contact resp of None \<Rightarrow> req
                  | Some u \<Rightarrow> req\<lparr>cq_recipient := (if su_port u = 0 then u\<lparr>su_port := 5060\<rparr> else u)\<rparr>)
      in req1\<lparr>cq_routes := fold (\<lambda>r rs. r # rs) (vp_record_routes resp) (cq_routes req1)\<rparr>)"

text \<open>The connection line and the media ports of a description; the client uses the session level line and the first media unchecked.\<close>

record sdp_session =
  sn_addr :: "string option"
  sn_ports :: "int list"

definition parseSDPAnswer :: "(string \<Rightarrow> go_error + sdp_session) \<Rightarrow> string \<Rightarrow> (go_error + string \<times> int) go_run" where
  "parseSDPAnswer unmarshal body =
     (case unmarshal body of
        Inl e \<Rightarrow> Ret (Inl e)
      | Inr sd \<Rightarrow>
          (case (sn_addr sd, sn_ports sd) of
             (Some a, p # _) \<Rightarrow> Ret (Inr (a, p))
           | _ \<Rightarrow> Panicked))"

record sdp_offer =
  so_session :: u64
  so_ip :: string
  so_port :: int
  so_formats :: string
  so_rtpmaps :: "string list"

definition client_offer :: "u64 \<Rightarrow> string \<Rightarrow> int \<Rightarrow> 'a test_client \<Rightarrow> sdp_offer" where
  "client_offer sessionId dtmfName port c =
     (let t = itoa_nat (unat (tc_audio_type c)); ip = (case cc_ip (tc_conf c) of None \<Rightarrow> ''invalid IP'' | Some ip \<Rightarrow> ip) in
      \<lparr>so_session = sessionId, so_ip = ip, so_port = port, so_formats = t @ '' 101'',
       so_rtpmaps = [t @ '' '' @ ki_sdp_name (tc_codec c), ''101 '' @ dtmfName]\<rparr>)"

record ('a, 'ch) client_env =
  de_session :: u64
  de_dtmf_name :: string
  de_port :: int
  de_marshal :: "sdp_offer \<Rightarrow> go_error + string"
  de_fill :: "client_req \<Rightarrow> client_req"
  de_parse :: "string \<Rightarrow> go_error + 'ch"
  de_digest :: "'ch \<Rightarrow> string \<Rightarrow> sip_uri \<Rightarrow> string \<Rightarrow> string \<Rightarrow> string"
  de_ack :: "go_error option"
  de_sdp :: "string \<Rightarrow> go_error + sdp_session"
  de_resolve :: "string \<Rightarrow> int \<Rightarrow> go_error + 'a"
  de_now :: nanos

text \<open>What follows a 200: the timeout of the media runs, the ACK goes out, the address in the answer becomes the destination.\<close>

definition dial_answered ::
  "('a, 'ch) client_env \<Rightarrow> client_req \<Rightarrow> client_resp \<Rightarrow> 'a test_client \<Rightarrow> (go_error option \<times> 'a test_client) go_run" where
  "dial_answered E req0 resp c0 =
     (let req = dialog_request req0 resp; c = c0\<lparr>tc_conn := conn_EnableTimeout (de_now E) True (tc_conn c0)\<rparr> in
      case de_ack E of
        Some e \<Rightarrow> Ret (Some e, c)
      | None \<Rightarrow>
          let c1 = client_sends (WAck req) c in
     (case parseSDPAnswer (de_sdp E) (vp_body resp) of
        Panicked \<Rightarrow> Panicked
      | Blocked \<Rightarrow> Blocked
      | Ret (Inl e) \<Rightarrow> Ret (Some e, c1)
      | Ret (Inr (ip, port)) \<Rightarrow>
     (case de_resolve E ip port of
        Inl e \<Rightarrow> Ret (Some e, c1)
      | Inr addr \<Rightarrow>
          Ret (None, c1\<lparr>tc_invite := Some (req, resp), tc_cseq := (case cq_cseq req of None \<Rightarrow> tc_cseq c1 | Some n \<Rightarrow> n),
            tc_conn := SetDestAddr (Some addr) (tc_conn c1)\<rparr>))))"

definition client_Dial ::
  "('a, 'ch) client_env \<Rightarrow> client_dest \<Rightarrow> attempt list \<Rightarrow> 'a test_client \<Rightarrow> (go_error option \<times> 'a test_client) go_run" where
  "client_Dial E dst as c =
     (case de_marshal E (client_offer (de_session E) (de_dtmf_name E) (de_port E) c) of
        Inl e \<Rightarrow> Ret (Some e, c)
      | Inr offer \<Rightarrow>
     (case dial_loop (de_fill E) (client_auth (de_parse E) (de_digest E) (tc_conf c)) (\<lambda>a i. client_invite offer dst a i c) as [] [] of
        (r, l) \<Rightarrow>
          let c1 = fold (\<lambda>(q, _). client_sends (WInvite q)) l c in
          (case r of
             Panicked \<Rightarrow> Panicked
           | Blocked \<Rightarrow> Blocked
           | Ret (Inl e) \<Rightarrow> Ret (Some e, c1)
           | Ret (Inr (req, resp)) \<Rightarrow> dial_answered E req resp c1)))"

section \<open>NOTIFY\<close>

text \<open>
  \<open>SendNotify\<close> for a REFER the client got.  A client without an answered call panics when it looks for the routes of the answer.  The number
  of the request is taken before the CSeq of the REFER is looked at.
\<close>

definition notify_request :: "sip_uri \<Rightarrow> sip_request \<Rightarrow> sip_uri list \<Rightarrow> sip_uri \<times> smap \<Rightarrow> sip_uri \<times> smap \<Rightarrow> u32 \<Rightarrow> u32 \<Rightarrow> sip_request" where
  "notify_request recipient ev recordRoutes to from cseq evCSeq =
     \<lparr>rq_method = ''NOTIFY'', rq_recipient = recipient, rq_source = rq_destination ev, rq_destination = rq_source ev,
      rq_transport = rq_transport ev, rq_from = Some to, rq_to = Some from, rq_vias = rq_vias ev, rq_routes = rq_routes ev,
      rq_record_routes = recordRoutes, rq_cseq = Some cseq, rq_contact = None,
      rq_headers = [(''Max-Forwards'', ''70'')] @
        (case map_of (rq_headers ev) ''Call-ID'' of None \<Rightarrow> [] | Some i \<Rightarrow> [(''Call-ID'', i)]) @
        [(''Content-Type'', ''message/sipfrag''), (''Event'', ''refer;id='' @ itoa_nat (unat evCSeq))]\<rparr>"

definition SendNotify ::
  "go_error option \<Rightarrow> int client_tx list \<Rightarrow> sip_request \<Rightarrow> string \<Rightarrow> 'a test_client \<Rightarrow> (go_error option \<times> 'a test_client) go_run" where
  "SendNotify txErr es ev status c =
     (case (case rq_contact ev of Some u \<Rightarrow> Some u | None \<Rightarrow> map_option fst (rq_from ev)) of
        None \<Rightarrow> Ret (Some (Plain ''missing destination address''), c)
      | Some recipient \<Rightarrow>
     (case (if rq_routes ev \<noteq> [] then Some [] else map_option (\<lambda>(_, resp). rev (vp_record_routes resp)) (tc_invite c)) of
        None \<Rightarrow> Panicked
      | Some recordRoutes \<Rightarrow>
     (case rq_to ev of None \<Rightarrow> Ret (Some (Plain ''missing To header in REFER request''), c)
      | Some to \<Rightarrow>
     (case rq_from ev of None \<Rightarrow> Ret (Some (Plain ''missing From header in REFER request''), c)
      | Some from \<Rightarrow>
          let c1 = c\<lparr>tc_cseq := tc_cseq c + 1\<rparr> in
     (case rq_cseq ev of None \<Rightarrow> Ret (Some (Plain ''missing CSeq header in REFER request''), c1)
      | Some n \<Rightarrow>
     (case txErr of Some e \<Rightarrow> Ret (Some e, c1)
      | None \<Rightarrow>
          let c2 = client_sends (WNotify (notify_request recipient ev recordRoutes to from (tc_cseq c1) n) status) c1 in
     (case getResponse id 0 es of
        Panicked \<Rightarrow> Panicked
      | Blocked \<Rightarrow> Blocked
      | Ret (Inl e) \<Rightarrow> Ret (Some e, c2)
      | Ret (Inr code) \<Rightarrow>
          Ret (if code \<noteq> 200 then Some (Plain (''NOTIFY failed with status '' @ itoa code)) else None, c2))))))))"

text \<open>The NOTIFY as the bridge reads it.\<close>

definition notify_view :: "sip_request \<Rightarrow> string \<Rightarrow> notify_req" where
  "notify_view q body =
     \<lparr>nr_event = map_of (rq_headers q) ''Event'', nr_event_short = map_of (rq_headers q) ''o'',
      nr_sub_state = map_of (rq_headers q) ''Subscription-State'', nr_body = body\<rparr>"

section \<open>Incoming media\<close>

text \<open>
  The handlers of the multiplexer.  A digit whose timestamp is more than a second away from that of the last other packet is dropped; the
  difference is one of 64 bit numbers, and a timestamp of zero counts as none.  \<open>decode\<close> is \<open>dtmf.DecodeRTP\<close>.
\<close>

record rtp_in =
  ri_pt :: u8
  ri_ts :: u32
  ri_payload :: "u8 list"

definition digit_in_sync :: "int \<Rightarrow> u32 \<Rightarrow> u32 \<Rightarrow> bool" where
  "digit_in_sync rate lastTs ts =
     (let diff = (if lastTs > 0 then uint ts - uint lastTs else 0) in \<not> (diff > rate \<or> diff < - rate))"

definition receive_rtp ::
  "(rtp_in \<Rightarrow> 'ev option) \<Rightarrow> bool \<Rightarrow> 'a test_client \<Rightarrow> rtp_in \<Rightarrow> u32 \<Rightarrow> ('ev list \<times> rtp_in list) \<times> u32" where
  "receive_rtp decode onDTMF c p lastTs =
     (if ri_pt p = 101 then
        (((if \<not> digit_in_sync (ki_clock_rate (tc_codec c)) lastTs (ri_ts p) \<or> \<not> onDTMF then []
          else case decode p of None \<Rightarrow> [] | Some ev \<Rightarrow> [ev]), []), lastTs)
      else (([], if tc_recorder c then [p] else []), ri_ts p))"

text \<open>A recorder is installed for all packets that follow; the writer of the file is that of the media library.\<close>

definition client_Record :: "'a test_client \<Rightarrow> 'a test_client" where
  "client_Record c = c\<lparr>tc_recorder := True\<rparr>"

end
