(* ===== verification/TestClientProps.thy ===== *)
theory TestClientProps
  imports TestClient
begin

text \<open>
  What the test client guarantees: nothing stays open when it cannot be made, its calls are ended once, it dials with credentials only when
  challenged, and a NOTIFY it sends decides the transfer of the bridge it belongs to.
\<close>

section \<open>Closing\<close>

definition close_now :: "go_error option \<times> bye_wait \<Rightarrow> 'a test_client \<Rightarrow> 'a test_client" where
  "close_now a c = (case client_Close (fst a) (snd a) c of None \<Rightarrow> c | Some c' \<Rightarrow> c')"

lemma conn_Close_open: "cn_open c \<Longrightarrow> \<not> cn_closed c \<Longrightarrow> conn_Close (c, n) = Some (c\<lparr>cn_handler := False, cn_closed := True\<rparr>, n + 1)"
  by (simp add: conn_Close_def OnRTP_def)

lemma client_sendBye_state [simp]:
  "tc_closed (client_sendBye t ev c) = tc_closed c" "tc_conn (client_sendBye t ev c) = tc_conn c"
  "tc_sip_client (client_sendBye t ev c) = tc_sip_client c" "tc_sip_server (client_sendBye t ev c) = tc_sip_server c"
  "tc_listener (client_sendBye t ev c) = tc_listener c" "tc_invite (client_sendBye t ev c) = tc_invite c"
  by (simp_all add: client_sendBye_def client_sends_def Let_def split: option.splits bye_wait.splits)

lemma shut_res_not_running [simp]: "shut_res r \<noteq> Running"
  by (simp add: shut_res_def)

lemma client_Close_state:
  assumes "client_Close t ev c = Some c'" "\<not> tc_closed c"
  shows "tc_closed c' \<and> tc_invite c' = None \<and> cn_handler (tc_conn c') = False \<and> cn_closed (tc_conn c') \<and> tc_sip_client c' \<noteq> Running
    \<and> tc_sip_server c' \<noteq> Running \<and> tc_listener c' \<noteq> Running"
  using assms by (cases "tc_invite c") (auto simp: client_Close_def conn_Close_def OnRTP_def Let_def split: if_splits option.splits)

lemma client_abort_state:
  assumes "client_abort e c = Ret (err, r)" "\<not> tc_closed c"
  shows "\<exists>c'. r = Some c' \<and> err = Some e \<and> tc_closed c' \<and> cn_closed (tc_conn c') \<and> tc_sip_client c' \<noteq> Running
    \<and> tc_sip_server c' \<noteq> Running \<and> tc_listener c' \<noteq> Running"
proof (cases "client_Close None ByeTxDone c")
  case (Some c')
  then have "r = Some c' \<and> err = Some e" using assms(1) by (simp add: client_abort_def)
  then show ?thesis using client_Close_state [OF Some assms(2)] by blast
qed (use assms(1) in \<open>simp add: client_abort_def\<close>)

lemma client_sip_cases:
  assumes "client_sip S c = Ret (err, r)" "\<not> tc_closed c"
  shows "(\<exists>e c1. client_abort e c1 = Ret (err, r) \<and> \<not> tc_closed c1)
    \<or> (\<exists>port. cs_tcp S = Inr port \<and> err = None
        \<and> r = Some (c\<lparr>tc_sip_client := Running, tc_sip_server := Running, tc_conf := (tc_conf c)\<lparr>cc_port := port\<rparr>, tc_listener := Running\<rparr>))"
proof -
  let ?c1 = "c\<lparr>tc_sip_client := Running\<rparr>" and ?c2 = "c\<lparr>tc_sip_client := Running, tc_sip_server := Running\<rparr>"
  have "(\<exists>e. client_sip S c = client_abort e c) \<or> (\<exists>e. client_sip S c = client_abort e ?c1) \<or> (\<exists>e. client_sip S c = client_abort e ?c2)
    \<or> (\<exists>port. cs_tcp S = Inr port \<and> client_sip S c = Ret (None, Some (?c2\<lparr>tc_conf := (tc_conf c)\<lparr>cc_port := port\<rparr>, tc_listener := Running\<rparr>)))"
    by (cases "cs_ua S"; cases "cs_client S"; cases "cs_server S"; cases "cs_tcp S") (simp_all add: client_sip_def Let_def, blast+)
  moreover have "\<not> tc_closed ?c1" "\<not> tc_closed ?c2" using assms(2) by simp_all
  ultimately show ?thesis using assms by (metis Pair_inject go_run.inject)
qed

lemma client_media_cases:
  fixes r :: "'a test_client option"
  assumes "client_media S (client_value now cid conf ki) = Ret (err, r)"
  shows "(\<exists>e c. client_abort e c = Ret (err, r) \<and> \<not> tc_closed c)
    \<or> (\<exists>c. client_sip S c = Ret (err, r) \<and> \<not> tc_closed c \<and> cn_open (tc_conn c) \<and> \<not> cn_closed (tc_conn c) \<and> cn_timeout_start (tc_conn c) = None)"
proof -
  let ?c = "client_value now cid conf ki :: 'a test_client"
  obtain e cn where l: "conn_Listen (cs_listen S) (OnRTP True (tc_conn ?c)) = (e, cn)" by (cases "conn_Listen (cs_listen S) (OnRTP True (tc_conn ?c))")
  then have cn: "e = None \<Longrightarrow> cn_open cn \<and> \<not> cn_closed cn \<and> cn_timeout_start cn = None"
    by (auto simp: conn_Listen_def client_value_def NewConnWith_def conn_EnableTimeout_def OnRTP_def split: sum.splits)
  have c: "\<not> tc_closed ?c" "\<not> tc_closed (?c\<lparr>tc_conn := cn\<rparr>)" "tc_conn (?c\<lparr>tc_conn := cn\<rparr>) = cn" by (simp_all add: client_value_def)
  show ?thesis
  proof (cases "cs_mixer S")
    case None
    then have "client_media S ?c = (case e of Some x \<Rightarrow> client_abort x (?c\<lparr>tc_conn := cn\<rparr>) | None \<Rightarrow> client_sip S (?c\<lparr>tc_conn := cn\<rparr>))"
      using l by (simp add: client_media_def split: option.splits)
    then show ?thesis using assms cn c by (cases e) (metis option.case)+
  next
    case (Some e)
    then show ?thesis using assms c by (auto simp: client_media_def)
  qed
qed

text \<open>The client is closed behind a fuse.\<close>

interpretation tcl: once_op "\<lambda>c. cn_open (tc_conn c)" tc_closed close_now
  by unfold_locales
    (auto simp: close_now_def client_Close_def conn_Close_def OnRTP_def Let_def split: option.splits)

lemma client_Close_out:
  assumes "client_Close t ev c = Some c'" "\<not> tc_closed c"
  shows "tc_out c' = tc_out c @
    (if tc_invite c = None \<or> t \<noteq> None then []
     else WBye (tc_cseq c + 1) # (if ev = ByeResp 200 then [WByeAck] else []))"
  using assms
  by (auto simp: client_Close_def client_sendBye_def client_sends_def Let_def split: if_splits option.splits bye_wait.splits)

section \<open>Dialling\<close>

lemma fold_sends: "fold (\<lambda>(q, _). client_sends (WInvite q)) l c = c\<lparr>tc_out := tc_out c @ map (WInvite \<circ> fst) l\<rparr>"
  by (induction l arbitrary: c) (auto simp: client_sends_def)

lemma getResponse_final: "getResponse status n es = Ret (Inr r) \<Longrightarrow> status r \<notin> {100, 180, 183} \<and> TxResp r \<in> set es"
  by (induction status n es rule: getResponse.induct) (auto split: if_splits)

definition call_id_after :: "string \<Rightarrow> client_req \<Rightarrow> string" where
  "call_id_after callID req = (if callID = [] then (case cq_call_id req of None \<Rightarrow> [] | Some d \<Rightarrow> d) else callID)"

lemma client_attempt_ret: "client_attempt fill q a = Ret (q', r) \<Longrightarrow> q' = fill q"
  by (auto simp: client_attempt_def split: sum.splits go_run.splits)

text \<open>One round of the loop: the last one, or a challenge that is answered.\<close>

lemma dial_loop_round:
  assumes "dial_loop fill auth mk (a # as) v i = (Ret x, l)"
  defines "q \<equiv> fill (mk v i)"
  obtains (failed) r e where "l = [(q, r)]" "x = Inl e"
  | (answered) resp where "l = [(q, Some resp)]" "x = Inr (q, resp)" "vp_status resp = 200"
  | (challenged) resp w l' where "l = (q, Some resp) # l'" "vp_status resp = 407" "auth resp = Ret (Inr w)"
      "dial_loop fill auth mk as w (call_id_after i q) = (Ret x, l')"
proof (cases "client_attempt fill (mk v i) a")
  case (Ret qr)
  then obtain r where r: "client_attempt fill (mk v i) a = Ret (q, r)"
    using client_attempt_ret by (cases qr) (auto simp: q_def)
  show ?thesis
  proof (cases r)
    case (Inl e)
    then show ?thesis using assms(1) r failed by auto
  next
    case (Inr resp)
    show ?thesis
    proof (cases "vp_status resp = 407")
      case True
      then show ?thesis
        using assms(1) r Inr failed challenged
        by (auto simp: Let_def call_id_after_def split: go_run.splits sum.splits prod.splits)
    next
      case False
      then show ?thesis using assms(1) r Inr failed answered by (auto simp: Let_def split: if_splits)
    qed
  qed
qed (use assms(1) in simp_all)

text \<open>What a finished loop has sent: the credentials of a request answer the challenge before it, and the call has one Call-ID.\<close>

lemma dial_loop_sent:
  assumes "dial_loop fill auth mk as v i = (Ret x, l)"
  shows "\<forall>k < length l. \<exists>w d. fst (l ! k) = fill (mk w d)
    \<and> (if k = 0 then w = v \<and> d = i
       else \<exists>p. snd (l ! (k - 1)) = Some p \<and> vp_status p = 407 \<and> auth p = Ret (Inr w) \<and> (i \<noteq> [] \<longrightarrow> d = i)
         \<and> (i = [] \<and> call_id_after [] (fst (l ! 0)) \<noteq> [] \<longrightarrow> d = call_id_after [] (fst (l ! 0))))"
  using assms
proof (induction as arbitrary: v i l)
  case (Cons a as)
  from Cons.prems show ?case
  proof (cases rule: dial_loop_round)
    case (challenged resp w l')
    let ?q = "fill (mk v i)"
    have i1: "i \<noteq> [] \<Longrightarrow> call_id_after i ?q = i" by (simp add: call_id_after_def)
    show ?thesis
    proof (intro allI impI)
      fix k assume k: "k < length l"
      show "\<exists>w d. fst (l ! k) = fill (mk w d)
        \<and> (if k = 0 then w = v \<and> d = i
           else \<exists>p. snd (l ! (k - 1)) = Some p \<and> vp_status p = 407 \<and> auth p = Ret (Inr w) \<and> (i \<noteq> [] \<longrightarrow> d = i)
             \<and> (i = [] \<and> call_id_after [] (fst (l ! 0)) \<noteq> [] \<longrightarrow> d = call_id_after [] (fst (l ! 0))))"
      proof (cases k)
        case (Suc j)
        then have "j < length l'" using k challenged by simp
        from Cons.IH [OF challenged(4), rule_format, OF this] show ?thesis
          using Suc challenged i1 by (cases j; cases "i = []") (auto split: if_splits)
      qed (use challenged in auto)
    qed
  qed auto
qed simp

lemma dial_loop_last:
  "dial_loop fill auth mk as v i = (Ret (Inr (req, resp)), l) \<Longrightarrow> last l = (req, Some resp) \<and> l \<noteq> [] \<and> vp_status resp = 200"
proof (induction as arbitrary: v i l)
  case (Cons a as)
  from Cons.prems show ?case
    by (cases rule: dial_loop_round) (auto dest: Cons.IH)
qed simp

lemma notify_event:
  assumes "q = notify_request u ev rrs to from cseq n"
  shows "handleNotify (notify_view q body) =
    (let info = \<lparr>ni_method = NotifyREFER, ni_cseq = unat n, ni_status = 0, ni_reason = [], ni_sub = ss_zero\<rparr>; b = trim_space body in
     if b = [] then Inr info
     else case parseNotifyBody b of Inl e \<Rightarrow> Inl e | Inr (st, r) \<Rightarrow> Inr (info\<lparr>ni_status := st, ni_reason := r\<rparr>))"
proof -
  let ?id = "itoa_nat (unat n)"
  have low: "to_lower (''refer;id='' @ ?id) = ''refer;id='' @ ?id"
  proof -
    have "map lower_char ?id = ?id"
      by (rule map_idI) (auto dest!: itoa_nat_set simp: lower_char_def is_digit_def Let_def)
    then show ?thesis by (simp add: to_lower_def lower_char_def Let_def)
  qed
  have rid: "refer_id (''refer;id='' @ ?id) = Some ?id"
    by (simp add: refer_id_def has_prefix_def)
  have num: "parse_uint 32 ?id = (unat n, None)"
    using unsigned_less [of n, where 'a = nat] by (intro parse_uint_itoa_nat) simp
  have "map_of (rq_headers q) ''Event'' = Some (''refer;id='' @ ?id)" "map_of (rq_headers q) ''Subscription-State'' = None"
    using assms by (auto simp: notify_request_def split: option.splits)
  then show ?thesis
    by (simp add: handleNotify_def notify_view_def low [simplified] rid [simplified] num)
qed

section \<open>Properties\<close>

text \<open>
  A client that cannot be made leaves nothing open: if \<open>NewClient\<close> returns an error, the media connection is closed and neither the SIP
  client nor the server or its listener runs; if it returns none, all of them run and the port in the configuration is the one listened on.
\<close>

theorem new_client_releases:
  assumes "test_NewClient ulaw now S cid conf = Ret (err, r)"
  shows "(case r of
      None \<Rightarrow> err \<noteq> None
    | Some c \<Rightarrow>
        if err = None then
          \<not> tc_closed c \<and> cn_open (tc_conn c) \<and> \<not> cn_closed (tc_conn c) \<and> cn_timeout_start (tc_conn c) = None
          \<and> tc_sip_client c = Running \<and> tc_sip_server c = Running \<and> tc_listener c = Running \<and> cs_tcp S = Inr (cc_port (tc_conf c))
        else tc_closed c \<and> cn_closed (tc_conn c) \<and> tc_sip_client c \<noteq> Running \<and> tc_sip_server c \<noteq> Running \<and> tc_listener c \<noteq> Running)"
proof (cases "\<exists>e. err = Some e \<and> r = None")
  case False
  then obtain conf' ki where "client_media S (client_value now cid conf' ki) = Ret (err, r)"
    using assms by (auto simp: test_NewClient_def Let_def split: option.splits sum.splits)
  from client_media_cases [OF this] show ?thesis
  proof (elim disjE exE conjE)
    fix e c assume "client_abort e c = Ret (err, r)" "\<not> tc_closed c"
    from client_abort_state [OF this] show ?thesis by auto
  next
    fix c assume c: "client_sip S c = Ret (err, r)" "\<not> tc_closed c" "cn_open (tc_conn c)" "\<not> cn_closed (tc_conn c)"
      "cn_timeout_start (tc_conn c) = None"
    from client_sip_cases [OF c(1,2)] show ?thesis
    proof (elim disjE exE conjE)
      fix e c1 assume "client_abort e c1 = Ret (err, r)" "\<not> tc_closed c1"
      from client_abort_state [OF this] show ?thesis by auto
    qed (use c in simp)
  qed
qed auto

text \<open>The calls of a client are ended once, however often it is closed: with one BYE, if its call was answered and the transaction can be made.\<close>

theorem client_ends_call_once:
  assumes "cn_open (tc_conn c)" "\<not> tc_closed c"
  shows "tc_out (fold close_now as (close_now (None, ev) c)) = tc_out c @
    (if tc_invite c = None then [] else WBye (tc_cseq c + 1) # (if ev = ByeResp 200 then [WByeAck] else []))"
proof -
  obtain c' where c': "client_Close None ev c = Some c'"
    using assms by (cases "cn_closed (tc_conn c)") (auto simp: client_Close_def conn_Close_def OnRTP_def Let_def)
  then have "close_now (None, ev) c = c'" by (simp add: close_now_def)
  then show ?thesis using tcl.shut_many [of c as "(None, ev)"] client_Close_out [OF c' assms(2)] assms(1) by simp
qed

text \<open>
  A call that is set up: the last INVITE was answered with a 200 and acknowledged along the route the answer gives, and media goes to the address
  of the answer.  The first INVITE has no credentials, each later one those computed for the challenge before it, all with the Call-ID of the first.
\<close>

theorem client_dial_sequence:
  assumes "client_Dial E dst as c = Ret (None, c')"
    and "de_marshal E (client_offer (de_session E) (de_dtmf_name E) (de_port E) c) = Inr offer"
    and "\<And>q. \<exists>d. d \<noteq> [] \<and> cq_call_id (de_fill E q) = Some d"
  shows "\<exists>l req resp addr. l \<noteq> [] \<and> last l = (req, Some resp) \<and> vp_status resp = 200
    \<and> tc_out c' = tc_out c @ map (WInvite \<circ> fst) l @ [WAck (dialog_request req resp)]
    \<and> tc_invite c' = Some (dialog_request req resp, resp) \<and> cn_dest (tc_conn c') = Some addr
    \<and> (\<exists>ip port. parseSDPAnswer (de_sdp E) (vp_body resp) = Ret (Inr (ip, port)) \<and> de_resolve E ip port = Inr addr)
    \<and> (\<forall>k < length l. \<exists>w d. fst (l ! k) = de_fill E (client_invite offer dst w d c)
         \<and> (if k = 0 then w = [] \<and> d = []
            else (\<exists>p. snd (l ! (k - 1)) = Some p \<and> vp_status p = 407 \<and> client_auth (de_parse E) (de_digest E) (tc_conf c) p = Ret (Inr w))
              \<and> cq_call_id (fst (l ! 0)) = Some d))"
proof -
  let ?mk = "\<lambda>a i. client_invite offer dst a i c" and ?auth = "client_auth (de_parse E) (de_digest E) (tc_conf c)"
  obtain r l where rl: "dial_loop (de_fill E) ?auth ?mk as [] [] = (r, l)" by (cases "dial_loop (de_fill E) ?auth ?mk as [] []")
  then obtain req resp where r: "r = Ret (Inr (req, resp))"
    using assms(1,2) by (auto simp: client_Dial_def Let_def split: go_run.splits sum.splits)
  note loop = rl [unfolded r]
  have ans: "dial_answered E req resp (c\<lparr>tc_out := tc_out c @ map (WInvite \<circ> fst) l\<rparr>) = Ret (None, c')"
    using assms(1,2) rl r by (simp add: client_Dial_def Let_def fold_sends)
  note fin = dial_loop_last [OF loop]
  have "fst (l ! 0) = de_fill E (?mk [] [])" using dial_loop_sent [OF loop, rule_format, of 0] fin by auto
  then obtain d0 where d0: "d0 \<noteq> []" "cq_call_id (fst (l ! 0)) = Some d0" using assms(3) by metis
  have sent: "\<exists>w d. fst (l ! k) = de_fill E (?mk w d)
       \<and> (if k = 0 then w = [] \<and> d = []
          else (\<exists>p. snd (l ! (k - 1)) = Some p \<and> vp_status p = 407 \<and> ?auth p = Ret (Inr w)) \<and> cq_call_id (fst (l ! 0)) = Some d)"
    if "k < length l" for k
    using dial_loop_sent [OF loop, rule_format, OF that] d0 by (auto simp: call_id_after_def split: if_splits)
  have "\<exists>addr ip port. tc_out c' = tc_out c @ map (WInvite \<circ> fst) l @ [WAck (dialog_request req resp)]
    \<and> tc_invite c' = Some (dialog_request req resp, resp) \<and> cn_dest (tc_conn c') = Some addr
    \<and> parseSDPAnswer (de_sdp E) (vp_body resp) = Ret (Inr (ip, port)) \<and> de_resolve E ip port = Inr addr"
    using ans by (auto simp: dial_answered_def Let_def client_sends_def SetDestAddr_def split: option.splits go_run.splits sum.splits)
  then show ?thesis using fin sent by blast
qed

text \<open>
  A NOTIFY the client sends decides the transfer it is for.  If \<open>SendNotify\<close> is called with a status line and the REFER it received, the bridge reads
  from the NOTIFY the number of that REFER and the status, and a final status ends the wait of the transfer with the outcome it stands for, a 200
  with success.
\<close>

theorem client_notify_decides_transfer:
  assumes "SendNotify None es ev (''SIP/2.0 '' @ itoa (int code) @ '' '' @ reason) c = Ret (None, c')"
    and "rq_cseq ev = Some n" "200 \<le> code" "code \<le> 699"
    and "reason \<noteq> []" "\<not> is_space (last reason)" "CHR 0x0A \<notin> set reason"
  shows "\<exists>q info. tc_out c' = tc_out c @ [WNotify q (''SIP/2.0 '' @ itoa (int code) @ '' '' @ reason)]
    \<and> handleNotify (notify_view q (''SIP/2.0 '' @ itoa (int code) @ '' '' @ reason)) = Inr info
    \<and> ni_cseq info = unat n \<and> ni_status info = int code \<and> ni_reason info = reason
    \<and> transfer_outcome grpc (unat n) [GotNotify info] =
        Some (if code = 200 then None
              else Some (Psrpc (refer_failure_code grpc \<lparr>st_code = int code, st_text = reason\<rparr>)
                (Wrapped ''call transfer failed'' (SIPStatusErr \<lparr>st_code = int code, st_text = reason\<rparr>))))"
proof -
  let ?b = "''SIP/2.0 '' @ itoa (int code) @ '' '' @ reason"
  obtain u rrs tt fr where q: "tc_out c' = tc_out c @ [WNotify (notify_request u ev rrs tt fr (tc_cseq c + 1) n) ?b]"
    using assms(1,2) by (auto simp: SendNotify_def Let_def client_sends_def split: option.splits go_run.splits sum.splits if_splits)
  have "trim_space ?b = ?b"
    by (rule trim_space_id) (use assms(5,6) in \<open>simp_all add: is_space_def\<close>)
  moreover have "parseNotifyBody ?b = Inr (int code, reason)"
    using parseNotifyBody_line [of code reason] assms by (simp add: itoa_def cut_on_absent)
  ultimately have h: "handleNotify (notify_view (notify_request u ev rrs tt fr (tc_cseq c + 1) n) ?b) =
      Inr \<lparr>ni_method = NotifyREFER, ni_cseq = unat n, ni_status = int code, ni_reason = reason, ni_sub = ss_zero\<rparr>"
    by (simp add: notify_event [OF refl])
  have "transfer_outcome grpc (unat n) [GotNotify \<lparr>ni_method = NotifyREFER, ni_cseq = unat n, ni_status = int code, ni_reason = reason, ni_sub = ss_zero\<rparr>] =
        Some (if code = 200 then None
              else Some (Psrpc (refer_failure_code grpc \<lparr>st_code = int code, st_text = reason\<rparr>)
                (Wrapped ''call transfer failed'' (SIPStatusErr \<lparr>st_code = int code, st_text = reason\<rparr>))))"
    using assms(3,4) by (simp add: transfer_outcome_def handleReferNotify_def Let_def)
  then show ?thesis using q h by (intro exI conjI) (assumption | simp)+
qed

text \<open>Examples of the hypotheses: a client on a local port, and a REFER it got.\<close>

definition sample_codec :: codec_info where
  "sample_codec = \<lparr>ki_sdp_name = ''PCMU/8000'', ki_type = 0, ki_static = True, ki_clock_rate = 8000, ki_sample_rate = 8000\<rparr>"

definition sample_client :: "nat test_client" where
  "sample_client = (client_value 0 [] \<lparr>cc_ip = Some ''10.0.0.1'', cc_port = 5060, cc_number = ''1000'', cc_user = ''u'', cc_pass = ''p'', cc_codec = ''PCMU''\<rparr> sample_codec)
     \<lparr>tc_conn := \<lparr>cn_open = True, cn_closed = False, cn_packets = 0, cn_received = False, cn_dest = None, cn_handler = True,
        cn_timeout_start = None, cn_timeout = 15 * second, cn_initial = 30 * second\<rparr>\<rparr>"

definition sample_refer :: sip_request where
  "sample_refer = \<lparr>rq_method = ''REFER'', rq_recipient = sip_scheme, rq_source = ''1.1.1.1:5060'', rq_destination = ''2.2.2.2:5060'',
     rq_transport = ''tcp'', rq_from = Some (sip_scheme, []), rq_to = Some (sip_scheme, []), rq_vias = [], rq_routes = [sip_scheme],
     rq_record_routes = [], rq_cseq = Some 3, rq_contact = Some sip_scheme, rq_headers = []\<rparr>"

lemmas sample_defs = sample_codec_def sample_client_def sample_refer_def client_value_def

definition sample_response :: "int \<Rightarrow> client_resp" where
  "sample_response status =
     \<lparr>vp_status = status, vp_auth = Some ''Digest'', vp_to = Some sip_scheme, vp_contact = None, vp_record_routes = [], vp_body = ''v=0''\<rparr>"

definition sample_client_env :: "(nat, unit) client_env" where
  "sample_client_env = \<lparr>de_session = 1, de_dtmf_name = ''telephone-event/8000'', de_port = 4000, de_marshal = (\<lambda>_. Inr ''offer''),
     de_fill = (\<lambda>q. q\<lparr>cq_call_id := Some (case cq_call_id q of None \<Rightarrow> ''id1'' | Some d \<Rightarrow> if d = [] then ''id1'' else d), cq_cseq := Some 1\<rparr>),
     de_parse = (\<lambda>_. Inr ()), de_digest = (\<lambda>_ _ _ user _. user), de_ack = None,
     de_sdp = (\<lambda>_. Inr \<lparr>sn_addr = Some ''9.9.9.9'', sn_ports = [7000]\<rparr>), de_resolve = (\<lambda>_ p. Inr (nat p)), de_now = 5\<rparr>"

definition sample_dest :: client_dest where
  "sample_dest = \<lparr>cd_ip = ''1.1.1.1'', cd_host = ''sip.example'', cd_number = ''2000'', cd_headers = []\<rparr>"

lemma client_ends_call_once_witness:
  "tc_out (fold close_now [(None, ByeTxDone)] (close_now (None, ByeResp 200)
     (sample_client\<lparr>tc_cseq := 4, tc_invite := Some (client_invite [] sample_dest [] [] sample_client, sample_response 200)\<rparr>))) = [WBye 5, WByeAck]"
  using client_ends_call_once [of "sample_client\<lparr>tc_cseq := 4, tc_invite := Some (client_invite [] sample_dest [] [] sample_client, sample_response 200)\<rparr>"
      "[(None, ByeTxDone)]" "ByeResp 200"]
  by (simp add: sample_defs)

lemma new_client_releases_witness:
  "case test_NewClient ''PCMU'' 0 \<lparr>cs_local_ip = Inr ''10.0.0.1'', cs_codec = (\<lambda>_. Some sample_codec), cs_mixer = None, cs_listen = Inr (),
      cs_ua = None, cs_client = None, cs_server = Some (Plain ''server''), cs_tcp = Inr 5060\<rparr> []
      \<lparr>cc_ip = None, cc_port = 0, cc_number = [], cc_user = [], cc_pass = [], cc_codec = []\<rparr> of
     Ret (Some e, Some (c :: nat test_client)) \<Rightarrow> tc_closed c \<and> tc_sip_client c \<noteq> Running | _ \<Rightarrow> False"
proof -
  let ?S = "\<lparr>cs_local_ip = Inr ''10.0.0.1'', cs_codec = (\<lambda>_. Some sample_codec), cs_mixer = None, cs_listen = Inr (),
      cs_ua = None, cs_client = None, cs_server = Some (Plain ''server''), cs_tcp = Inr 5060\<rparr>"
  let ?C = "\<lparr>cc_ip = None, cc_port = 0, cc_number = [], cc_user = [], cc_pass = [], cc_codec = []\<rparr>"
  obtain r where "test_NewClient ''PCMU'' 0 ?S [] ?C = Ret (Some (Plain ''server''), Some (r :: nat test_client))"
    by (simp add: test_NewClient_def client_media_def client_sip_def client_abort_def client_Close_def conn_Close_def conn_Listen_def OnRTP_def
        client_value_def NewConnWith_def conn_EnableTimeout_def)
  from this new_client_releases [OF this] show ?thesis by simp
qed

lemma client_notify_decides_transfer_witness:
  "\<exists>q info. tc_out (sample_client\<lparr>tc_cseq := 1, tc_out := [WNotify q ''SIP/2.0 603 Declined'']\<rparr>) = [WNotify q ''SIP/2.0 603 Declined'']
    \<and> ni_cseq info = 3 \<and> transfer_outcome (\<lambda>_. Internal) 3 [GotNotify info] =
      Some (Some (Psrpc UpstreamClientError (Wrapped ''call transfer failed'' (SIPStatusErr \<lparr>st_code = 603, st_text = ''Declined''\<rparr>))))"
proof -
  have d: "itoa 603 = ''603''" by code_simp
  have "\<exists>c'. SendNotify None [TxResp 100, TxResp 200] sample_refer (''SIP/2.0 '' @ itoa (int 603) @ '' '' @ ''Declined'') sample_client = Ret (None, c')"
    by (simp add: SendNotify_def sample_defs client_sends_def)
  then obtain c' where c': "SendNotify None [TxResp 100, TxResp 200] sample_refer (''SIP/2.0 '' @ itoa (int 603) @ '' '' @ ''Declined'') sample_client = Ret (None, c')"
    by blast
  show ?thesis
    using client_notify_decides_transfer [OF c', of 3 "\<lambda>_. Internal"]
    by (auto simp: sample_refer_def is_space_def refer_failure_code_def)
qed

lemma client_dial_sequence_witness:
  "case client_Dial sample_client_env sample_dest [Inr [TxResp (sample_response 180), TxResp (sample_response 407)], Inr [TxResp (sample_response 200)]] sample_client of
     Ret (None, c') \<Rightarrow> length (tc_out c') = 3 \<and> cn_dest (tc_conn c') = Some 7000 | _ \<Rightarrow> False"
proof -
  let ?as = "[Inr [TxResp (sample_response 180), TxResp (sample_response 407)], Inr [TxResp (sample_response 200)]]"
  have "\<exists>c'. client_Dial sample_client_env sample_dest ?as sample_client = Ret (None, c') \<and> length (tc_out c') = 3 \<and> cn_dest (tc_conn c') = Some 7000"
    by (simp add: client_Dial_def sample_client_env_def client_attempt_def sample_response_def client_auth_def sample_defs dial_answered_def parseSDPAnswer_def
        client_sends_def SetDestAddr_def Let_def)
  then obtain c' where c': "client_Dial sample_client_env sample_dest ?as sample_client = Ret (None, c')" "length (tc_out c') = 3" "cn_dest (tc_conn c') = Some 7000"
    by blast
  have m: "de_marshal sample_client_env o' = Inr ''offer''" for o' by (simp add: sample_client_env_def)
  have fill: "\<exists>d. d \<noteq> [] \<and> cq_call_id (de_fill sample_client_env q) = Some d" for q by (simp add: sample_client_env_def split: option.split)
  have "\<exists>(l :: dial_log) req resp. l \<noteq> [] \<and> last l = (req, Some resp) \<and> vp_status resp = 200"
    using client_dial_sequence [OF c'(1) m fill] by (elim exE conjE) (intro exI conjI, assumption+)
  then show ?thesis using c' by simp
qed

text \<open>
  A call the other side has answered is not ended by the client if its answer cannot be used: the ACK is sent, \<open>Dial\<close> fails, and closing the
  client sends no BYE.
\<close>

lemma unusable_answer_leaves_call:
  assumes "client_Dial E dst as c = Ret (Some e, c')"
  shows "tc_invite c' = tc_invite c"
  using assms
  by (auto simp: client_Dial_def dial_answered_def Let_def fold_sends client_sends_def split: sum.splits go_run.splits option.splits prod.splits)

text \<open>A failing mixer makes \<open>NewClient\<close> panic: the connection that is closed then has no socket yet.\<close>

lemma mixer_failure_panics:
  assumes "cs_mixer S = Some e" "cc_ip conf = Some ip" "cs_codec S (if cc_codec conf = [] then ulaw else cc_codec conf) = Some ki"
  shows "test_NewClient ulaw now S cid conf = Panicked"
  using assms
  by (simp add: test_NewClient_def client_media_def client_abort_def client_Close_def client_value_def NewConnWith_def conn_EnableTimeout_def
      conn_Close_def OnRTP_def)

text \<open>At the wrap-around of the timestamps a digit that follows the audio at once is dropped.\<close>

lemma digit_dropped_at_wrap: "digit_in_sync 8000 (- 1) 159 = False"
  by code_simp

text \<open>While the other side keeps challenging, the client keeps dialling: no number of attempts ends the call.\<close>

lemma dial_without_end:
  assumes "\<And>p. auth p = Ret (Inr w)" "list_all (\<lambda>a. \<exists>p. a = Inr [TxResp p] \<and> vp_status p = 407) as"
  shows "fst (dial_loop fill auth mk as v i) = Blocked"
  using assms(2)
proof (induction as arbitrary: v i)
  case (Cons a as)
  then obtain p where "a = Inr [TxResp p]" "vp_status p = 407" by auto
  then show ?case using Cons assms(1) by (simp add: client_attempt_def Let_def case_prod_beta)
qed simp

end
