(* ===== verification/TestSignals.thy ===== *)
theory TestSignals
  imports Complex_Main "HOL-Library.Multiset" TestClient
begin

text \<open>
  Audio signals of the tests: the generator and the detector of \<open>pkg/audiotest/freq.go\<close>, and the loops of the test client that send them and wait
  for them (\<open>pkg/siptest/client.go\<close>).  A signal is a frequency (a power of two) with an amplitude.  The Fourier transform, the codec and the
  writers are arguments; loops run over the events they wait for.  Numbers of type float64 are reals.
\<close>

record wave =
  wv_ind :: int
  wv_amp :: int

section \<open>Generator and detector\<close>

text \<open>Go converts a float to an integer by cutting it off.\<close>

definition trunc :: "real \<Rightarrow> int" where
  "trunc x = (if x < 0 then - \<lfloor>- x\<rfloor> else \<lfloor>x\<rfloor>)"

definition wave_at :: "real \<Rightarrow> wave list \<Rightarrow> real" where
  "wave_at ifl waves = sum_list (map (\<lambda>w. real_of_int (wv_amp w) * sin (ifl * 2 * pi * 2 ^ nat (wv_ind w))) waves)"

definition GenSignal :: "nat \<Rightarrow> wave list \<Rightarrow> int list" where
  "GenSignal n waves = map (\<lambda>i. trunc (wave_at (real i / real n) waves)) [0 ..< n]"

fun ilog2 :: "nat \<Rightarrow> nat" where
  "ilog2 n = (if n \<le> 1 then 0 else 1 + ilog2 (n div 2))"

declare ilog2.simps [simp del]

text \<open>\<open>math.Round\<close> of a positive number.\<close>

definition round_half_up :: "'f::floor_ceiling \<Rightarrow> int" where
  "round_half_up x = \<lfloor>x + 1 / 2\<rfloor>"

text \<open>\<open>mags\<close> are the absolute values of the transform of a frame.  The order of waves of equal amplitude is not specified.\<close>

definition wave_of :: "nat \<Rightarrow> nat \<Rightarrow> 'f::floor_ceiling \<Rightarrow> wave option" where
  "wave_of n i v =
     (if i = 0 then None
      else let a = 2 * v / of_nat n in
        if a < 1 then None else Some \<lparr>wv_ind = int (ilog2 i), wv_amp = round_half_up (a + 1 / 2)\<rparr>)"

definition FindSignal :: "'f::floor_ceiling list \<Rightarrow> wave list" where
  "FindSignal mags =
     (let n = length mags; waves = List.map_filter (\<lambda>(i, v). wave_of n i v) (enumerate 0 (take (n div 2) mags))
      in sort_key (\<lambda>w. - wv_amp w) waves)"

section \<open>Waiting for signals\<close>

definition signalAmp :: int where
  "signalAmp = 32767 div 4"

definition signalAmpMin :: int where
  "signalAmpMin = signalAmp - signalAmp div 4"

definition signalAmpMax :: int where
  "signalAmpMax = signalAmp + signalAmp div 10"

definition amp_ok :: "wave \<Rightarrow> bool" where
  "amp_ok w = (signalAmpMin \<le> wv_amp w \<and> wv_amp w \<le> signalAmpMax)"

definition signals_found :: "int list \<Rightarrow> wave list \<Rightarrow> bool" where
  "signals_found vals out =
     (length vals \<le> length out \<and>
      list_all2 (\<lambda>v w. wv_ind w = v \<and> amp_ok w) vals (sort_key wv_ind (take (length vals) out)))"

text \<open>
  What the loop takes from its select: the end of the context, a packet, or the closed channel, which gives a nil packet.  \<open>decode\<close> is the codec,
  \<open>rec\<close> the error of the recording for a frame, \<open>mags\<close> the transform.
\<close>

datatype signal_wait = WaitCtx sentinel | WaitPacket u8 "u8 list" | WaitClosed

fun WaitSignals ::
  "u8 \<Rightarrow> (u8 list \<Rightarrow> go_error + int list) \<Rightarrow> (int list \<Rightarrow> go_error option) \<Rightarrow> (int list \<Rightarrow> 'f::floor_ceiling list) \<Rightarrow> int list \<Rightarrow>
   signal_wait list \<Rightarrow> go_error option go_run" where
  "WaitSignals pt decode rec mags vals [] = Blocked"
| "WaitSignals pt decode rec mags vals (WaitCtx e # es) = Ret (Some (Sentinel e))"
| "WaitSignals pt decode rec mags vals (WaitClosed # es) = Panicked"
| "WaitSignals pt decode rec mags vals (WaitPacket t payload # es) =
     (if t \<noteq> pt then WaitSignals pt decode rec mags vals es
      else case decode payload of
        Inl e \<Rightarrow> Ret (Some e)
      | Inr frame \<Rightarrow>
          (case rec frame of
             Some e \<Rightarrow> Ret (Some e)
           | None \<Rightarrow>
               if list_all (\<lambda>v. v = 0) frame then WaitSignals pt decode rec mags vals es
               else if signals_found vals (FindSignal (mags frame)) then Ret None
               else WaitSignals pt decode rec mags vals es))"

text \<open>The handler of the packets: the event it leaves for the loop, and its error.  It closes the channel when it finds the context done.\<close>

definition wait_handler :: "bool \<Rightarrow> sentinel option \<Rightarrow> u8 \<Rightarrow> u8 list \<Rightarrow> (signal_wait option \<times> go_error option) \<times> bool" where
  "wait_handler isDone ctx t payload =
     (if isDone then ((None, map_option Sentinel ctx), True)
      else case ctx of
        Some e \<Rightarrow> ((Some WaitClosed, Some (Sentinel e)), True)
      | None \<Rightarrow> ((Some (WaitPacket t payload), None), False))"

section \<open>Sending\<close>

datatype send_event = SendCtx sentinel | SendTick

text \<open>\<open>SendSignal\<close> and \<open>SendSilence\<close>: the frames written, and the result once it returns.  \<open>werr i\<close> is the error of the writer for frame \<open>i\<close>.\<close>

fun send_loop :: "(nat \<Rightarrow> go_error option) \<Rightarrow> int \<Rightarrow> send_event list \<Rightarrow> nat \<Rightarrow> nat \<times> go_error option go_run" where
  "send_loop werr n es i =
     (if 0 < n \<and> n \<le> int i then (i, Ret None)
      else case es of
        [] \<Rightarrow> (i, Blocked)
      | SendCtx e # _ \<Rightarrow> (i, Ret (if n \<le> 0 then None else Some (Sentinel e)))
      | SendTick # es' \<Rightarrow> (case werr i of Some x \<Rightarrow> (i, Ret (Some x)) | None \<Rightarrow> send_loop werr n es' (i + 1)))"

declare send_loop.simps [simp del]

definition SendSignal :: "(nat \<Rightarrow> go_error option) \<Rightarrow> int \<Rightarrow> send_event list \<Rightarrow> nat \<times> go_error option go_run" where
  "SendSignal werr n es = send_loop werr n es 0"

definition SendSilence :: "(nat \<Rightarrow> go_error option) \<Rightarrow> send_event list \<Rightarrow> nat \<times> go_error option go_run" where
  "SendSilence werr es = send_loop werr 0 es 0"

text \<open>
  \<open>SendAudio\<close>: samples of two bytes, low byte first.  A frame with an odd number of bytes makes the conversion of its last byte panic.
\<close>

fun le_samples :: "u8 list \<Rightarrow> u16 list option" where
  "le_samples [] = Some []"
| "le_samples [b] = None"
| "le_samples (b # c # bs) = map_option ((#) (ucast b + 256 * ucast c)) (le_samples bs)"

fun audio_frames :: "u8 list list \<Rightarrow> u16 list list option" where
  "audio_frames [] = Some []"
| "audio_frames (f # fs) =
     (case le_samples f of None \<Rightarrow> None | Some s \<Rightarrow> map_option ((#) s) (audio_frames fs))"

text \<open>One frame per tick; the tick after the last frame ends the loop.\<close>

fun play_frames :: "(nat \<Rightarrow> go_error option) \<Rightarrow> u16 list list \<Rightarrow> nat \<Rightarrow> nat \<Rightarrow> u16 list list \<times> go_error option go_run" where
  "play_frames werr fs 0 i = ([], Blocked)"
| "play_frames werr [] (Suc ticks) i = ([], Ret None)"
| "play_frames werr (f # fs) (Suc ticks) i =
     (case werr i of Some e \<Rightarrow> ([], Ret (Some e)) | None \<Rightarrow> (let (ws, r) = play_frames werr fs ticks (i + 1) in (f # ws, r)))"

definition SendAudio ::
  "(nat \<Rightarrow> go_error option) \<Rightarrow> go_error + (go_error + u8 list list) \<Rightarrow> nat \<Rightarrow> u16 list list \<times> go_error option go_run" where
  "SendAudio werr file ticks =
     (case file of
        Inl _ \<Rightarrow> ([], Panicked)
      | Inr (Inl e) \<Rightarrow> ([], Ret (Some e))
      | Inr (Inr blocks) \<Rightarrow> (case audio_frames blocks of None \<Rightarrow> ([], Panicked) | Some fs \<Rightarrow> play_frames werr fs ticks 0))"

section \<open>Properties\<close>

text \<open>A generated signal stays within the sum of its amplitudes, so it fits 16 bits if that sum does.\<close>

lemma wave_at_bound: "\<bar>wave_at x waves\<bar> \<le> real_of_int (sum_list (map (\<lambda>w. \<bar>wv_amp w\<bar>) waves))"
proof (induction waves)
  case (Cons w ws)
  let ?s = "real_of_int (wv_amp w) * sin (x * 2 * pi * 2 ^ nat (wv_ind w))"
  have "\<bar>?s\<bar> \<le> real_of_int \<bar>wv_amp w\<bar>" by (simp add: abs_mult mult_left_le)
  moreover have "\<bar>wave_at x (w # ws)\<bar> \<le> \<bar>?s\<bar> + \<bar>wave_at x ws\<bar>" by (simp add: wave_at_def abs_triangle_ineq)
  ultimately show ?case using Cons.IH by simp
qed (simp add: wave_at_def)

lemma trunc_bound: "\<bar>x\<bar> \<le> real_of_int k \<Longrightarrow> \<bar>trunc x\<bar> \<le> k"
  by (auto simp: trunc_def abs_le_iff floor_le_iff le_floor_iff abs_if split: if_splits; linarith)

theorem signal_fits:
  assumes "v \<in> set (GenSignal n waves)"
  shows "\<bar>v\<bar> \<le> sum_list (map (\<lambda>w. \<bar>wv_amp w\<bar>) waves)"
  using assms trunc_bound [OF wave_at_bound] by (auto simp: GenSignal_def)

text \<open>The search for signals does not depend on the order in which waves are sorted that the sort leaves open.\<close>

lemma match_split: "list_all2 (\<lambda>v w. wv_ind w = v \<and> R w) vals out \<longleftrightarrow> vals = map wv_ind out \<and> list_all R out"
  by (induction vals out rule: list_induct2') auto

lemma match_any_order:
  assumes "mset out' = mset (take (length vals) out)" "sorted (map wv_ind out')" "length vals \<le> length out"
  shows "signals_found vals out \<longleftrightarrow> list_all2 (\<lambda>v w. wv_ind w = v \<and> amp_ok w) vals out'"
proof -
  let ?o = "sort_key wv_ind (take (length vals) out)"
  have m: "mset out' = mset ?o" using assms(1) by simp
  have "mset (map wv_ind out') = mset (map wv_ind ?o)" using m by simp
  then have "sort (map wv_ind ?o) = map wv_ind out'" using assms(2) by (rule properties_for_sort)
  moreover have "sort (map wv_ind ?o) = map wv_ind ?o" by (rule properties_for_sort) simp_all
  moreover have "set out' = set ?o" using m by (rule mset_eq_setD)
  ultimately show ?thesis using assms(3) by (simp add: signals_found_def match_split list_all_iff)
qed

text \<open>
  Waiting succeeds exactly with the first frame in which the signals are found: it returns nil only for a packet of the audio type that decodes to
  a frame that is not silent and in which they are; packets of other types, silence and frames with other signals are passed over.
\<close>

definition passed_over ::
  "u8 \<Rightarrow> (u8 list \<Rightarrow> go_error + int list) \<Rightarrow> (int list \<Rightarrow> go_error option) \<Rightarrow> (int list \<Rightarrow> 'f::floor_ceiling list) \<Rightarrow> int list \<Rightarrow> signal_wait \<Rightarrow> bool" where
  "passed_over pt decode rec mags vals e =
     (case e of
        WaitPacket t payload \<Rightarrow>
          t \<noteq> pt \<or> (\<exists>frame. decode payload = Inr frame \<and> rec frame = None
            \<and> (list_all (\<lambda>v. v = 0) frame \<or> \<not> signals_found vals (FindSignal (mags frame))))
      | _ \<Rightarrow> False)"

theorem wait_signals_exact:
  "WaitSignals pt decode rec mags vals es = Ret None \<longleftrightarrow>
     (\<exists>us payload frame vs. es = us @ WaitPacket pt payload # vs \<and> list_all (passed_over pt decode rec mags vals) us
        \<and> decode payload = Inr frame \<and> rec frame = None \<and> \<not> list_all (\<lambda>v. v = 0) frame \<and> signals_found vals (FindSignal (mags frame)))"
    (is "?L es \<longleftrightarrow> ?R es")
proof (induction es)
  case (Cons e es)
  let ?hit = "\<lambda>e. \<exists>payload frame. e = WaitPacket pt payload \<and> decode payload = Inr frame \<and> rec frame = None
      \<and> \<not> list_all (\<lambda>v. v = 0) frame \<and> signals_found vals (FindSignal (mags frame))"
  let ?pass = "passed_over pt decode rec mags vals"
  have step: "?L (e # es) \<longleftrightarrow> ?hit e \<or> ?pass e \<and> ?L es"
    by (cases e) (auto simp: passed_over_def split: sum.splits option.splits)
  have "?R (e # es) \<longleftrightarrow> ?hit e \<or> ?pass e \<and> ?R es"
  proof
    assume "?R (e # es)"
    then obtain us payload frame vs where d: "e # es = us @ WaitPacket pt payload # vs" "list_all ?pass us" "decode payload = Inr frame"
        "rec frame = None" "\<not> list_all (\<lambda>v. v = 0) frame" "signals_found vals (FindSignal (mags frame))"
      by blast
    then show "?hit e \<or> ?pass e \<and> ?R es" by (cases us) auto
  next
    assume "?hit e \<or> ?pass e \<and> ?R es"
    then show "?R (e # es)"
    proof
      assume "?hit e"
      then obtain payload frame where "e # es = [] @ WaitPacket pt payload # es" "decode payload = Inr frame" "rec frame = None"
          "\<not> list_all (\<lambda>v. v = 0) frame" "signals_found vals (FindSignal (mags frame))" by auto
      moreover have "list_all ?pass []" by simp
      ultimately show ?thesis by blast
    next
      assume "?pass e \<and> ?R es"
      then obtain us payload frame vs where "e # es = (e # us) @ WaitPacket pt payload # vs" "list_all ?pass (e # us)" "decode payload = Inr frame"
          "rec frame = None" "\<not> list_all (\<lambda>v. v = 0) frame" "signals_found vals (FindSignal (mags frame))"
        by auto
      then show ?thesis by blast
    qed
  qed
  then show ?case using step Cons.IH by simp
qed simp

text \<open>A counted signal is sent exactly that often, one frame per tick, unless the context ends or the writer fails before.\<close>

lemma send_loop_counts:
  assumes "\<And>i. werr i = None" "0 < n" "int i \<le> n" "nat n \<le> i + length ticks" "list_all (\<lambda>e. e = SendTick) ticks"
  shows "send_loop werr n (ticks @ rest) i = (nat n, Ret None)"
  using assms(3-5)
proof (induction ticks arbitrary: i)
  case Nil
  then show ?case using assms(2) by (subst send_loop.simps) auto
next
  case (Cons e ticks)
  show ?case
  proof (cases "int i = n")
    case True
    then show ?thesis using assms(2) by (subst send_loop.simps) auto
  next
    case False
    then have "int i < n" using Cons.prems(1) by simp
    then have "send_loop werr n (ticks @ rest) (Suc i) = (nat n, Ret None)" using Cons.prems by (intro Cons.IH) auto
    then show ?thesis using \<open>int i < n\<close> Cons.prems(3) assms(1) by (subst send_loop.simps) simp
  qed
qed

lemma signal_sent_exactly:
  assumes "\<And>i. werr i = None" "0 < n"
  shows "SendSignal werr n (replicate (nat n) SendTick @ rest) = (nat n, Ret None)"
  unfolding SendSignal_def by (rule send_loop_counts) (use assms in \<open>auto simp: list_all_iff\<close>)

text \<open>
  A context that ends while packets arrive can make the client panic: the handler closes the channel, and the loop may take the closed channel
  before it looks at the context.
\<close>

lemma wait_signals_race:
  "fst (wait_handler False (Some e) t payload) = (Some WaitClosed, Some (Sentinel e))"
  "WaitSignals pt decode rec mags vals (WaitClosed # es) = Panicked"
  by (simp_all add: wait_handler_def)

text \<open>The detector reports the waves by falling amplitude, each for a bin whose amplitude is at least one.\<close>

lemma found_sorted: "sorted (map (\<lambda>w. - wv_amp w) (FindSignal mags))"
  by (simp add: FindSignal_def Let_def)

lemma found_amp: "w \<in> set (FindSignal mags) \<Longrightarrow> 2 \<le> wv_amp w"
  by (auto simp: FindSignal_def Let_def List.map_filter_def wave_of_def round_half_up_def le_floor_iff split: if_splits)

end
