(* ===== verification/NodeBoot.thy ===== *)
theory NodeBoot
  imports NodeStart ServiceRun
begin

text \<open>
  From the command line to a running node: \<open>getConfig\<close> and \<open>runService\<close> of \<open>cmd/livekit-sip/main.go\<close>, \<open>NewConfig\<close>, \<open>GetLocalIP\<close> and the fields of
  the logger of \<open>pkg/config/config.go\<close>, and the verification of TLS peers, \<open>ConfigureTLS\<close> of \<open>pkg/sip/tls.go\<close>.  \<open>runService\<close> is
  composed of the configuration (\<open>NodeConfig\<close>), the start of the node (\<open>NodeStart\<close>) and the service (\<open>ServiceRun\<close>).  Files, YAML, the environment,
  Redis and the RPC client are arguments.
\<close>

section \<open>Configuration\<close>

text \<open>What \<open>NewConfig\<close> and \<open>runService\<close> use of the configuration beside the settings of the node.\<close>

record 'f boot_conf =
  bc_api_key :: string
  bc_api_secret :: string
  bc_ws_url :: string
  bc_service_name :: string
  bc_redis :: bool
  bc_cluster :: string
  bc_node_id :: string
  bc_prometheus :: int
  bc_pprof :: int
  bc_health :: int
  bc_opus :: bool
  bc_listen_ip :: string
  bc_node :: "'f node_conf"

text \<open>\<open>zero\<close> is the configuration with every field zero; \<open>unmarshal\<close> sets what the text names.\<close>

definition NewConfig ::
  "(string \<Rightarrow> string) \<Rightarrow> 'f boot_conf \<Rightarrow> (string \<Rightarrow> 'f boot_conf \<Rightarrow> go_error + 'f boot_conf) \<Rightarrow> string \<Rightarrow> go_error + 'f boot_conf" where
  "NewConfig getenv zero unmarshal confString =
     (let conf = zero\<lparr>bc_api_key := getenv ''LIVEKIT_API_KEY'', bc_api_secret := getenv ''LIVEKIT_API_SECRET'',
            bc_ws_url := getenv ''LIVEKIT_WS_URL'', bc_service_name := ''sip''\<rparr>
      in case (if confString \<noteq> [] then unmarshal confString conf else Inr conf) of
           Inl e \<Rightarrow> Inl (Psrpc InvalidArgument (Plain ''could not parse config''))
         | Inr c \<Rightarrow> if \<not> bc_redis c then Inl (Psrpc InvalidArgument (Plain ''redis configuration is required'')) else Inr c)"

definition GetLoggerValues :: "'f boot_conf \<Rightarrow> smap" where
  "GetLoggerValues c = (if bc_node_id c = [] then [] else [(''nodeID'', bc_node_id c)])"

definition GetLoggerFields :: "'f boot_conf \<Rightarrow> smap" where
  "GetLoggerFields c = fold (\<lambda>(k, v). mput k v) (GetLoggerValues c) [(''logger'', bc_service_name c)]"

text \<open>The interfaces of the host; an address is \<open>None\<close> unless it is an IPv4 network.\<close>

record iface =
  if_up :: bool
  if_running :: bool
  if_point_to_point :: bool
  if_loopback :: bool
  if_addrs :: "go_error + ip_addr option list"

definition iface_addrs :: "iface \<Rightarrow> ip_addr list" where
  "iface_addrs i =
     (if \<not> if_up i \<or> \<not> if_running i then []
      else if if_point_to_point i \<or> if_loopback i then []
      else case if_addrs i of Inl _ \<Rightarrow> [] | Inr as \<Rightarrow> map the (filter (\<lambda>a. a \<noteq> None) as))"

text \<open>\<open>Inr None\<close> is the zero address, returned without an error when the interfaces cannot be listed.\<close>

definition GetLocalIP :: "go_error + iface list \<Rightarrow> go_error + ip_addr option" where
  "GetLocalIP ifaces =
     (case ifaces of
        Inl _ \<Rightarrow> Inr None
      | Inr is \<Rightarrow> (case concat (map iface_addrs is) of [] \<Rightarrow> Inl (Plain ''no local IP found'') | ip # _ \<Rightarrow> Inr (Some ip)))"

section \<open>TLS peers\<close>

text \<open>
  \<open>ConfigureTLS\<close> replaces the verification of the library.  \<open>parse\<close> reads a certificate and \<open>verify leaf roots intermediates\<close> builds a chain;
  \<open>None\<close> is the panic on an empty list of certificates.
\<close>

fun parse_certs :: "(u8 list \<Rightarrow> go_error + 'cert) \<Rightarrow> u8 list list \<Rightarrow> go_error + 'cert list" where
  "parse_certs parse [] = Inr []"
| "parse_certs parse (d # ds) =
     (case parse d of
        Inl _ \<Rightarrow> Inl (Plain ''failed to parse certificate from server'')
      | Inr c \<Rightarrow> (case parse_certs parse ds of Inl e \<Rightarrow> Inl e | Inr cs \<Rightarrow> Inr (c # cs)))"

definition VerifyPeerCertificate ::
  "(u8 list \<Rightarrow> go_error + 'cert) \<Rightarrow> ('cert \<Rightarrow> 'roots \<Rightarrow> 'cert list \<Rightarrow> go_error option) \<Rightarrow> 'roots \<Rightarrow> u8 list list \<Rightarrow> go_error option option" where
  "VerifyPeerCertificate parse verify roots certificates =
     (case parse_certs parse certificates of
        Inl e \<Rightarrow> Some (Some e)
      | Inr [] \<Rightarrow> None
      | Inr (leaf # intermediates) \<Rightarrow> Some (verify leaf roots intermediates))"

section \<open>runService\<close>

record boot_args =
  ba_config :: string
  ba_config_body :: string

record 'f boot_env =
  be_read_file :: "string \<Rightarrow> go_error + string"
  be_getenv :: "string \<Rightarrow> string"
  be_zero :: "'f boot_conf"
  be_unmarshal :: "string \<Rightarrow> 'f boot_conf \<Rightarrow> go_error + 'f boot_conf"
  be_guid :: string
  be_logger :: "go_error option"
  be_redis :: "go_error option"
  be_rpc :: "go_error option"
  be_monitor :: "go_error option"
  be_cert :: "go_error option"
  be_addrs :: "go_error + service_addrs"
  be_ip_text :: "ip_addr \<Rightarrow> string"
  be_tls :: tls_env
  be_node :: node_env
  be_registry :: "collector list"
  be_disable_cache :: bool
  be_run :: run_env

definition getConfig :: "'f::linordered_field boot_env \<Rightarrow> boot_args \<Rightarrow> bool \<Rightarrow> go_error + 'f boot_conf" where
  "getConfig E a initialize =
     (case (if ba_config_body a = [] then
              (if ba_config a = [] then Inl (Psrpc InvalidArgument (Plain ''missing config'')) else be_read_file E (ba_config a))
            else Inr (ba_config_body a)) of
        Inl e \<Rightarrow> Inl e
      | Inr body \<Rightarrow>
          (case NewConfig (be_getenv E) (be_zero E) (be_unmarshal E) body of
             Inl e \<Rightarrow> Inl e
           | Inr conf \<Rightarrow>
               if \<not> initialize then Inr conf
               else (case Config_Init (be_logger E) (bc_node conf) of
                       (Some e, _) \<Rightarrow> Inl e
                     | (None, nc) \<Rightarrow> Inr (conf\<lparr>bc_node_id := be_guid E, bc_node := nc\<rparr>))))"

text \<open>
  The result of the program: the error it prints, the SIP server, if it got that far, and the service.  \<open>None\<close>: it still runs.  Stopping the
  SIP node, a step of \<open>Run\<close>, closes the sockets of the server.
\<close>

type_synonym boot_result = "go_error option \<times> sip_server option \<times> process option"

definition sip_sockets_after :: "process \<Rightarrow> sip_server \<Rightarrow> sip_server" where
  "sip_sockets_after p s = (if SipStop \<in> set (ps_log p) then server_close_sockets s else s)"

definition boot_node :: "'f::linordered_field boot_env \<Rightarrow> action list \<Rightarrow> 'f boot_conf \<Rightarrow> 'f node_conf \<Rightarrow> boot_result option" where
  "boot_node E as conf nc =
     (case Service_Start (be_tls E) (be_node E) (bc_opus conf) (bc_listen_ip conf) (nc_sip_listen nc) (nc_tls nc) (NewMonitor, be_registry E)
             (NewServer (be_disable_cache E) []) of
        (Some e, parts, (m, reg), s) \<Rightarrow> Some (Some e, Some s, None)
      | (None, parts, (m, reg), s) \<Rightarrow>
          (case Run (be_run E) as (service_New (bc_prometheus conf) (bc_pprof conf) (bc_health conf) (bc_cluster conf) m reg \<lparr>nd_in = [], nd_out = []\<rparr>) of
             None \<Rightarrow> None
           | Some (err, p) \<Rightarrow> Some (err, Some (sip_sockets_after p s), Some p)))"

definition runService :: "'f::linordered_field boot_env \<Rightarrow> boot_args \<Rightarrow> action list \<Rightarrow> boot_result option" where
  "runService E a as =
     (case getConfig E a True of
        Inl e \<Rightarrow> Some (Some e, None, None)
      | Inr conf \<Rightarrow>
     (case (case be_redis E of Some e \<Rightarrow> Some e | None \<Rightarrow> (case be_rpc E of Some e \<Rightarrow> Some e | None \<Rightarrow> be_monitor E)) of
        Some e \<Rightarrow> Some (Some e, None, None)
      | None \<Rightarrow>
     (case NewService (be_cert E) (be_addrs E) (be_ip_text E) (bc_node conf) of
        Inl e \<Rightarrow> Some (Some e, None, None)
      | Inr (nc, _) \<Rightarrow> boot_node E as conf nc)))"

text \<open>\<open>main\<close> prints the error, if any; the exit status of the process is 0 in any case.\<close>

definition main_exit :: "go_error option \<Rightarrow> go_error list \<times> int" where
  "main_exit err = (case err of None \<Rightarrow> [] | Some e \<Rightarrow> [e], 0)"

section \<open>Properties\<close>

lemma NewConfig_redis: "NewConfig getenv zero unmarshal t = Inr c \<Longrightarrow> bc_redis c"
  by (auto simp: NewConfig_def Let_def split: sum.splits if_splits)

lemma getConfig_ok:
  assumes "getConfig E a True = Inr conf"
  shows "bc_redis conf \<and> (\<exists>c. Config_Init (be_logger E) c = (None, bc_node conf)) \<and> (ba_config a \<noteq> [] \<or> ba_config_body a \<noteq> [])"
proof -
  obtain body conf0 nc where c: "NewConfig (be_getenv E) (be_zero E) (be_unmarshal E) body = Inr conf0"
      "Config_Init (be_logger E) (bc_node conf0) = (None, nc)" "conf = conf0\<lparr>bc_node_id := be_guid E, bc_node := nc\<rparr>"
      and "ba_config a \<noteq> [] \<or> ba_config_body a \<noteq> []"
    using assms by (auto simp: getConfig_def split: sum.splits if_splits prod.splits option.splits)
  then show ?thesis using NewConfig_redis [OF c(1)] by auto
qed

lemma runService_server:
  assumes "runService E a as = Some (err, Some s, r)"
  obtains conf nc ads where "getConfig E a True = Inr conf" "NewService (be_cert E) (be_addrs E) (be_ip_text E) (bc_node conf) = Inr (nc, ads)"
    "boot_node E as conf nc = Some (err, Some s, r)"
  using assms by (auto simp: runService_def split: sum.splits option.splits prod.splits)

lemma boot_node_ok:
  assumes "boot_node E as conf nc = Some (None, Some s, r)"
  obtains parts m reg s0 p p0 where "Service_Start (be_tls E) (be_node E) (bc_opus conf) (bc_listen_ip conf) (nc_sip_listen nc) (nc_tls nc)
      (NewMonitor, be_registry E) (NewServer (be_disable_cache E) []) = (None, parts, (m, reg), s0)"
    "p0 = service_New (bc_prometheus conf) (bc_pprof conf) (bc_health conf) (bc_cluster conf) m reg \<lparr>nd_in = [], nd_out = []\<rparr>"
    "Run (be_run E) as p0 = Some (None, p)" "r = Some p" "s = sip_sockets_after p s0"
  using assms by (auto simp: boot_node_def split: prod.splits option.splits)

lemma Run_stops_node:
  assumes "Run R as p = Some (None, p')"
  shows "SipStop \<in> set (ps_log p') \<and> nd_in (ps_node p') = [] \<and> nd_out (ps_node p') = []"
  using Run_ok [OF assms] by (auto simp: sip_stop_sel)

text \<open>
  C40: The program serves only with a sound configuration, and cleans up.  A SIP server is made only if a configuration was given, names a Redis server
  and gives well-formed settings, and the clients and the monitor could be made.  If the program ends without an error, that server had all its
  handlers and listened on the ports of the settings, every one of its sockets is closed, and no call is left.
\<close>

theorem node_boots:
  assumes "runService E a as = Some (err, Some s, r)"
  shows "(ba_config a \<noteq> [] \<or> ba_config_body a \<noteq> []) \<and> be_redis E = None \<and> be_rpc E = None \<and> be_monitor E = None
    \<and> (\<exists>conf nc ads. getConfig E a True = Inr conf \<and> bc_redis conf
        \<and> NewService (be_cert E) (be_addrs E) (be_ip_text E) (bc_node conf) = Inr (nc, ads) \<and> conf_ok nc
        \<and> (err = None \<and> 0 \<le> nc_sip_listen nc \<and> nc_sip_listen nc < 65536 \<longrightarrow>
             ss_handlers s = start_handlers \<and> opened s = []
             \<and> map (\<lambda>(pr, ip, port). (pr, uint port)) (ss_listeners s) =
                 [(ProtoUDP, nc_sip_listen nc), (ProtoTCP, nc_sip_listen nc)]
                   @ (case nc_tls nc of Some t \<Rightarrow> [(ProtoTLS, tl_listen t mod 65536)] | None \<Rightarrow> [])
             \<and> (\<exists>p. r = Some p \<and> nd_in (ps_node p) = [] \<and> nd_out (ps_node p) = [])))"
proof -
  obtain conf nc ads where g: "getConfig E a True = Inr conf"
      "NewService (be_cert E) (be_addrs E) (be_ip_text E) (bc_node conf) = Inr (nc, ads)" "boot_node E as conf nc = Some (err, Some s, r)"
    using assms by (rule runService_server)
  note c = getConfig_ok [OF g(1)]
  then obtain c0 where "Config_Init (be_logger E) c0 = (None, bc_node conf)" by blast
  from service_config_well_formed [OF this] g(2) have ok: "conf_ok nc" by blast
  have env: "be_redis E = None" "be_rpc E = None" "be_monitor E = None"
    using assms g(1) by (auto simp: runService_def split: option.splits)
  have up: "ss_handlers s = start_handlers \<and> opened s = []
      \<and> map (\<lambda>(pr, ip, port). (pr, uint port)) (ss_listeners s) = [(ProtoUDP, nc_sip_listen nc), (ProtoTCP, nc_sip_listen nc)]
          @ (case nc_tls nc of Some t \<Rightarrow> [(ProtoTLS, tl_listen t mod 65536)] | None \<Rightarrow> [])
      \<and> (\<exists>p. r = Some p \<and> nd_in (ps_node p) = [] \<and> nd_out (ps_node p) = [])"
    if e: "err = None" and port: "0 \<le> nc_sip_listen nc" "nc_sip_listen nc < 65536"
  proof -
    have boot: "boot_node E as conf nc = Some (None, Some s, r)" using g(3) e by simp
    obtain parts m reg s0 p p0 where b: "Service_Start (be_tls E) (be_node E) (bc_opus conf) (bc_listen_ip conf) (nc_sip_listen nc) (nc_tls nc)
        (NewMonitor, be_registry E) (NewServer (be_disable_cache E) []) = (None, parts, (m, reg), s0)"
      "Run (be_run E) as p0 = Some (None, p)" "r = Some p" "s = sip_sockets_after p s0"
      using boot by (rule boot_node_ok)
    have "s = server_close_sockets s0" using b(4) Run_stops_node [OF b(2)] by (simp add: sip_sockets_after_def)
    moreover obtain ip where h: "ss_handlers s0 = start_handlers" "map (\<lambda>(pr, a, p). (pr, a, uint p)) (ss_listeners s0) =
        [(ProtoUDP, ip, nc_sip_listen nc), (ProtoTCP, ip, nc_sip_listen nc)] @ (case nc_tls nc of Some t \<Rightarrow> [(ProtoTLS, ip, tl_listen t mod 65536)] | None \<Rightarrow> [])"
      using node_listens [OF b(1) port] by blast
    moreover have "map (\<lambda>(pr, ip, port). (pr, uint port)) (ss_listeners s0) = map (\<lambda>(pr, ip, n). (pr, n)) (map (\<lambda>(pr, a, p). (pr, a, uint p)) (ss_listeners s0))"
      by (simp add: case_prod_beta)
    ultimately show ?thesis
      using b(3) Run_stops_node [OF b(2)] close_sockets_all [of s0]
      by (simp add: server_close_sockets_def split: option.split)
  qed
  from c env g(1,2) ok up show ?thesis by blast
qed

definition sample_boot :: "rat boot_env" where
  "sample_boot =
     \<lparr>be_read_file = (\<lambda>_. Inl (Plain ''no file'')), be_getenv = (\<lambda>_. []),
      be_zero = \<lparr>bc_api_key = [], bc_api_secret = [], bc_ws_url = [], bc_service_name = [], bc_redis = False, bc_cluster = [], bc_node_id = [],
        bc_prometheus = 0, bc_pprof = 0, bc_health = 0, bc_opus = False, bc_listen_ip = [], bc_node = example_conf\<rparr>,
      be_unmarshal = (\<lambda>_ c. Inr (c\<lparr>bc_redis := True, bc_cluster := ''c1''\<rparr>)), be_guid = ''NE_1'', be_logger = None, be_redis = None, be_rpc = None,
      be_monitor = None, be_cert = None, be_addrs = Inr example_addrs, be_ip_text = (\<lambda>_. ''10.0.0.7''), be_tls = sample_tls_env,
      be_node = sample_node_env, be_registry = [], be_disable_cache = False, be_run = sample_run\<rparr>"

lemma sample_boot_config:
  "getConfig sample_boot \<lparr>ba_config = [], ba_config_body = ''redis: {}''\<rparr> True =
     Inr ((be_zero sample_boot)\<lparr>bc_service_name := ''sip'', bc_redis := True, bc_cluster := ''c1'', bc_node_id := ''NE_1'', bc_node := init_defaults example_conf\<rparr>)"
  by (simp add: getConfig_def NewConfig_def sample_boot_def Config_Init_def init_defaults_def example_conf_def Let_def)

lemma sample_boot_service:
  "\<exists>nc. NewService None (Inr example_addrs) (\<lambda>_. ''10.0.0.7'') (init_defaults example_conf) = Inr (nc, example_addrs)
    \<and> nc_sip_listen nc = 5060 \<and> nc_tls nc = None"
proof -
  obtain nc where nc: "NewService None (Inr example_addrs) (\<lambda>_. ''10.0.0.7'') (init_defaults example_conf) = Inr (nc, example_addrs)"
    using service_config_well_formed_witness by blast
  note f = NewService_fields(1) [OF nc]
  have "nc_sip_listen nc = nc_sip_listen (init_defaults example_conf)" by (rule trans [OF arg_cong [OF f, of nc_sip_listen]]) simp
  moreover have "nc_tls nc = nc_tls (init_defaults example_conf)" by (rule trans [OF arg_cong [OF f, of nc_tls]]) simp
  ultimately show ?thesis using nc by (simp add: init_defaults_def example_conf_def or_default_def Let_def)
qed

theorem node_boots_witness:
  "\<exists>s r. runService sample_boot \<lparr>ba_config = [], ba_config_body = ''redis: {}''\<rparr> (service_Stop False @ [ShutdownTick]) = Some (None, Some s, r)
    \<and> (\<exists>conf. getConfig sample_boot \<lparr>ba_config = [], ba_config_body = ''redis: {}''\<rparr> True = Inr conf \<and> bc_redis conf)"
proof -
  let ?a = "\<lparr>ba_config = [], ba_config_body = ''redis: {}''\<rparr>"
  obtain nc where nc: "NewService None (Inr example_addrs) (\<lambda>_. ''10.0.0.7'') (init_defaults example_conf) = Inr (nc, example_addrs)"
      "nc_sip_listen nc = 5060" "nc_tls nc = None"
    using sample_boot_service by blast
  have "\<exists>s r. runService sample_boot ?a (service_Stop False @ [ShutdownTick]) = Some (None, Some s, r)"
    unfolding runService_def sample_boot_config using nc
    by (simp add: sample_boot_def boot_node_def Service_Start_def Server_Start_def Client_Start_def tls_setup_def agent_error_def start_listener_def
        sample_node_env_def Run_def run_start_def sample_run_def service_New_def configured_def service_Stop_def Let_def
        RegisterCreateSIPParticipantTopic_def DeregisterCreateSIPParticipantTopic_def log_act_def drain_step may_stop_def split: prod.split)
  then obtain s r where "runService sample_boot ?a (service_Stop False @ [ShutdownTick]) = Some (None, Some s, r)" by blast
  from this node_boots [OF this] show ?thesis by blast
qed

text \<open>
  The sockets of the SIP server stay open if the service behind it cannot start: \<open>runService\<close> does not stop the node it has started.
\<close>

lemma failed_run_leaves_sockets:
  assumes "boot_node E as conf nc = Some (Some e, Some s, Some p)"
  shows "\<exists>parts m reg. Service_Start (be_tls E) (be_node E) (bc_opus conf) (bc_listen_ip conf) (nc_sip_listen nc) (nc_tls nc)
      (NewMonitor, be_registry E) (NewServer (be_disable_cache E) []) = (None, parts, (m, reg), s)"
proof -
  obtain parts m reg s0 p0 where st: "Service_Start (be_tls E) (be_node E) (bc_opus conf) (bc_listen_ip conf) (nc_sip_listen nc) (nc_tls nc)
      (NewMonitor, be_registry E) (NewServer (be_disable_cache E) []) = (None, parts, (m, reg), s0)"
    and p: "Run (be_run E) as p0 = Some (Some e, p)" "ps_log p0 = []" "s = sip_sockets_after p s0"
    using assms by (auto simp: boot_node_def service_New_def split: prod.splits option.splits)
  have "run_start (be_run E) p0 = Inl (e, p)" using p(1) by (auto simp: Run_def split: sum.splits option.splits prod.splits)
  from run_start_error [OF this] p(2) have "SipStop \<notin> set (ps_log p)" by auto
  then show ?thesis using st p(3) by (auto simp: sip_sockets_after_def)
qed

text \<open>
  A TLS peer is accepted only if it presented certificates that all parse and the first of them is verified against the roots with the others as
  intermediates.  The name of the peer takes no part in it.
\<close>

lemma parse_certs_all: "parse_certs parse ds = Inr cs \<longleftrightarrow> map parse ds = map Inr cs"
proof (induction ds arbitrary: cs)
  case (Cons d ds)
  show ?case using Cons.IH [of "tl cs"] by (cases "parse d"; cases "parse_certs parse ds"; cases cs) auto
qed auto

lemma tls_peer_verified:
  "VerifyPeerCertificate parse verify roots ds = Some None \<longleftrightarrow>
     (\<exists>leaf inter. map parse ds = map Inr (leaf # inter) \<and> verify leaf roots inter = None)"
  unfolding parse_certs_all [symmetric] by (auto simp: VerifyPeerCertificate_def split: sum.splits list.splits)

text \<open>The local address is the first IPv4 address of an interface that is up and running, not a loopback and not point-to-point.\<close>

lemma local_ip_sound:
  assumes "GetLocalIP (Inr is) = Inr (Some ip)"
  shows "\<exists>i as. i \<in> set is \<and> if_up i \<and> if_running i \<and> \<not> if_loopback i \<and> \<not> if_point_to_point i \<and> if_addrs i = Inr as \<and> Some ip \<in> set as"
proof -
  obtain ips where "concat (map iface_addrs is) = ip # ips" using assms by (auto simp: GetLocalIP_def split: list.splits)
  then have "ip \<in> set (concat (map iface_addrs is))" by (metis list.set_intros(1))
  then obtain i where i: "i \<in> set is" "ip \<in> set (iface_addrs i)" by auto
  then obtain as where "if_addrs i = Inr as" "Some ip \<in> set as" by (cases "if_addrs i") (auto simp: iface_addrs_def split: if_splits)
  moreover have "if_up i \<and> if_running i \<and> \<not> if_loopback i \<and> \<not> if_point_to_point i"
    using i(2) by (auto simp: iface_addrs_def split: if_splits)
  ultimately show ?thesis using i(1) by blast
qed

end
