(* ===== verification/OpusCodec.thy ===== *)
theory OpusCodec
  imports GoErrors
begin

text \<open>
  The Opus codec of the bridge: the decoder and the encoder of \<open>pkg/media/opus/opus.go\<close>, and the codec registered by
  \<open>pkg/sip/media_codecs_opus.go\<close>.  The C library and the writer behind a codec are state transformers given as arguments: \<open>code\<close>
  codes one frame into a buffer of the given size, \<open>put\<close> hands data on; \<open>fps\<close> is \<open>rtp.DefFramesPerSec\<close> of the media library.  The encoder cuts the audio, which comes in pieces of any
  size, into frames of 20 ms; its loop is a \<open>partial_function\<close>, since it has no end for frames of no samples.
\<close>

section \<open>Data\<close>

type_synonym pcm = "u16 list"
type_synonym opus_sample = "u8 list"

type_synonym 'c opus_code = "nat \<Rightarrow> pcm \<Rightarrow> 'c \<Rightarrow> (go_error + opus_sample) \<times> 'c"
type_synonym 'c opus_uncode = "nat \<Rightarrow> opus_sample \<Rightarrow> 'c \<Rightarrow> (go_error + pcm) \<times> 'c"
type_synonym ('x, 'w) writer_fun = "'x \<Rightarrow> 'w \<Rightarrow> go_error option \<times> 'w"

text \<open>\<open>CopyTo\<close>: the number of bytes copied and the destination after it.\<close>

definition Sample_CopyTo :: "opus_sample \<Rightarrow> u8 list \<Rightarrow> (go_error + nat) \<times> u8 list" where
  "Sample_CopyTo s dst =
     (if length dst < length s then (Inl (Plain ''short buffer''), dst)
      else (Inr (length s), s @ drop (length s) dst))"

section \<open>Decoder\<close>

record ('c, 'w) opus_decoder =
  od_rate :: nat
  od_channels :: nat
  od_w :: 'w
  od_dec :: 'c
  od_buf :: nat
  od_errors :: nat

definition opus_Decode ::
  "(nat \<Rightarrow> nat \<Rightarrow> go_error + 'c) \<Rightarrow> nat \<Rightarrow> nat \<Rightarrow> nat \<Rightarrow> 'w \<Rightarrow> go_error + ('c, 'w) opus_decoder" where
  "opus_Decode newDecoder fps rate channels w =
     (case newDecoder rate channels of
        Inl err \<Rightarrow> Inl err
      | Inr dec \<Rightarrow> Inr \<lparr>od_rate = rate, od_channels = channels, od_w = w, od_dec = dec,
          od_buf = rate div fps, od_errors = 0\<rparr>)"

definition decoder_WriteSample ::
  "(go_error \<Rightarrow> bool) \<Rightarrow> 'c opus_uncode \<Rightarrow> (pcm, 'w) writer_fun \<Rightarrow> opus_sample \<Rightarrow> ('c, 'w) opus_decoder \<Rightarrow>
   go_error option \<times> ('c, 'w) opus_decoder" where
  "decoder_WriteSample invalid uncode put sample d =
     (if sample = [] then (None, d)
      else case uncode (od_buf d) sample (od_dec d) of
        (Inl err, c) \<Rightarrow>
          let d1 = d\<lparr>od_dec := c\<rparr> in
          if \<not> invalid err \<or> od_errors d1 \<ge> 5 then (Some err, d1)
          else (None, d1\<lparr>od_errors := od_errors d1 + 1\<rparr>)
      | (Inr frame, c) \<Rightarrow>
          let d1 = d\<lparr>od_dec := c, od_errors := 0\<rparr>; (err, w) = put frame (od_w d1) in (err, d1\<lparr>od_w := w\<rparr>))"

definition decoder_Close :: "('w \<Rightarrow> go_error option \<times> 'w) \<Rightarrow> ('c, 'w) opus_decoder \<Rightarrow> go_error option \<times> ('c, 'w) opus_decoder" where
  "decoder_Close closeW d = (let (err, w) = closeW (od_w d) in (err, d\<lparr>od_w := w\<rparr>))"

section \<open>Encoder\<close>

record ('c, 'w) opus_encoder =
  oe_rate :: nat
  oe_channels :: nat
  oe_samples :: nat
  oe_w :: 'w
  oe_enc :: 'c
  oe_inbuf :: pcm
  oe_buf :: nat
  oe_errors :: nat

definition opus_Encode ::
  "(nat \<Rightarrow> nat \<Rightarrow> go_error + 'c) \<Rightarrow> nat \<Rightarrow> nat \<Rightarrow> nat \<Rightarrow> 'w \<Rightarrow> go_error + ('c, 'w) opus_encoder" where
  "opus_Encode newEncoder fps rate channels w =
     (case newEncoder rate channels of
        Inl err \<Rightarrow> Inl err
      | Inr enc \<Rightarrow>
          let samples = rate div fps in
          Inr \<lparr>oe_rate = rate, oe_channels = channels, oe_samples = samples, oe_w = w, oe_enc = enc,
            oe_inbuf = [], oe_buf = 4 * channels * samples, oe_errors = 0\<rparr>)"

text \<open>One pass of the loop: the frame leaves the buffer before the error of the library is looked at.\<close>

definition encode_frame ::
  "'c opus_code \<Rightarrow> (opus_sample, 'w) writer_fun \<Rightarrow> ('c, 'w) opus_encoder \<Rightarrow> go_error option \<times> ('c, 'w) opus_encoder" where
  "encode_frame code put e =
     (let i = oe_samples e; (r, c) = code (oe_buf e) (take i (oe_inbuf e)) (oe_enc e);
          e1 = e\<lparr>oe_enc := c, oe_inbuf := drop i (oe_inbuf e)\<rparr>
      in case r of
           Inl err \<Rightarrow> (Some err, if oe_errors e1 < 5 then e1\<lparr>oe_errors := oe_errors e1 + 1\<rparr> else e1)
         | Inr bytes \<Rightarrow> let (err, w) = put bytes (oe_w e1) in (err, e1\<lparr>oe_errors := 0, oe_w := w\<rparr>))"

partial_function (option) encode_loop ::
  "'c opus_code \<Rightarrow> (opus_sample, 'w) writer_fun \<Rightarrow> ('c, 'w) opus_encoder \<Rightarrow> (go_error option \<times> ('c, 'w) opus_encoder) option" where
  "encode_loop code put e =
     (if length (oe_inbuf e) < oe_samples e then Some (None, e)
      else case encode_frame code put e of
        (Some err, e1) \<Rightarrow> Some (Some err, e1)
      | (None, e1) \<Rightarrow> encode_loop code put e1)"

definition encoder_WriteSample ::
  "'c opus_code \<Rightarrow> (opus_sample, 'w) writer_fun \<Rightarrow> pcm \<Rightarrow> ('c, 'w) opus_encoder \<Rightarrow>
   (go_error option \<times> ('c, 'w) opus_encoder) option" where
  "encoder_WriteSample code put s e = encode_loop code put (e\<lparr>oe_inbuf := oe_inbuf e @ s\<rparr>)"

definition encoder_flush ::
  "'c opus_code \<Rightarrow> (opus_sample, 'w) writer_fun \<Rightarrow> ('c, 'w) opus_encoder \<Rightarrow> go_error option \<times> ('c, 'w) opus_encoder" where
  "encoder_flush code put e =
     (if oe_inbuf e = [] then (None, e)
      else case code (oe_buf e) (oe_inbuf e) (oe_enc e) of
        (Inl err, c) \<Rightarrow> (Some err, e\<lparr>oe_enc := c\<rparr>)
      | (Inr bytes, c) \<Rightarrow> let (err, w) = put bytes (oe_w e) in (err, e\<lparr>oe_enc := c, oe_w := w\<rparr>))"

definition encoder_Close ::
  "'c opus_code \<Rightarrow> (opus_sample, 'w) writer_fun \<Rightarrow> ('w \<Rightarrow> go_error option \<times> 'w) \<Rightarrow> ('c, 'w) opus_encoder \<Rightarrow>
   go_error option \<times> ('c, 'w) opus_encoder" where
  "encoder_Close code put closeW e =
     (let (err1, e1) = encoder_flush code put e; (err2, w) = closeW (oe_w e1)
      in (if err1 \<noteq> None then err1 else err2, e1\<lparr>oe_w := w\<rparr>))"

section \<open>The registered codec\<close>

text \<open>
  The options are stored but never reach the library.  A codec that cannot be created is a nil writer; its error is only logged.
\<close>

record opus_options =
  oo_bitrate :: int
  oo_complexity :: int
  oo_fec :: bool
  oo_loss :: int

record opus_codec_state =
  ox_options :: "opus_options option"
  ox_default_enabled :: "string \<Rightarrow> bool"
  ox_global_enabled :: "string \<Rightarrow> bool"

definition OpusSDPName :: string where
  "OpusSDPName = ''opus/48000/2''"

definition SetOpusOptions :: "opus_options \<Rightarrow> opus_codec_state \<Rightarrow> opus_codec_state" where
  "SetOpusOptions opts s = s\<lparr>ox_options := Some opts\<rparr>"

definition SetOpusEnabled :: "bool \<Rightarrow> opus_codec_state \<Rightarrow> opus_codec_state" where
  "SetOpusEnabled enabled s =
     s\<lparr>ox_default_enabled := (ox_default_enabled s)(OpusSDPName := enabled),
       ox_global_enabled := (ox_global_enabled s)(OpusSDPName := enabled)\<rparr>"

definition opusDecode :: "('w \<Rightarrow> nat \<Rightarrow> go_error + 'd) \<Rightarrow> 'w \<Rightarrow> 'd option" where
  "opusDecode sdkDecode w = (case sdkDecode w 1 of Inl _ \<Rightarrow> None | Inr dec \<Rightarrow> Some dec)"

definition opusEncode :: "('w \<Rightarrow> nat \<Rightarrow> go_error + 'd) \<Rightarrow> opus_codec_state \<Rightarrow> 'w \<Rightarrow> 'd option" where
  "opusEncode sdkEncode s w = (case sdkEncode w 1 of Inl _ \<Rightarrow> None | Inr enc \<Rightarrow> Some enc)"

section \<open>Frames\<close>

text \<open>The reference for the encoder: the whole frames of a signal, and a library run over frames up to its first error.\<close>

function chunks :: "nat \<Rightarrow> 'a list \<Rightarrow> 'a list list" where
  "chunks n xs = (if n = 0 \<or> length xs < n then [] else take n xs # chunks n (drop n xs))"
  by pat_completeness auto
termination by (relation "measure (\<lambda>(n, xs). length xs)") auto

declare chunks.simps [simp del]

definition chunk_rest :: "nat \<Rightarrow> 'a list \<Rightarrow> 'a list" where
  "chunk_rest n xs = drop (n * length (chunks n xs)) xs"

fun code_run ::
  "'c opus_code \<Rightarrow> (opus_sample, 'w) writer_fun \<Rightarrow> nat \<Rightarrow> pcm list \<Rightarrow> 'c \<times> 'w \<times> nat \<Rightarrow> go_error option \<times> 'c \<times> 'w \<times> nat" where
  "code_run code put cap [] s = (None, s)"
| "code_run code put cap (f # fs) (c, w, n) =
     (case code cap f c of
        (Inl err, c1) \<Rightarrow> (Some err, c1, w, if n < 5 then n + 1 else n)
      | (Inr bytes, c1) \<Rightarrow>
          (case put bytes w of
             (Some err, w1) \<Rightarrow> (Some err, c1, w1, 0)
           | (None, w1) \<Rightarrow> code_run code put cap fs (c1, w1, 0)))"

text \<open>A caller that writes pieces until one of them fails.\<close>

fun write_pieces ::
  "'c opus_code \<Rightarrow> (opus_sample, 'w) writer_fun \<Rightarrow> pcm list \<Rightarrow> ('c, 'w) opus_encoder \<Rightarrow>
   (go_error option \<times> ('c, 'w) opus_encoder) option" where
  "write_pieces code put [] e = Some (None, e)"
| "write_pieces code put (s # ss) e =
     (case encoder_WriteSample code put s e of
        Some (None, e1) \<Rightarrow> write_pieces code put ss e1
      | r \<Rightarrow> r)"

definition coder_state :: "('c, 'w) opus_encoder \<Rightarrow> 'c \<times> 'w \<times> nat" where
  "coder_state e = (oe_enc e, oe_w e, oe_errors e)"

definition same_sizes :: "('c, 'w) opus_encoder \<Rightarrow> ('c, 'w) opus_encoder \<Rightarrow> bool" where
  "same_sizes e e' = (oe_samples e' = oe_samples e \<and> oe_buf e' = oe_buf e)"

lemma chunks_short: "length xs < n \<Longrightarrow> chunks n xs = []"
  by (subst chunks.simps) simp

lemma chunks_step: "0 < n \<Longrightarrow> n \<le> length xs \<Longrightarrow> chunks n xs = take n xs # chunks n (drop n xs)"
  by (subst chunks.simps) simp

lemma chunk_rest_short: "length xs < n \<Longrightarrow> chunk_rest n xs = xs"
  by (simp add: chunk_rest_def chunks_short)

lemma chunk_rest_step: "0 < n \<Longrightarrow> n \<le> length xs \<Longrightarrow> chunk_rest n xs = chunk_rest n (drop n xs)"
  by (simp add: chunk_rest_def chunks_step add.commute)

text \<open>The frames and the rest are the signal, the frames have the right size and the rest is shorter than a frame.\<close>

lemma chunks_cover:
  "0 < n \<Longrightarrow> concat (chunks n xs) @ chunk_rest n xs = xs \<and> list_all (\<lambda>f. length f = n) (chunks n xs) \<and> length (chunk_rest n xs) < n"
proof (induction n xs rule: chunks.induct)
  case (1 n xs)
  show ?case
  proof (cases "length xs < n")
    case False
    then show ?thesis using 1 chunks_step [of n xs] chunk_rest_step [of n xs] by simp
  qed (simp add: chunks_short chunk_rest_short "1.prems")
qed

lemma chunks_append:
  "0 < n \<Longrightarrow> chunks n (xs @ ys) = chunks n xs @ chunks n (chunk_rest n xs @ ys) \<and> chunk_rest n (xs @ ys) = chunk_rest n (chunk_rest n xs @ ys)"
proof (induction n xs rule: chunks.induct)
  case (1 n xs)
  show ?case
  proof (cases "length xs < n")
    case False
    then have "chunks n (xs @ ys) = take n xs # chunks n (drop n xs @ ys)" "chunk_rest n (xs @ ys) = chunk_rest n (drop n xs @ ys)"
      using 1(2) chunks_step [of n "xs @ ys"] chunk_rest_step [of n "xs @ ys"] by simp_all
    then show ?thesis using 1 False chunks_step [of n xs] chunk_rest_step [of n xs] by simp
  qed (simp add: chunks_short chunk_rest_short)
qed

lemma code_run_append:
  "code_run code put cap (fs @ gs) s =
     (case code_run code put cap fs s of (None, s1) \<Rightarrow> code_run code put cap gs s1 | r \<Rightarrow> r)"
  by (induction code put cap fs s rule: code_run.induct) (auto split: sum.splits option.splits prod.splits)

lemma same_sizes_trans: "same_sizes a b \<Longrightarrow> same_sizes b c \<Longrightarrow> same_sizes a c"
  by (simp add: same_sizes_def)

lemma encode_frame_sizes:
  "encode_frame code put e = (r, e') \<Longrightarrow> same_sizes e e' \<and> oe_inbuf e' = drop (oe_samples e) (oe_inbuf e)"
  by (auto simp: encode_frame_def same_sizes_def Let_def split: sum.splits prod.splits if_splits)

lemma encode_frame_run:
  "encode_frame code put e = (r, e') \<Longrightarrow>
   code_run code put (oe_buf e) (take (oe_samples e) (oe_inbuf e) # fs) (coder_state e) =
     (case r of Some err \<Rightarrow> (Some err, coder_state e') | None \<Rightarrow> code_run code put (oe_buf e) fs (coder_state e'))"
  by (auto simp: encode_frame_def coder_state_def Let_def split: sum.splits prod.splits option.splits if_splits)

text \<open>The loop returns, and has run the library over the whole frames of its buffer.\<close>

lemma encode_loop_spec:
  "0 < oe_samples e \<Longrightarrow>
   \<exists>r e'. encode_loop code put e = Some (r, e') \<and> same_sizes e e'
     \<and> code_run code put (oe_buf e) (chunks (oe_samples e) (oe_inbuf e)) (coder_state e) = (r, coder_state e')
     \<and> (r = None \<longrightarrow> oe_inbuf e' = chunk_rest (oe_samples e) (oe_inbuf e))"
proof (induction "length (oe_inbuf e)" arbitrary: e rule: less_induct)
  case less
  show ?case
  proof (cases "length (oe_inbuf e) < oe_samples e")
    case True
    then show ?thesis
      by (subst encode_loop.simps) (simp add: chunks_short chunk_rest_short same_sizes_def)
  next
    case False
    obtain r e1 where f: "encode_frame code put e = (r, e1)" by (cases "encode_frame code put e")
    note sz = encode_frame_sizes [OF f]
    have run: "code_run code put (oe_buf e) (chunks (oe_samples e) (oe_inbuf e)) (coder_state e) =
        (case r of Some err \<Rightarrow> (Some err, coder_state e1)
         | None \<Rightarrow> code_run code put (oe_buf e) (chunks (oe_samples e) (oe_inbuf e1)) (coder_state e1))"
      using encode_frame_run [OF f, of "chunks (oe_samples e) (oe_inbuf e1)"] False sz
      by (simp add: chunks_step [OF less.prems, of "oe_inbuf e"])
    show ?thesis
    proof (cases r)
      case None
      have e1: "encode_loop code put e = encode_loop code put e1"
        using False None f by (subst encode_loop.simps) simp
      have rest: "chunk_rest (oe_samples e) (oe_inbuf e) = chunk_rest (oe_samples e) (oe_inbuf e1)"
        using False sz chunk_rest_step [OF less.prems, of "oe_inbuf e"] by simp
      have "length (oe_inbuf e1) < length (oe_inbuf e)" "0 < oe_samples e1"
        using sz False less.prems by (auto simp: same_sizes_def)
      from less.hyps [OF this] show ?thesis
        unfolding e1 rest run using None sz by (auto simp: same_sizes_def)
    next
      case (Some err)
      then have "encode_loop code put e = Some (Some err, e1)"
        using False f by (subst encode_loop.simps) simp
      then show ?thesis using run Some sz by simp
    qed
  qed
qed

lemma write_pieces_spec:
  "0 < oe_samples e \<Longrightarrow> length (oe_inbuf e) < oe_samples e \<Longrightarrow>
   \<exists>r e'. write_pieces code put ss e = Some (r, e') \<and> same_sizes e e'
     \<and> code_run code put (oe_buf e) (chunks (oe_samples e) (oe_inbuf e @ concat ss)) (coder_state e) = (r, coder_state e')
     \<and> (r = None \<longrightarrow> oe_inbuf e' = chunk_rest (oe_samples e) (oe_inbuf e @ concat ss))"
proof (induction ss arbitrary: e)
  case Nil
  then show ?case by (simp add: chunks_short chunk_rest_short same_sizes_def)
next
  case (Cons s ss)
  let ?n = "oe_samples e" and ?xs = "oe_inbuf e @ s"
  obtain r e1 where w: "encoder_WriteSample code put s e = Some (r, e1)" "same_sizes e e1"
      "code_run code put (oe_buf e) (chunks ?n ?xs) (coder_state e) = (r, coder_state e1)"
      "r = None \<Longrightarrow> oe_inbuf e1 = chunk_rest ?n ?xs"
    using encode_loop_spec [of "e\<lparr>oe_inbuf := ?xs\<rparr>" code put] Cons.prems
    by (auto simp: encoder_WriteSample_def same_sizes_def coder_state_def)
  note app = chunks_append [OF Cons.prems(1), of ?xs "concat ss"]
  show ?case
  proof (cases r)
    case None
    have "length (oe_inbuf e1) < oe_samples e1" "0 < oe_samples e1"
      using w None Cons.prems chunks_cover [of ?n ?xs] by (auto simp: same_sizes_def)
    from Cons.IH [OF this(2,1)] show ?thesis
      using w None app by (auto simp: same_sizes_def code_run_append)
  next
    case (Some err)
    then show ?thesis using w app by (simp add: code_run_append)
  qed
qed

lemma decode_bad:
  assumes "p \<noteq> []" "fst (uncode (od_buf d) p (od_dec d)) = Inl err" "invalid err"
  shows "fst (decoder_WriteSample invalid uncode put p d) = (if od_errors d < 5 then None else Some err)"
    and "od_errors (snd (decoder_WriteSample invalid uncode put p d)) = (if od_errors d < 5 then od_errors d + 1 else od_errors d)"
    and "od_w (snd (decoder_WriteSample invalid uncode put p d)) = od_w d" "od_buf (snd (decoder_WriteSample invalid uncode put p d)) = od_buf d"
  using assms by (auto simp: decoder_WriteSample_def Let_def split: prod.splits sum.splits)

fun decode_results ::
  "(go_error \<Rightarrow> bool) \<Rightarrow> 'c opus_uncode \<Rightarrow> (pcm, 'w) writer_fun \<Rightarrow> opus_sample list \<Rightarrow> ('c, 'w) opus_decoder \<Rightarrow>
   go_error option list \<times> ('c, 'w) opus_decoder" where
  "decode_results invalid uncode put [] d = ([], d)"
| "decode_results invalid uncode put (p # ps) d =
     (let (r, d1) = decoder_WriteSample invalid uncode put p d; (rs, d2) = decode_results invalid uncode put ps d1 in (r # rs, d2))"

section \<open>Properties\<close>

text \<open>
  C36: The encoder is independent of the pieces in which the audio arrives: every write returns, and a sequence of writes runs the library
  exactly over the 20 ms frames of the concatenated audio, in order and up to the first error.  The frames have the right size, no sample
  is lost or repeated, and what is left is shorter than a frame.
\<close>

theorem opus_frames_exact:
  fixes e :: "('c, 'w) opus_encoder" and ss :: "pcm list"
  assumes "opus_Encode newEncoder fps rate channels w = Inr e" "0 < rate div fps"
  defines "n \<equiv> rate div fps" and "audio \<equiv> concat ss"
  shows "\<exists>r e'. write_pieces code put ss e = Some (r, e')
    \<and> code_run code put (4 * channels * n) (chunks n audio) (coder_state e) = (r, coder_state e')
    \<and> (r = None \<longrightarrow> concat (chunks n audio) @ oe_inbuf e' = audio \<and> length (oe_inbuf e') < n)
    \<and> list_all (\<lambda>f. length f = n) (chunks n audio)"
proof -
  have e: "oe_inbuf e = []" "oe_samples e = n" "oe_buf e = 4 * channels * n"
    using assms(1) by (auto simp: opus_Encode_def n_def Let_def split: sum.splits)
  have n: "0 < n" using assms(2) by (simp add: n_def)
  show ?thesis
    using write_pieces_spec [of e code put ss] chunks_cover [OF n, of audio] e n by (auto simp: audio_def)
qed

theorem opus_frames_exact_witness:
  "\<exists>r e'. write_pieces (\<lambda>cap f c. (Inr (replicate (length f) 7), c + 1)) (\<lambda>b w. (None, w @ [b])) [[1], [2, 3, 4], [5]]
      \<lparr>oe_rate = 100, oe_channels = 1, oe_samples = 2, oe_w = [], oe_enc = (0 :: nat), oe_inbuf = [], oe_buf = 8, oe_errors = 0\<rparr> = Some (r, e')
    \<and> r = None \<and> coder_state e' = (2, [[7, 7], [7, 7]], 0) \<and> oe_inbuf e' = [5]"
  using opus_frames_exact [of "\<lambda>_ _. Inr 0" 50 100 1 "[]"
      "\<lparr>oe_rate = 100, oe_channels = 1, oe_samples = 2, oe_w = [], oe_enc = (0 :: nat), oe_inbuf = [], oe_buf = 8, oe_errors = 0\<rparr>"
      "\<lambda>cap f c. (Inr (replicate (length f) 7), c + 1)" "\<lambda>b w. (None, w @ [b])" "[[1], [2, 3, 4], [5]]"]
  by (auto simp: opus_Encode_def chunks.simps coder_state_def)

text \<open>Closing an encoder codes what is left, if anything, and closes the writer in any case; an error of the flush comes first.\<close>

theorem opus_close_flushes:
  "encoder_Close code put closeW e =
     (let s = (if oe_inbuf e = [] then (None, oe_enc e, oe_w e)
               else case code (oe_buf e) (oe_inbuf e) (oe_enc e) of
                 (Inl err, c) \<Rightarrow> (Some err, c, oe_w e)
               | (Inr bytes, c) \<Rightarrow> (fst (put bytes (oe_w e)), c, snd (put bytes (oe_w e))))
      in (case fst s of Some err \<Rightarrow> Some err | None \<Rightarrow> fst (closeW (snd (snd s))),
          e\<lparr>oe_enc := fst (snd s), oe_w := snd (closeW (snd (snd s)))\<rparr>))"
  by (auto simp: encoder_Close_def encoder_flush_def Let_def split: prod.splits sum.splits option.splits)

text \<open>
  The decoder forgives five invalid packets in a row.  From the sixth on each of them is reported, until a packet decodes; nothing reaches
  the writer meanwhile.
\<close>

theorem decoder_forgives_five:
  assumes "\<And>p c. p \<in> set ps \<Longrightarrow> p \<noteq> [] \<and> fst (uncode (od_buf d) p c) = Inl (err p) \<and> invalid (err p)"
  shows "fst (decode_results invalid uncode put ps d) =
      map (\<lambda>(i, p). if od_errors d + i < 5 then None else Some (err p)) (enumerate 0 ps)
    \<and> od_w (snd (decode_results invalid uncode put ps d)) = od_w d"
  using assms
proof (induction ps arbitrary: d)
  case (Cons p ps)
  obtain r d1 where w: "decoder_WriteSample invalid uncode put p d = (r, d1)" by (cases "decoder_WriteSample invalid uncode put p d")
  have p: "p \<noteq> []" "fst (uncode (od_buf d) p (od_dec d)) = Inl (err p)" "invalid (err p)" using Cons.prems by auto
  note b = decode_bad [where put = put and invalid = invalid and uncode = uncode and d = d, OF p, unfolded w, simplified]
  have IH: "fst (decode_results invalid uncode put ps d1) =
      map (\<lambda>(i, p). if od_errors d1 + i < 5 then None else Some (err p)) (enumerate 0 ps)
    \<and> od_w (snd (decode_results invalid uncode put ps d1)) = od_w d1"
    by (rule Cons.IH) (use Cons.prems b in auto)
  have sh: "map (\<lambda>(i, p). if od_errors d + i < 5 then None else Some (err p)) (enumerate 1 ps) =
      map (\<lambda>(i, p). if od_errors d1 + i < 5 then None else Some (err p)) (enumerate 0 ps)"
    using b by (auto simp: list_eq_iff_nth_eq nth_enumerate_eq)
  have "fst (decode_results invalid uncode put ps d1) = map (\<lambda>(i, p). if od_errors d + i < 5 then None else Some (err p)) (enumerate 1 ps)"
    using IH sh by simp
  then show ?case using IH b(1,3) w by (simp add: case_prod_beta)
qed simp

theorem decoder_forgives_five_witness:
  "fst (decode_results (\<lambda>_. True) (\<lambda>_ _ c. (Inl (Plain ''corrupted''), c)) (\<lambda>_ w. (None, w)) [[1], [2], [3], [4], [5], [6], [7]]
     \<lparr>od_rate = 48000, od_channels = 1, od_w = (), od_dec = (), od_buf = 960, od_errors = 0\<rparr>) =
   [None, None, None, None, None, Some (Plain ''corrupted''), Some (Plain ''corrupted'')]"
  using decoder_forgives_five [of "[[1], [2], [3], [4], [5], [6], [7]]" "\<lambda>_ _ c. (Inl (Plain ''corrupted''), c)"
      "\<lparr>od_rate = 48000, od_channels = 1, od_w = (), od_dec = (), od_buf = 960, od_errors = 0\<rparr>" "\<lambda>_. Plain ''corrupted''" "\<lambda>_. True" "\<lambda>_ w. (None, w)"]
  by (auto simp del: decode_results.simps)

text \<open>The options of the encoder have no effect: an encoder is created in the same way before and after they are set.\<close>

lemma opus_options_unused: "opusEncode sdkEncode (SetOpusOptions opts s) w = opusEncode sdkEncode s w"
  by (simp add: opusEncode_def)

text \<open>
  At a rate below \<open>fps\<close> a frame has no samples, and a write does not return if the library codes empty frames into nothing.
\<close>

lemma encode_loop_returns:
  "encode_loop code put e = Some r \<Longrightarrow> length (oe_inbuf e) < oe_samples e \<or> encode_frame code put e \<noteq> (None, e)"
  by (erule encode_loop.raw_induct [where P = "\<lambda>code put e r. length (oe_inbuf e) < oe_samples e \<or> encode_frame code put e \<noteq> (None, e)", rotated])
    (fastforce split: if_splits prod.splits option.splits)

lemma encoder_empty_frames:
  assumes "oe_samples e = 0" "\<And>c. code (oe_buf e) [] c = (Inr [], c)" "\<And>w. put [] w = (None, w)" "oe_errors e = 0"
  shows "encoder_WriteSample code put s e = None"
  using assms encode_loop_returns [of code put "e\<lparr>oe_inbuf := oe_inbuf e @ s\<rparr>"]
  by (cases "encode_loop code put (e\<lparr>oe_inbuf := oe_inbuf e @ s\<rparr>)") (auto simp: encode_frame_def encoder_WriteSample_def)

end
