(* ===== verification/CallAudio.thy ===== *)
theory CallAudio
  imports RoomSession MediaPort OpusCodec
begin

text \<open>
  How a call joins its media port with its room: \<open>publishTrack\<close>, \<open>playAudio\<close> and \<open>EndCall\<close> of an inbound call (\<open>pkg/sip/inbound.go\<close>), \<open>connectMedia\<close>
  and \<open>handleDTMF\<close> of an outbound one (\<open>pkg/sip/outbound.go\<close>), and the decoding of a subscribed track (\<open>OnTrackSubscribed\<close> of
  \<open>pkg/sip/room.go\<close>) with the codecs.  The room and the port are those of \<open>RoomSession\<close> and \<open>MediaPort\<close>; the mixer, the resampler and
  the loop that reads a track are arguments.
\<close>

section \<open>Port and room\<close>

record call_audio =
  ca_room :: room
  ca_media :: media_port
  ca_digits :: bool

text \<open>\<open>terr\<close>, \<open>perr\<close> and \<open>oerr\<close> are the errors of \<open>NewParticipantTrack\<close>, \<open>cerr\<close> those of closing a writer.\<close>

definition publishTrack ::
  "(nat \<Rightarrow> go_error option) \<Rightarrow> go_error option \<Rightarrow> go_error option \<Rightarrow> go_error option \<Rightarrow> call_audio \<Rightarrow> go_error option \<times> call_audio" where
  "publishTrack cerr terr perr oerr c =
     (case NewParticipantTrack terr perr oerr (ca_room c) of
        (Some e, r) \<Rightarrow> (Some e, c\<lparr>ca_room := snd (CloseWithReason cerr UNKNOWN_REASON r)\<rparr>)
      | (None, r) \<Rightarrow> (None, c\<lparr>ca_room := r, ca_media := WriteAudioTo (ca_media c)\<rparr>))"

text \<open>\<open>w\<close> is the audio writer of the port, \<open>d\<close> the port as a writer of digits.\<close>

definition connectMedia :: "nat \<Rightarrow> nat \<Rightarrow> call_audio \<Rightarrow> call_audio" where
  "connectMedia w d c =
     (let (old, r) = room_SwapOutput (Some w) (ca_room c);
          r1 = (case old of None \<Rightarrow> r | Some o' \<Rightarrow> emit_room (OutputClosed o') r)
      in c\<lparr>ca_room := SetDTMFOutput (Some d) r1, ca_media := WriteAudioTo (ca_media c), ca_digits := True\<rparr>)"

text \<open>A digit from the phone goes to the room as data.\<close>

definition out_handleDTMF :: "go_error option \<Rightarrow> string \<Rightarrow> room option \<Rightarrow> room option" where
  "out_handleDTMF derr digit r = (case r of None \<Rightarrow> None | Some _ \<Rightarrow> snd (SendData derr digit r))"

text \<open>
  \<open>playAudio\<close>: the frames given to the player, and whether an input of the mixer was opened and closed.  \<open>mix\<close> is the rate of the mixer input,
  absent once the mixer has stopped.
\<close>

definition playAudio ::
  "nat \<Rightarrow> (nat \<Rightarrow> nat \<Rightarrow> 's list \<Rightarrow> 's list) \<Rightarrow> nat option \<Rightarrow> 's list list \<Rightarrow> ('s list list \<times> nat \<times> nat)" where
  "playAudio resRate resample mix frames =
     (case mix of
        None \<Rightarrow> ([], 0, 0)
      | Some rate \<Rightarrow> (if rate \<noteq> resRate then map (resample resRate rate) frames else frames, 1, 1))"

text \<open>\<open>EndCall\<close> hands the request to the handler of the call, unless the context ends first.\<close>

datatype endcall_choice = EcCtx sentinel | EcTaken

definition in_EndCall :: "endcall_choice \<Rightarrow> smap \<Rightarrow> go_error option \<times> end_call list" where
  "in_EndCall ch headers =
     (case ch of
        EcCtx e \<Rightarrow> (Some (Sentinel e), [])
      | EcTaken \<Rightarrow> (None, [\<lparr>ec_report = None, ec_status = CallHangup, ec_term = Success ''rpc'', ec_reason = UNKNOWN_REASON, ec_headers = headers\<rparr>]))"

section \<open>A subscribed track\<close>

text \<open>
  The goroutine of \<open>OnTrackSubscribed\<close>.  \<open>lerr\<close> is the error of the signal logger, if signals are logged; \<open>payloads\<close> are what the read loop of the
  media library hands to the decoder.  The result has the frames that reached the mixer and how often its input was opened and closed: the
  deferred calls close it on every way out, and a decoder closes the writer behind it too.
\<close>

record 'c track_codecs =
  tk_new :: "nat \<Rightarrow> nat \<Rightarrow> go_error + 'c"
  tk_invalid :: "go_error \<Rightarrow> bool"
  tk_uncode :: "'c opus_uncode"
  tk_ulaw :: "opus_sample \<Rightarrow> pcm"
  tk_alaw :: "opus_sample \<Rightarrow> pcm"

record track_result =
  tr_outcome :: "track_outcome option"
  tr_frames :: "pcm list"
  tr_opened :: nat
  tr_closed :: nat

definition mixer_put :: "(pcm, pcm list) writer_fun" where
  "mixer_put frame w = (None, w @ [frame])"

definition track_decoded :: "'c track_codecs \<Rightarrow> nat \<Rightarrow> nat \<Rightarrow> string \<Rightarrow> opus_sample list \<Rightarrow> pcm list" where
  "track_decoded K fps rate codec payloads =
     (if codec = ''opus'' then
        (case opus_Decode (tk_new K) fps rate 1 [] of
           Inl _ \<Rightarrow> []
         | Inr d \<Rightarrow> od_w (snd (decode_results (tk_invalid K) (tk_uncode K) mixer_put payloads d)))
      else if codec = ''pcmu'' then map (tk_ulaw K) payloads
      else map (tk_alaw K) payloads)"

definition run_track ::
  "'c track_codecs \<Rightarrow> nat \<Rightarrow> nat \<Rightarrow> go_error option option \<Rightarrow> string \<Rightarrow> opus_sample list \<Rightarrow> room \<Rightarrow> track_result" where
  "run_track K fps rate lerr mime payloads r =
     (let derr = (case tk_new K rate 1 of Inl e \<Rightarrow> Some e | Inr _ \<Rightarrow> None); oc = OnTrackSubscribed derr mime r in
      case oc of
        NotReady \<Rightarrow> \<lparr>tr_outcome = Some NotReady, tr_frames = [], tr_opened = 0, tr_closed = 0\<rparr>
      | RoomGone \<Rightarrow> \<lparr>tr_outcome = Some RoomGone, tr_frames = [], tr_opened = 0, tr_closed = 0\<rparr>
      | _ \<Rightarrow>
          if (case lerr of Some (Some _) \<Rightarrow> True | _ \<Rightarrow> False) then \<lparr>tr_outcome = None, tr_frames = [], tr_opened = 1, tr_closed = 1\<rparr>
          else (case oc of
                  Decoding codec \<Rightarrow> \<lparr>tr_outcome = Some oc, tr_frames = track_decoded K fps rate codec payloads, tr_opened = 1,
                    tr_closed = (if codec = ''opus'' then 2 else 1)\<rparr>
                | _ \<Rightarrow> \<lparr>tr_outcome = Some oc, tr_frames = [], tr_opened = 1, tr_closed = 1\<rparr>))"

section \<open>Properties\<close>

text \<open>The frames a stateful decoder gets out of a list of packets; empty packets are not given to it.\<close>

fun decoded_frames :: "'c opus_uncode \<Rightarrow> nat \<Rightarrow> opus_sample list \<Rightarrow> 'c \<Rightarrow> pcm list" where
  "decoded_frames uncode cap [] c = []"
| "decoded_frames uncode cap (p # ps) c =
     (if p = [] then decoded_frames uncode cap ps c
      else case uncode cap p c of
        (Inl _, c1) \<Rightarrow> decoded_frames uncode cap ps c1
      | (Inr f, c1) \<Rightarrow> f # decoded_frames uncode cap ps c1)"

lemma decode_results_frames:
  "od_w (snd (decode_results invalid uncode mixer_put ps d)) = od_w d @ decoded_frames uncode (od_buf d) ps (od_dec d)"
proof (induction ps arbitrary: d)
  case (Cons p ps)
  obtain r d1 where w: "decoder_WriteSample invalid uncode mixer_put p d = (r, d1)" by (cases "decoder_WriteSample invalid uncode mixer_put p d")
  have "od_buf d1 = od_buf d \<and> od_w d1 @ decoded_frames uncode (od_buf d) ps (od_dec d1) = od_w d @ decoded_frames uncode (od_buf d) (p # ps) (od_dec d)"
    using w by (auto simp: decoder_WriteSample_def mixer_put_def Let_def split: if_splits prod.splits sum.splits)
  then show ?case using Cons.IH [of d1] w by (simp add: case_prod_beta)
qed simp

text \<open>
  An Opus track of a room is heard completely: on an open room, whatever packets cannot be decoded, the mixer gets exactly the frames that can, in
  order, and its input is closed when the track ends; a track is heard at all only if the room is ready and not closed.
\<close>

theorem room_track_heard:
  assumes "rm_ready r" "rm_mixing r" "tk_new K rate 1 = Inr c" "lerr = None \<or> lerr = Some None" "to_lower mime = ''audio/opus''"
    and "has_prefix mime ''audio/''"
  shows "tr_frames (run_track K fps rate lerr mime payloads r) = decoded_frames (tk_uncode K) (rate div fps) payloads c
    \<and> tr_opened (run_track K fps rate lerr mime payloads r) = 1 \<and> 1 \<le> tr_closed (run_track K fps rate lerr mime payloads r)"
proof -
  have "to_lower (drop 6 mime) = ''opus''" using assms(5) by (simp add: to_lower_def drop_map [symmetric])
  then have o: "OnTrackSubscribed None mime r = Decoding ''opus''" using assms(1,2,6) by (simp add: OnTrackSubscribed_def)
  show ?thesis
    using assms(3,4) by (auto simp: run_track_def o track_decoded_def opus_Decode_def decode_results_frames)
qed

theorem room_track_heard_witness:
  "tr_frames (run_track \<lparr>tk_new = (\<lambda>_ _. Inr ()), tk_invalid = (\<lambda>_. True),
       tk_uncode = (\<lambda>_ p c. (if hd p = 0 then Inl (Plain ''corrupted'') else Inr [ucast (hd p)], c)), tk_ulaw = (\<lambda>_. []), tk_alaw = (\<lambda>_. [])\<rparr>
     50 48000 None ''audio/opus'' [[3], [0], [5]] (NewRoom\<lparr>rm_ready := True\<rparr>)) = [[3], [5]]"
proof -
  let ?K = "\<lparr>tk_new = (\<lambda>_ _. Inr ()), tk_invalid = (\<lambda>_. True),
       tk_uncode = (\<lambda>_ p c. (if hd p = (0 :: u8) then Inl (Plain ''corrupted'') else Inr [ucast (hd p)], c)), tk_ulaw = (\<lambda>_. []), tk_alaw = (\<lambda>_. [])\<rparr>"
  have "to_lower ''audio/opus'' = ''audio/opus''" "has_prefix ''audio/opus'' ''audio/''" by code_simp+
  then show ?thesis
    using room_track_heard [of "NewRoom\<lparr>rm_ready := True\<rparr>" ?K 48000 "()" None "''audio/opus''" 50 "[[3], [0], [5]]"] by (simp add: NewRoom_def)
qed

lemma room_track_unheard:
  "\<not> rm_ready r \<or> \<not> rm_mixing r \<Longrightarrow> tr_frames (run_track K fps rate lerr mime payloads r) = []
     \<and> tr_opened (run_track K fps rate lerr mime payloads r) = 0"
  by (auto simp: run_track_def OnTrackSubscribed_def Let_def)

lemma track_input_closed: "tr_opened (run_track K fps rate lerr mime payloads r) \<le> tr_closed (run_track K fps rate lerr mime payloads r)"
  by (simp add: run_track_def Let_def split: track_outcome.split)

text \<open>
  Connecting the media of an outbound call sends room audio and digits to its port, closes the output it replaces once, and the output it
  sets is closed with the room.
\<close>

lemma media_connected:
  fixes w d :: nat
  assumes "\<not> rm_closed (ca_room c)"
  defines "c' \<equiv> connectMedia w d c"
  shows "rm_out (ca_room c') = Some w \<and> rm_dtmf (ca_room c') = Some d \<and> AudioIn \<in> set (mp_open (ca_media c')) \<and> ca_digits c'
    \<and> rm_log (ca_room c') = rm_log (ca_room c) @ (case rm_out (ca_room c) of None \<Rightarrow> [] | Some o' \<Rightarrow> [OutputClosed o'])
    \<and> OutputClosed w \<in> set (rm_log (snd (CloseWithReason cerr reason (ca_room c'))))
    \<and> rm_out (snd (CloseWithReason cerr reason (ca_room c'))) = None"
  using assms(1)
  by (simp add: c'_def connectMedia_def room_SwapOutput_def SetDTMFOutput_def emit_room_def WriteAudioTo_def swap_part_def store_part_def
      CloseWithReason_def CloseOutput_def Let_def split: option.split)

text \<open>A track that cannot be published closes the room, with a single request to disconnect; the port keeps its input.\<close>

lemma publish_failure_closes_room:
  assumes "publishTrack cerr terr perr oerr c = (Some e, c')" "\<not> rm_closed (ca_room c)"
  shows "rm_closed (ca_room c') \<and> \<not> rm_room (ca_room c') \<and> ca_media c' = ca_media c
    \<and> (rm_room (ca_room c) \<longrightarrow> DisconnectReq UNKNOWN_REASON \<in> set (rm_log (ca_room c')))"
  using assms
  by (auto simp: publishTrack_def NewParticipantTrack_def CloseWithReason_def CloseOutput_def room_SwapOutput_def SetDTMFOutput_def emit_room_def Let_def
      split: option.splits if_splits prod.splits)

end
