(* ===== verification/Spec2Isabelle.thy ===== *)
theory Spec2Isabelle
  imports InviteFailure InboundCallProps OutboundCallProps TransferServiceProps MediaStreamProps MediaPortProps DtlsSdpProps
    DtlsTransport RoomSession RequestRouting NodeConfig DispatchRpc ServiceRun NodeStart SignalMonitor MediaNegotiation MediaPipeline PortDrain
    TestClientProps TestSignals NodeBoot CallAudio
begin

text \<open>
  A model of the LiveKit SIP bridge, with the theorems that make it correct.  File names below are
  relative to \<open>src/\<close>.

  \<^bold>\<open>The program.\<close>  The bridge connects SIP calls with LiveKit rooms.  A node (\<open>pkg/sip/service.go\<close>) has a SIP server for
  inbound calls and a client for outbound ones, which share one user agent.  An inbound INVITE is checked
  against the trunks by an RPC, challenged if the trunk has a password, and becomes a call (\<open>inboundCall\<close>)
  that is dispatched to a room by a second RPC.  An RPC request creates an outbound call
  (\<open>outboundCall\<close>).  Each call owns a SIP dialog (\<open>sipInbound\<close>, \<open>sipOutbound\<close>), a media port for RTP, a room of the LiveKit
  SDK, a record that is reported upstream and a monitor for the metrics.  A third RPC transfers a call
  away with REFER.

  \<^bold>\<open>Foundations.\<close>
  \<^item> \<open>SipPrelude\<close>: machine types, the parts of the Go standard library that are used, and the locales of the shared
    contracts: \<open>once_op\<close> (an operation behind a one-shot flag), \<open>machine\<close> (a deterministic machine with an invariant),
    \<open>step_system\<close> (a step relation with an invariant) and \<open>simulation\<close> (a refinement between two of
    them).  Each is interpreted in the components that provide the operations.
  \<^item> \<open>GoErrors\<close>: error values with wrapping, \<open>errors.Is\<close> and \<open>errors.As\<close>, the mapping of RPC codes to SIP statuses.
  \<^item> \<open>CallTermination\<close>: \<open>pkg/stats/termination.go\<close>, \<open>pkg/sip/participant.go\<close> and the results of \<open>pkg/sip/protocol.go\<close>.

  \<^bold>\<open>Addresses and headers.\<close>
  \<^item> \<open>SipUri\<close>: \<open>URI\<close> of \<open>pkg/sip/types.go\<close> and the header builders of \<open>pkg/sip/client.go\<close>.  The dialled address prints as it was given.
  \<^item> \<open>HeaderAttrs\<close>: headers and participant attributes, \<open>pkg/sip/rpc.go\<close>.
  \<^item> \<open>ReasonHeader\<close>: \<open>ReasonHeader\<close> of \<open>pkg/sip/protocol.go\<close>, a round trip.
  \<^item> \<open>SipMessage\<close>: messages as the dialogs see them, request numbers and \<open>NewReferRequest\<close>.

  \<^bold>\<open>Inbound calls\<close> (\<open>pkg/sip/inbound.go\<close>, \<open>pkg/sip/server.go\<close>).
  \<^item> \<open>InboundDialog\<close>, \<open>InboundDialogProps\<close>: \<open>sipInbound\<close>.  One final answer per INVITE, at most one BYE, request numbers without gaps,
    a bounded effort for the ACK, and a close that is final.
  \<^item> \<open>InboundServer\<close>, \<open>InboundServerProps\<close>: \<open>processInvite\<close>.  No call without authorization, a retry of a refused INVITE gets the same
    answer, the table of challenged invites is bounded.
  \<^item> \<open>InboundCall\<close>, \<open>InboundCallProps\<close>: \<open>handleInvite\<close> in its phases.  Every way the handler returns leaves a call that is completely torn
    down; a PIN is checked exactly as entered; a refusal by the dispatch is answered.
  \<^item> \<open>DispatchRpc\<close>: the two RPCs of \<open>pkg/service/psrpc.go\<close> behind admission and dispatch, composed with the server.

  \<^bold>\<open>Outbound calls\<close> (\<open>pkg/sip/outbound.go\<close>, \<open>pkg/sip/client.go\<close>, \<open>pkg/sip/errors.go\<close>).
  \<^item> \<open>OutboundDialog\<close>, \<open>OutboundDialogProps\<close>: \<open>sipOutbound\<close>.  At most five INVITEs, credentials only in answer to a challenge, the route
    set of the answer, release of a cancelled INVITE that is answered all the same.
  \<^item> \<open>OutboundCall\<close>, \<open>OutboundCallProps\<close>: from the RPC request to the end of the call.  Teardown, termination, no live call after a
    failed request.
  \<^item> \<open>InviteFailure\<close>: the verdict on a failed INVITE.

  \<^bold>\<open>Between the parts.\<close>
  \<^item> \<open>RequestRouting\<close>: requests within dialogs on both sides, and the shutdown of a node.
  \<^item> \<open>ReferProtocol\<close>, \<open>TransferService\<close>, \<open>TransferServiceProps\<close>: a transfer from the RPC to the NOTIFY that decides it.
  \<^item> \<open>TransferQueue\<close>: the pending transfers as a step relation over goroutines and channels.  It refines a table of write-once
    cells; all waiting requests agree and are answered.
  \<^item> \<open>CallState\<close>, \<open>CallMonitor\<close>: the call record (\<open>pkg/sip/analytics.go\<close>) and the metrics of a call (\<open>pkg/stats/monitor.go\<close>).

  \<^bold>\<open>Media.\<close>
  \<^item> \<open>MediaStream\<close>, \<open>MediaStreamProps\<close>: silence filler, statistics, latency, digits, read loop (\<open>pkg/sip/silence_filler.go\<close>,
    \<open>media.go\<close>, \<open>media_latency.go\<close>, \<open>media_pipeline.go\<close>), with 16, 32 and 64 bit counters.
  \<^item> \<open>MediaPort\<close>, \<open>MediaPortProps\<close>: \<open>pkg/sip/media_port.go\<close>.  The destination of media and the exact media timeout.
  \<^item> \<open>DtlsSdp\<close>, \<open>DtlsSdpProps\<close>, \<open>DtlsTransport\<close>: \<open>pkg/sip/dtls_sdp.go\<close> and \<open>dtls_srtp.go\<close>.  The answer read back as an offer, the
    authentication of the peer, the demultiplexer.
  \<^item> \<open>RoomSession\<close>: \<open>pkg/sip/room.go\<close>.  Room audio only between answer and close, recovery after a reconnect.
  \<^item> \<open>SignalMonitor\<close>: \<open>pkg/sip/signal_logger.go\<close>, the detection of voice with hysteresis.
  \<^item> \<open>MediaNegotiation\<close>: \<open>SetOffer\<close>, \<open>SetAnswer\<close> and \<open>runMediaConn\<close>.  Required encryption is never given up, an offer of DTLS means DTLS,
    and a port is silent until the call is accepted.
  \<^item> \<open>MediaPipeline\<close>: the handler chains of \<open>media_pipeline.go\<close>, composed of the above.  The sink gets the time line of the audio and every digit once,
    whatever the mixture of packets.
  \<^item> \<open>MediaStats\<close>: the statistics of port and room, latency probes, signaling timestamps.  The rates are exact across wrap-around.
  \<^item> \<open>PortDrain\<close>: \<open>pkg/sip/draining_port.go\<close>.  A drained port is released in time and for the reason reported.
  \<^item> \<open>OpusCodec\<close>: \<open>pkg/media/opus/opus.go\<close> and \<open>pkg/sip/media_codecs_opus.go\<close>.  The encoder codes exactly the frames of the audio, in whatever
    pieces it arrives, and flushes the rest; the decoder forgives five invalid packets in a row.
  \<^item> \<open>CallAudio\<close>: how a call joins port and room, and the goroutine of a subscribed track (\<open>pkg/sip/inbound.go\<close>, \<open>outbound.go\<close>, \<open>room.go\<close>), composed
    of room, port and codec.  A subscribed track is heard exactly when room and codec allow it.

  \<^bold>\<open>The node.\<close>
  \<^item> \<open>NodeConfig\<close>: \<open>pkg/config/config.go\<close>, \<open>pkg/sip/config.go\<close>, \<open>tls.go\<close>, \<open>media_codecs.go\<close> and \<open>NewService\<close>.
  \<^item> \<open>NodeMonitor\<close>: the collectors of \<open>pkg/stats/monitor.go\<close> with their label names, which every update respects.
  \<^item> \<open>NodeStart\<close>: \<open>NewServer\<close> and the \<open>Start\<close> of server, client and service.  A node that starts listens where it should.
  \<^item> \<open>ServiceRun\<close>: \<open>pkg/service/service.go\<close> and the signals of \<open>cmd/livekit-sip/main.go\<close>.  Nothing stays open when it fails to start, it
    drains its calls before it stops, and a requested shutdown completes.
  \<^item> \<open>NodeBoot\<close>: \<open>getConfig\<close>, \<open>runService\<close> and \<open>main\<close> of \<open>cmd/livekit-sip/main.go\<close> with \<open>NewConfig\<close>, \<open>GetLocalIP\<close> and \<open>ConfigureTLS\<close>, composed of the above.
    A node runs only with a sound configuration, and an orderly end leaves no socket and no call.

  \<^bold>\<open>Test support.\<close>
  \<^item> \<open>RtpConn\<close>: the RTP connection of the test client, \<open>pkg/media/rtpconn\<close>.
  \<^item> \<open>TestClient\<close>, \<open>TestClientProps\<close>: the SIP client of \<open>pkg/siptest/client.go\<close>.  A failed construction releases what it made, an INVITE is
    repeated only with credentials and under one Call-ID, a call is ended once, and its NOTIFY decides a transfer of the bridge.
  \<^item> \<open>TestSignals\<close>: the signals of \<open>pkg/audiotest/freq.go\<close> and the loops that send and await them.  A generated signal fits its samples; the wait
    ends at exactly the frame that has all signals.

  \<^bold>\<open>Conventions.\<close>  A struct is a record, an error a value of \<open>go_error\<close>, a fallible function returns a sum or an option.  A
  panic or a wait that never ends is \<open>None\<close> or a constructor of its own.  Libraries that are not part of the
  repository (sipgo, the LiveKit SDK, the media SDK, Pion, psrpc) are arguments of the definitions; what a
  theorem needs of them is a hypothesis.  Messages a peer sends, timers and the choices of
  concurrent goroutines are lists of events or steps of a relation, so a theorem about all of them covers every order.  Times are
  integers in nanoseconds; floating point numbers are numbers of an ordered field.

  \<^bold>\<open>Loops.\<close>  Loops are structural recursion over the events they consume or \<open>function\<close>s with a measure
  (five INVITEs, the retransmissions of a 200, the drain of a service), so none of them needs fuel.  The media timeout loop and the loop of the Opus
  encoder are \<open>partial_function\<close>s; \<open>media_timeout_exact\<close> and \<open>opus_frames_exact\<close> show that they return.  Loops of the test client that wait for
  events are \<open>Blocked\<close> when the events end.

  \<^bold>\<open>Not modelled.\<close>  The coders of G.711 and G.722, mixers and jitter buffers (media SDK), the SDP
  engine, the SIP stack and the Opus library are third-party code.  Logging and tracing have no effect on a call.  \<open>magefile.go\<close> builds the program, and
  \<open>test\<close> drives a deployed server.
\<close>

end
